(* ===== verification/Prelude.thy ===== *)
theory Prelude
  imports Main "HOL-Library.Word" "HOL-Library.Sublist"
begin

text \<open>
  The prelude of the development: the fact collections, the byte types, and the part of Go's
  \<open>strings\<close> and \<open>bytes\<close> packages that the library uses, with the lemmas on cutting, trimming and
  splitting that the component theories share. A Go string is a sequence of bytes and so is
  \<^typ>\<open>string\<close> (\<^typ>\<open>char\<close> has 256 values), hence \<^term>\<open>length s\<close> is Go's \<open>len(s)\<close>.
\<close>

named_theorems go_simps \<open>equations of the modelled Go standard library\<close>
named_theorems uapi_chars \<open>which characters a printed value can contain\<close>

type_synonym byte = "8 word"
type_synonym bytes = "byte list"

lemma unat_byte: "unat (b::byte) < 256"
  by (rule order.strict_trans2 [OF unsigned_less]) simp

text \<open>Optional fields are often described by \<^const>\<open>pred_option\<close>, which computes.\<close>

lemma pred_option_code [code]: "pred_option P None = True" "pred_option P (Some x) = P x"
  by simp_all

section \<open>Cutting and trimming\<close>

text \<open>\<open>strings.Cut(s, sep)\<close> for a one-byte separator: before, after, found.\<close>

fun strCut :: "char \<Rightarrow> string \<Rightarrow> string \<times> string \<times> bool" where
  "strCut c [] = ([], [], False)"
| "strCut c (x # xs) =
     (if x = c then ([], xs, True)
      else (case strCut c xs of (before, after, found) \<Rightarrow> (x # before, after, found)))"

lemma cut_found [simp]: "c \<notin> set b \<Longrightarrow> strCut c (b @ c # a) = (b, a, True)"
  by (induction b) auto

lemma cut_absent [simp]: "c \<notin> set s \<Longrightarrow> strCut c s = (s, [], False)"
  by (induction s) auto

lemma cut_FoundD: "strCut c s = (b, a, True) \<Longrightarrow> s = b @ c # a \<and> c \<notin> set b"
  by (induction s arbitrary: b a) (auto split: if_splits prod.splits)

lemma cut_AbsentD: "strCut c s = (b, a, False) \<Longrightarrow> b = s \<and> a = [] \<and> c \<notin> set s"
  by (induction s arbitrary: b a) (auto split: if_splits prod.splits)

lemma cut_set: "strCut c s = (b, a, f) \<Longrightarrow> set b \<subseteq> set s \<and> set a \<subseteq> set s"
  by (cases f) (auto dest: cut_FoundD cut_AbsentD)

lemma cut_length_after: "strCut c s = (b, a, True) \<Longrightarrow> length a < length s"
  by (auto dest: cut_FoundD)

text \<open>\<open>strings.TrimPrefix\<close>, \<open>strings.TrimSuffix\<close> and \<open>strings.CutPrefix\<close>.\<close>

definition trimPrefix :: "string \<Rightarrow> string \<Rightarrow> string" where
  "trimPrefix p s = (if prefix p s then drop (length p) s else s)"

definition trimSuffix :: "string \<Rightarrow> string \<Rightarrow> string" where
  "trimSuffix p s = (if suffix p s then take (length s - length p) s else s)"

definition cutPrefix :: "string \<Rightarrow> string \<Rightarrow> string \<times> bool" where
  "cutPrefix p s = (if prefix p s then (drop (length p) s, True) else (s, False))"

lemma trimPrefix_set: "set s \<subseteq> set p \<union> set (trimPrefix p s)"
  by (auto simp: trimPrefix_def prefix_def)

lemma trimSuffix_set: "set s \<subseteq> set p \<union> set (trimSuffix p s)"
  by (auto simp: trimSuffix_def suffix_def)

lemma trimSuffix_none [simp]: "\<not> suffix p s \<Longrightarrow> trimSuffix p s = s"
  by (simp add: trimSuffix_def)

lemma trimPrefix_none [simp]: "\<not> prefix p s \<Longrightarrow> trimPrefix p s = s"
  by (simp add: trimPrefix_def)

lemma not_suffix_char: "c \<notin> set s \<Longrightarrow> \<not> suffix [c] s"
  by (auto simp: suffix_def)

lemma not_prefix_char: "c \<notin> set s \<Longrightarrow> \<not> prefix [c] s"
  by (auto simp: prefix_def)

text \<open>\<open>strings.Trim(s, cutset)\<close> for a cutset of ASCII characters.\<close>

definition trim :: "string \<Rightarrow> string \<Rightarrow> string" where
  "trim cutset s =
     rev (dropWhile (\<lambda>c. c \<in> set cutset) (rev (dropWhile (\<lambda>c. c \<in> set cutset) s)))"

lemma dropWhile_Nil_set: "dropWhile P s = [] \<longleftrightarrow> (\<forall>c \<in> set s. P c)"
  by (induction s) auto

lemma trim_eq_Nil: "trim cs s = [] \<longleftrightarrow> set s \<subseteq> set cs"
proof -
  have "trim cs s = [] \<longleftrightarrow> (\<forall>c \<in> set (dropWhile (\<lambda>c. c \<in> set cs) s). c \<in> set cs)"
    by (simp add: trim_def dropWhile_Nil_set)
  also have "\<dots> \<longleftrightarrow> (\<forall>c \<in> set s. c \<in> set cs)"
    by (metis (mono_tags, lifting) dropWhile_Nil_set hd_dropWhile list.set_sel(1) set_dropWhileD)
  finally show ?thesis by auto
qed

text \<open>\<open>strings.ContainsAny(s, chars)\<close>.\<close>

definition containsAny :: "string \<Rightarrow> string \<Rightarrow> bool" where
  "containsAny s chars \<longleftrightarrow> (\<exists>c \<in> set s. c \<in> set chars)"

section \<open>Splitting\<close>

text \<open>\<open>bytes.Split(b, sep)\<close> for a one-byte separator.\<close>

fun splitOn :: "char \<Rightarrow> string \<Rightarrow> string list" where
  "splitOn c [] = [[]]"
| "splitOn c (x # xs) =
     (if x = c then [] # splitOn c xs
      else (case splitOn c xs of [] \<Rightarrow> [[x]] | y # ys \<Rightarrow> (x # y) # ys))"

lemma splitOn_nonempty [simp]: "splitOn c s \<noteq> []"
  by (cases "(c, s)" rule: splitOn.cases) (auto split: list.splits)

lemma splitOn_absent [simp]: "c \<notin> set s \<Longrightarrow> splitOn c s = [s]"
  by (induction s) auto

lemma splitOn_append: "c \<notin> set b \<Longrightarrow> splitOn c (b @ c # a) = b # splitOn c a"
  by (induction b) auto

lemma splitOn_pair: "c \<notin> set k \<Longrightarrow> c \<notin> set v \<Longrightarrow> splitOn c (k @ c # v) = [k, v]"
  by (simp add: splitOn_append)

lemma length_splitOn: "length (splitOn c s) = Suc (count_list s c)"
  by (induction s) (auto split: list.splits)

section \<open>Results\<close>

text \<open>A Go function with results \<open>(T, error)\<close> returns a sum: \<open>Inl\<close> the error, \<open>Inr\<close> the value.\<close>

fun res_bind :: "'e + 'a \<Rightarrow> ('a \<Rightarrow> 'e + 'b) \<Rightarrow> 'e + 'b" where
  "res_bind (Inl e) f = Inl e"
| "res_bind (Inr x) f = f x"

lemma res_bind_Inr: "res_bind m f = Inr y \<longleftrightarrow> (\<exists>x. m = Inr x \<and> f x = Inr y)"
  by (cases m) auto

text \<open>The first failing check of a sequence, as a chain of \<open>if err := ...; err != nil\<close>.\<close>

fun first_error :: "'e option list \<Rightarrow> 'e option" where
  "first_error [] = None"
| "first_error (None # es) = first_error es"
| "first_error (Some e # es) = Some e"

lemma first_error_None: "first_error es = None \<longleftrightarrow> (\<forall>e \<in> set es. e = None)"
  by (induction es rule: first_error.induct) auto

lemma first_error_append: "first_error (xs @ ys) =
    (case first_error xs of None \<Rightarrow> first_error ys | Some e \<Rightarrow> Some e)"
  by (induction xs rule: first_error.induct) auto

section \<open>Lists\<close>

lemma distinct_map_nth_eq:
  "distinct (map f xs) \<Longrightarrow> i < length xs \<Longrightarrow> j < length xs \<Longrightarrow> f (xs ! i) = f (xs ! j) \<Longrightarrow> i = j"
  by (metis distinct_conv_nth length_map nth_map)

end
