(* ===== verification/GoError.thy ===== *)
theory GoError
  imports Prelude
begin

text \<open>
  Errors as values. The sentinel errors of the library and of \<open>os\<close> and \<open>context\<close> are constructors;
  \<open>fmt.Errorf\<close> with \<open>%w\<close>, \<open>os.SyscallError\<close> and \<open>errors.Join\<close> wrap other errors, and
  \<open>errors_is\<close> is \<open>errors.Is\<close>: it looks through every wrapper. The texts of formatted messages are
  kept only where the code tells errors apart by them.
\<close>

text \<open>Why \<open>ParseMagicHeader\<close>, \<open>InitPacketSize\<close> and \<open>Config.Validate\<close> reject a value.\<close>

datatype magic_error =
    InvalidMagicHeader string
  | StartAboveEnd string

datatype init_error =
    OutsideTags string
  | TagNotClosed string
  | NeedsHexBytes string
  | TakesNoValue string string
  | NeedsPositiveLength string string
  | TagExceeds string
  | UnknownTag string string
  | PacketExceeds

datatype cfg_error =
    BadListenPort int
  | BadFirewallMark int
  | BadKeepalive bytes int
  | BadEndpointPort bytes int
  | BothAdvancedSecurity bytes
  | BadJunk string int int
  | JminAboveJmax int int
  | BadPadding string int int
  | BadHeader string magic_error
  | HeadersOverlap string string string string
  | InitSpecTooLong nat nat
  | BadInitSpec nat init_error

datatype go_error =
    ErrNotExist
  | ErrReadOnly
  | ErrUpdateOnlyNotSupported
  | ErrAWGNotSupported
  | ErrAWGVersionNotSupported
  | Canceled
  | DeadlineExceeded
  | Errno nat
  | SyscallError string go_error
  | Wrapped string go_error
  | Joined "go_error list"
  | ErrText string
  | ErrConfig cfg_error
  | IncorrectKeySize nat

text \<open>
  \<open>errors.Is\<close>. An \<open>Errno\<close> has an \<open>Is\<close> method of its own: \<open>ENOENT\<close> (2) is \<open>os.ErrNotExist\<close>.
\<close>

fun errors_is :: "go_error \<Rightarrow> go_error \<Rightarrow> bool" where
  "errors_is (SyscallError s e) t \<longleftrightarrow> SyscallError s e = t \<or> errors_is e t"
| "errors_is (Wrapped s e) t \<longleftrightarrow> Wrapped s e = t \<or> errors_is e t"
| "errors_is (Joined es) t \<longleftrightarrow> Joined es = t \<or> (\<exists>e \<in> set es. errors_is e t)"
| "errors_is (Errno n) t \<longleftrightarrow> Errno n = t \<or> (t = ErrNotExist \<and> n = 2)"
| "errors_is e t \<longleftrightarrow> e = t"

lemma errors_is_refl [simp]: "errors_is e e"
  by (cases e) auto

text \<open>\<open>errors.Join\<close> of the non-nil errors: nil when there is none.\<close>

definition errors_Join :: "go_error list \<Rightarrow> go_error option" where
  "errors_Join es = (if es = [] then None else Some (Joined es))"

lemma errors_Join_None [simp]: "errors_Join es = None \<longleftrightarrow> es = []"
  by (simp add: errors_Join_def)

lemma errors_Join_is:
  "errors_Join es = Some j \<Longrightarrow> e \<in> set es \<Longrightarrow> errors_is e t \<Longrightarrow> errors_is j t"
  by (auto simp: errors_Join_def split: if_splits)

end
