(* ===== verification/GoStrconv.thy ===== *)
theory GoStrconv
  imports Prelude
begin

text \<open>
  The part of Go's \<open>strconv\<close>, \<open>fmt\<close> and \<open>encoding/hex\<close> that the library uses: decimal numbers
  (\<open>%d\<close>, \<open>ParseUint\<close>, \<open>ParseInt\<close>, \<open>Atoi\<close>) with their range checks, and hexadecimal bytes, each
  with its round trip and with the characters it can print. An \<open>error\<close> result is
  \<^const>\<open>None\<close>: the callers only test it against nil. The platform's \<open>int\<close> is 64 bits wide.
\<close>

section \<open>Decimal digits\<close>

definition digit_char :: "nat \<Rightarrow> char" where
  "digit_char d = char_of (48 + d)"

definition digit_val :: "char \<Rightarrow> nat option" where
  "digit_val c = (let n = of_char c in if 48 \<le> n \<and> n \<le> 57 then Some (n - 48) else None)"

lemma digit_val_char [go_simps]: "d < 10 \<Longrightarrow> digit_val (digit_char d) = Some d"
  by (simp add: digit_val_def digit_char_def)

lemma digit_val_bound: "digit_val c = Some d \<Longrightarrow> d < 10"
  by (auto simp: digit_val_def Let_def split: if_splits)

lemma digit_val_inv: "digit_val c = Some d \<Longrightarrow> c = digit_char d"
  by (auto simp: digit_val_def digit_char_def Let_def split: if_splits)

definition is_digit :: "char \<Rightarrow> bool" where
  "is_digit c \<longleftrightarrow> digit_val c \<noteq> None"

lemma is_digit_char [uapi_chars]: "d < 10 \<Longrightarrow> is_digit (digit_char d)"
  by (simp add: is_digit_def digit_val_char)

lemma not_digits [uapi_chars]:
  "\<not> is_digit CHR ''-''" "\<not> is_digit CHR ''+''" "\<not> is_digit CHR ''=''" "\<not> is_digit CHR 0x0A"
  "\<not> is_digit CHR 0x0D" "\<not> is_digit CHR ''<''" "\<not> is_digit CHR ''>''" "\<not> is_digit CHR '' ''"
  "\<not> is_digit CHR ''/''" "\<not> is_digit CHR ''.''" "\<not> is_digit CHR '':''"
  by (simp_all add: is_digit_def digit_val_def)

text \<open>The value of a digit string read from the left after \<open>acc\<close>; \<^const>\<open>None\<close> at a non-digit.\<close>

fun digits_val :: "nat \<Rightarrow> string \<Rightarrow> nat option" where
  "digits_val acc [] = Some acc"
| "digits_val acc (c # cs) =
     (case digit_val c of None \<Rightarrow> None | Some d \<Rightarrow> digits_val (10 * acc + d) cs)"

lemma digits_val_append:
  "digits_val acc (xs @ ys) =
     (case digits_val acc xs of None \<Rightarrow> None | Some v \<Rightarrow> digits_val v ys)"
  by (induction xs arbitrary: acc) (auto split: option.splits)

lemma digits_val_chars: "digits_val acc s = Some v \<Longrightarrow> c \<in> set s \<Longrightarrow> is_digit c"
  by (induction s arbitrary: acc) (auto simp: is_digit_def split: option.splits)

section \<open>Printing: \<open>%d\<close>\<close>

fun itoa_nat :: "nat \<Rightarrow> string" where
  "itoa_nat n = (if n < 10 then [digit_char n] else itoa_nat (n div 10) @ [digit_char (n mod 10)])"

declare itoa_nat.simps [simp del]

definition itoa :: "int \<Rightarrow> string" where
  "itoa i = (if i < 0 then CHR ''-'' # itoa_nat (nat (- i)) else itoa_nat (nat i))"

lemma itoa_nat_nonempty [simp]: "itoa_nat n \<noteq> []"
  by (subst itoa_nat.simps) simp

lemma digits_val_itoa_nat: "digits_val 0 (itoa_nat n) = Some n"
proof (induction n rule: itoa_nat.induct)
  case (1 n)
  then show ?case
    by (cases "n < 10")
      (simp_all add: itoa_nat.simps [of n] digit_val_char digits_val_append)
qed

lemma itoa_nat_digits: "c \<in> set (itoa_nat n) \<Longrightarrow> is_digit c"
  using digits_val_chars [OF digits_val_itoa_nat] .

lemma itoa_nat_digit: "n < 10 \<Longrightarrow> itoa_nat n = [digit_char n]"
  by (subst itoa_nat.simps) simp

lemma itoa_nonempty [simp]: "itoa i \<noteq> []"
  by (simp add: itoa_def)

lemma itoa_chars [uapi_chars]: "c \<in> set (itoa i) \<Longrightarrow> is_digit c \<or> c = CHR ''-''"
  by (auto simp: itoa_def itoa_nat_digits split: if_splits)

lemma itoa_nonneg: "0 \<le> i \<Longrightarrow> itoa i = itoa_nat (nat i)"
  by (simp add: itoa_def)

section \<open>Parsing unsigned and signed numbers\<close>

text \<open>
  \<open>strconv.ParseUint(s, 10, bits)\<close>: digits only (no sign, no underscore), at least one, and the
  value below \<open>2 ^ bits\<close>. \<open>strconv.ParseInt(s, 10, bits)\<close> takes one optional sign.
  \<open>strconv.Atoi\<close> is \<open>ParseInt\<close> at the platform's width.
\<close>

definition parseUint :: "nat \<Rightarrow> string \<Rightarrow> nat option" where
  "parseUint bits s =
     (if s = [] then None
      else case digits_val 0 s of
        None \<Rightarrow> None
      | Some v \<Rightarrow> if v < 2 ^ bits then Some v else None)"

definition parseInt :: "nat \<Rightarrow> string \<Rightarrow> int option" where
  "parseInt bits s =
     (case s of
        [] \<Rightarrow> None
      | c # cs \<Rightarrow>
          let neg = (c = CHR ''-'');
              body = (if c = CHR ''-'' \<or> c = CHR ''+'' then cs else s)
          in case parseUint bits body of
               None \<Rightarrow> None
             | Some u \<Rightarrow>
                 if \<not> neg \<and> u \<ge> 2 ^ (bits - 1) then None
                 else if neg \<and> u > 2 ^ (bits - 1) then None
                 else Some (if neg then - int u else int u))"

definition atoi :: "string \<Rightarrow> int option" where
  "atoi s = parseInt 64 s"

lemma parseUint_itoa_nat [go_simps]:
  "n < 2 ^ bits \<Longrightarrow> parseUint bits (itoa_nat n) = Some n"
  by (simp add: parseUint_def digits_val_itoa_nat)

lemma parseUint_bound: "parseUint bits s = Some v \<Longrightarrow> v < 2 ^ bits"
  by (auto simp: parseUint_def split: if_splits option.splits)

lemma parseUint_digits: "parseUint bits s = Some v \<Longrightarrow> c \<in> set s \<Longrightarrow> is_digit c"
  by (auto simp: parseUint_def split: if_splits option.splits dest: digits_val_chars)

lemma parseUint_nonempty: "parseUint bits s = Some v \<Longrightarrow> s \<noteq> []"
  by (auto simp: parseUint_def)

lemma itoa_nat_head: "itoa_nat n = c # cs \<Longrightarrow> is_digit c"
  by (rule itoa_nat_digits [of _ n]) simp

lemma parseInt_itoa [go_simps]:
  assumes "0 < bits" and "- (2 ^ (bits - 1)) \<le> i" and "i < 2 ^ (bits - 1)"
  shows "parseInt bits (itoa i) = Some i"
proof -
  have two: "(2::nat) ^ bits = 2 * 2 ^ (bits - 1)"
    using assms(1) by (metis power_eq_if not_gr_zero)
  show ?thesis
  proof (cases "i < 0")
    case True
    have le: "nat (- i) \<le> 2 ^ (bits - 1)"
      using assms(2) by (simp add: nat_le_iff)
    then have "nat (- i) < 2 ^ bits"
      unfolding two by (rule le_less_trans) simp
    with True le show ?thesis
      by (simp add: itoa_def parseInt_def parseUint_itoa_nat)
  next
    case False
    obtain c cs where c: "itoa_nat (nat i) = c # cs"
      by (cases "itoa_nat (nat i)") auto
    have lt: "nat i < 2 ^ (bits - 1)"
      using assms(3) False by (simp add: nat_less_iff)
    then have "nat i < 2 ^ bits"
      unfolding two by (rule less_trans) simp
    then have u: "parseUint bits (c # cs) = Some (nat i)"
      using parseUint_itoa_nat [of "nat i" bits] c by simp
    have "c \<noteq> CHR ''-''" "c \<noteq> CHR ''+''"
      using itoa_nat_head [OF c] by (auto simp: uapi_chars)
    with False lt u show ?thesis
      by (simp add: itoa_def parseInt_def c)
  qed
qed

lemma parseInt_chars:
  "parseInt bits s = Some v \<Longrightarrow> c \<in> set s \<Longrightarrow> is_digit c \<or> c = CHR ''-'' \<or> c = CHR ''+''"
  by (cases s) (auto simp: parseInt_def Let_def split: if_splits option.splits dest: parseUint_digits)

lemma int_pow_between:
  "\<not> 2 ^ k < (u::nat) \<Longrightarrow> - (2 ^ k) \<le> - int u \<and> - int u < 2 ^ k"
  "\<not> 2 ^ k \<le> (u::nat) \<Longrightarrow> - (2 ^ k) \<le> int u \<and> int u < 2 ^ k"
proof -
  have pos: "(0::int) < 2 ^ k" by simp
  show "- (2 ^ k) \<le> - int u \<and> - int u < 2 ^ k" if "\<not> 2 ^ k < u"
  proof -
    have "int u \<le> 2 ^ k" using that by (metis not_less of_nat_le_iff of_nat_numeral of_nat_power)
    with pos show ?thesis by linarith
  qed
  show "- (2 ^ k) \<le> int u \<and> int u < 2 ^ k" if "\<not> 2 ^ k \<le> u"
  proof -
    have "int u < 2 ^ k" using that by (metis not_le of_nat_less_iff of_nat_numeral of_nat_power)
    with pos show ?thesis by linarith
  qed
qed

lemma parseInt_bound:
  "parseInt bits s = Some v \<Longrightarrow> - (2 ^ (bits - 1)) \<le> v \<and> v < 2 ^ (bits - 1)"
  by (cases s)
    (auto simp: parseInt_def Let_def int_pow_between split: if_splits option.splits)

section \<open>Hexadecimal bytes\<close>

text \<open>\<open>hex.EncodeToString\<close> prints lower case; \<open>hex.DecodeString\<close> reads both cases.\<close>

definition hex_char :: "nat \<Rightarrow> char" where
  "hex_char d = (if d < 10 then char_of (48 + d) else char_of (87 + d))"

definition hex_val :: "char \<Rightarrow> nat option" where
  "hex_val c = (let n = of_char c in
     if 48 \<le> n \<and> n \<le> 57 then Some (n - 48)
     else if 97 \<le> n \<and> n \<le> 102 then Some (n - 87)
     else if 65 \<le> n \<and> n \<le> 70 then Some (n - 55)
     else None)"

definition is_hex_char :: "char \<Rightarrow> bool" where
  "is_hex_char c \<longleftrightarrow> hex_val c \<noteq> None"

lemma hex_val_char [go_simps]: "d < 16 \<Longrightarrow> hex_val (hex_char d) = Some d"
  by (auto simp: hex_val_def hex_char_def)

lemma hex_val_bound: "hex_val c = Some d \<Longrightarrow> d < 16"
  by (auto simp: hex_val_def Let_def split: if_splits)

lemma not_hex_chars [uapi_chars]:
  "\<not> is_hex_char CHR ''=''" "\<not> is_hex_char CHR 0x0A" "\<not> is_hex_char CHR 0x0D"
  "\<not> is_hex_char CHR ''<''" "\<not> is_hex_char CHR ''>''" "\<not> is_hex_char CHR '' ''"
  by (simp_all add: is_hex_char_def hex_val_def)

definition hex_byte :: "byte \<Rightarrow> string" where
  "hex_byte b = [hex_char (unat b div 16), hex_char (unat b mod 16)]"

definition hexEncode :: "bytes \<Rightarrow> string" where
  "hexEncode bs = concat (map hex_byte bs)"

fun hexDecode :: "string \<Rightarrow> bytes option" where
  "hexDecode [] = Some []"
| "hexDecode [c] = None"
| "hexDecode (h # l # cs) =
     (case (hex_val h, hex_val l, hexDecode cs) of
        (Some a, Some b, Some bs) \<Rightarrow> Some (of_nat (16 * a + b) # bs)
      | _ \<Rightarrow> None)"

lemma hexDecode_hexEncode [go_simps]: "hexDecode (hexEncode bs) = Some bs"
proof (induction bs)
  case Nil
  then show ?case by (simp add: hexEncode_def)
next
  case (Cons b bs)
  have "unat b < 256" by (rule unat_byte)
  then have "unat b div 16 < 16" "unat b mod 16 < 16" by auto
  with Cons show ?case
    by (simp add: hexEncode_def hex_byte_def hex_val_char)
qed

lemma length_hexEncode [simp]: "length (hexEncode bs) = 2 * length bs"
  by (induction bs) (auto simp: hexEncode_def hex_byte_def)

lemma hexEncode_chars [uapi_chars]: "c \<in> set (hexEncode bs) \<Longrightarrow> is_hex_char c"
proof -
  have "is_hex_char (hex_char d)" if "d < 16" for d
    using that by (simp add: is_hex_char_def hex_val_char)
  moreover have "unat (b::byte) div 16 < 16 \<and> unat b mod 16 < 16" for b
    using unat_byte [of b] by auto
  ultimately show "c \<in> set (hexEncode bs) \<Longrightarrow> is_hex_char c"
    by (auto simp: hexEncode_def hex_byte_def)
qed

lemma hexDecode_length: "hexDecode s = Some bs \<Longrightarrow> length s = 2 * length bs"
  by (induction s arbitrary: bs rule: hexDecode.induct) (auto split: option.splits)

lemma hexEncode_inj: "hexEncode a = hexEncode b \<Longrightarrow> a = b"
  by (metis hexDecode_hexEncode option.inject)

end
