(* ===== verification/GoNet.thy ===== *)
theory GoNet
  imports GoStrconv
begin

text \<open>
  The part of Go's \<open>net\<close> and \<open>time\<close> packages that the library uses: addresses as byte slices with
  \<open>To4\<close> and \<open>To16\<close>, masks with \<open>CIDRMask\<close> and \<open>IPMask.Size\<close>, the structures \<open>net.UDPAddr\<close> and
  \<open>net.IPNet\<close>, durations in nanoseconds with the wrap-around of \<open>int64\<close>, and \<open>time.Time\<close>.
  A nil slice is the empty list.
\<close>

unbundle bit_operations_syntax

section \<open>Addresses\<close>

record udpaddr =
  ua_IP :: bytes
  ua_Port :: int
  ua_Zone :: string

record ipnet =
  in_IP :: bytes
  in_Mask :: bytes

definition v4InV6Prefix :: bytes where
  "v4InV6Prefix = [0, 0, 0, 0, 0, 0, 0, 0, 0, 0, 0xFF, 0xFF]"

text \<open>\<open>IP.To4\<close> and \<open>IP.To16\<close>; nil is \<^const>\<open>None\<close>.\<close>

definition To4 :: "bytes \<Rightarrow> bytes option" where
  "To4 ip =
     (if length ip = 4 then Some ip
      else if length ip = 16 \<and> take 12 ip = v4InV6Prefix then Some (drop 12 ip)
      else None)"

definition To16 :: "bytes \<Rightarrow> bytes option" where
  "To16 ip =
     (if length ip = 4 then Some (v4InV6Prefix @ ip)
      else if length ip = 16 then Some ip
      else None)"

lemma length_v4InV6Prefix [simp]: "length v4InV6Prefix = 12"
  by (simp add: v4InV6Prefix_def)

lemma To4_length: "To4 ip = Some v \<Longrightarrow> length v = 4"
  by (auto simp: To4_def split: if_splits)

lemma To16_length: "To16 ip = Some v \<Longrightarrow> length v = 16"
  by (auto simp: To16_def split: if_splits)

lemma To4_self [simp]: "length ip = 4 \<Longrightarrow> To4 ip = Some ip"
  by (simp add: To4_def)

lemma To16_self [simp]: "length ip = 16 \<Longrightarrow> To16 ip = Some ip"
  by (simp add: To16_def)

lemma To4_To16: "To16 ip = Some v \<Longrightarrow> To4 v = To4 ip"
  by (auto simp: To4_def To16_def split: if_splits)

lemma To4_imp_To16: "To4 ip = Some v \<Longrightarrow> To16 ip = Some (v4InV6Prefix @ v)"
  by (auto simp: To4_def To16_def split: if_splits) (metis append_take_drop_id)

section \<open>Masks\<close>

text \<open>\<open>net.CIDRMask(ones, bits)\<close>: nil for a bad width or count.\<close>

fun mask_bytes :: "nat \<Rightarrow> nat \<Rightarrow> bytes" where
  "mask_bytes n 0 = []"
| "mask_bytes n (Suc l) =
     (if 8 \<le> n then 0xFF # mask_bytes (n - 8) l
      else NOT (drop_bit n 0xFF) # mask_bytes 0 l)"

definition CIDRMask :: "int \<Rightarrow> int \<Rightarrow> bytes" where
  "CIDRMask ones bits =
     (if bits \<noteq> 32 \<and> bits \<noteq> 128 then []
      else if ones < 0 \<or> bits < ones then []
      else mask_bytes (nat ones) (nat bits div 8))"

text \<open>
  \<open>simpleMaskLength\<close>: the bytes \<open>0xff\<close>, then the leading ones of the next byte, after which every
  bit must be zero. The inner loop shifts a byte at most 8 times.
\<close>

fun lead_ones :: "nat \<Rightarrow> byte \<Rightarrow> nat \<times> byte" where
  "lead_ones 0 v = (0, v)"
| "lead_ones (Suc k) v =
     (if v AND 0x80 \<noteq> 0 then (case lead_ones k (push_bit 1 v) of (n, w) \<Rightarrow> (Suc n, w)) else (0, v))"

fun simpleMaskLength :: "bytes \<Rightarrow> nat option" where
  "simpleMaskLength [] = Some 0"
| "simpleMaskLength (v # vs) =
     (if v = 0xFF then map_option ((+) 8) (simpleMaskLength vs)
      else case lead_ones 8 v of (n, rest) \<Rightarrow>
        if rest \<noteq> 0 \<or> (\<exists>w \<in> set vs. w \<noteq> 0) then None else Some n)"

text \<open>\<open>IPMask.Size\<close>.\<close>

definition mask_Size :: "bytes \<Rightarrow> int \<times> int" where
  "mask_Size m =
     (case simpleMaskLength m of None \<Rightarrow> (0, 0) | Some n \<Rightarrow> (int n, 8 * int (length m)))"

lemma length_mask_bytes [simp]: "length (mask_bytes n l) = l"
  by (induction n l rule: mask_bytes.induct) auto

lemma mask_bytes_0: "w \<in> set (mask_bytes 0 l) \<Longrightarrow> w = 0"
  by (induction l) auto

lemma lead_ones_table:
  "list_all (\<lambda>n. lead_ones 8 (NOT (drop_bit n (0xFF::byte))) = (n, 0) \<and>
     NOT (drop_bit n (0xFF::byte)) \<noteq> 0xFF) [0..<8]"
  by code_simp

lemma lead_ones_partial:
  "n < 8 \<Longrightarrow> lead_ones 8 (NOT (drop_bit n 0xFF)) = (n, 0) \<and> NOT (drop_bit n 0xFF) \<noteq> (0xFF::byte)"
  using lead_ones_table by (simp add: list_all_iff)

lemma simpleMaskLength_mask_bytes:
  "n \<le> 8 * l \<Longrightarrow> simpleMaskLength (mask_bytes n l) = Some n"
proof (induction n l rule: mask_bytes.induct)
  case (1 n)
  then show ?case by simp
next
  case (2 n l)
  show ?case
  proof (cases "8 \<le> n")
    case True
    with 2 show ?thesis by simp
  next
    case False
    with lead_ones_partial [of n] mask_bytes_0 [of _ l] show ?thesis by auto
  qed
qed

lemma mask_Size_CIDRMask [go_simps]:
  assumes "bits = 32 \<or> bits = 128" and "0 \<le> ones" and "ones \<le> bits"
  shows "mask_Size (CIDRMask ones bits) = (ones, bits)"
  using assms by (auto simp: mask_Size_def CIDRMask_def simpleMaskLength_mask_bytes)

section \<open>Durations and times\<close>

text \<open>An \<open>int64\<close> result of Go arithmetic wraps around.\<close>

definition i64 :: "int \<Rightarrow> int" where
  "i64 x = signed_take_bit 63 x"

lemma i64_id [go_simps]: "- (2 ^ 63) \<le> x \<Longrightarrow> x < 2 ^ 63 \<Longrightarrow> i64 x = x"
  by (simp add: i64_def signed_take_bit_int_eq_self)

text \<open>
  A \<open>time.Duration\<close> counts nanoseconds. \<open>Duration.Seconds\<close> is a float; converted to an integer it
  is the quotient by a second rounded towards zero, exactly so for every duration of at most
  65535 s (the float has 37 bits for the fraction, and a nanosecond needs 30).
\<close>

definition second :: int where
  "second = 1000000000"

definition secs :: "int \<Rightarrow> int" where
  "secs d = (if 0 \<le> d then d div second else - ((- d) div second))"

lemma secs_second [go_simps]: "secs (n * second) = n"
proof (cases "0 \<le> n")
  case False
  then have "- (n * second) div second = - n" and "\<not> 0 \<le> n * second"
    by (auto simp: second_def zero_le_mult_iff minus_mult_left simp del: mult_minus_left)
  then show ?thesis by (simp add: secs_def)
qed (simp add: secs_def second_def)

text \<open>
  A \<open>time.Time\<close> is the zero value or a UNIX time; \<open>time.Unix\<close> moves nanoseconds outside
  \<open>[0, 1000000000)\<close> into the seconds.
\<close>

datatype gotime = ZeroTime | UnixTime int int

definition time_Unix :: "int \<Rightarrow> int \<Rightarrow> gotime" where
  "time_Unix sec nsec = UnixTime (sec + nsec div second) (nsec mod second)"

end
