(* ===== verification/WgTypes.thy ===== *)
theory WgTypes
  imports GoError GoNet
begin

text \<open>
  The data model of package \<open>wgtypes\<close> (\<open>wgtypes/types.go\<close>): device types, keys, and the records
  \<open>Device\<close>, \<open>Peer\<close>, \<open>Config\<close> and \<open>PeerConfig\<close>, field by field, with the operations on keys. A Go
  pointer field that may be nil is an option. A field carries its structure's name as a prefix,
  because the structures share field names. A slice is a list, so nil and empty slices are the
  same value; the one place where the code tells them apart is a parameter of its model.
\<close>

section \<open>Device types\<close>

datatype DeviceType =
    Unknown | LinuxKernel | OpenBSDKernel | FreeBSDKernel | WindowsKernel | Userspace

fun DeviceType_String :: "DeviceType \<Rightarrow> string" where
  "DeviceType_String LinuxKernel = ''Linux kernel''"
| "DeviceType_String OpenBSDKernel = ''OpenBSD kernel''"
| "DeviceType_String FreeBSDKernel = ''FreeBSD kernel''"
| "DeviceType_String WindowsKernel = ''Windows kernel''"
| "DeviceType_String Userspace = ''userspace''"
| "DeviceType_String Unknown = ''unknown''"

lemma DeviceType_String_inj: "DeviceType_String a = DeviceType_String b \<Longrightarrow> a = b"
  by (cases a; cases b) simp_all

section \<open>Keys\<close>

text \<open>A \<open>Key\<close> is an array of 32 bytes: a byte list of that length, as \<open>key_ok\<close> says.\<close>

definition KeyLen :: nat where
  "KeyLen = 32"

type_synonym Key = bytes

definition key_ok :: "Key \<Rightarrow> bool" where
  "key_ok k \<longleftrightarrow> length k = KeyLen"

definition zeroKey :: Key where
  "zeroKey = replicate KeyLen 0"

lemma key_ok_zeroKey [simp]: "key_ok zeroKey"
  by (simp add: key_ok_def zeroKey_def)

definition NewKey :: "bytes \<Rightarrow> go_error + Key" where
  "NewKey b = (if length b \<noteq> KeyLen then Inl (IncorrectKeySize (length b)) else Inr b)"

lemma NewKey_Inr: "NewKey b = Inr k \<longleftrightarrow> key_ok b \<and> k = b"
  by (auto simp: NewKey_def key_ok_def)

text \<open>
  \<open>GenerateKey\<close> and \<open>GeneratePrivateKey\<close>. The operating system's random source \<open>crand.Read\<close> is a
  parameter over its state: it returns the bytes asked for, or an error.
\<close>

definition GenerateKey :: "('s \<Rightarrow> nat \<Rightarrow> (go_error + bytes) \<times> 's) \<Rightarrow> 's \<Rightarrow> (go_error + Key) \<times> 's" where
  "GenerateKey crand s =
     (case crand s KeyLen of
        (Inl e, s') \<Rightarrow> (Inl (Wrapped ''wgtypes: failed to read random bytes'' e), s')
      | (Inr b, s') \<Rightarrow> (NewKey b, s'))"

definition clamp :: "Key \<Rightarrow> Key" where
  "clamp key =
     (let k1 = key[0 := key ! 0 AND 248];
          k2 = k1[31 := k1 ! 31 AND 127]
      in k2[31 := k2 ! 31 OR 64])"

definition GeneratePrivateKey ::
    "('s \<Rightarrow> nat \<Rightarrow> (go_error + bytes) \<times> 's) \<Rightarrow> 's \<Rightarrow> (go_error + Key) \<times> 's" where
  "GeneratePrivateKey crand s =
     (case GenerateKey crand s of
        (Inl e, s') \<Rightarrow> (Inl e, s')
      | (Inr key, s') \<Rightarrow> (Inr (clamp key), s'))"

text \<open>The scalar clamping of \<open>https://cr.yp.to/ecdh.html\<close>.\<close>

definition clamped :: "Key \<Rightarrow> bool" where
  "clamped k \<longleftrightarrow> key_ok k \<and> k ! 0 AND 7 = 0 \<and> k ! 31 AND 128 = 0 \<and> k ! 31 AND 64 = 64"

lemma clamp_bits:
  "((x::byte) AND 248) AND 7 = 0" "(((x::byte) AND 127) OR 64) AND 128 = 0"
  "(((x::byte) AND 127) OR 64) AND 64 = 64"
  by (simp_all add: and.assoc bit.conj_disj_distrib2)

lemma clamp_clamped: "key_ok k \<Longrightarrow> clamped (clamp k)"
  by (simp add: clamped_def clamp_def key_ok_def KeyLen_def Let_def clamp_bits)

section \<open>Devices and peers\<close>

record Peer =
  peer_PublicKey :: Key
  peer_PresharedKey :: Key
  peer_Endpoint :: "udpaddr option"
  peer_PersistentKeepaliveInterval :: int
  peer_LastHandshakeTime :: gotime
  peer_ReceiveBytes :: int
  peer_TransmitBytes :: int
  peer_AllowedIPs :: "ipnet list"
  peer_ProtocolVersion :: int
  peer_AdvancedSecurity :: bool
  peer_AWGPeerFlagsKnown :: bool
  peer_FixedHeaders :: bool
  peer_NoS4 :: bool

text \<open>The zero value \<open>Peer{}\<close>.\<close>

definition zeroPeer :: Peer where
  "zeroPeer = \<lparr> peer_PublicKey = zeroKey, peer_PresharedKey = zeroKey, peer_Endpoint = None,
     peer_PersistentKeepaliveInterval = 0, peer_LastHandshakeTime = ZeroTime,
     peer_ReceiveBytes = 0, peer_TransmitBytes = 0, peer_AllowedIPs = [],
     peer_ProtocolVersion = 0, peer_AdvancedSecurity = False, peer_AWGPeerFlagsKnown = False,
     peer_FixedHeaders = False, peer_NoS4 = False \<rparr>"

record Device =
  dev_Name :: string
  dev_Type :: DeviceType
  dev_PrivateKey :: Key
  dev_PublicKey :: Key
  dev_ListenPort :: int
  dev_FirewallMark :: int
  dev_IsAmnezia :: bool
  dev_Jc :: int
  dev_Jmin :: int
  dev_Jmax :: int
  dev_S1 :: int
  dev_S2 :: int
  dev_S3 :: int
  dev_S4 :: int
  dev_H1 :: string
  dev_H2 :: string
  dev_H3 :: string
  dev_H4 :: string
  dev_I1 :: string
  dev_I2 :: string
  dev_I3 :: string
  dev_I4 :: string
  dev_I5 :: string
  dev_Peers :: "Peer list"

text \<open>The zero value \<open>Device{}\<close>.\<close>

definition zeroDevice :: Device where
  "zeroDevice = \<lparr> dev_Name = [], dev_Type = Unknown, dev_PrivateKey = zeroKey,
     dev_PublicKey = zeroKey, dev_ListenPort = 0, dev_FirewallMark = 0, dev_IsAmnezia = False,
     dev_Jc = 0, dev_Jmin = 0, dev_Jmax = 0, dev_S1 = 0, dev_S2 = 0, dev_S3 = 0, dev_S4 = 0,
     dev_H1 = [], dev_H2 = [], dev_H3 = [], dev_H4 = [],
     dev_I1 = [], dev_I2 = [], dev_I3 = [], dev_I4 = [], dev_I5 = [], dev_Peers = [] \<rparr>"

section \<open>Configurations\<close>

record PeerConfig =
  pc_PublicKey :: Key
  pc_Remove :: bool
  pc_UpdateOnly :: bool
  pc_PresharedKey :: "Key option"
  pc_Endpoint :: "udpaddr option"
  pc_PersistentKeepaliveInterval :: "int option"
  pc_ReplaceAllowedIPs :: bool
  pc_AllowedIPs :: "ipnet list"
  pc_AdvancedSecurity :: bool
  pc_DisableAdvancedSecurity :: bool

definition zeroPeerConfig :: PeerConfig where
  "zeroPeerConfig = \<lparr> pc_PublicKey = zeroKey, pc_Remove = False, pc_UpdateOnly = False,
     pc_PresharedKey = None, pc_Endpoint = None, pc_PersistentKeepaliveInterval = None,
     pc_ReplaceAllowedIPs = False, pc_AllowedIPs = [], pc_AdvancedSecurity = False,
     pc_DisableAdvancedSecurity = False \<rparr>"

record Config =
  cfg_PrivateKey :: "Key option"
  cfg_ListenPort :: "int option"
  cfg_FirewallMark :: "int option"
  cfg_ReplacePeers :: bool
  cfg_Peers :: "PeerConfig list"
  cfg_Jc :: "int option"
  cfg_Jmin :: "int option"
  cfg_Jmax :: "int option"
  cfg_S1 :: "int option"
  cfg_S2 :: "int option"
  cfg_S3 :: "int option"
  cfg_S4 :: "int option"
  cfg_H1 :: "string option"
  cfg_H2 :: "string option"
  cfg_H3 :: "string option"
  cfg_H4 :: "string option"
  cfg_I1 :: "string option"
  cfg_I2 :: "string option"
  cfg_I3 :: "string option"
  cfg_I4 :: "string option"
  cfg_I5 :: "string option"

definition zeroConfig :: Config where
  "zeroConfig = \<lparr> cfg_PrivateKey = None, cfg_ListenPort = None, cfg_FirewallMark = None,
     cfg_ReplacePeers = False, cfg_Peers = [], cfg_Jc = None, cfg_Jmin = None, cfg_Jmax = None,
     cfg_S1 = None, cfg_S2 = None, cfg_S3 = None, cfg_S4 = None,
     cfg_H1 = None, cfg_H2 = None, cfg_H3 = None, cfg_H4 = None,
     cfg_I1 = None, cfg_I2 = None, cfg_I3 = None, cfg_I4 = None, cfg_I5 = None \<rparr>"

text \<open>The array fields of a configuration have the length of their Go types.\<close>

definition pc_wf :: "PeerConfig \<Rightarrow> bool" where
  "pc_wf p \<longleftrightarrow> key_ok (pc_PublicKey p) \<and> pred_option key_ok (pc_PresharedKey p)"

definition cfg_wf :: "Config \<Rightarrow> bool" where
  "cfg_wf c \<longleftrightarrow> pred_option key_ok (cfg_PrivateKey c) \<and> list_all pc_wf (cfg_Peers c)"

text \<open>The header and init-packet fields as the loops of the code list them.\<close>

definition cfg_headers :: "Config \<Rightarrow> string option list" where
  "cfg_headers c = [cfg_H1 c, cfg_H2 c, cfg_H3 c, cfg_H4 c]"

definition cfg_inits :: "Config \<Rightarrow> string option list" where
  "cfg_inits c = [cfg_I1 c, cfg_I2 c, cfg_I3 c, cfg_I4 c, cfg_I5 c]"

end
