(* ===== verification/Validate.thy ===== *)
theory Validate
  imports WgTypes
begin

text \<open>
  \<open>wgtypes/validate.go\<close>: the parsers of magic headers (H1-H4) and init packet descriptions (I1-I5)
  and \<open>Config.Validate\<close>, each with the declarative specification that it decides.
\<close>

type_synonym u32 = "32 word"

definition maxMessageSize :: int where "maxMessageSize = 65535"
definition messageInitiationSize :: int where "messageInitiationSize = 148"
definition messageResponseSize :: int where "messageResponseSize = 92"
definition messageCookieSize :: int where "messageCookieSize = 64"
definition messageTransportSize :: int where "messageTransportSize = 32"
definition maxJunkCount :: int where "maxJunkCount = 128"
definition maxJunkSize :: int where "maxJunkSize = 1280"
definition maxInitSpecLen :: nat where "maxInitSpecLen = 0xffff - 4 - 1"

lemmas limit_defs = maxMessageSize_def messageInitiationSize_def messageResponseSize_def
  messageCookieSize_def messageTransportSize_def maxJunkCount_def maxJunkSize_def

section \<open>Magic headers\<close>

definition parseKernelUint32 :: "string \<Rightarrow> u32 option" where
  "parseKernelUint32 s = map_option of_nat (parseUint 32 (trimPrefix ''+'' (trimSuffix [CHR 0x0A] s)))"

definition ParseMagicHeader :: "string \<Rightarrow> magic_error + (u32 \<times> u32)" where
  "ParseMagicHeader s =
     (case strCut CHR ''-'' s of (lo, hi, isRange) \<Rightarrow>
        case parseKernelUint32 lo of
          None \<Rightarrow> Inl (InvalidMagicHeader s)
        | Some start \<Rightarrow>
            (case (if isRange then parseKernelUint32 hi else Some start) of
               None \<Rightarrow> Inl (InvalidMagicHeader s)
             | Some end' \<Rightarrow>
                 if start > end' then Inl (StartAboveEnd s) else Inr (start, end')))"

section \<open>Init packet descriptions\<close>

definition isHex :: "string \<Rightarrow> bool" where
  "isHex s \<longleftrightarrow> (\<forall>c \<in> set s. c \<in> set ''0123456789abcdefABCDEF'')"

text \<open>The cutset of white space between the tags: space, tab, newline, VT, FF, CR.\<close>

definition blanks :: string where
  "blanks = [CHR '' '', CHR 0x09, CHR 0x0A, CHR 0x0B, CHR 0x0C, CHR 0x0D]"

text \<open>The \<open>switch key\<close> of the loop: the number of bytes a tag stands for.\<close>

definition tag_size :: "string \<Rightarrow> init_error + int" where
  "tag_size tag =
     (case strCut CHR '' '' tag of (key, val, hasVal) \<Rightarrow>
        if key = ''b'' then
          (case cutPrefix ''0x'' val of (hex, ok) \<Rightarrow>
             if \<not> hasVal \<or> \<not> ok \<or> length hex = 0 \<or> length hex mod 2 \<noteq> 0 \<or> \<not> isHex hex
             then Inl (NeedsHexBytes tag) else Inr (int (length hex) div 2))
        else if key = ''c'' \<or> key = ''t'' then
          (if hasVal then Inl (TakesNoValue tag key) else Inr 4)
        else if key = ''r'' \<or> key = ''rc'' \<or> key = ''rd'' then
          (case parseInt 32 (trimSuffix [CHR 0x0A] val) of
             None \<Rightarrow> Inl (NeedsPositiveLength tag key)
           | Some v \<Rightarrow>
               if \<not> hasVal \<or> v \<le> 0 then Inl (NeedsPositiveLength tag key)
               else if v > maxMessageSize then Inl (TagExceeds tag)
               else Inr v)
        else Inl (UnknownTag tag key))"

function init_loop :: "int \<Rightarrow> string \<Rightarrow> init_error + int" where
  "init_loop sz rest =
     (case strCut CHR ''<'' rest of (front, after, found) \<Rightarrow>
        if trim blanks front \<noteq> [] then Inl (OutsideTags (trim blanks front))
        else if \<not> found then Inr sz
        else (case strCut CHR ''>'' after of (tag, nxt, closed) \<Rightarrow>
          if \<not> closed then Inl (TagNotClosed tag)
          else (case tag_size tag of
                  Inl e \<Rightarrow> Inl e
                | Inr n \<Rightarrow>
                    if n > maxMessageSize - sz then Inl PacketExceeds
                    else init_loop (sz + n) nxt)))"
  by pat_completeness auto
termination
  by (relation "measure (\<lambda>(sz, rest). length rest)") (auto dest!: cut_FoundD [OF sym])

declare init_loop.simps [simp del]

definition InitPacketSize :: "string \<Rightarrow> init_error + int" where
  "InitPacketSize spec = init_loop 0 spec"

section \<open>Config.Validate\<close>

definition check_port :: "Config \<Rightarrow> cfg_error option" where
  "check_port c = (case cfg_ListenPort c of
     None \<Rightarrow> None | Some p \<Rightarrow> if p < 0 \<or> p > 0xffff then Some (BadListenPort p) else None)"

definition check_fwmark :: "Config \<Rightarrow> cfg_error option" where
  "check_fwmark c = (case cfg_FirewallMark c of
     None \<Rightarrow> None | Some m \<Rightarrow> if m < 0 \<or> m > 0xffffffff then Some (BadFirewallMark m) else None)"

definition check_peer :: "PeerConfig \<Rightarrow> cfg_error option" where
  "check_peer p = first_error
     [case pc_PersistentKeepaliveInterval p of
        None \<Rightarrow> None
      | Some ka \<Rightarrow> if ka < 0 \<or> ka > 0xffff * second
                  then Some (BadKeepalive (pc_PublicKey p) ka) else None,
      case pc_Endpoint p of
        None \<Rightarrow> None
      | Some ep \<Rightarrow> if ua_Port ep < 0 \<or> ua_Port ep > 0xffff
                  then Some (BadEndpointPort (pc_PublicKey p) (ua_Port ep)) else None,
      if pc_AdvancedSecurity p \<and> pc_DisableAdvancedSecurity p
      then Some (BothAdvancedSecurity (pc_PublicKey p)) else None]"

definition check_junk :: "string \<times> int option \<times> int \<Rightarrow> cfg_error option" where
  "check_junk f = (case f of (name, v, lim) \<Rightarrow>
     case v of None \<Rightarrow> None
     | Some x \<Rightarrow> if x < 0 \<or> x > lim then Some (BadJunk name lim x) else None)"

definition check_jmin :: "Config \<Rightarrow> cfg_error option" where
  "check_jmin c = (case (cfg_Jmin c, cfg_Jmax c) of
     (Some jmin, Some jmax) \<Rightarrow>
        if jmax \<noteq> 0 \<and> jmin > jmax then Some (JminAboveJmax jmin jmax) else None
   | _ \<Rightarrow> None)"

definition check_padding :: "string \<times> int option \<times> int \<Rightarrow> cfg_error option" where
  "check_padding p = (case p of (name, v, msgSize) \<Rightarrow>
     case v of None \<Rightarrow> None
     | Some x \<Rightarrow> let lim = maxMessageSize - msgSize in
         if x < 0 \<or> x > lim then Some (BadPadding name lim x) else None)"

text \<open>The loop over H1-H4; \<open>seen\<close> is the slice \<open>headers\<close>.\<close>

fun check_headers ::
    "(string \<times> string \<times> u32 \<times> u32) list \<Rightarrow> (string \<times> string option) list \<Rightarrow> cfg_error option" where
  "check_headers seen [] = None"
| "check_headers seen ((name, None) # hs) = check_headers seen hs"
| "check_headers seen ((name, Some h) # hs) =
     (case ParseMagicHeader h of
        Inl e \<Rightarrow> Some (BadHeader name e)
      | Inr (start, end') \<Rightarrow>
          (case find (\<lambda>(n, v, s, e). start \<le> e \<and> s \<le> end') seen of
             Some (n, v, s, e) \<Rightarrow> Some (HeadersOverlap n v name h)
           | None \<Rightarrow> check_headers (seen @ [(name, h, start, end')]) hs))"

definition check_init :: "nat \<times> string option \<Rightarrow> cfg_error option" where
  "check_init x = (case x of (i, spec) \<Rightarrow>
     case spec of None \<Rightarrow> None
     | Some s \<Rightarrow>
         if length s > maxInitSpecLen then Some (InitSpecTooLong i (length s))
         else (case InitPacketSize s of Inl e \<Rightarrow> Some (BadInitSpec i e) | Inr _ \<Rightarrow> None))"

definition Validate :: "Config \<Rightarrow> cfg_error option" where
  "Validate c = first_error
     ([check_port c, check_fwmark c] @ map check_peer (cfg_Peers c) @
      map check_junk [(''Jc'', cfg_Jc c, maxJunkCount), (''Jmin'', cfg_Jmin c, maxJunkSize),
                      (''Jmax'', cfg_Jmax c, maxJunkSize)] @
      [check_jmin c] @
      map check_padding [(''S1'', cfg_S1 c, messageInitiationSize),
                         (''S2'', cfg_S2 c, messageResponseSize),
                         (''S3'', cfg_S3 c, messageCookieSize),
                         (''S4'', cfg_S4 c, messageTransportSize)] @
      [check_headers [] (zip [''H1'', ''H2'', ''H3'', ''H4''] (cfg_headers c))] @
      map check_init (zip [1, 2, 3, 4, 5] (cfg_inits c)))"

section \<open>What the parsers accept\<close>

text \<open>Every magic header that parses consists of digits, signs and newlines.\<close>

lemma parseKernelUint32_chars:
  assumes "parseKernelUint32 s = Some v" and "c \<in> set s"
  shows "is_digit c \<or> c = CHR ''+'' \<or> c = CHR 0x0A"
proof -
  let ?t = "trimSuffix [CHR 0x0A] s"
  obtain n where n: "parseUint 32 (trimPrefix ''+'' ?t) = Some n"
    using assms(1) by (auto simp: parseKernelUint32_def)
  have "set s \<subseteq> {CHR 0x0A, CHR ''+''} \<union> set (trimPrefix ''+'' ?t)"
    using trimSuffix_set [of s "[CHR 0x0A]"] trimPrefix_set [of ?t "''+''"] by auto
  then show ?thesis using assms(2) parseUint_digits [OF n] by auto
qed

lemma ParseMagicHeader_chars:
  assumes "ParseMagicHeader s = Inr r" and "c \<in> set s"
  shows "is_digit c \<or> c = CHR ''-'' \<or> c = CHR ''+'' \<or> c = CHR 0x0A"
proof -
  obtain lo hi f where cut: "strCut CHR ''-'' s = (lo, hi, f)" by (cases "strCut CHR ''-'' s")
  show ?thesis
  proof (cases f)
    case True
    with cut assms(1) obtain a b
      where "parseKernelUint32 lo = Some a" "parseKernelUint32 hi = Some b"
      by (auto simp: ParseMagicHeader_def split: option.splits)
    moreover have "s = lo @ CHR ''-'' # hi" using cut True by (auto dest: cut_FoundD)
    ultimately show ?thesis using assms(2) by (auto dest: parseKernelUint32_chars)
  next
    case False
    with cut assms(1) obtain a where "parseKernelUint32 lo = Some a"
      by (auto simp: ParseMagicHeader_def split: option.splits)
    moreover have "s = lo" using cut False by (auto dest: cut_AbsentD)
    ultimately show ?thesis using assms(2) by (auto dest: parseKernelUint32_chars)
  qed
qed

lemma ParseMagicHeader_le: "ParseMagicHeader s = Inr (a, b) \<Longrightarrow> a \<le> b"
  by (auto simp: ParseMagicHeader_def split: prod.splits option.splits if_splits)

lemma parseKernelUint32_itoa:
  assumes "n < 2 ^ 32"
  shows "parseKernelUint32 (itoa_nat n) = Some (of_nat n)"
proof -
  have "CHR 0x0A \<notin> set (itoa_nat n)" and "CHR ''+'' \<notin> set (itoa_nat n)"
    using itoa_nat_digits uapi_chars by blast+
  then show ?thesis
    using assms parseUint_itoa_nat [of n 32]
    by (simp add: parseKernelUint32_def not_suffix_char not_prefix_char)
qed

lemma ParseMagicHeader_itoa_range:
  assumes "a \<le> b" and "b < 2 ^ 32"
  shows "ParseMagicHeader (itoa_nat a @ ''-'' @ itoa_nat b) = Inr (of_nat a, of_nat b)"
proof -
  have "CHR ''-'' \<notin> set (itoa_nat a)"
    using itoa_nat_digits uapi_chars by blast
  then have "strCut CHR ''-'' (itoa_nat a @ ''-'' @ itoa_nat b) = (itoa_nat a, itoa_nat b, True)"
    by simp
  moreover have "(of_nat a :: u32) \<le> of_nat b"
    using assms by (simp add: word_le_nat_alt unsigned_of_nat take_bit_nat_eq_self)
  ultimately show ?thesis
    using assms by (simp add: ParseMagicHeader_def parseKernelUint32_itoa)
qed

text \<open>
  The grammar of init packet descriptions, as an inductive definition: white space and tags, each
  tag with the number of bytes it stands for.
\<close>

inductive tag_ok :: "string \<Rightarrow> int \<Rightarrow> bool" where
  tag_b: "hex \<noteq> [] \<Longrightarrow> even (length hex) \<Longrightarrow> isHex hex \<Longrightarrow>
     tag_ok (''b 0x'' @ hex) (int (length hex) div 2)"
| tag_c: "tag_ok ''c'' 4"
| tag_t: "tag_ok ''t'' 4"
| tag_rand: "key = ''r'' \<or> key = ''rc'' \<or> key = ''rd'' \<Longrightarrow>
     parseInt 32 (trimSuffix [CHR 0x0A] num) = Some n \<Longrightarrow> 0 < n \<Longrightarrow> n \<le> maxMessageSize \<Longrightarrow>
     tag_ok (key @ '' '' @ num) n"

inductive init_spec :: "string \<Rightarrow> int \<Rightarrow> bool" where
  init_end: "set w \<subseteq> set blanks \<Longrightarrow> init_spec w 0"
| init_tag: "set w \<subseteq> set blanks \<Longrightarrow> CHR ''>'' \<notin> set tag \<Longrightarrow> tag_ok tag n \<Longrightarrow> init_spec rest m \<Longrightarrow>
     init_spec (w @ CHR ''<'' # tag @ CHR ''>'' # rest) (n + m)"

lemma tag_size_sound: "tag_size tag = Inr n \<Longrightarrow> tag_ok tag n"
proof -
  assume size: "tag_size tag = Inr n"
  obtain key val f where cut: "strCut CHR '' '' tag = (key, val, f)"
    by (cases "strCut CHR '' '' tag")
  consider "key = ''b''" | "key = ''c'' \<or> key = ''t''" | "key = ''r'' \<or> key = ''rc'' \<or> key = ''rd''"
    using size cut by (auto simp: tag_size_def split: if_splits)
  then show ?thesis
  proof cases
    case 1
    obtain hex ok where hex: "cutPrefix ''0x'' val = (hex, ok)" by (cases "cutPrefix ''0x'' val")
    from 1 size cut hex have h: "f" "ok" "hex \<noteq> []" "even (length hex)" "isHex hex"
        "n = int (length hex) div 2"
      by (auto simp: tag_size_def split: if_splits)
    have "val = ''0x'' @ hex"
      using hex h(2) by (auto simp: cutPrefix_def prefix_def split: if_splits)
    moreover have "tag = key @ CHR '' '' # val" using cut h(1) by (auto dest: cut_FoundD)
    ultimately have "tag = ''b 0x'' @ hex" using 1 by simp
    with h tag_b [OF h(3-5)] show ?thesis by simp
  next
    case 2
    with size cut have "\<not> f" "n = 4" by (auto simp: tag_size_def split: if_splits)
    with cut have "tag = key" by (auto dest: cut_AbsentD)
    with 2 \<open>n = 4\<close> show ?thesis by (auto intro: tag_c tag_t)
  next
    case 3
    with size cut have r: "f" "parseInt 32 (trimSuffix [CHR 0x0A] val) = Some n" "0 < n"
        "n \<le> maxMessageSize"
      by (auto simp: tag_size_def split: if_splits option.splits)
    have "tag = key @ '' '' @ val" using cut r(1) by (auto dest: cut_FoundD)
    with r tag_rand [OF 3 r(2-4)] show ?thesis by simp
  qed
qed

lemma tag_size_complete: "tag_ok tag n \<Longrightarrow> tag_size tag = Inr n"
proof (induction rule: tag_ok.induct)
  case (tag_b hex)
  then have "strCut CHR '' '' (''b 0x'' @ hex) = (''b'', ''0x'' @ hex, True)" by simp
  with tag_b show ?case by (simp add: tag_size_def cutPrefix_def even_iff_mod_2_eq_zero)
next
  case (tag_rand key num n)
  from tag_rand(1) have "strCut CHR '' '' (key @ '' '' @ num) = (key, num, True)" by auto
  with tag_rand show ?case by (auto simp: tag_size_def)
qed (simp_all add: tag_size_def)

lemma tag_ok_pos: "tag_ok tag n \<Longrightarrow> 0 < n"
proof (induction rule: tag_ok.induct)
  case (tag_b hex)
  then have "0 < length hex" by simp
  with \<open>even (length hex)\<close> have "2 \<le> length hex" by presburger
  then show ?case by linarith
qed simp_all

lemma init_spec_nonneg: "init_spec s n \<Longrightarrow> 0 \<le> n"
  by (induction rule: init_spec.induct) (auto dest: tag_ok_pos)


lemma init_loop_sound:
  "init_loop sz s = Inr n \<Longrightarrow> sz \<le> maxMessageSize \<Longrightarrow> init_spec s (n - sz) \<and> n \<le> maxMessageSize"
proof (induction sz s rule: init_loop.induct)
  case (1 sz s)
  obtain front after found where c1: "strCut CHR ''<'' s = (front, after, found)"
    by (cases "strCut CHR ''<'' s")
  from "1.prems"(1) c1 have blank: "set front \<subseteq> set blanks"
    by (simp add: init_loop.simps [of sz s] trim_eq_Nil split: if_splits)
  show ?case
  proof (cases found)
    case False
    with "1.prems" c1 blank have "n = sz"
      by (simp add: init_loop.simps [of sz s] split: if_splits)
    with c1 False blank "1.prems"(2) show ?thesis
      by (auto dest: cut_AbsentD intro: init_end)
  next
    case True
    obtain tag nxt closed where c2: "strCut CHR ''>'' after = (tag, nxt, closed)"
      by (cases "strCut CHR ''>'' after")
    from "1.prems"(1) c1 c2 True obtain k where k: "closed" "tag_size tag = Inr k"
        "k \<le> maxMessageSize - sz" "init_loop (sz + k) nxt = Inr n"
      by (auto simp: init_loop.simps [of sz s] split: if_splits sum.splits)
    with c1 c2 True blank "1.IH" [OF c1 [symmetric] refl _ _ c2 [symmetric] refl]
    have ih: "init_spec nxt (n - (sz + k)) \<and> n \<le> maxMessageSize"
      by (simp add: trim_eq_Nil)
    have "s = front @ CHR ''<'' # tag @ CHR ''>'' # nxt" "CHR ''>'' \<notin> set tag"
      using c1 c2 True k(1) by (auto dest!: cut_FoundD)
    moreover have "init_spec (front @ CHR ''<'' # tag @ CHR ''>'' # nxt) (k + (n - (sz + k)))"
      by (rule init_tag [OF blank calculation(2) tag_size_sound [OF k(2)] conjunct1 [OF ih]])
    ultimately show ?thesis using ih by simp
  qed
qed

lemma blanks_no_bracket: "set w \<subseteq> set blanks \<Longrightarrow> CHR ''<'' \<notin> set w"
  by (auto simp: blanks_def)

lemma init_loop_complete:
  "init_spec s n \<Longrightarrow> sz + n \<le> maxMessageSize \<Longrightarrow> init_loop sz s = Inr (sz + n)"
proof (induction arbitrary: sz rule: init_spec.induct)
  case (init_end w)
  then show ?case
    by (simp add: init_loop.simps [of sz w] blanks_no_bracket trim_eq_Nil)
next
  case (init_tag w tag n rest m)
  have "0 \<le> m" using init_tag.hyps(4) by (rule init_spec_nonneg)
  with init_tag.prems have "\<not> n > maxMessageSize - sz" by simp
  moreover have "init_loop (sz + n) rest = Inr (sz + n + m)"
    using init_tag.prems by (intro init_tag.IH) simp
  ultimately show ?case
    using init_tag.hyps
    by (simp add: init_loop.simps [of sz "w @ _"] blanks_no_bracket trim_eq_Nil tag_size_complete
        add.assoc)
qed

lemma InitPacketSize_eq:
  "InitPacketSize s = Inr n \<longleftrightarrow> init_spec s n \<and> n \<le> maxMessageSize"
  using init_loop_sound [of 0 s n] init_loop_complete [of s n 0]
  by (auto simp: InitPacketSize_def limit_defs)

section \<open>What Validate accepts\<close>

text \<open>
  The documented meaning of \<open>Validate\<close>, field by field, with the magic headers as sets of 32-bit
  values and the init packets by their grammar.
\<close>

definition valid_peer :: "PeerConfig \<Rightarrow> bool" where
  "valid_peer p \<longleftrightarrow>
     pred_option (\<lambda>ka. 0 \<le> ka \<and> ka \<le> 65535 * second) (pc_PersistentKeepaliveInterval p) \<and>
     pred_option (\<lambda>ep. 0 \<le> ua_Port ep \<and> ua_Port ep \<le> 65535) (pc_Endpoint p) \<and>
     \<not> (pc_AdvancedSecurity p \<and> pc_DisableAdvancedSecurity p)"

definition header_range :: "string \<Rightarrow> u32 set" where
  "header_range h = (case ParseMagicHeader h of Inl _ \<Rightarrow> {} | Inr (a, b) \<Rightarrow> {a..b})"

definition valid_headers :: "string list \<Rightarrow> bool" where
  "valid_headers hs \<longleftrightarrow>
     (\<forall>h \<in> set hs. header_range h \<noteq> {}) \<and>
     sorted_wrt (\<lambda>g h. header_range g \<inter> header_range h = {}) hs"

definition valid_init :: "string \<Rightarrow> bool" where
  "valid_init s \<longleftrightarrow> length s \<le> 65530 \<and> (\<exists>n \<le> 65535. init_spec s n)"

definition in_upto :: "int \<Rightarrow> int option \<Rightarrow> bool" where
  "in_upto b v \<longleftrightarrow> pred_option (\<lambda>x. 0 \<le> x \<and> x \<le> b) v"

definition valid_config :: "Config \<Rightarrow> bool" where
  "valid_config c \<longleftrightarrow>
     in_upto 65535 (cfg_ListenPort c) \<and> in_upto 4294967295 (cfg_FirewallMark c) \<and>
     (\<forall>p \<in> set (cfg_Peers c). valid_peer p) \<and>
     in_upto 128 (cfg_Jc c) \<and> in_upto 1280 (cfg_Jmin c) \<and> in_upto 1280 (cfg_Jmax c) \<and>
     (\<forall>jmin jmax. cfg_Jmin c = Some jmin \<longrightarrow> cfg_Jmax c = Some jmax \<longrightarrow> jmax = 0 \<or> jmin \<le> jmax) \<and>
     in_upto (65535 - 148) (cfg_S1 c) \<and> in_upto (65535 - 92) (cfg_S2 c) \<and>
     in_upto (65535 - 64) (cfg_S3 c) \<and> in_upto (65535 - 32) (cfg_S4 c) \<and>
     valid_headers (List.map_filter id (cfg_headers c)) \<and>
     (\<forall>s. Some s \<in> set (cfg_inits c) \<longrightarrow> valid_init s)"

lemma header_range_nonempty: "header_range h \<noteq> {} \<longleftrightarrow> (\<exists>a b. ParseMagicHeader h = Inr (a, b))"
  by (auto simp: header_range_def dest: ParseMagicHeader_le split: sum.splits)

lemma interval_disjoint:
  "(a::u32) \<le> b \<Longrightarrow> c \<le> d \<Longrightarrow> {a..b} \<inter> {c..d} = {} \<longleftrightarrow> \<not> (c \<le> b \<and> a \<le> d)"
  by (auto simp: disjoint_iff)

definition seen_ok :: "string \<times> string \<times> u32 \<times> u32 \<Rightarrow> bool" where
  "seen_ok x = (case x of (n, v, s, e) \<Rightarrow> ParseMagicHeader v = Inr (s, e))"

lemma seen_ok_iff [simp]: "seen_ok (n, v, s, e) \<longleftrightarrow> ParseMagicHeader v = Inr (s, e)"
  by (simp add: seen_ok_def)

lemma seen_overlap:
  assumes "list_all seen_ok seen" and "ParseMagicHeader h = Inr (a, b)"
  shows "find (\<lambda>(n, v, s, e). a \<le> e \<and> s \<le> b) seen = None \<longleftrightarrow>
    (\<forall>x \<in> set seen. header_range (fst (snd x)) \<inter> header_range h = {})"
proof -
  have "(\<lambda>(n, v, s, e). a \<le> e \<and> s \<le> b) x \<longleftrightarrow>
      header_range (fst (snd x)) \<inter> header_range h \<noteq> {}"
    if "x \<in> set seen" for x
  proof -
    obtain n v s e where x: "x = (n, v, s, e)" by (cases x)
    have v: "ParseMagicHeader v = Inr (s, e)"
      using assms(1) that x by (auto simp: list_all_iff)
    show ?thesis
      using v assms(2) interval_disjoint [of s e a b]
      by (auto simp: x header_range_def dest: ParseMagicHeader_le)
  qed
  then show ?thesis unfolding find_None_iff by blast
qed

lemma valid_headers_Cons: "valid_headers (h # hs) \<longleftrightarrow>
    header_range h \<noteq> {} \<and> (\<forall>g \<in> set hs. header_range h \<inter> header_range g = {}) \<and> valid_headers hs"
  by (auto simp: valid_headers_def)

lemma check_headers_None:
  assumes "length names = length hs" and "list_all seen_ok seen"
  shows "check_headers seen (zip names hs) = None \<longleftrightarrow>
    valid_headers (List.map_filter id hs) \<and>
    (\<forall>x \<in> set seen. \<forall>h \<in> set (List.map_filter id hs).
       header_range (fst (snd x)) \<inter> header_range h = {})"
  using assms
proof (induction names hs arbitrary: seen rule: list_induct2)
  case Nil
  then show ?case by (simp add: valid_headers_def map_filter_simps)
next
  case (Cons name names x hs)
  show ?case
  proof (cases x)
    case None
    with Cons show ?thesis by (simp add: map_filter_simps)
  next
    case (Some h)
    show ?thesis
    proof (cases "ParseMagicHeader h")
      case (Inl e)
      then have "header_range h = {}" by (simp add: header_range_def)
      with Some Inl show ?thesis by (simp add: valid_headers_def map_filter_simps)
    next
      case (Inr r)
      obtain a b where ab: "ParseMagicHeader h = Inr (a, b)" using Inr by (cases r) auto
      have ne: "header_range h \<noteq> {}" using ab header_range_nonempty by blast
      let ?seen = "seen @ [(name, h, a, b)]"
      have ok: "list_all seen_ok ?seen" using Cons.prems ab by simp
      show ?thesis
      proof (cases "find (\<lambda>(n, v, s, e). a \<le> e \<and> s \<le> b) seen")
        case None
        then have dis: "\<forall>x \<in> set seen. header_range (fst (snd x)) \<inter> header_range h = {}"
          using seen_overlap [OF Cons.prems ab] by simp
        have step: "check_headers seen (zip (name # names) (x # hs)) = check_headers ?seen (zip names hs)"
          using Some ab None by simp
        have mf: "List.map_filter id (x # hs) = h # List.map_filter id hs"
          using Some by (simp add: map_filter_simps)
        show ?thesis
          unfolding step Cons.IH [OF ok] mf valid_headers_Cons using dis ne by fastforce
      next
        case (Some y)
        then have "\<not> (\<forall>x \<in> set seen. header_range (fst (snd x)) \<inter> header_range h = {})"
          using seen_overlap [OF Cons.prems ab] by simp
        with Some \<open>x = Some h\<close> ab show ?thesis
          by (auto simp: map_filter_simps split: prod.splits)
      qed
    qed
  qed
qed

lemma check_peer_None: "check_peer p = None \<longleftrightarrow> valid_peer p"
  by (auto simp: check_peer_def first_error_None valid_peer_def split: option.splits)

lemma check_junk_None: "check_junk (name, v, b) = None \<longleftrightarrow> in_upto b v"
  by (auto simp: check_junk_def in_upto_def split: option.splits)

lemma check_padding_None: "check_padding (name, v, m) = None \<longleftrightarrow> in_upto (65535 - m) v"
  by (auto simp: check_padding_def in_upto_def Let_def limit_defs split: option.splits)

lemma check_init_None: "check_init (i, v) = None \<longleftrightarrow> pred_option valid_init v"
proof (cases v)
  case (Some s)
  have "(\<exists>n. InitPacketSize s = Inr n) \<longleftrightarrow> (\<exists>n \<le> 65535. init_spec s n)"
    by (auto simp: InitPacketSize_eq limit_defs)
  with Some show ?thesis
    by (auto simp: check_init_def valid_init_def maxInitSpecLen_def split: sum.splits)
qed (simp add: check_init_def)

lemma check_jmin_None: "check_jmin c = None \<longleftrightarrow>
  (\<forall>jmin jmax. cfg_Jmin c = Some jmin \<longrightarrow> cfg_Jmax c = Some jmax \<longrightarrow> jmax = 0 \<or> jmin \<le> jmax)"
  by (auto simp: check_jmin_def split: option.splits)

lemma check_port_None: "check_port c = None \<longleftrightarrow> in_upto 65535 (cfg_ListenPort c)"
  by (auto simp: check_port_def in_upto_def split: option.splits)

lemma check_fwmark_None: "check_fwmark c = None \<longleftrightarrow> in_upto 4294967295 (cfg_FirewallMark c)"
  by (auto simp: check_fwmark_def in_upto_def split: option.splits)

lemmas check_None = check_port_None check_fwmark_None check_peer_None check_junk_None
  check_jmin_None check_padding_None check_init_None

lemma check_inits_None:
  "(\<forall>e \<in> set (map check_init (zip [1, 2, 3, 4, 5] (cfg_inits c))). e = None) \<longleftrightarrow>
   (\<forall>s. Some s \<in> set (cfg_inits c) \<longrightarrow> valid_init s)"
  by (auto simp: cfg_inits_def check_init_None eq_commute [of "Some _"] option.pred_set)

lemma check_all_headers_None:
  "check_headers [] (zip [''H1'', ''H2'', ''H3'', ''H4''] (cfg_headers c)) = None \<longleftrightarrow>
   valid_headers (List.map_filter id (cfg_headers c))"
  by (subst check_headers_None) (simp_all add: cfg_headers_def)

lemma Validate_None_iff: "Validate c = None \<longleftrightarrow> valid_config c"
  unfolding Validate_def valid_config_def first_error_None set_append ball_Un check_inits_None
  by (simp add: check_None check_all_headers_None limit_defs)

lemma Validate_zeroConfig: "Validate zeroConfig = None"
  by (simp add: Validate_def zeroConfig_def check_port_def check_fwmark_def check_junk_def
      check_jmin_def check_padding_def check_init_def cfg_headers_def cfg_inits_def)

end
