(* ===== verification/Generate.thy ===== *)
theory Generate
  imports Validate "HOL-Library.Multiset"
begin

text \<open>
  \<open>Config.GenerateAmneziaParams\<close> of \<open>wgtypes/types.go\<close>. The random source of \<open>math/rand/v2\<close> is a
  parameter \<open>intn\<close> over its state: \<open>intn n s\<close> is the draw of \<open>rand.IntN(n)\<close> and the next state, and
  \<open>intn_ok\<close> is what \<open>IntN\<close> documents. The rejection loop for S1-S4 has no bound in the code, so it
  is a partial function: \<^const>\<open>None\<close> is a run that never finds acceptable paddings.
\<close>

type_synonym 's intn = "int \<Rightarrow> 's \<Rightarrow> int \<times> 's"

definition intn_ok :: "'s intn \<Rightarrow> bool" where
  "intn_ok intn \<longleftrightarrow> (\<forall>n s. 0 < n \<longrightarrow> 0 \<le> fst (intn n s) \<and> fst (intn n s) < n)"

section \<open>Packet padding: one attempt and the loop\<close>

definition pad_attempt :: "'s intn \<Rightarrow> 's \<Rightarrow> (int \<times> int \<times> int \<times> int) \<times> 's" where
  "pad_attempt intn s =
     (let (r1, s) = intn 49 s; (r2, s) = intn 49 s; (r3, s) = intn 54 s; (r4, s) = intn 15 s
      in ((15 + r1, 15 + r2, 10 + r3, 1 + r4), s))"

text \<open>Rule A: the paddings are pairwise different. Rule B: so are the packet sizes.\<close>

definition rule_A :: "int \<times> int \<times> int \<times> int \<Rightarrow> bool" where
  "rule_A p \<longleftrightarrow> (case p of (s1, s2, s3, s4) \<Rightarrow>
     \<not> (s1 = s2 \<or> s1 = s3 \<or> s1 = s4 \<or> s2 = s3 \<or> s2 = s4 \<or> s3 = s4))"

definition rule_B :: "int \<times> int \<times> int \<times> int \<Rightarrow> bool" where
  "rule_B p \<longleftrightarrow> (case p of (s1, s2, s3, s4) \<Rightarrow>
     \<not> (s1 + 148 = s2 + 92 \<or> s3 + 64 = s1 + 148 \<or> s3 + 64 = s2 + 92))"

partial_function (option) pad_loop ::
    "'s intn \<Rightarrow> 's \<Rightarrow> ((int \<times> int \<times> int \<times> int) \<times> 's) option" where
  "pad_loop intn s =
     (case pad_attempt intn s of (p, s') \<Rightarrow>
        if \<not> rule_A p then pad_loop intn s'
        else if \<not> rule_B p then pad_loop intn s'
        else Some (p, s'))"

section \<open>Magic header ranges and their shuffle\<close>

fun gen_ranges :: "nat \<Rightarrow> 's intn \<Rightarrow> int \<Rightarrow> 's \<Rightarrow> string list \<times> 's" where
  "gen_ranges 0 intn currentOffset s = ([], s)"
| "gen_ranges (Suc k) intn currentOffset s =
     (let rangeStart = currentOffset;
          (r1, s) = intn 100000000 s;
          rangeEnd = rangeStart + 50000000 + r1;
          (r2, s) = intn 20000000 s;
          (rs, s) = gen_ranges k intn (rangeEnd + 10000000 + r2) s
      in ((itoa rangeStart @ ''-'' @ itoa rangeEnd) # rs, s))"

text \<open>\<open>rand.Shuffle\<close>: Fisher-Yates from index \<open>i\<close> down to 1, here with the swap of the code.\<close>

fun shuffle_from :: "nat \<Rightarrow> 's intn \<Rightarrow> 'a list \<Rightarrow> 's \<Rightarrow> 'a list \<times> 's" where
  "shuffle_from 0 intn xs s = (xs, s)"
| "shuffle_from (Suc i) intn xs s =
     (let (r, s) = intn (int i + 2) s;
          j = nat r;
          xs = xs[Suc i := xs ! j, j := xs ! Suc i]
      in shuffle_from i intn xs s)"

definition r_tag :: "int \<Rightarrow> string" where
  "r_tag n = ''<r '' @ itoa n @ ''>''"

section \<open>The whole generator\<close>

definition GenerateAmneziaParams :: "'s intn \<Rightarrow> Config \<Rightarrow> 's \<Rightarrow> (Config \<times> 's) option" where
  "GenerateAmneziaParams intn cfg s =
     (let (r, s) = intn 4 s; jc = 3 + r;
          (r, s) = intn 50 s; jmin = 64 + r;
          (r, s) = intn 100 s; jmax = jmin + 50 + r
      in case pad_loop intn s of
           None \<Rightarrow> None
         | Some ((s1, s2, s3, s4), s) \<Rightarrow>
             (let (r, s) = intn 50000000 s;
                  (ranges, s) = gen_ranges 4 intn (150000000 + r) s;
                  (ranges, s) = shuffle_from 3 intn ranges s;
                  (i1, s) = intn 26 s; (i2, s) = intn 20 s; (i3, s) = intn 20 s;
                  (i4, s) = intn 20 s; (i5, s) = intn 20 s
              in Some (cfg\<lparr>
                   cfg_Jc := Some jc, cfg_Jmin := Some jmin, cfg_Jmax := Some jmax,
                   cfg_S1 := Some s1, cfg_S2 := Some s2, cfg_S3 := Some s3, cfg_S4 := Some s4,
                   cfg_H1 := Some (ranges ! 0), cfg_H2 := Some (ranges ! 1),
                   cfg_H3 := Some (ranges ! 2), cfg_H4 := Some (ranges ! 3),
                   cfg_I1 := Some (r_tag (15 + i1)), cfg_I2 := Some (r_tag (10 + i2)),
                   cfg_I3 := Some (r_tag (10 + i3)), cfg_I4 := Some (r_tag (10 + i4)),
                   cfg_I5 := Some (r_tag (10 + i5)) \<rparr>, s)))"

section \<open>Draws\<close>

lemma intn_bounds:
  "intn_ok intn \<Longrightarrow> 0 < n \<Longrightarrow> intn n s = (r, s') \<Longrightarrow> 0 \<le> r \<and> r < n"
  by (metis intn_ok_def fst_conv)

section \<open>The rejection loop\<close>

definition acceptable :: "int \<times> int \<times> int \<times> int \<Rightarrow> bool" where
  "acceptable p \<longleftrightarrow> rule_A p \<and> rule_B p"

definition in_pad_ranges :: "int \<times> int \<times> int \<times> int \<Rightarrow> bool" where
  "in_pad_ranges p \<longleftrightarrow> (case p of (s1, s2, s3, s4) \<Rightarrow>
     15 \<le> s1 \<and> s1 \<le> 63 \<and> 15 \<le> s2 \<and> s2 \<le> 63 \<and> 10 \<le> s3 \<and> s3 \<le> 63 \<and> 1 \<le> s4 \<and> s4 \<le> 15)"

lemma pad_attempt_ranges: "intn_ok intn \<Longrightarrow> in_pad_ranges (fst (pad_attempt intn s))"
proof -
  assume ok: "intn_ok intn"
  obtain r1 t1 where 1: "intn 49 s = (r1, t1)" by force
  obtain r2 t2 where 2: "intn 49 t1 = (r2, t2)" by force
  obtain r3 t3 where 3: "intn 54 t2 = (r3, t3)" by force
  obtain r4 t4 where 4: "intn 15 t3 = (r4, t4)" by force
  show ?thesis
    using intn_bounds [OF ok _ 1] intn_bounds [OF ok _ 2] intn_bounds [OF ok _ 3]
      intn_bounds [OF ok _ 4]
    by (simp add: pad_attempt_def in_pad_ranges_def 1 2 3 4)
qed

lemma pad_loop_step:
  "pad_loop intn s = (if acceptable (fst (pad_attempt intn s)) then Some (pad_attempt intn s)
     else pad_loop intn (snd (pad_attempt intn s)))"
  by (subst pad_loop.simps) (auto simp: acceptable_def split: prod.splits)

text \<open>The state before attempt \<open>k\<close> of a run from \<open>s\<close>.\<close>

definition pad_state :: "'s intn \<Rightarrow> nat \<Rightarrow> 's \<Rightarrow> 's" where
  "pad_state intn k s = ((\<lambda>s. snd (pad_attempt intn s)) ^^ k) s"

lemma pad_state_simps [simp]:
  "pad_state intn 0 s = s"
  "pad_state intn (Suc k) s = pad_state intn k (snd (pad_attempt intn s))"
  by (simp_all add: pad_state_def funpow_Suc_right del: funpow.simps)

lemma pad_loop_returns:
  "acceptable (fst (pad_attempt intn (pad_state intn k s))) \<Longrightarrow> pad_loop intn s \<noteq> None"
proof (induction k arbitrary: s)
  case 0
  then show ?case by (subst pad_loop_step) simp
next
  case (Suc k)
  then have "pad_loop intn (snd (pad_attempt intn s)) \<noteq> None"
    by simp
  then show ?case by (subst pad_loop_step) (simp del: not_None_eq)
qed

lemma pad_loop_Some:
  "pad_loop intn s = Some r \<Longrightarrow>
   \<exists>k. r = pad_attempt intn (pad_state intn k s) \<and> acceptable (fst r)"
proof (rule pad_loop.raw_induct [where P = "\<lambda>intn s r.
    \<exists>k. r = pad_attempt intn (pad_state intn k s) \<and> acceptable (fst r)"])
  fix f and intn :: "'a intn" and s r
  assume IH: "\<And>intn s r. f intn s = Some r \<Longrightarrow>
      \<exists>k. r = pad_attempt intn (pad_state intn k s) \<and> acceptable (fst r)"
    and eq: "(case pad_attempt intn s of (p, s') \<Rightarrow>
        if \<not> rule_A p then f intn s' else if \<not> rule_B p then f intn s' else Some (p, s')) = Some r"
  obtain p s' where a: "pad_attempt intn s = (p, s')" by (cases "pad_attempt intn s")
  show "\<exists>k. r = pad_attempt intn (pad_state intn k s) \<and> acceptable (fst r)"
  proof (cases "acceptable p")
    case True
    with eq a have "r = (p, s')" by (simp add: acceptable_def)
    with a True show ?thesis by (intro exI [of _ 0]) simp
  next
    case False
    with eq a have "f intn s' = Some r" by (auto simp: acceptable_def split: if_splits)
    then obtain k where "r = pad_attempt intn (pad_state intn k s')" "acceptable (fst r)"
      using IH by blast
    with a show ?thesis
      by (intro exI [of _ "Suc k"]) simp
  qed
qed

section \<open>Ranges\<close>

definition render_range :: "int \<times> int \<Rightarrow> string" where
  "render_range p = itoa (fst p) @ ''-'' @ itoa (snd p)"

text \<open>Ascending disjoint ranges from \<open>lo\<close> on.\<close>

fun spaced :: "int \<Rightarrow> (int \<times> int) list \<Rightarrow> bool" where
  "spaced lo [] = True"
| "spaced lo (p # ps) = (lo \<le> fst p \<and> fst p \<le> snd p \<and> spaced (snd p + 1) ps)"

lemma spaced_ge: "spaced lo ps \<Longrightarrow> p \<in> set ps \<Longrightarrow> lo \<le> fst p \<and> fst p \<le> snd p"
  by (induction ps arbitrary: lo) fastforce+

lemma spaced_mono: "spaced lo ps \<Longrightarrow> lo' \<le> lo \<Longrightarrow> spaced lo' ps"
  by (cases ps) auto

lemma gen_ranges_spaced:
  assumes "intn_ok intn"
  shows "gen_ranges k intn off s = (rs, s') \<Longrightarrow>
    \<exists>ps. rs = map render_range ps \<and> length ps = k \<and> spaced off ps \<and>
      (\<forall>p \<in> set ps. snd p < off + int k * 180000000)"
proof (induction k arbitrary: off s rs)
  case 0
  then show ?case by simp
next
  case (Suc k)
  obtain r1 t1 where 1: "intn 100000000 s = (r1, t1)" by force
  obtain r2 t2 where 2: "intn 20000000 t1 = (r2, t2)" by force
  let ?b = "off + 50000000 + r1" and ?off = "off + 50000000 + r1 + 10000000 + r2"
  obtain rs' t3 where g: "gen_ranges k intn ?off t2 = (rs', t3)" by force
  note r = intn_bounds [OF assms _ 1] intn_bounds [OF assms _ 2]
  have t3: "t3 = s'" and rs: "rs = render_range (off, ?b) # rs'"
    using Suc.prems 1 2 g by (simp_all add: Let_def render_range_def)
  obtain ps where ps: "rs' = map render_range ps" "length ps = k" "spaced ?off ps"
      "\<forall>p \<in> set ps. snd p < ?off + int k * 180000000"
    using Suc.IH [OF g [unfolded t3]] by blast
  have "spaced off ((off, ?b) # ps)"
    using r ps(3) by (auto intro: spaced_mono)
  moreover have "snd p < off + int (Suc k) * 180000000" if "p \<in> set ((off, ?b) # ps)" for p
  proof (cases "p = (off, ?b)")
    case True
    with r show ?thesis by (simp add: algebra_simps)
  next
    case False
    with that ps(4) have "snd p < ?off + int k * 180000000" by auto
    with r show ?thesis by (simp add: algebra_simps)
  qed
  ultimately show ?case
    using rs ps by (intro exI [of _ "(off, ?b) # ps"]) simp
qed

lemma header_range_render:
  assumes "0 \<le> fst p" and "fst p \<le> snd p" and "snd p < 2 ^ 32"
  shows "header_range (render_range p) = {of_nat (nat (fst p)) .. of_nat (nat (snd p))}"
proof -
  have "nat (fst p) \<le> nat (snd p)" "nat (snd p) < 2 ^ 32" using assms by auto
  from ParseMagicHeader_itoa_range [OF this] assms show ?thesis
    by (simp add: header_range_def render_range_def itoa_nonneg)
qed

lemma of_nat_u32_less: "a < b \<Longrightarrow> b < 2 ^ 32 \<Longrightarrow> (of_nat a :: u32) < of_nat b"
  by (simp add: word_less_nat_alt unsigned_of_nat take_bit_nat_eq_self)

lemma of_nat_u32_le: "a \<le> b \<Longrightarrow> b < 2 ^ 32 \<Longrightarrow> (of_nat a :: u32) \<le> of_nat b"
  by (simp add: word_le_nat_alt unsigned_of_nat take_bit_nat_eq_self)

lemma valid_headers_spaced:
  "spaced lo ps \<Longrightarrow> 0 \<le> lo \<Longrightarrow> \<forall>p \<in> set ps. snd p < 2 ^ 32 \<Longrightarrow> valid_headers (map render_range ps)"
proof (induction ps arbitrary: lo)
  case Nil
  then show ?case by (simp add: valid_headers_def)
next
  case (Cons p ps)
  have p: "header_range (render_range p) = {of_nat (nat (fst p)) .. of_nat (nat (snd p))}"
    using Cons.prems by (intro header_range_render) auto
  have "(of_nat (nat (fst p)) :: u32) \<le> of_nat (nat (snd p))"
    using Cons.prems by (intro of_nat_u32_le) auto
  moreover have "header_range (render_range p) \<inter> header_range (render_range q) = {}"
    if q: "q \<in> set ps" for q
  proof -
    have "snd p + 1 \<le> fst q" "fst q \<le> snd q" using spaced_ge [of "snd p + 1" ps q] Cons.prems q by auto
    then have "(of_nat (nat (snd p)) :: u32) < of_nat (nat (fst q))"
      using Cons.prems q by (intro of_nat_u32_less) force+
    moreover have "header_range (render_range q) = {of_nat (nat (fst q)) .. of_nat (nat (snd q))}"
      using Cons.prems q \<open>snd p + 1 \<le> fst q\<close> \<open>fst q \<le> snd q\<close> by (intro header_range_render) auto
    ultimately show ?thesis using p by auto
  qed
  moreover have "valid_headers (map render_range ps)"
    using Cons.prems by (intro Cons.IH [of "snd p + 1"]) auto
  ultimately show ?case using p by (auto simp: valid_headers_Cons)
qed

section \<open>The shuffle is a permutation\<close>

lemma mset_shuffle_from:
  assumes "intn_ok intn" and "i < length xs"
  shows "shuffle_from i intn xs s = (ys, s') \<Longrightarrow> mset ys = mset xs"
  using assms(2)
proof (induction i arbitrary: xs s)
  case 0
  then show ?case by simp
next
  case (Suc i)
  obtain r t where r: "intn (int i + 2) s = (r, t)" by force
  then have "nat r < length xs" using intn_bounds [OF assms(1) _ r] Suc.prems(2) by auto
  then have "mset (xs[Suc i := xs ! nat r, nat r := xs ! Suc i]) = mset xs"
    using Suc.prems(2) by (simp add: mset_swap)
  with r Suc.prems Suc.IH show ?case by (force simp: Let_def)
qed

lemma sorted_wrt_distinctI:
  "distinct xs \<Longrightarrow> (\<And>x y. x \<in> set xs \<Longrightarrow> y \<in> set xs \<Longrightarrow> x \<noteq> y \<Longrightarrow> P x y) \<Longrightarrow> sorted_wrt P xs"
  by (induction xs) auto

lemma valid_headers_distinct: "valid_headers hs \<Longrightarrow> distinct hs"
  by (induction hs) (auto simp: valid_headers_Cons)

lemma valid_headers_pairwise:
  "valid_headers hs \<Longrightarrow> g \<in> set hs \<Longrightarrow> h \<in> set hs \<Longrightarrow> g \<noteq> h \<Longrightarrow> header_range g \<inter> header_range h = {}"
  by (induction hs) (auto simp: valid_headers_Cons)

lemma valid_headers_perm:
  assumes "valid_headers hs" and "mset gs = mset hs"
  shows "valid_headers gs"
proof -
  have "set gs = set hs" "distinct gs"
    using assms valid_headers_distinct mset_eq_setD mset_eq_imp_distinct_iff by blast+
  with assms(1) show ?thesis
    unfolding valid_headers_def
    by (auto intro!: sorted_wrt_distinctI dest!: valid_headers_pairwise [OF assms(1)])
qed

section \<open>Generated init packets\<close>

lemma init_spec_r_tag:
  assumes "0 < n" and "n \<le> 65535"
  shows "init_spec (r_tag n) n"
proof -
  have nl: "CHR 0x0A \<notin> set (itoa n)" and gt: "CHR ''>'' \<notin> set (itoa n)"
    using itoa_chars [of _ n] uapi_chars by auto
  have "tag_ok (''r'' @ '' '' @ itoa n) n"
    using assms nl by (intro tag_rand) (auto simp: not_suffix_char parseInt_itoa limit_defs)
  from init_tag [of "[]", OF _ _ this init_end [of "[]"]] gt show ?thesis
    by (simp add: r_tag_def)
qed

lemma length_itoa_small:
  assumes "0 \<le> n" and "n < 100"
  shows "length (itoa n) \<le> 2"
proof -
  have "length (itoa_nat m) \<le> 2" if "m < 100" for m
    using that by (subst itoa_nat.simps) (auto simp: itoa_nat_digit)
  with assms show ?thesis by (simp add: itoa_nonneg)
qed

lemma valid_init_r_tag:
  assumes "0 < n" and "n < 100"
  shows "valid_init (r_tag n)"
proof -
  have "length (r_tag n) \<le> 65530"
    using length_itoa_small [of n] assms by (simp add: r_tag_def)
  with init_spec_r_tag [of n] assms show ?thesis
    by (auto simp: valid_init_def intro!: exI [of _ n])
qed

section \<open>The generated parameters\<close>

text \<open>What the generator promises about the fields it fills.\<close>

definition generated_ok :: "Config \<Rightarrow> bool" where
  "generated_ok c \<longleftrightarrow>
     (\<exists>jc jmin jmax. cfg_Jc c = Some jc \<and> cfg_Jmin c = Some jmin \<and> cfg_Jmax c = Some jmax \<and>
        3 \<le> jc \<and> jc \<le> 6 \<and> 64 \<le> jmin \<and> jmin \<le> 113 \<and> jmin + 50 \<le> jmax \<and> jmax \<le> jmin + 149) \<and>
     (\<exists>s1 s2 s3 s4. cfg_S1 c = Some s1 \<and> cfg_S2 c = Some s2 \<and> cfg_S3 c = Some s3 \<and>
        cfg_S4 c = Some s4 \<and> in_pad_ranges (s1, s2, s3, s4) \<and> acceptable (s1, s2, s3, s4)) \<and>
     (\<exists>ps. length ps = 4 \<and> spaced 150000000 ps \<and> (\<forall>p \<in> set ps. snd p < 2147483647) \<and>
        mset (map Some (map render_range ps)) = mset (cfg_headers c)) \<and>
     (\<exists>ns. length ns = 5 \<and> (\<forall>n \<in> set ns. 10 \<le> n \<and> n \<le> 40) \<and> cfg_inits c = map (Some \<circ> r_tag) ns)"

text \<open>The fields the generator leaves alone.\<close>

definition same_base :: "Config \<Rightarrow> Config \<Rightarrow> bool" where
  "same_base c d \<longleftrightarrow> cfg_PrivateKey c = cfg_PrivateKey d \<and> cfg_ListenPort c = cfg_ListenPort d \<and>
     cfg_FirewallMark c = cfg_FirewallMark d \<and> cfg_ReplacePeers c = cfg_ReplacePeers d \<and>
     cfg_Peers c = cfg_Peers d"

lemma Generate_ok:
  assumes ok: "intn_ok intn" and gen: "GenerateAmneziaParams intn cfg s = Some (cfg', s')"
  shows "generated_ok cfg' \<and> same_base cfg' cfg"
proof -
  obtain a1 t1 where 1: "intn 4 s = (a1, t1)" by force
  obtain a2 t2 where 2: "intn 50 t1 = (a2, t2)" by force
  obtain a3 t3 where 3: "intn 100 t2 = (a3, t3)" by force
  obtain s1 s2 s3 s4 t4 where 4: "pad_loop intn t3 = Some ((s1, s2, s3, s4), t4)"
    using gen 1 2 3 by (auto simp: GenerateAmneziaParams_def Let_def split: option.splits)
  obtain a5 t5 where 5: "intn 50000000 t4 = (a5, t5)" by force
  obtain rs t6 where 6: "gen_ranges 4 intn (150000000 + a5) t5 = (rs, t6)" by force
  obtain ys t7 where 7: "shuffle_from 3 intn rs t6 = (ys, t7)" by force
  obtain i1 u1 where 8: "intn 26 t7 = (i1, u1)" by force
  obtain i2 u2 where 9: "intn 20 u1 = (i2, u2)" by force
  obtain i3 u3 where 10: "intn 20 u2 = (i3, u3)" by force
  obtain i4 u4 where 11: "intn 20 u3 = (i4, u4)" by force
  obtain i5 u5 where 12: "intn 20 u4 = (i5, u5)" by force
  note draws = 1 2 3 4 5 6 7 8 9 10 11 12
  have cfg': "cfg' = cfg\<lparr>
       cfg_Jc := Some (3 + a1), cfg_Jmin := Some (64 + a2), cfg_Jmax := Some (64 + a2 + 50 + a3),
       cfg_S1 := Some s1, cfg_S2 := Some s2, cfg_S3 := Some s3, cfg_S4 := Some s4,
       cfg_H1 := Some (ys ! 0), cfg_H2 := Some (ys ! 1), cfg_H3 := Some (ys ! 2),
       cfg_H4 := Some (ys ! 3), cfg_I1 := Some (r_tag (15 + i1)), cfg_I2 := Some (r_tag (10 + i2)),
       cfg_I3 := Some (r_tag (10 + i3)), cfg_I4 := Some (r_tag (10 + i4)),
       cfg_I5 := Some (r_tag (10 + i5)) \<rparr>"
    using gen by (simp add: GenerateAmneziaParams_def Let_def draws)
  note b = intn_bounds [OF ok]
  obtain k where "((s1, s2, s3, s4), t4) = pad_attempt intn (pad_state intn k t3)"
      "acceptable (s1, s2, s3, s4)"
    using pad_loop_Some [OF 4] by auto
  then have pads: "in_pad_ranges (s1, s2, s3, s4)" "acceptable (s1, s2, s3, s4)"
    using pad_attempt_ranges [OF ok, of "pad_state intn k t3"] by (metis fst_conv)+
  obtain ps where ps: "rs = map render_range ps" "length ps = 4" "spaced (150000000 + a5) ps"
      "\<forall>p \<in> set ps. snd p < 150000000 + a5 + int 4 * 180000000"
    using gen_ranges_spaced [OF ok 6] by blast
  have perm: "mset ys = mset rs"
    using mset_shuffle_from [OF ok _ 7] ps by simp
  then have "length ys = 4" using ps by (metis length_map size_mset)
  then obtain y1 y2 y3 y4 where "ys = [y1, y2, y3, y4]"
    by (auto simp: numeral_eq_Suc length_Suc_conv)
  then have hs: "cfg_headers cfg' = map Some ys"
    by (simp add: cfg' cfg_headers_def)
  have ranges: "\<exists>ps. length ps = 4 \<and> spaced 150000000 ps \<and> (\<forall>p \<in> set ps. snd p < 2147483647) \<and>
        mset (map Some (map render_range ps)) = mset (cfg_headers cfg')"
  proof (intro exI conjI)
    show "spaced 150000000 ps" using ps(3) b [OF _ 5] by (auto intro: spaced_mono)
    show "\<forall>p \<in> set ps. snd p < 2147483647" using ps(4) b [OF _ 5] by fastforce
    show "mset (map Some (map render_range ps)) = mset (cfg_headers cfg')"
      using perm ps(1) hs by (metis mset_map)
  qed (rule ps(2))
  have inits: "\<exists>ns. length ns = 5 \<and> (\<forall>n \<in> set ns. 10 \<le> n \<and> n \<le> 40) \<and>
        cfg_inits cfg' = map (Some \<circ> r_tag) ns"
    using b [OF _ 8] b [OF _ 9] b [OF _ 10] b [OF _ 11] b [OF _ 12]
    by (intro exI [of _ "[15 + i1, 10 + i2, 10 + i3, 10 + i4, 10 + i5]"])
      (simp add: cfg' cfg_inits_def)
  have "same_base cfg' cfg" by (simp add: same_base_def cfg')
  moreover have "generated_ok cfg'"
    unfolding generated_ok_def
    using pads ranges inits b [OF _ 1] b [OF _ 2] b [OF _ 3] by (simp add: cfg')
  ultimately show ?thesis by simp
qed

lemma mset_map_filter: "mset xs = mset ys \<Longrightarrow> mset (List.map_filter f xs) = mset (List.map_filter f ys)"
  by (simp add: List.map_filter_def)

lemma map_filter_Some: "List.map_filter id (map Some xs) = xs"
  by (induction xs) (simp_all add: map_filter_simps)

lemma generated_valid:
  assumes "generated_ok c"
  shows "valid_headers (List.map_filter id (cfg_headers c))"
    and "\<And>s. Some s \<in> set (cfg_inits c) \<Longrightarrow> valid_init s"
proof -
  obtain ps where ps: "length ps = 4" "spaced 150000000 ps" "\<forall>p \<in> set ps. snd p < 2147483647"
      "mset (map Some (map render_range ps)) = mset (cfg_headers c)"
    using assms by (auto simp: generated_ok_def)
  have "mset (List.map_filter id (cfg_headers c)) =
      mset (List.map_filter id (map Some (map render_range ps)))"
    using ps(4) by (intro mset_map_filter) simp
  then have "mset (List.map_filter id (cfg_headers c)) = mset (map render_range ps)"
    by (simp only: map_filter_Some)
  moreover have "valid_headers (map render_range ps)"
    using ps(3) by (intro valid_headers_spaced [OF ps(2)]) fastforce+
  ultimately show "valid_headers (List.map_filter id (cfg_headers c))"
    by (metis valid_headers_perm)
next
  fix s assume "Some s \<in> set (cfg_inits c)"
  with assms obtain n where "s = r_tag n" "10 \<le> n" "n \<le> 40"
    by (auto simp: generated_ok_def)
  then show "valid_init s" by (simp add: valid_init_r_tag)
qed

lemma generated_Validate:
  assumes "generated_ok c" and "same_base c d" and "Validate d = None"
  shows "Validate c = None"
proof -
  have "in_upto 65535 (cfg_ListenPort c)" "in_upto 4294967295 (cfg_FirewallMark c)"
      "\<forall>p \<in> set (cfg_Peers c). valid_peer p"
    using assms(2,3) by (simp_all add: same_base_def Validate_None_iff valid_config_def)
  then show ?thesis
    using generated_valid [OF assms(1)] assms(1)
    by (auto simp: Validate_None_iff valid_config_def generated_ok_def in_upto_def in_pad_ranges_def)
qed

text \<open>The draws before the padding loop; the generator returns when that loop does.\<close>

definition before_pads :: "'s intn \<Rightarrow> 's \<Rightarrow> 's" where
  "before_pads intn s = snd (intn 100 (snd (intn 50 (snd (intn 4 s)))))"

lemma Generate_returns_iff:
  "GenerateAmneziaParams intn cfg s \<noteq> None \<longleftrightarrow> pad_loop intn (before_pads intn s) \<noteq> None"
proof -
  obtain r1 t1 where 1: "intn 4 s = (r1, t1)" by force
  obtain r2 t2 where 2: "intn 50 t1 = (r2, t2)" by force
  obtain r3 t3 where 3: "intn 100 t2 = (r3, t3)" by force
  show ?thesis
    by (cases "pad_loop intn t3")
      (simp_all add: GenerateAmneziaParams_def before_pads_def 1 2 3 Let_def case_prod_beta del: not_None_eq)
qed

end
