(* ===== verification/Netlink.thy ===== *)
theory Netlink
  imports WgTypes
begin

text \<open>
  What the Linux backend uses of the \<open>netlink\<close> packages and of the machine. The attribute encoder and
  decoder are third-party code: a record of functions, whose documented behaviour the locale
  \<open>netlink_lib\<close> states. Structures that the code lays out in memory itself are bytes in the byte
  order of the machine. The locale is interpreted on the attribute format of the kernel (length,
  type, payload, padding to four bytes), in either byte order.
\<close>

section \<open>Machine integers in memory\<close>

fun be_put :: "nat \<Rightarrow> nat \<Rightarrow> bytes" where
  "be_put 0 n = []"
| "be_put (Suc k) n = be_put k (n div 256) @ [of_nat n]"

definition be_get :: "bytes \<Rightarrow> nat" where
  "be_get bs = foldl (\<lambda>a b. 256 * a + unat b) 0 bs"

text \<open>In the order of the machine: \<open>big\<close> says whether it is big-endian.\<close>

definition host_put :: "bool \<Rightarrow> nat \<Rightarrow> nat \<Rightarrow> bytes" where
  "host_put big k n = (if big then be_put k n else rev (be_put k n))"

definition host_get :: "bool \<Rightarrow> bytes \<Rightarrow> nat" where
  "host_get big bs = be_get (if big then bs else rev bs)"

lemma length_be_put [simp]: "length (be_put k n) = k"
  by (induction k n rule: be_put.induct) auto

lemma length_host_put [simp]: "length (host_put big k n) = k"
  by (simp add: host_put_def)

lemma be_get_snoc: "be_get (bs @ [b]) = 256 * be_get bs + unat b"
  by (simp add: be_get_def)

lemma unat_of_nat_byte: "unat (of_nat n :: byte) = n mod 256"
  by (simp add: unsigned_of_nat take_bit_eq_mod)

lemma be_get_put: "be_get (be_put k n) = n mod 256 ^ k"
proof (induction k n rule: be_put.induct)
  case (1 n)
  then show ?case by (simp add: be_get_def)
next
  case (2 k n)
  have "256 * (n div 256 mod 256 ^ k) + n mod 256 = n mod (256 * 256 ^ k)"
    by (simp add: mod_mult2_eq)
  with 2 show ?case by (simp add: be_get_snoc unat_of_nat_byte)
qed

lemma host_get_put: "host_get big (host_put big k n) = n mod 256 ^ k"
  by (simp add: host_get_def host_put_def be_get_put)

lemma be_get_bound: "be_get bs < 256 ^ length bs"
proof (induction bs rule: rev_induct)
  case (snoc b bs)
  have "unat b < 256" by (rule unat_byte)
  with snoc show ?case by (simp add: be_get_snoc)
qed (simp add: be_get_def)

section \<open>The library\<close>

text \<open>
  An attribute given to the encoder: its type, whether it is nested, its payload. The decoder gives
  types without the flag bits, and the attributes it could read before an error together with that
  error; \<^const>\<open>Inl\<close> is a decoder that could not be made.
\<close>

type_synonym u16 = "16 word"
type_synonym attr = "u16 \<times> bool \<times> bytes"

record netlink =
  nl_big :: bool
  nl_encode :: "attr list \<Rightarrow> go_error + bytes"
  nl_decode :: "bytes \<Rightarrow> go_error + (u16 \<times> bytes) list \<times> go_error option"
  nl_u8 :: "byte \<Rightarrow> bytes"
  nl_u16 :: "u16 \<Rightarrow> bytes"
  nl_u32 :: "32 word \<Rightarrow> bytes"
  nl_str :: "string \<Rightarrow> bytes"
  rd_u8 :: "bytes \<Rightarrow> go_error + byte"
  rd_u16 :: "bytes \<Rightarrow> go_error + u16"
  rd_u32 :: "bytes \<Rightarrow> go_error + 32 word"
  rd_u64 :: "bytes \<Rightarrow> go_error + 64 word"
  rd_str :: "bytes \<Rightarrow> string"

text \<open>A type without its two flag bits (\<open>NLA_F_NESTED\<close>, \<open>NLA_F_NET_BYTEORDER\<close>).\<close>

definition attr_type :: "u16 \<Rightarrow> u16" where
  "attr_type t = t AND 0x3FFF"

definition decoded :: "attr \<Rightarrow> u16 \<times> bytes" where
  "decoded a = (attr_type (fst a), snd (snd a))"

text \<open>
  Laws: what was encoded is decoded; an integer or a string without NUL is read as it was written;
  16-bit integers are written in the order of the machine.
\<close>

locale netlink_lib =
  fixes nl :: netlink
  assumes decode_encode: "nl_encode nl as = Inr b \<Longrightarrow> nl_decode nl b = Inr (map decoded as, None)"
    and read_u8: "rd_u8 nl (nl_u8 nl x) = Inr x"
    and read_u16: "rd_u16 nl (nl_u16 nl y) = Inr y"
    and read_u32: "rd_u32 nl (nl_u32 nl z) = Inr z"
    and read_str: "CHR 0x00 \<notin> set s \<Longrightarrow> rd_str nl (nl_str nl s) = s"
    and host_u16: "nl_u16 nl y = host_put (nl_big nl) 2 (unat y)"
begin

text \<open>Reading one 16-bit field as the integer that was written into it.\<close>

lemma read_int16:
  "0 \<le> i \<Longrightarrow> i < 2 ^ 16 \<Longrightarrow> rd_u16 nl (nl_u16 nl (of_int i)) = Inr (of_int i) \<and> uint (of_int i :: u16) = i"
  by (simp add: read_u16 unsigned_of_int take_bit_int_eq_self)

lemma read_int32:
  "0 \<le> i \<Longrightarrow> i < 2 ^ 32 \<Longrightarrow> rd_u32 nl (nl_u32 nl (of_int i)) = Inr (of_int i) \<and> uint (of_int i :: 32 word) = i"
  by (simp add: read_u32 unsigned_of_int take_bit_int_eq_self)

end

section \<open>The attribute format of the kernel\<close>

definition pad4 :: "nat \<Rightarrow> nat" where
  "pad4 n = (4 - n mod 4) mod 4"

fun tlv_encode :: "bool \<Rightarrow> attr list \<Rightarrow> go_error + bytes" where
  "tlv_encode big [] = Inr []"
| "tlv_encode big ((t, nested, d) # as) =
     (if 65535 < length d + 4 then Inl (ErrText ''netlink: attribute too long'')
      else res_bind (tlv_encode big as) (\<lambda>rest. Inr
        (host_put big 2 (length d + 4) @
         host_put big 2 (unat (if nested then t OR 0x8000 else t)) @
         d @ replicate (pad4 (length d)) 0 @ rest)))"

function tlv_decode :: "bool \<Rightarrow> bytes \<Rightarrow> go_error + (u16 \<times> bytes) list" where
  "tlv_decode big bs =
     (if bs = [] then Inr []
      else if length bs < 4 then Inl (ErrText ''netlink: not enough data'')
      else let l = host_get big (take 2 bs);
               t = of_nat (host_get big (take 2 (drop 2 bs)))
        in if l < 4 \<or> length bs < l then Inl (ErrText ''netlink: bad attribute'')
           else res_bind (tlv_decode big (drop (l + pad4 (l - 4)) bs))
                  (\<lambda>rest. Inr ((attr_type t, take (l - 4) (drop 4 bs)) # rest)))"
  by pat_completeness auto
termination
  by (relation "measure (\<lambda>(big, bs). length bs)") auto

declare tlv_decode.simps [simp del]

definition string_bytes :: "string \<Rightarrow> bytes" where
  "string_bytes s = map (\<lambda>c. of_nat (of_char c)) s"

lemma length_string_bytes [simp]: "length (string_bytes s) = length s"
  by (simp add: string_bytes_def)

definition bytes_string :: "bytes \<Rightarrow> string" where
  "bytes_string b = map (\<lambda>x. char_of (unat x)) b"

text \<open>Strings are written with a final NUL, which is dropped again.\<close>

definition host_netlink :: "bool \<Rightarrow> netlink" where
  "host_netlink big =
     \<lparr> nl_big = big, nl_encode = tlv_encode big, nl_decode = (\<lambda>b. map_sum id (\<lambda>as. (as, None)) (tlv_decode big b)),
       nl_u8 = (\<lambda>x. [x]), nl_u16 = (\<lambda>x. host_put big 2 (unat x)), nl_u32 = (\<lambda>x. host_put big 4 (unat x)),
       nl_str = (\<lambda>s. string_bytes s @ [0]),
       rd_u8 = (\<lambda>b. if length b = 1 then Inr (hd b) else Inl (ErrText ''netlink: size'')),
       rd_u16 = (\<lambda>b. if length b = 2 then Inr (of_nat (host_get big b)) else Inl (ErrText ''netlink: size'')),
       rd_u32 = (\<lambda>b. if length b = 4 then Inr (of_nat (host_get big b)) else Inl (ErrText ''netlink: size'')),
       rd_u64 = (\<lambda>b. if length b = 8 then Inr (of_nat (host_get big b)) else Inl (ErrText ''netlink: size'')),
       rd_str = (\<lambda>b. if b \<noteq> [] \<and> last b = 0 then bytes_string (butlast b) else bytes_string b) \<rparr>"

lemma bytes_string_bytes: "bytes_string (string_bytes s) = s"
  by (simp add: bytes_string_def string_bytes_def comp_def unat_of_nat_byte)

lemma attr_type_nested: "attr_type (t OR 0x8000) = attr_type t"
proof -
  have "(t OR 0x8000) AND 0x3FFF = (t AND 0x3FFF) OR (0x8000 AND (0x3FFF :: u16))"
    by (rule bit.conj_disj_distrib2)
  then show ?thesis by (simp add: attr_type_def)
qed

lemma of_nat_unat_u16: "of_nat (unat (x::u16) mod 65536) = x"
proof -
  have "unat x < 65536" by (rule order.strict_trans2 [OF unsigned_less]) simp
  then show ?thesis by simp
qed

lemma tlv_decode_encode: "tlv_encode big as = Inr b \<Longrightarrow> tlv_decode big b = Inr (map decoded as)"
proof (induction as arbitrary: b)
  case Nil
  then show ?case by (simp add: tlv_decode.simps)
next
  case (Cons a as)
  obtain t n d where a: "a = (t, n, d)" by (cases a)
  define T where "T = (if n then t OR 0x8000 else t)"
  from Cons.prems a obtain r where r: "tlv_encode big as = Inr r" and len: "length d + 4 \<le> 65535"
    and b: "b = host_put big 2 (length d + 4) @ host_put big 2 (unat T) @ d @ replicate (pad4 (length d)) 0 @ r"
    by (auto simp: T_def res_bind_Inr split: if_splits)
  have l: "host_get big (take 2 b) = length d + 4"
    using len by (simp add: b host_get_put)
  have ty: "attr_type (of_nat (host_get big (take 2 (drop 2 b)))) = attr_type t"
    by (simp add: b host_get_put of_nat_unat_u16 T_def attr_type_nested)
  have "drop (length d + 4 + pad4 (length d)) b = r" and "take (length d) (drop 4 b) = d"
    by (simp_all add: b)
  moreover have "b \<noteq> []" "\<not> length b < length d + 4"
    by (auto simp: b simp flip: length_greater_0_conv)
  ultimately show ?case
    using Cons.IH [OF r] l ty by (subst tlv_decode.simps) (simp add: Let_def a decoded_def)
qed

interpretation host: netlink_lib "host_netlink big" for big
proof
  fix "as" b x y s and z :: "32 word"
  show "nl_encode (host_netlink big) as = Inr b \<Longrightarrow> nl_decode (host_netlink big) b = Inr (map decoded as, None)"
    by (simp add: host_netlink_def tlv_decode_encode)
  show "rd_u8 (host_netlink big) (nl_u8 (host_netlink big) x) = Inr x"
    by (simp add: host_netlink_def)
  show "rd_u16 (host_netlink big) (nl_u16 (host_netlink big) y) = Inr y"
    by (simp add: host_netlink_def host_get_put of_nat_unat_u16)
  have "unat z < 4294967296" by (rule order.strict_trans2 [OF unsigned_less]) simp
  then show "rd_u32 (host_netlink big) (nl_u32 (host_netlink big) z) = Inr z"
    by (simp add: host_netlink_def host_get_put)
  show "CHR 0x00 \<notin> set s \<Longrightarrow> rd_str (host_netlink big) (nl_str (host_netlink big) s) = s"
    by (simp add: host_netlink_def bytes_string_bytes)
  show "nl_u16 (host_netlink big) y = host_put (nl_big (host_netlink big)) 2 (unat y)"
    by (simp add: host_netlink_def)
qed

end
