(* ===== verification/LinuxBatch.thy ===== *)
theory LinuxBatch
  imports WgTypes
begin

text \<open>
  Splitting a large configuration into batches (\<open>shouldBatch\<close> and \<open>buildBatches\<close> of
  \<open>internal/wglinux/configure_linux.go\<close>), and what the split promises: the device ends in the
  state the whole configuration asks for. The device is an interface, the locale \<open>wg_device\<close>: its
  laws are what \<open>wgtypes/types.go\<close> documents of a configuration. The refinement is proved in the
  locale, and \<open>ref_set_peer\<close> with its companions is a reference device that satisfies it.
\<close>

section \<open>The code\<close>

definition ipBatchChunk :: nat where "ipBatchChunk = 256"
definition peerBatchChunk :: nat where "peerBatchChunk = 32"

definition shouldBatch :: "Config \<Rightarrow> bool" where
  "shouldBatch cfg \<longleftrightarrow>
     length (cfg_Peers cfg) > peerBatchChunk \<or>
     sum_list (map (\<lambda>p. length (pc_AllowedIPs p)) (cfg_Peers cfg)) > ipBatchChunk"

text \<open>The template without the AmneziaWG parameters.\<close>

definition stripAWG :: "Config \<Rightarrow> Config" where
  "stripAWG c = c\<lparr> cfg_Jc := None, cfg_Jmin := None, cfg_Jmax := None,
     cfg_S1 := None, cfg_S2 := None, cfg_S3 := None, cfg_S4 := None,
     cfg_H1 := None, cfg_H2 := None, cfg_H3 := None, cfg_H4 := None,
     cfg_I1 := None, cfg_I2 := None, cfg_I3 := None, cfg_I4 := None, cfg_I5 := None \<rparr>"

text \<open>The peer configuration of one chunk; \<open>fresh\<close> says that the key was not seen before.\<close>

definition chunk_peer :: "bool \<Rightarrow> PeerConfig \<Rightarrow> ipnet list \<Rightarrow> PeerConfig" where
  "chunk_peer fresh p tmp =
     (let pcfg = zeroPeerConfig\<lparr> pc_PublicKey := pc_PublicKey p, pc_UpdateOnly := pc_UpdateOnly p,
            pc_Remove := pc_Remove p, pc_AdvancedSecurity := pc_AdvancedSecurity p,
            pc_DisableAdvancedSecurity := pc_DisableAdvancedSecurity p, pc_AllowedIPs := tmp \<rparr>
      in if fresh
         then pcfg\<lparr> pc_PresharedKey := pc_PresharedKey p, pc_Endpoint := pc_Endpoint p,
                pc_PersistentKeepaliveInterval := pc_PersistentKeepaliveInterval p,
                pc_ReplaceAllowedIPs := pc_ReplaceAllowedIPs p \<rparr>
         else pcfg)"

text \<open>The inner loop \<open>for !done\<close> over the allowed IPs of one peer.\<close>

function peer_loop ::
    "Config \<Rightarrow> Config \<Rightarrow> Key list \<Rightarrow> bool \<Rightarrow> PeerConfig \<Rightarrow> Config list \<times> Key list \<times> bool" where
  "peer_loop base baseAWG known firstBatch p =
     (let batch = (if firstBatch then baseAWG else base);
          ips = pc_AllowedIPs p;
          small = length ips < ipBatchChunk;
          tmp = (if small then ips else take ipBatchChunk ips);
          rest = (if small then ips else drop ipBatchChunk ips);
          fin = (small \<or> rest = []);
          fresh = (pc_PublicKey p \<notin> set known);
          known' = (if fresh then pc_PublicKey p # known else known);
          batch' = batch\<lparr> cfg_Peers := [chunk_peer fresh p tmp] \<rparr>
      in if fin then ([batch'], known', False)
         else (case peer_loop base baseAWG known' False (p\<lparr> pc_AllowedIPs := rest \<rparr>) of
                 (bs, k, f) \<Rightarrow> (batch' # bs, k, f)))"
  by pat_completeness auto
termination
  by (relation "measure (\<lambda>(b, a, k, f, p). length (pc_AllowedIPs p))")
    (auto simp: ipBatchChunk_def)

declare peer_loop.simps [simp del]

text \<open>The outer loop over the peers.\<close>

fun peers_loop ::
    "Config \<Rightarrow> Config \<Rightarrow> Key list \<Rightarrow> bool \<Rightarrow> PeerConfig list \<Rightarrow> Config list" where
  "peers_loop base baseAWG known firstBatch [] = []"
| "peers_loop base baseAWG known firstBatch (p # ps) =
     (case peer_loop base baseAWG known firstBatch p of
        (bs, known', first') \<Rightarrow> bs @ peers_loop base baseAWG known' first' ps)"

definition buildBatches :: "Config \<Rightarrow> Config list" where
  "buildBatches cfg =
     (if \<not> shouldBatch cfg then [cfg]
      else let base = stripAWG (cfg\<lparr> cfg_Peers := [] \<rparr>);
               baseAWG = cfg\<lparr> cfg_Peers := [] \<rparr>;
               batches = peers_loop base baseAWG [] True (cfg_Peers cfg)
           in case batches of
                [] \<Rightarrow> []
              | b # bs \<Rightarrow> b # map (\<lambda>c. c\<lparr> cfg_ReplacePeers := False \<rparr>) bs)"

section \<open>The chunks of a peer\<close>

text \<open>The allowed IPs of a peer in chunks, and the peer configurations the loop makes of them.\<close>

function ip_chunks :: "ipnet list \<Rightarrow> ipnet list list" where
  "ip_chunks ips =
     (if length ips \<le> ipBatchChunk then [ips]
      else take ipBatchChunk ips # ip_chunks (drop ipBatchChunk ips))"
  by pat_completeness auto
termination
  by (relation "measure length") (auto simp: ipBatchChunk_def)

declare ip_chunks.simps [simp del]

fun chunk_peers :: "bool \<Rightarrow> PeerConfig \<Rightarrow> ipnet list list \<Rightarrow> PeerConfig list" where
  "chunk_peers fresh p [] = []"
| "chunk_peers fresh p (c # cs) = chunk_peer fresh p c # chunk_peers False p cs"

lemma ip_chunks_nonempty [simp]: "ip_chunks ips \<noteq> []"
  by (subst ip_chunks.simps) simp

lemma concat_ip_chunks: "concat (ip_chunks ips) = ips"
proof (induction ips rule: ip_chunks.induct)
  case (1 ips)
  then show ?case by (subst ip_chunks.simps) simp
qed

lemma ip_chunks_bound: "c \<in> set (ip_chunks ips) \<Longrightarrow> length c \<le> ipBatchChunk"
proof (induction ips rule: ip_chunks.induct)
  case (1 ips)
  from "1.prems" show ?case
    by (subst (asm) ip_chunks.simps) (auto split: if_splits dest: "1.IH")
qed

lemma chunk_peer_update [simp]: "chunk_peer fresh (p\<lparr> pc_AllowedIPs := x \<rparr>) c = chunk_peer fresh p c"
  by (simp add: chunk_peer_def Let_def)

lemma chunk_peers_update [simp]: "chunk_peers fresh (p\<lparr> pc_AllowedIPs := x \<rparr>) cs = chunk_peers fresh p cs"
  by (induction cs arbitrary: fresh) auto

definition batches_of :: "Config \<Rightarrow> Config \<Rightarrow> bool \<Rightarrow> PeerConfig list \<Rightarrow> Config list" where
  "batches_of base baseAWG firstBatch ps =
     (case ps of [] \<Rightarrow> []
      | q # qs \<Rightarrow> (if firstBatch then baseAWG else base)\<lparr> cfg_Peers := [q] \<rparr> #
                 map (\<lambda>q. base\<lparr> cfg_Peers := [q] \<rparr>) qs)"

lemma batches_of_False: "batches_of base baseAWG False ps = map (\<lambda>q. base\<lparr> cfg_Peers := [q] \<rparr>) ps"
  by (cases ps) (auto simp: batches_of_def)

lemma peer_loop_eq:
  "peer_loop base baseAWG known firstBatch p =
    (batches_of base baseAWG firstBatch
       (chunk_peers (pc_PublicKey p \<notin> set known) p (ip_chunks (pc_AllowedIPs p))),
     (if pc_PublicKey p \<in> set known then known else pc_PublicKey p # known), False)"
proof (induction base baseAWG known firstBatch p rule: peer_loop.induct)
  case (1 base baseAWG known firstBatch p)
  let ?ips = "pc_AllowedIPs p"
  show ?case
  proof (cases "length ?ips \<le> ipBatchChunk")
    case True
    then show ?thesis
      by (subst peer_loop.simps, subst ip_chunks.simps)
        (auto simp: Let_def batches_of_def le_less)
  next
    case False
    let ?known = "if pc_PublicKey p \<notin> set known then pc_PublicKey p # known else known"
    have known: "pc_PublicKey p \<in> set ?known" by simp
    have chunks: "ip_chunks ?ips = take ipBatchChunk ?ips # ip_chunks (drop ipBatchChunk ?ips)"
      using False by (subst ip_chunks.simps) simp
    have ih: "peer_loop base baseAWG ?known False (p\<lparr> pc_AllowedIPs := drop ipBatchChunk ?ips \<rparr>) =
        (map (\<lambda>q. base\<lparr> cfg_Peers := [q] \<rparr>)
          (chunk_peers False p (ip_chunks (drop ipBatchChunk ?ips))), ?known, False)"
      using "1.IH" [OF refl refl refl refl refl refl refl refl refl] False known
      by (simp add: batches_of_False)
    show ?thesis
      using False by (subst peer_loop.simps) (auto simp: Let_def ih chunks batches_of_def)
  qed
qed

section \<open>The batches as a list of peer chunks\<close>

fun all_chunks :: "Key list \<Rightarrow> PeerConfig list \<Rightarrow> PeerConfig list" where
  "all_chunks known [] = []"
| "all_chunks known (p # ps) =
     chunk_peers (pc_PublicKey p \<notin> set known) p (ip_chunks (pc_AllowedIPs p)) @
     all_chunks (if pc_PublicKey p \<in> set known then known else pc_PublicKey p # known) ps"

lemma chunk_peers_nonempty [simp]: "chunk_peers fresh p (ip_chunks ips) \<noteq> []"
  by (cases "ip_chunks ips") auto

lemma all_chunks_nonempty [simp]: "all_chunks known ps = [] \<longleftrightarrow> ps = []"
  by (cases ps) auto

lemma peers_loop_eq:
  "peers_loop base baseAWG known firstBatch ps = batches_of base baseAWG firstBatch (all_chunks known ps)"
proof (induction ps arbitrary: known firstBatch)
  case Nil
  then show ?case by (simp add: batches_of_def)
next
  case (Cons p ps)
  obtain q qs where q: "chunk_peers (pc_PublicKey p \<notin> set known) p (ip_chunks (pc_AllowedIPs p)) = q # qs"
    by (meson chunk_peers_nonempty neq_Nil_conv)
  show ?case
    by (simp add: peer_loop_eq Cons.IH batches_of_False q) (simp add: batches_of_def)
qed

lemma shouldBatch_peers: "shouldBatch cfg \<Longrightarrow> cfg_Peers cfg \<noteq> []"
  by (auto simp: shouldBatch_def)

text \<open>What every batch after the first carries besides its peer.\<close>

definition rest_batch :: "Config \<Rightarrow> PeerConfig \<Rightarrow> Config" where
  "rest_batch cfg q = stripAWG cfg\<lparr> cfg_Peers := [q], cfg_ReplacePeers := False \<rparr>"

lemma buildBatches_eq:
  assumes "shouldBatch cfg"
  shows "\<exists>q qs. all_chunks [] (cfg_Peers cfg) = q # qs \<and>
    buildBatches cfg = cfg\<lparr> cfg_Peers := [q] \<rparr> # map (rest_batch cfg) qs"
proof -
  obtain q qs where "all_chunks [] (cfg_Peers cfg) = q # qs"
    using shouldBatch_peers [OF assms] by (meson all_chunks_nonempty neq_Nil_conv)
  with assms show ?thesis
    by (simp add: buildBatches_def peers_loop_eq batches_of_def rest_batch_def stripAWG_def Let_def)
qed

lemma chunk_peer_simps [simp]:
  "pc_PublicKey (chunk_peer fresh p c) = pc_PublicKey p"
  "pc_AllowedIPs (chunk_peer fresh p c) = c"
  "pc_Remove (chunk_peer fresh p c) = pc_Remove p"
  "pc_UpdateOnly (chunk_peer fresh p c) = pc_UpdateOnly p"
  "pc_AdvancedSecurity (chunk_peer fresh p c) = pc_AdvancedSecurity p"
  "pc_DisableAdvancedSecurity (chunk_peer fresh p c) = pc_DisableAdvancedSecurity p"
  "pc_PresharedKey (chunk_peer fresh p c) = (if fresh then pc_PresharedKey p else None)"
  "pc_Endpoint (chunk_peer fresh p c) = (if fresh then pc_Endpoint p else None)"
  "pc_PersistentKeepaliveInterval (chunk_peer fresh p c) =
     (if fresh then pc_PersistentKeepaliveInterval p else None)"
  "pc_ReplaceAllowedIPs (chunk_peer fresh p c) = (fresh \<and> pc_ReplaceAllowedIPs p)"
  by (simp_all add: chunk_peer_def Let_def zeroPeerConfig_def)

text \<open>No allowed IP is lost, repeated or moved to another peer, with or without repeated keys.\<close>

definition peer_ips :: "PeerConfig list \<Rightarrow> (Key \<times> ipnet) list" where
  "peer_ips ps = concat (map (\<lambda>p. map (Pair (pc_PublicKey p)) (pc_AllowedIPs p)) ps)"

lemma peer_ips_chunk_peers:
  "peer_ips (chunk_peers fresh p cs) = map (Pair (pc_PublicKey p)) (concat cs)"
  by (induction cs arbitrary: fresh) (auto simp: peer_ips_def)

lemma peer_ips_append: "peer_ips (ps @ qs) = peer_ips ps @ peer_ips qs"
  by (simp add: peer_ips_def)

lemma peer_ips_all_chunks: "peer_ips (all_chunks known ps) = peer_ips ps"
  by (induction ps arbitrary: known)
    (simp_all add: peer_ips_append peer_ips_chunk_peers concat_ip_chunks, simp add: peer_ips_def)

lemma peers_of_batches:
  assumes "shouldBatch cfg"
  shows "concat (map cfg_Peers (buildBatches cfg)) = all_chunks [] (cfg_Peers cfg)"
proof -
  obtain q qs where "all_chunks [] (cfg_Peers cfg) = q # qs"
      "buildBatches cfg = cfg\<lparr> cfg_Peers := [q] \<rparr> # map (rest_batch cfg) qs"
    using buildBatches_eq [OF assms] by blast
  moreover have "concat (map (cfg_Peers \<circ> rest_batch cfg) qs) = qs"
    by (induction qs) (simp_all add: rest_batch_def)
  ultimately show ?thesis by simp
qed

lemma buildBatches_ips:
  "peer_ips (concat (map cfg_Peers (buildBatches cfg))) = peer_ips (cfg_Peers cfg)"
proof (cases "shouldBatch cfg")
  case True
  then show ?thesis by (simp add: peers_of_batches peer_ips_all_chunks)
next
  case False
  then show ?thesis by (simp add: buildBatches_def)
qed

lemma chunk_peers_bound:
  "q \<in> set (chunk_peers fresh p (ip_chunks ips)) \<Longrightarrow> length (pc_AllowedIPs q) \<le> ipBatchChunk"
proof -
  have "q \<in> set (chunk_peers fresh p cs) \<Longrightarrow> pc_AllowedIPs q \<in> set cs" for cs
    by (induction cs arbitrary: fresh) auto
  then show "q \<in> set (chunk_peers fresh p (ip_chunks ips)) \<Longrightarrow> length (pc_AllowedIPs q) \<le> ipBatchChunk"
    using ip_chunks_bound by blast
qed

lemma all_chunks_bound: "q \<in> set (all_chunks known ps) \<Longrightarrow> length (pc_AllowedIPs q) \<le> ipBatchChunk"
  by (induction ps arbitrary: known) (auto dest: chunk_peers_bound)

section \<open>Applying a configuration to a device\<close>

text \<open>
  A device applies a configuration: first the fields of the interface, then \<open>ReplacePeers\<close>, then
  the peers in order. \<open>apply_all\<close> sends several configurations one after the other.
\<close>

definition apply_config ::
    "(Config \<Rightarrow> 's \<Rightarrow> 's) \<Rightarrow> ('s \<Rightarrow> 's) \<Rightarrow> (PeerConfig \<Rightarrow> 's \<Rightarrow> 's) \<Rightarrow> Config \<Rightarrow> 's \<Rightarrow> 's" where
  "apply_config set_device clear_peers set_peer c s =
     (let s = set_device c s;
          s = (if cfg_ReplacePeers c then clear_peers s else s)
      in fold set_peer (cfg_Peers c) s)"

definition apply_all ::
    "(Config \<Rightarrow> 's \<Rightarrow> 's) \<Rightarrow> ('s \<Rightarrow> 's) \<Rightarrow> (PeerConfig \<Rightarrow> 's \<Rightarrow> 's) \<Rightarrow> Config list \<Rightarrow> 's \<Rightarrow> 's" where
  "apply_all set_device clear_peers set_peer cs s =
     fold (apply_config set_device clear_peers set_peer) cs s"

text \<open>A later entry for a peer that was configured just before: only more allowed IPs.\<close>

definition continue_peer :: "PeerConfig \<Rightarrow> PeerConfig" where
  "continue_peer p = p\<lparr> pc_PresharedKey := None, pc_Endpoint := None,
     pc_PersistentKeepaliveInterval := None, pc_ReplaceAllowedIPs := False \<rparr>"

text \<open>
  The laws of a WireGuard device. \<open>set_device_fields\<close>: the interface fields do not depend on the
  peers of the configuration. \<open>set_device_again\<close>: setting fields to the value they have, or leaving
  them alone, changes nothing. \<open>commute_*\<close>: interface and peers are independent.
  \<open>set_peer_split\<close>: allowed IPs are appended, so they may be given in two parts.
\<close>

locale wg_device =
  fixes set_device :: "Config \<Rightarrow> 's \<Rightarrow> 's"
    and clear_peers :: "'s \<Rightarrow> 's"
    and set_peer :: "PeerConfig \<Rightarrow> 's \<Rightarrow> 's"
  assumes set_device_fields: "set_device (c\<lparr> cfg_Peers := ps, cfg_ReplacePeers := r \<rparr>) s = set_device c s"
    and set_device_again: "set_device (stripAWG c) (set_device c s) = set_device c s"
    and commute_clear: "set_device c (clear_peers s) = clear_peers (set_device c s)"
    and commute_peer: "set_device c (set_peer p s) = set_peer p (set_device c s)"
    and set_peer_split: "set_peer (p\<lparr> pc_AllowedIPs := xs @ ys \<rparr>) s =
          set_peer (continue_peer p\<lparr> pc_AllowedIPs := ys \<rparr>) (set_peer (p\<lparr> pc_AllowedIPs := xs \<rparr>) s)"
begin

lemma fold_chunks_rest:
  "fold set_peer (chunk_peers False p cs) (set_peer (p\<lparr> pc_AllowedIPs := xs \<rparr>) s) =
   set_peer (p\<lparr> pc_AllowedIPs := xs @ concat cs \<rparr>) s"
proof (induction cs arbitrary: xs)
  case Nil
  then show ?case by simp
next
  case (Cons c cs)
  have "chunk_peer False p c = continue_peer p\<lparr> pc_AllowedIPs := c \<rparr>"
    by (simp add: chunk_peer_def continue_peer_def zeroPeerConfig_def Let_def)
  then have "set_peer (chunk_peer False p c) (set_peer (p\<lparr> pc_AllowedIPs := xs \<rparr>) s) =
      set_peer (p\<lparr> pc_AllowedIPs := xs @ c \<rparr>) s"
    by (simp add: set_peer_split)
  with Cons.IH [of "xs @ c"] show ?case by simp
qed

lemma fold_chunks:
  "fold set_peer (chunk_peers True p (ip_chunks (pc_AllowedIPs p))) s = set_peer p s"
proof -
  obtain c cs where c: "ip_chunks (pc_AllowedIPs p) = c # cs"
    by (meson ip_chunks_nonempty neq_Nil_conv)
  have cp: "chunk_peer True p c = p\<lparr> pc_AllowedIPs := c \<rparr>"
    by (simp add: chunk_peer_def zeroPeerConfig_def Let_def)
  have "c @ concat cs = pc_AllowedIPs p"
    using concat_ip_chunks [of "pc_AllowedIPs p"] c by simp
  then show ?thesis
    by (simp add: c cp fold_chunks_rest)
qed

lemma fold_all_chunks:
  "distinct (map pc_PublicKey ps) \<Longrightarrow> pc_PublicKey ` set ps \<inter> set known = {} \<Longrightarrow>
   fold set_peer (all_chunks known ps) s = fold set_peer ps s"
proof (induction ps arbitrary: known s)
  case Nil
  then show ?case by simp
next
  case (Cons p ps)
  then have "pc_PublicKey p \<notin> set known" by auto
  with Cons show ?case by (simp add: fold_chunks)
qed

lemma fold_commute: "set_device c (fold set_peer ps s) = fold set_peer ps (set_device c s)"
  by (induction ps arbitrary: s) (simp_all add: commute_peer)

lemma apply_rest:
  assumes "set_device (stripAWG c) s = s"
  shows "apply_all set_device clear_peers set_peer (map (rest_batch c) qs) s = fold set_peer qs s"
  using assms
proof (induction qs arbitrary: s)
  case Nil
  then show ?case by (simp add: apply_all_def)
next
  case (Cons q qs)
  have "set_device (rest_batch c q) s = s"
    using Cons.prems set_device_fields [where c = "stripAWG c" and ps = "[q]" and r = False]
    by (simp add: rest_batch_def)
  then have "apply_config set_device clear_peers set_peer (rest_batch c q) s = set_peer q s"
    by (simp add: apply_config_def rest_batch_def)
  moreover have "set_device (stripAWG c) (set_peer q s) = set_peer q s"
    using Cons.prems by (simp add: commute_peer)
  ultimately show ?case using Cons.IH by (simp add: apply_all_def)
qed

lemma apply_batches:
  assumes "distinct (map pc_PublicKey (cfg_Peers c))"
  shows "apply_all set_device clear_peers set_peer (buildBatches c) s =
    apply_config set_device clear_peers set_peer c s"
proof (cases "shouldBatch c")
  case False
  then show ?thesis by (simp add: buildBatches_def apply_all_def)
next
  case True
  obtain q qs where q: "all_chunks [] (cfg_Peers c) = q # qs"
      "buildBatches c = c\<lparr> cfg_Peers := [q] \<rparr> # map (rest_batch c) qs"
    using buildBatches_eq [OF True] by blast
  let ?s = "if cfg_ReplacePeers c then clear_peers (set_device c s) else set_device c s"
  have dev: "set_device (c\<lparr> cfg_Peers := [q] \<rparr>) s = set_device c s"
    using set_device_fields [where c = c and ps = "[q]" and r = "cfg_ReplacePeers c"] by simp
  have "set_device (stripAWG c) ?s = ?s"
    by (simp add: commute_clear set_device_again)
  then have "set_device (stripAWG c) (set_peer q ?s) = set_peer q ?s"
    by (simp add: commute_peer)
  from apply_rest [OF this]
  have "apply_all set_device clear_peers set_peer (buildBatches c) s = fold set_peer (q # qs) ?s"
    using q(2) dev by (cases "cfg_ReplacePeers c") (simp_all add: apply_all_def apply_config_def)
  also have "\<dots> = fold set_peer (cfg_Peers c) ?s"
    using fold_all_chunks [OF assms, of "[]" ?s] q(1) by simp
  finally show ?thesis by (simp add: apply_config_def)
qed

end

section \<open>The reference device\<close>

text \<open>
  A device as \<open>wgtypes/types.go\<close> documents it: the interface fields, the peers by key, and the table
  that gives each allowed IP to one peer. A nil field leaves the value alone.
\<close>

record wgstate =
  ws_device :: Device
  ws_peers :: "Key \<Rightarrow> Peer option"
  ws_routes :: "ipnet \<Rightarrow> Key option"

definition opt :: "'a option \<Rightarrow> 'a \<Rightarrow> 'a" where
  "opt v cur = (case v of None \<Rightarrow> cur | Some x \<Rightarrow> x)"

lemma opt_simps [simp]: "opt None x = x" "opt (Some y) x = y" "opt v (opt v x) = opt v x"
  by (simp_all add: opt_def split: option.splits)

definition ref_set_device :: "Config \<Rightarrow> wgstate \<Rightarrow> wgstate" where
  "ref_set_device c s = s\<lparr> ws_device := (let d = ws_device s in d\<lparr>
     dev_PrivateKey := opt (cfg_PrivateKey c) (dev_PrivateKey d),
     dev_ListenPort := opt (cfg_ListenPort c) (dev_ListenPort d),
     dev_FirewallMark := opt (cfg_FirewallMark c) (dev_FirewallMark d),
     dev_Jc := opt (cfg_Jc c) (dev_Jc d), dev_Jmin := opt (cfg_Jmin c) (dev_Jmin d),
     dev_Jmax := opt (cfg_Jmax c) (dev_Jmax d),
     dev_S1 := opt (cfg_S1 c) (dev_S1 d), dev_S2 := opt (cfg_S2 c) (dev_S2 d),
     dev_S3 := opt (cfg_S3 c) (dev_S3 d), dev_S4 := opt (cfg_S4 c) (dev_S4 d),
     dev_H1 := opt (cfg_H1 c) (dev_H1 d), dev_H2 := opt (cfg_H2 c) (dev_H2 d),
     dev_H3 := opt (cfg_H3 c) (dev_H3 d), dev_H4 := opt (cfg_H4 c) (dev_H4 d),
     dev_I1 := opt (cfg_I1 c) (dev_I1 d), dev_I2 := opt (cfg_I2 c) (dev_I2 d),
     dev_I3 := opt (cfg_I3 c) (dev_I3 d), dev_I4 := opt (cfg_I4 c) (dev_I4 d),
     dev_I5 := opt (cfg_I5 c) (dev_I5 d) \<rparr>) \<rparr>"

definition ref_clear_peers :: "wgstate \<Rightarrow> wgstate" where
  "ref_clear_peers s = s\<lparr> ws_peers := Map.empty, ws_routes := Map.empty \<rparr>"

definition drop_routes :: "Key \<Rightarrow> (ipnet \<Rightarrow> Key option) \<Rightarrow> ipnet \<Rightarrow> Key option" where
  "drop_routes k m = (\<lambda>ip. if m ip = Some k then None else m ip)"

definition add_routes :: "Key \<Rightarrow> ipnet list \<Rightarrow> (ipnet \<Rightarrow> Key option) \<Rightarrow> ipnet \<Rightarrow> Key option" where
  "add_routes k ips m = fold (\<lambda>ip m. m(ip \<mapsto> k)) ips m"

definition ref_update_peer :: "PeerConfig \<Rightarrow> Peer \<Rightarrow> Peer" where
  "ref_update_peer p q = q\<lparr>
     peer_PresharedKey := opt (pc_PresharedKey p) (peer_PresharedKey q),
     peer_Endpoint := (if pc_Endpoint p = None then peer_Endpoint q else pc_Endpoint p),
     peer_PersistentKeepaliveInterval :=
       opt (pc_PersistentKeepaliveInterval p) (peer_PersistentKeepaliveInterval q),
     peer_AdvancedSecurity :=
       (if pc_AdvancedSecurity p then True
        else if pc_DisableAdvancedSecurity p then False else peer_AdvancedSecurity q) \<rparr>"

definition ref_set_peer :: "PeerConfig \<Rightarrow> wgstate \<Rightarrow> wgstate" where
  "ref_set_peer p s =
     (let k = pc_PublicKey p in
      if pc_Remove p then
        s\<lparr> ws_peers := (ws_peers s)(k := None), ws_routes := drop_routes k (ws_routes s) \<rparr>
      else if ws_peers s k = None \<and> pc_UpdateOnly p then s
      else
        (let q = (case ws_peers s k of None \<Rightarrow> zeroPeer\<lparr> peer_PublicKey := k \<rparr> | Some q \<Rightarrow> q);
             routes = (if pc_ReplaceAllowedIPs p then drop_routes k (ws_routes s) else ws_routes s)
         in s\<lparr> ws_peers := (ws_peers s)(k \<mapsto> ref_update_peer p q),
               ws_routes := add_routes k (pc_AllowedIPs p) routes \<rparr>))"

lemma add_routes_append: "add_routes k (xs @ ys) m = add_routes k ys (add_routes k xs m)"
  by (simp add: add_routes_def)

lemma drop_routes_idem [simp]: "drop_routes k (drop_routes k m) = drop_routes k m"
  by (auto simp: drop_routes_def)

lemma ref_update_again: "ref_update_peer (continue_peer p\<lparr> pc_AllowedIPs := x \<rparr>)
    (ref_update_peer (p\<lparr> pc_AllowedIPs := y \<rparr>) q) = ref_update_peer (p\<lparr> pc_AllowedIPs := z \<rparr>) q"
  by (simp add: ref_update_peer_def continue_peer_def)

lemma continue_peer_simps [simp]:
  "pc_PublicKey (continue_peer p) = pc_PublicKey p" "pc_Remove (continue_peer p) = pc_Remove p"
  "pc_UpdateOnly (continue_peer p) = pc_UpdateOnly p"
  "\<not> pc_ReplaceAllowedIPs (continue_peer p)"
  by (simp_all add: continue_peer_def)

interpretation ref: wg_device ref_set_device ref_clear_peers ref_set_peer
proof unfold_locales
  show "ref_set_device (c\<lparr> cfg_Peers := ps, cfg_ReplacePeers := r \<rparr>) s = ref_set_device c s" for c ps r s
    by (simp add: ref_set_device_def)
  show "ref_set_device (stripAWG c) (ref_set_device c s) = ref_set_device c s" for c s
    by (simp add: ref_set_device_def stripAWG_def Let_def)
  show "ref_set_device c (ref_clear_peers s) = ref_clear_peers (ref_set_device c s)" for c s
    by (simp add: ref_set_device_def ref_clear_peers_def)
  show "ref_set_device c (ref_set_peer p s) = ref_set_peer p (ref_set_device c s)" for c p s
    by (simp add: ref_set_device_def ref_set_peer_def Let_def)
  show "ref_set_peer (p\<lparr> pc_AllowedIPs := xs @ ys \<rparr>) s =
      ref_set_peer (continue_peer p\<lparr> pc_AllowedIPs := ys \<rparr>) (ref_set_peer (p\<lparr> pc_AllowedIPs := xs \<rparr>) s)"
    for p xs ys s
  proof (cases "pc_Remove p")
    case True
    then show ?thesis by (simp add: ref_set_peer_def Let_def)
  next
    case False
    then show ?thesis
      by (auto simp: ref_set_peer_def Let_def add_routes_append ref_update_again [where z = "xs @ ys"]
          split: option.splits)
  qed
qed

end
