(* ===== verification/LinuxEncode.thy ===== *)
theory LinuxEncode
  imports Netlink LinuxBatch
begin

text \<open>
  The encoding half of \<open>internal/wglinux/configure_linux.go\<close>: \<open>configAttrs\<close> and what it calls. The
  attributes are listed in the order in which the code gives them to the encoder; nested ones hold
  encoded bytes. Integer fields are cut to the width of their attribute, as the Go conversions do.
\<close>

section \<open>Attribute numbers\<close>

definition WGDEVICE_A_IFINDEX :: u16 where "WGDEVICE_A_IFINDEX = 1"
definition WGDEVICE_A_IFNAME :: u16 where "WGDEVICE_A_IFNAME = 2"
definition WGDEVICE_A_PRIVATE_KEY :: u16 where "WGDEVICE_A_PRIVATE_KEY = 3"
definition WGDEVICE_A_PUBLIC_KEY :: u16 where "WGDEVICE_A_PUBLIC_KEY = 4"
definition WGDEVICE_A_FLAGS :: u16 where "WGDEVICE_A_FLAGS = 5"
definition WGDEVICE_A_LISTEN_PORT :: u16 where "WGDEVICE_A_LISTEN_PORT = 6"
definition WGDEVICE_A_FWMARK :: u16 where "WGDEVICE_A_FWMARK = 7"
definition WGDEVICE_A_PEERS :: u16 where "WGDEVICE_A_PEERS = 8"
definition WGDEVICE_A_JC :: u16 where "WGDEVICE_A_JC = 9"
definition WGDEVICE_A_JMIN :: u16 where "WGDEVICE_A_JMIN = 10"
definition WGDEVICE_A_JMAX :: u16 where "WGDEVICE_A_JMAX = 11"
definition WGDEVICE_A_S1 :: u16 where "WGDEVICE_A_S1 = 12"
definition WGDEVICE_A_S2 :: u16 where "WGDEVICE_A_S2 = 13"
definition WGDEVICE_A_H1 :: u16 where "WGDEVICE_A_H1 = 14"
definition WGDEVICE_A_H2 :: u16 where "WGDEVICE_A_H2 = 15"
definition WGDEVICE_A_H3 :: u16 where "WGDEVICE_A_H3 = 16"
definition WGDEVICE_A_H4 :: u16 where "WGDEVICE_A_H4 = 17"
definition WGDEVICE_A_S3 :: u16 where "WGDEVICE_A_S3 = 19"
definition WGDEVICE_A_S4 :: u16 where "WGDEVICE_A_S4 = 20"
definition WGDEVICE_A_I1 :: u16 where "WGDEVICE_A_I1 = 21"
definition WGDEVICE_A_I2 :: u16 where "WGDEVICE_A_I2 = 22"
definition WGDEVICE_A_I3 :: u16 where "WGDEVICE_A_I3 = 23"
definition WGDEVICE_A_I4 :: u16 where "WGDEVICE_A_I4 = 24"
definition WGDEVICE_A_I5 :: u16 where "WGDEVICE_A_I5 = 25"

lemmas device_attrs = WGDEVICE_A_IFINDEX_def WGDEVICE_A_IFNAME_def WGDEVICE_A_PRIVATE_KEY_def
  WGDEVICE_A_PUBLIC_KEY_def WGDEVICE_A_FLAGS_def WGDEVICE_A_LISTEN_PORT_def WGDEVICE_A_FWMARK_def
  WGDEVICE_A_PEERS_def WGDEVICE_A_JC_def WGDEVICE_A_JMIN_def WGDEVICE_A_JMAX_def
  WGDEVICE_A_S1_def WGDEVICE_A_S2_def WGDEVICE_A_S3_def WGDEVICE_A_S4_def
  WGDEVICE_A_H1_def WGDEVICE_A_H2_def WGDEVICE_A_H3_def WGDEVICE_A_H4_def
  WGDEVICE_A_I1_def WGDEVICE_A_I2_def WGDEVICE_A_I3_def WGDEVICE_A_I4_def WGDEVICE_A_I5_def

definition WGPEER_A_PUBLIC_KEY :: u16 where "WGPEER_A_PUBLIC_KEY = 1"
definition WGPEER_A_PRESHARED_KEY :: u16 where "WGPEER_A_PRESHARED_KEY = 2"
definition WGPEER_A_FLAGS :: u16 where "WGPEER_A_FLAGS = 3"
definition WGPEER_A_ENDPOINT :: u16 where "WGPEER_A_ENDPOINT = 4"
definition WGPEER_A_PERSISTENT_KEEPALIVE_INTERVAL :: u16 where "WGPEER_A_PERSISTENT_KEEPALIVE_INTERVAL = 5"
definition WGPEER_A_LAST_HANDSHAKE_TIME :: u16 where "WGPEER_A_LAST_HANDSHAKE_TIME = 6"
definition WGPEER_A_RX_BYTES :: u16 where "WGPEER_A_RX_BYTES = 7"
definition WGPEER_A_TX_BYTES :: u16 where "WGPEER_A_TX_BYTES = 8"
definition WGPEER_A_ALLOWEDIPS :: u16 where "WGPEER_A_ALLOWEDIPS = 9"
definition WGPEER_A_PROTOCOL_VERSION :: u16 where "WGPEER_A_PROTOCOL_VERSION = 10"
definition WGPEER_A_ADVANCED_SECURITY :: u16 where "WGPEER_A_ADVANCED_SECURITY = 11"
definition WGPEER_A_AWG_PEER_FLAGS :: u16 where "WGPEER_A_AWG_PEER_FLAGS = 12"

lemmas peer_attrs = WGPEER_A_PUBLIC_KEY_def WGPEER_A_PRESHARED_KEY_def WGPEER_A_FLAGS_def
  WGPEER_A_ENDPOINT_def WGPEER_A_PERSISTENT_KEEPALIVE_INTERVAL_def WGPEER_A_LAST_HANDSHAKE_TIME_def
  WGPEER_A_RX_BYTES_def WGPEER_A_TX_BYTES_def WGPEER_A_ALLOWEDIPS_def WGPEER_A_PROTOCOL_VERSION_def
  WGPEER_A_ADVANCED_SECURITY_def WGPEER_A_AWG_PEER_FLAGS_def

definition WGALLOWEDIP_A_FAMILY :: u16 where "WGALLOWEDIP_A_FAMILY = 1"
definition WGALLOWEDIP_A_IPADDR :: u16 where "WGALLOWEDIP_A_IPADDR = 2"
definition WGALLOWEDIP_A_CIDR_MASK :: u16 where "WGALLOWEDIP_A_CIDR_MASK = 3"

lemmas allowedip_attrs = WGALLOWEDIP_A_FAMILY_def WGALLOWEDIP_A_IPADDR_def WGALLOWEDIP_A_CIDR_MASK_def

definition AF_INET :: u16 where "AF_INET = 2"
definition AF_INET6 :: u16 where "AF_INET6 = 10"

text \<open>Flags: \<open>WGDEVICE_F_REPLACE_PEERS\<close>, the peer flags, and AmneziaWG's own.\<close>

definition WGDEVICE_F_REPLACE_PEERS :: "32 word" where "WGDEVICE_F_REPLACE_PEERS = 1"
definition WGPEER_F_REMOVE_ME :: "32 word" where "WGPEER_F_REMOVE_ME = 1"
definition WGPEER_F_REPLACE_ALLOWEDIPS :: "32 word" where "WGPEER_F_REPLACE_ALLOWEDIPS = 2"
definition WGPEER_F_UPDATE_ONLY :: "32 word" where "WGPEER_F_UPDATE_ONLY = 4"
definition WGPEER_F_HAS_ADVANCED_SECURITY :: "32 word" where "WGPEER_F_HAS_ADVANCED_SECURITY = 8"

lemmas flag_defs = WGDEVICE_F_REPLACE_PEERS_def WGPEER_F_REMOVE_ME_def
  WGPEER_F_REPLACE_ALLOWEDIPS_def WGPEER_F_UPDATE_ONLY_def WGPEER_F_HAS_ADVANCED_SECURITY_def

section \<open>Helpers\<close>

text \<open>One attribute if the field is set; an array, whose types are the indices.\<close>

definition opt_attr :: "u16 \<Rightarrow> ('a \<Rightarrow> bytes) \<Rightarrow> 'a option \<Rightarrow> attr list" where
  "opt_attr t f v = (case v of None \<Rightarrow> [] | Some x \<Rightarrow> [(t, False, f x)])"

fun array_attrs :: "netlink \<Rightarrow> ('a \<Rightarrow> go_error + attr list) \<Rightarrow> nat \<Rightarrow> 'a list \<Rightarrow> go_error + attr list" where
  "array_attrs nl f i [] = Inr []"
| "array_attrs nl f i (x # xs) =
     res_bind (f x) (\<lambda>as. res_bind (nl_encode nl as) (\<lambda>d.
       res_bind (array_attrs nl f (Suc i) xs) (\<lambda>rest. Inr ((of_nat i, True, d) # rest))))"

definition isValidIP :: "bytes \<Rightarrow> bool" where
  "isValidIP ip \<longleftrightarrow> To16 ip \<noteq> None"

definition isIPv6 :: "bytes \<Rightarrow> bool" where
  "isIPv6 ip \<longleftrightarrow> isValidIP ip \<and> To4 ip = None"

text \<open>\<open>binary.BigEndian.Uint16(nlenc.Uint16Bytes(uint16(port)))\<close>\<close>

definition sockaddrPort :: "netlink \<Rightarrow> int \<Rightarrow> u16" where
  "sockaddrPort nl port = of_nat (be_get (nl_u16 nl (of_int port)))"

text \<open>
  \<open>RawSockaddrInet4\<close> is family, port, address and eight zero bytes; \<open>RawSockaddrInet6\<close> is family,
  port, flow information, address and scope. \<open>To4\<close> and \<open>To16\<close> have their lengths here.
\<close>

definition encodeSockaddr :: "netlink \<Rightarrow> udpaddr \<Rightarrow> go_error + bytes" where
  "encodeSockaddr nl endpoint =
     (if \<not> isValidIP (ua_IP endpoint)
      then Inl (ErrText ''wglinux: invalid endpoint IP'')
      else if isIPv6 (ua_IP endpoint)
      then Inr (host_put (nl_big nl) 2 (unat AF_INET6) @
                host_put (nl_big nl) 2 (unat (sockaddrPort nl (ua_Port endpoint))) @
                replicate 4 0 @
                (case To16 (ua_IP endpoint) of Some v \<Rightarrow> v | None \<Rightarrow> replicate 16 0) @
                replicate 4 0)
      else Inr (host_put (nl_big nl) 2 (unat AF_INET) @
                host_put (nl_big nl) 2 (unat (sockaddrPort nl (ua_Port endpoint))) @
                (case To4 (ua_IP endpoint) of Some v \<Rightarrow> v | None \<Rightarrow> replicate 4 0) @
                replicate 8 0))"

section \<open>Peers\<close>

text \<open>The three attributes of one allowed IP: family, address, number of mask bits.\<close>

definition encodeAllowedIP :: "netlink \<Rightarrow> ipnet \<Rightarrow> go_error + attr list" where
  "encodeAllowedIP nl ipn =
     (if \<not> isValidIP (in_IP ipn) then Inl (ErrText ''wglinux: invalid allowed IP'')
      else let v6 = isIPv6 (in_IP ipn);
               family = (if v6 then AF_INET6 else AF_INET);
               ip = (if v6 then in_IP ipn else case To4 (in_IP ipn) of Some v \<Rightarrow> v | None \<Rightarrow> []);
               ones = fst (mask_Size (in_Mask ipn))
           in Inr [(WGALLOWEDIP_A_FAMILY, False, nl_u16 nl family),
                   (WGALLOWEDIP_A_IPADDR, False, ip),
                   (WGALLOWEDIP_A_CIDR_MASK, False, nl_u8 nl (of_int ones))])"

definition encodeAllowedIPs :: "netlink \<Rightarrow> ipnet list \<Rightarrow> go_error + attr list" where
  "encodeAllowedIPs nl ipns = array_attrs nl (encodeAllowedIP nl) 0 ipns"

definition peer_flags :: "PeerConfig \<Rightarrow> 32 word" where
  "peer_flags p =
     (let flags = 0;
          flags = (if pc_Remove p then flags OR WGPEER_F_REMOVE_ME else flags);
          flags = (if pc_ReplaceAllowedIPs p then flags OR WGPEER_F_REPLACE_ALLOWEDIPS else flags);
          flags = (if pc_UpdateOnly p then flags OR WGPEER_F_UPDATE_ONLY else flags);
          flags = (if pc_AdvancedSecurity p \<or> pc_DisableAdvancedSecurity p
                   then flags OR WGPEER_F_HAS_ADVANCED_SECURITY else flags)
      in flags)"

definition encodePeer :: "netlink \<Rightarrow> PeerConfig \<Rightarrow> go_error + attr list" where
  "encodePeer nl p =
     res_bind (case pc_Endpoint p of
         None \<Rightarrow> Inr []
       | Some ep \<Rightarrow> res_bind (encodeSockaddr nl ep) (\<lambda>sa. Inr [(WGPEER_A_ENDPOINT, False, sa)]))
     (\<lambda>endpoint.
     res_bind (if pc_AllowedIPs p = [] then Inr []
       else res_bind (encodeAllowedIPs nl (pc_AllowedIPs p)) (\<lambda>as.
              res_bind (nl_encode nl as) (\<lambda>d. Inr [(WGPEER_A_ALLOWEDIPS, True, d)])))
     (\<lambda>ips. Inr (
       [(WGPEER_A_PUBLIC_KEY, False, pc_PublicKey p)] @
       (if peer_flags p \<noteq> 0 then [(WGPEER_A_FLAGS, False, nl_u32 nl (peer_flags p))] else []) @
       (if pc_AdvancedSecurity p then [(WGPEER_A_ADVANCED_SECURITY, False, [])] else []) @
       opt_attr WGPEER_A_PRESHARED_KEY (\<lambda>k. k) (pc_PresharedKey p) @
       endpoint @
       opt_attr WGPEER_A_PERSISTENT_KEEPALIVE_INTERVAL (\<lambda>d. nl_u16 nl (of_int (secs d)))
         (pc_PersistentKeepaliveInterval p) @
       ips)))"

section \<open>The device\<close>

definition device_attr_list :: "netlink \<Rightarrow> string \<Rightarrow> Config \<Rightarrow> attr list" where
  "device_attr_list nl name cfg =
     (let u16 = (\<lambda>i. nl_u16 nl (of_int i)); u32 = (\<lambda>i. nl_u32 nl (of_int i)) in
     [(WGDEVICE_A_IFNAME, False, nl_str nl name)] @
     opt_attr WGDEVICE_A_PRIVATE_KEY (\<lambda>k. k) (cfg_PrivateKey cfg) @
     opt_attr WGDEVICE_A_LISTEN_PORT u16 (cfg_ListenPort cfg) @
     opt_attr WGDEVICE_A_FWMARK u32 (cfg_FirewallMark cfg) @
     (if cfg_ReplacePeers cfg
      then [(WGDEVICE_A_FLAGS, False, nl_u32 nl WGDEVICE_F_REPLACE_PEERS)] else []) @
     opt_attr WGDEVICE_A_JC u16 (cfg_Jc cfg) @
     opt_attr WGDEVICE_A_JMIN u16 (cfg_Jmin cfg) @
     opt_attr WGDEVICE_A_JMAX u16 (cfg_Jmax cfg) @
     opt_attr WGDEVICE_A_S1 u16 (cfg_S1 cfg) @
     opt_attr WGDEVICE_A_S2 u16 (cfg_S2 cfg) @
     opt_attr WGDEVICE_A_S3 u16 (cfg_S3 cfg) @
     opt_attr WGDEVICE_A_S4 u16 (cfg_S4 cfg) @
     opt_attr WGDEVICE_A_H1 (nl_str nl) (cfg_H1 cfg) @
     opt_attr WGDEVICE_A_H2 (nl_str nl) (cfg_H2 cfg) @
     opt_attr WGDEVICE_A_H3 (nl_str nl) (cfg_H3 cfg) @
     opt_attr WGDEVICE_A_H4 (nl_str nl) (cfg_H4 cfg) @
     opt_attr WGDEVICE_A_I1 (nl_str nl) (cfg_I1 cfg) @
     opt_attr WGDEVICE_A_I2 (nl_str nl) (cfg_I2 cfg) @
     opt_attr WGDEVICE_A_I3 (nl_str nl) (cfg_I3 cfg) @
     opt_attr WGDEVICE_A_I4 (nl_str nl) (cfg_I4 cfg) @
     opt_attr WGDEVICE_A_I5 (nl_str nl) (cfg_I5 cfg))"

definition configAttrs :: "netlink \<Rightarrow> string \<Rightarrow> Config \<Rightarrow> go_error + bytes" where
  "configAttrs nl name cfg =
     res_bind (if cfg_Peers cfg = [] then Inr []
       else res_bind (array_attrs nl (encodePeer nl) 0 (cfg_Peers cfg)) (\<lambda>as.
              res_bind (nl_encode nl as) (\<lambda>d. Inr [(WGDEVICE_A_PEERS, True, d)])))
     (\<lambda>peers. nl_encode nl (device_attr_list nl name cfg @ peers))"

section \<open>Fields only AmneziaWG understands\<close>

definition hasAWGFields :: "Config \<Rightarrow> bool" where
  "hasAWGFields cfg \<longleftrightarrow>
     (\<exists>v \<in> set [cfg_Jc cfg, cfg_Jmin cfg, cfg_Jmax cfg, cfg_S1 cfg, cfg_S2 cfg, cfg_S3 cfg, cfg_S4 cfg].
        v \<noteq> None) \<or>
     (\<exists>v \<in> set [cfg_H1 cfg, cfg_H2 cfg, cfg_H3 cfg, cfg_H4 cfg,
                cfg_I1 cfg, cfg_I2 cfg, cfg_I3 cfg, cfg_I4 cfg, cfg_I5 cfg]. v \<noteq> None) \<or>
     (\<exists>p \<in> set (cfg_Peers cfg). pc_AdvancedSecurity p \<or> pc_DisableAdvancedSecurity p)"

text \<open>
  Attributes the plain WireGuard module does not know: those of the device above
  \<open>WGDEVICE_A_PEERS\<close>, and a peer's \<open>WGPEER_A_ADVANCED_SECURITY\<close> or its flag.
\<close>

definition awg_attr :: "attr \<Rightarrow> bool" where
  "awg_attr a \<longleftrightarrow> fst a > WGDEVICE_A_PEERS"

definition awg_peer :: "PeerConfig \<Rightarrow> bool" where
  "awg_peer p \<longleftrightarrow> peer_flags p AND WGPEER_F_HAS_ADVANCED_SECURITY \<noteq> 0"

lemma peer_flags_bits:
  "peer_flags p AND WGPEER_F_HAS_ADVANCED_SECURITY \<noteq> 0 \<longleftrightarrow>
     pc_AdvancedSecurity p \<or> pc_DisableAdvancedSecurity p"
  "peer_flags p AND WGPEER_F_REMOVE_ME \<noteq> 0 \<longleftrightarrow> pc_Remove p"
  "peer_flags p AND WGPEER_F_REPLACE_ALLOWEDIPS \<noteq> 0 \<longleftrightarrow> pc_ReplaceAllowedIPs p"
  "peer_flags p AND WGPEER_F_UPDATE_ONLY \<noteq> 0 \<longleftrightarrow> pc_UpdateOnly p"
  by (simp_all add: peer_flags_def flag_defs Let_def)

lemma opt_attr_awg:
  "(\<exists>a \<in> set (opt_attr t f v). awg_attr a) \<longleftrightarrow> v \<noteq> None \<and> t > WGDEVICE_A_PEERS"
  by (auto simp: opt_attr_def awg_attr_def split: option.splits)

lemma device_attrs_awg:
  "(\<exists>a \<in> set (device_attr_list nl name cfg). awg_attr a) \<longleftrightarrow>
     (\<exists>v \<in> set [cfg_Jc cfg, cfg_Jmin cfg, cfg_Jmax cfg, cfg_S1 cfg, cfg_S2 cfg, cfg_S3 cfg, cfg_S4 cfg].
        v \<noteq> None) \<or>
     (\<exists>v \<in> set [cfg_H1 cfg, cfg_H2 cfg, cfg_H3 cfg, cfg_H4 cfg,
                cfg_I1 cfg, cfg_I2 cfg, cfg_I3 cfg, cfg_I4 cfg, cfg_I5 cfg]. v \<noteq> None)"
  unfolding device_attr_list_def Let_def set_append bex_Un opt_attr_awg
  by (auto simp: awg_attr_def device_attrs)

lemma hasAWGFields_iff:
  "hasAWGFields cfg \<longleftrightarrow>
     (\<exists>a \<in> set (device_attr_list nl name cfg). awg_attr a) \<or> (\<exists>p \<in> set (cfg_Peers cfg). awg_peer p)"
  unfolding hasAWGFields_def device_attrs_awg awg_peer_def peer_flags_bits by blast

end
