(* ===== verification/GoIPText.thy ===== *)
theory GoIPText
  imports GoNet GoError
begin

text \<open>
  The texts of addresses in Go's \<open>net\<close> and \<open>net/netip\<close> packages: \<open>IP.String\<close>, \<open>IPNet.String\<close>,
  \<open>UDPAddr.String\<close>, \<open>netip.ParseAddr\<close>, \<open>net.ParseCIDR\<close>, and \<open>net.ResolveUDPAddr\<close> with
  \<open>net.SplitHostPort\<close>. What the system's resolver makes of a service or host name is a parameter. The lemmas show that
  the printed texts are read back as the address or network they were printed from.
\<close>

section \<open>IPv4\<close>

definition v4_String :: "bytes \<Rightarrow> string" where
  "v4_String ip = concat (map (\<lambda>b. itoa_nat (unat b) @ ''.'') (butlast ip)) @ itoa_nat (unat (last ip))"

text \<open>\<open>parseIPv4Fields\<close>: four fields of digits, none above 255 or with a leading zero.\<close>

definition parse_octet :: "string \<Rightarrow> byte option" where
  "parse_octet s =
     (if s = [] \<or> (1 < length s \<and> hd s = CHR ''0'') then None
      else case digits_val 0 s of
        None \<Rightarrow> None | Some n \<Rightarrow> if 255 < n then None else Some (of_nat n))"

definition parseIPv4 :: "string \<Rightarrow> bytes option" where
  "parseIPv4 s =
     (case splitOn CHR ''.'' s of
        [a, b, c, d] \<Rightarrow>
          (case (parse_octet a, parse_octet b, parse_octet c, parse_octet d) of
             (Some a, Some b, Some c, Some d) \<Rightarrow> Some [a, b, c, d] | _ \<Rightarrow> None)
      | _ \<Rightarrow> None)"

section \<open>IPv6\<close>

text \<open>The eight 16-bit groups of an address, and back.\<close>

fun groups_of :: "bytes \<Rightarrow> nat list" where
  "groups_of (h # l # bs) = (256 * unat h + unat l) # groups_of bs"
| "groups_of _ = []"

definition group_bytes :: "nat \<Rightarrow> bytes" where
  "group_bytes n = [of_nat (n div 256), of_nat (n mod 256)]"

fun hex_group :: "nat \<Rightarrow> string" where
  "hex_group n = (if n < 16 then [hex_char n] else hex_group (n div 16) @ [hex_char (n mod 16)])"

declare hex_group.simps [simp del]

fun join_groups :: "nat list \<Rightarrow> string" where
  "join_groups [] = []"
| "join_groups [g] = hex_group g"
| "join_groups (g # gs) = hex_group g @ CHR '':'' # join_groups gs"

text \<open>The first longest run of at least two zero groups (\<open>appendTo6\<close>).\<close>

definition zero_run :: "nat list \<Rightarrow> nat \<Rightarrow> nat" where
  "zero_run gs i = length (takeWhile (\<lambda>g. g = 0) (drop i gs))"

fun longest_run :: "nat list \<Rightarrow> nat list \<Rightarrow> (nat \<times> nat) option \<Rightarrow> (nat \<times> nat) option" where
  "longest_run gs [] best = best"
| "longest_run gs (i # is) best =
     (let l = zero_run gs i; sofar = (case best of None \<Rightarrow> 0 | Some (a, b) \<Rightarrow> b - a)
      in longest_run gs is (if 2 \<le> l \<and> sofar < l then Some (i, i + l) else best))"

definition v6_String :: "bytes \<Rightarrow> string" where
  "v6_String ip =
     (let gs = groups_of ip
      in case longest_run gs [0..<8] None of
           None \<Rightarrow> join_groups gs
         | Some (i, j) \<Rightarrow> join_groups (take i gs) @ ''::'' @ join_groups (drop j gs))"

fun hex_num :: "nat \<Rightarrow> string \<Rightarrow> nat" where
  "hex_num acc [] = acc"
| "hex_num acc (c # cs) = hex_num (16 * acc + (case hex_val c of None \<Rightarrow> 0 | Some d \<Rightarrow> d)) cs"

text \<open>
  The loop of \<open>parseIPv6\<close>: the bytes so far, the position of the ellipsis, the rest of the text.
\<close>

function v6_loop :: "bytes \<Rightarrow> nat option \<Rightarrow> string \<Rightarrow> (bytes \<times> nat option \<times> string) option" where
  "v6_loop acc ell s =
     (if 16 \<le> length acc then Some (acc, ell, s)
      else let d = takeWhile is_hex_char s; rest = dropWhile is_hex_char s;
               acc' = acc @ group_bytes (hex_num 0 d)
      in if d = [] \<or> 4 < length d then None
      else if rest \<noteq> [] \<and> hd rest = CHR ''.'' then
        (if (ell = None \<and> length acc \<noteq> 12) \<or> 16 < length acc + 4 then None
         else case parseIPv4 s of None \<Rightarrow> None | Some v \<Rightarrow> Some (acc @ v, ell, []))
      else if rest = [] then Some (acc', ell, [])
      else if hd rest \<noteq> CHR '':'' \<or> tl rest = [] then None
      else if hd (tl rest) = CHR '':'' then
        (if ell \<noteq> None then None
         else if tl (tl rest) = [] then Some (acc', Some (length acc'), [])
         else v6_loop acc' (Some (length acc')) (tl (tl rest)))
      else v6_loop acc' ell (tl rest))"
  by pat_completeness auto
termination
  by (relation "measure (\<lambda>(acc, ell, s). 16 - length acc)") (auto simp: group_bytes_def)

declare v6_loop.simps [simp del]

definition v6_finish :: "(bytes \<times> nat option \<times> string) \<Rightarrow> bytes option" where
  "v6_finish r = (case r of (acc, ell, s) \<Rightarrow>
     if s \<noteq> [] then None
     else if length acc < 16
       then (case ell of None \<Rightarrow> None
         | Some k \<Rightarrow> Some (take k acc @ replicate (16 - length acc) 0 @ drop k acc))
     else if ell \<noteq> None then None else Some acc)"

definition parseIPv6 :: "string \<Rightarrow> (bytes \<times> string) option" where
  "parseIPv6 text' =
     (case strCut CHR ''%'' text' of (s, zone, hasZone) \<Rightarrow>
        if hasZone \<and> zone = [] then None
        else map_option (\<lambda>ip. (ip, zone))
          (if prefix ''::'' s then
             (if drop 2 s = [] then Some (replicate 16 0)
              else Option.bind (v6_loop [] (Some 0) (drop 2 s)) v6_finish)
           else Option.bind (v6_loop [] None s) v6_finish))"

section \<open>Addresses and networks\<close>

definition IP_String :: "bytes \<Rightarrow> string" where
  "IP_String ip =
     (if ip = [] then ''<nil>''
      else if length ip \<noteq> 4 \<and> length ip \<noteq> 16 then CHR ''?'' # hexEncode ip
      else case To4 ip of Some v \<Rightarrow> v4_String v | None \<Rightarrow> v6_String ip)"

text \<open>\<open>netip.ParseAddr\<close>: the first dot, colon or percent sign decides. The result has 4 or 16 bytes.\<close>

definition netip_ParseAddr :: "string \<Rightarrow> (bytes \<times> string) option" where
  "netip_ParseAddr s =
     (case find (\<lambda>c. c = CHR ''.'' \<or> c = CHR '':'' \<or> c = CHR ''%'') s of
        None \<Rightarrow> None
      | Some c \<Rightarrow>
          if c = CHR ''.'' then map_option (\<lambda>ip. (ip, [])) (parseIPv4 s)
          else if c = CHR '':'' then parseIPv6 s else None)"

definition networkNumberAndMask :: "ipnet \<Rightarrow> (bytes \<times> bytes) option" where
  "networkNumberAndMask n =
     (let ip = (case To4 (in_IP n) of Some v \<Rightarrow> v | None \<Rightarrow> in_IP n); m = in_Mask n
      in if length ip \<noteq> 4 \<and> length ip \<noteq> 16 then None
      else if length m = 4 then (if length ip \<noteq> 4 then None else Some (ip, m))
      else if length m = 16 then Some (ip, if length ip = 4 then drop 12 m else m)
      else None)"

definition IPNet_String :: "ipnet \<Rightarrow> string" where
  "IPNet_String n =
     (case networkNumberAndMask n of
        None \<Rightarrow> ''<nil>''
      | Some (ip, m) \<Rightarrow>
          (case simpleMaskLength m of
             None \<Rightarrow> IP_String ip @ ''/'' @ hexEncode m
           | Some l \<Rightarrow> IP_String ip @ ''/'' @ itoa_nat l))"

definition IP_Mask :: "bytes \<Rightarrow> bytes \<Rightarrow> bytes" where
  "IP_Mask ip m =
     (let m = (if length m = 16 \<and> length ip = 4 \<and> (\<forall>b \<in> set (take 12 m). b = 0xFF) then drop 12 m else m);
          ip = (if length m = 4 \<and> length ip = 16 \<and> take 12 ip = v4InV6Prefix then drop 12 ip else ip)
      in if length ip \<noteq> length m then [] else map2 (AND) ip m)"

definition ParseCIDR :: "string \<Rightarrow> ipnet option" where
  "ParseCIDR s =
     (case strCut CHR ''/'' s of (addr, ones, found) \<Rightarrow>
        if \<not> found then None
        else case netip_ParseAddr addr of
          None \<Rightarrow> None
        | Some (ip, zone) \<Rightarrow>
            if zone \<noteq> [] \<or> ones = [] then None
            else case digits_val 0 ones of
              None \<Rightarrow> None
            | Some n \<Rightarrow>
                if 8 * length ip < n then None
                else let m = CIDRMask (int n) (8 * int (length ip))
                     in Some \<lparr> in_IP = IP_Mask (if length ip = 4 then v4InV6Prefix @ ip else ip) m,
                               in_Mask = m \<rparr>)"

section \<open>Endpoints\<close>

definition JoinHostPort :: "string \<Rightarrow> string \<Rightarrow> string" where
  "JoinHostPort host port =
     (if CHR '':'' \<in> set host then ''['' @ host @ '']:'' @ port else host @ '':'' @ port)"

definition UDPAddr_String :: "udpaddr \<Rightarrow> string" where
  "UDPAddr_String a =
     (let ip = (if ua_IP a = [] then [] else IP_String (ua_IP a))
      in if ua_Zone a \<noteq> [] then JoinHostPort (ip @ ''%'' @ ua_Zone a) (itoa (ua_Port a))
         else JoinHostPort ip (itoa (ua_Port a)))"

text \<open>What is before and after the last occurrence of a character.\<close>

definition cut_last :: "char \<Rightarrow> string \<Rightarrow> string \<times> string" where
  "cut_last c s = (rev (tl (dropWhile (\<lambda>x. x \<noteq> c) (rev s))), rev (takeWhile (\<lambda>x. x \<noteq> c) (rev s)))"

text \<open>
  \<open>net.SplitHostPort\<close>: the port is after the last colon. A host in brackets ends at the first closing
  bracket, which that colon must follow; no other bracket may stand anywhere.
\<close>

definition SplitHostPort :: "string \<Rightarrow> string + string \<times> string" where
  "SplitHostPort s =
     (if CHR '':'' \<notin> set s then Inl ''missing port in address''
      else case cut_last CHR '':'' s of (before, port) \<Rightarrow>
        if hd s = CHR ''['' then
          (case strCut CHR '']'' s of (h, rest, found) \<Rightarrow>
             if \<not> found then Inl ''missing ']' in address''
             else if rest = [] then Inl ''missing port in address''
             else if before \<noteq> h @ '']'' then
               Inl (if hd rest = CHR '':'' then ''too many colons in address'' else ''missing port in address'')
             else if CHR ''['' \<in> set (tl s) then Inl ''unexpected '[' in address''
             else if CHR '']'' \<in> set rest then Inl ''unexpected ']' in address''
             else Inr (tl h, port))
        else if CHR '':'' \<in> set before then Inl ''too many colons in address''
        else if CHR ''['' \<in> set s then Inl ''unexpected '[' in address''
        else if CHR '']'' \<in> set s then Inl ''unexpected ']' in address''
        else Inr (before, port))"

definition AddrError :: "string \<Rightarrow> string \<Rightarrow> go_error" where
  "AddrError why addr = ErrText ((if addr = [] then why else ''address '' @ addr @ '': '' @ why))"

text \<open>
  \<open>parsePort\<close> of \<open>net\<close>, where the product may wrap around in its 32 bits: \<^const>\<open>None\<close> for a service name,
  which is to be looked up.
\<close>

fun port_loop :: "32 word \<Rightarrow> string \<Rightarrow> 32 word option" where
  "port_loop n [] = Some n"
| "port_loop n (c # cs) =
     (case digit_val c of
        None \<Rightarrow> None
      | Some d \<Rightarrow>
          if 2 ^ 30 \<le> n then Some 0xFFFFFFFF
          else let n = 10 * n; nn = n + of_nat d
               in if nn < n then Some 0xFFFFFFFF else port_loop nn cs)"

definition parsePort :: "string \<Rightarrow> int option" where
  "parsePort service =
     (if service = [] then Some 0
      else let neg = (hd service = CHR ''-'')
           in case port_loop 0 (if neg \<or> hd service = CHR ''+'' then tl service else service) of
                None \<Rightarrow> None
              | Some n \<Rightarrow>
                  Some (if neg then - uint (if 2 ^ 30 < n then 2 ^ 30 else n)
                        else uint (if 2 ^ 30 \<le> n then 2 ^ 30 - 1 else n)))"

text \<open>
  \<open>net.ResolveUDPAddr\<close>. \<open>resolver\<close> is what the system makes of a text whose service name or host is to be
  looked up. The address of a literal has 16 bytes in the result.
\<close>

definition ResolveUDPAddr :: "(string \<Rightarrow> go_error + udpaddr) \<Rightarrow> string \<Rightarrow> go_error + udpaddr" where
  "ResolveUDPAddr resolver s =
     (if s = [] then Inr \<lparr> ua_IP = [], ua_Port = 0, ua_Zone = [] \<rparr>
      else case SplitHostPort s of
        Inl why \<Rightarrow> Inl (AddrError why s)
      | Inr (host, port) \<Rightarrow>
          (case parsePort port of
             None \<Rightarrow> resolver s
           | Some p \<Rightarrow>
               if p < 0 \<or> 65535 < p then Inl (AddrError ''invalid port'' port)
               else if host = [] then Inr \<lparr> ua_IP = [], ua_Port = p, ua_Zone = [] \<rparr>
               else case netip_ParseAddr host of
                 None \<Rightarrow> resolver s
               | Some (ip, zone) \<Rightarrow>
                   Inr \<lparr> ua_IP = (if length ip = 4 then v4InV6Prefix @ ip else ip), ua_Port = p, ua_Zone = zone \<rparr>))"

section \<open>IPv4 texts are read back\<close>

lemma itoa_nat_hd: "10 \<le> n \<Longrightarrow> hd (itoa_nat n) \<noteq> CHR ''0''"
proof (induction n rule: itoa_nat.induct)
  case (1 n)
  then have eq: "itoa_nat n = itoa_nat (n div 10) @ [digit_char (n mod 10)]"
    by (subst itoa_nat.simps) simp
  show ?case
  proof (cases "n div 10 < 10")
    case True
    have "digit_char k \<noteq> CHR ''0''" if "0 < k" "k < 10" for k
      using that digit_val_char [of k] by (auto simp: digit_val_def)
    with True "1.prems" show ?thesis by (simp add: eq itoa_nat_digit)
  next
    case False
    with 1 show ?thesis by (simp add: eq)
  qed
qed

lemma parse_octet_itoa: "parse_octet (itoa_nat (unat b)) = Some b"
proof -
  have "\<not> (1 < length (itoa_nat n) \<and> hd (itoa_nat n) = CHR ''0'')" for n
    using itoa_nat_hd [of n] by (cases "n < 10") (auto simp: itoa_nat_digit)
  moreover have "\<not> 255 < unat b" using unat_byte [of b] by simp
  ultimately show ?thesis by (simp add: parse_octet_def digits_val_itoa_nat)
qed

lemma itoa_nat_no_dot: "CHR ''.'' \<notin> set (itoa_nat n)"
  using itoa_nat_digits uapi_chars by blast

lemma length_4: "length (ip :: 'a list) = 4 \<Longrightarrow> \<exists>a b c d. ip = [a, b, c, d]"
  by (auto simp: numeral_eq_Suc length_Suc_conv)

lemma parseIPv4_String: "length ip = 4 \<Longrightarrow> parseIPv4 (v4_String ip) = Some ip"
  by (drule length_4)
    (auto simp: parseIPv4_def v4_String_def splitOn_append itoa_nat_no_dot parse_octet_itoa)

lemma v4_String_chars: "c \<in> set (v4_String ip) \<Longrightarrow> is_digit c \<or> c = CHR ''.''"
  by (auto simp: v4_String_def dest: itoa_nat_digits split: if_splits)

lemma v4_String_dot: "length ip = 4 \<Longrightarrow> CHR ''.'' \<in> set (v4_String ip)"
  by (drule length_4) (auto simp: v4_String_def)

section \<open>IPv6 texts are read back\<close>

lemma hex_num_append: "hex_num acc (xs @ ys) = hex_num (hex_num acc xs) ys"
  by (induction xs arbitrary: acc) auto

lemma hex_num_group: "hex_num 0 (hex_group n) = n"
proof (induction n rule: hex_group.induct)
  case (1 n)
  show ?case
  proof (cases "n < 16")
    case True
    then show ?thesis by (subst hex_group.simps) (simp add: hex_val_char)
  next
    case False
    with 1 show ?thesis by (subst hex_group.simps) (simp add: hex_num_append hex_val_char)
  qed
qed

lemma is_hex_char_hex: "d < 16 \<Longrightarrow> is_hex_char (hex_char d)"
  by (simp add: is_hex_char_def hex_val_char)

lemma hex_group_chars: "c \<in> set (hex_group n) \<Longrightarrow> is_hex_char c"
proof (induction n rule: hex_group.induct)
  case (1 n)
  then show ?case
    by (subst (asm) hex_group.simps) (auto simp: is_hex_char_hex split: if_splits)
qed

lemma hex_group_nonempty [simp]: "hex_group n \<noteq> []"
  by (subst hex_group.simps) simp

lemma hex_group_length: "n < 16 ^ Suc k \<Longrightarrow> length (hex_group n) \<le> Suc k"
proof (induction k arbitrary: n)
  case 0
  then show ?case by (subst hex_group.simps) simp
next
  case (Suc k)
  then have "n div 16 < 16 ^ Suc k" by (simp add: div_less_iff_less_mult mult.commute)
  from Suc.IH [OF this] show ?case by (subst hex_group.simps) simp
qed

lemma hex_group_hd: "is_hex_char (hd (hex_group n))"
  by (rule hex_group_chars [of _ n]) simp

lemma hex_group_span:
  assumes "rest = [] \<or> \<not> is_hex_char (hd rest)"
  shows "takeWhile is_hex_char (hex_group n @ rest) = hex_group n"
    and "dropWhile is_hex_char (hex_group n @ rest) = rest"
proof -
  have all: "\<forall>c \<in> set (hex_group n). is_hex_char c" by (simp add: hex_group_chars)
  from assms have "takeWhile is_hex_char rest = []" "dropWhile is_hex_char rest = rest"
    by (cases rest; simp)+
  with all show "takeWhile is_hex_char (hex_group n @ rest) = hex_group n"
    and "dropWhile is_hex_char (hex_group n @ rest) = rest"
    by (simp_all add: takeWhile_append2 dropWhile_append2)
qed

lemma not_hex_colon [simp]: "\<not> is_hex_char CHR '':''" "\<not> is_hex_char CHR ''.''" "\<not> is_hex_char CHR ''%''"
  by (simp_all add: is_hex_char_def hex_val_def)

text \<open>One round of the loop, by what follows the group.\<close>

lemma v6_loop_group:
  assumes "g < 65536" and "length acc < 16"
  shows "v6_loop acc ell (hex_group g) = Some (acc @ group_bytes g, ell, [])"
    and "s \<noteq> [] \<Longrightarrow> hd s \<noteq> CHR '':'' \<Longrightarrow>
      v6_loop acc ell (hex_group g @ CHR '':'' # s) = v6_loop (acc @ group_bytes g) ell s"
    and "v6_loop acc None (hex_group g @ ''::'') =
      Some (acc @ group_bytes g, Some (length (acc @ group_bytes g)), [])"
    and "s \<noteq> [] \<Longrightarrow> v6_loop acc None (hex_group g @ ''::'' @ s) =
      v6_loop (acc @ group_bytes g) (Some (length (acc @ group_bytes g))) s"
proof -
  have len: "\<not> 4 < length (hex_group g)" and acc: "\<not> 16 \<le> length acc"
    using hex_group_length [of g 3] assms by simp_all
  note span = hex_group_span [where n = g]
  have whole: "takeWhile is_hex_char (hex_group g) = hex_group g"
    "dropWhile is_hex_char (hex_group g) = []"
    by (simp_all add: hex_group_chars)
  show "v6_loop acc ell (hex_group g) = Some (acc @ group_bytes g, ell, [])"
    using len acc by (subst v6_loop.simps) (simp add: whole hex_num_group Let_def)
  show "v6_loop acc ell (hex_group g @ CHR '':'' # s) = v6_loop (acc @ group_bytes g) ell s"
    if "s \<noteq> []" "hd s \<noteq> CHR '':''"
    using that len acc span [of "CHR '':'' # s"]
    by (subst v6_loop.simps) (simp add: hex_num_group Let_def)
  show "v6_loop acc None (hex_group g @ ''::'') =
      Some (acc @ group_bytes g, Some (length (acc @ group_bytes g)), [])"
    using len acc span [of "''::''"] by (subst v6_loop.simps) (simp add: hex_num_group Let_def)
  show "v6_loop acc None (hex_group g @ ''::'' @ s) =
      v6_loop (acc @ group_bytes g) (Some (length (acc @ group_bytes g))) s" if "s \<noteq> []"
    using that len acc span [of "CHR '':'' # CHR '':'' # s"]
    by (subst v6_loop.simps) (simp add: hex_num_group Let_def)
qed

text \<open>A joined list of groups, alone or before an ellipsis.\<close>

lemma join_groups_Cons: "gs \<noteq> [] \<Longrightarrow> join_groups (g # gs) = hex_group g @ CHR '':'' # join_groups gs"
  by (cases gs) auto

lemma join_groups_nonempty [simp]: "join_groups gs = [] \<longleftrightarrow> gs = []"
  by (cases gs rule: join_groups.cases) auto

lemma join_groups_hd: "gs \<noteq> [] \<Longrightarrow> is_hex_char (hd (join_groups gs))"
  by (cases gs rule: join_groups.cases) (auto simp: hex_group_hd)

lemma join_groups_hd_colon: "gs \<noteq> [] \<Longrightarrow> hd (join_groups gs) \<noteq> CHR '':''"
  using join_groups_hd not_hex_colon(1) by metis

lemma join_groups_chars: "c \<in> set (join_groups gs) \<Longrightarrow> is_hex_char c \<or> c = CHR '':''"
  by (induction gs rule: join_groups.induct) (auto dest: hex_group_chars)

abbreviation bytes_of_groups :: "nat list \<Rightarrow> bytes" where
  "bytes_of_groups gs \<equiv> concat (map group_bytes gs)"

lemma length_group_bytes [simp]: "length (group_bytes g) = 2"
  by (simp add: group_bytes_def)

lemma length_bytes_of_groups [simp]: "length (bytes_of_groups gs) = 2 * length gs"
  by (induction gs) auto

lemma v6_loop_join:
  assumes "gs \<noteq> []" and "\<forall>g \<in> set gs. g < 65536" and "length acc + 2 * length gs \<le> 16"
  shows "v6_loop acc ell (join_groups gs) = Some (acc @ bytes_of_groups gs, ell, [])"
  using assms
proof (induction gs arbitrary: acc)
  case (Cons g gs)
  show ?case
  proof (cases "gs = []")
    case True
    with Cons.prems v6_loop_group(1) [of g acc ell] show ?thesis by simp
  next
    case False
    with Cons.prems v6_loop_group(2) [of g acc "join_groups gs" ell] join_groups_hd_colon
    have "v6_loop acc ell (join_groups (g # gs)) = v6_loop (acc @ group_bytes g) ell (join_groups gs)"
      by (simp add: join_groups_Cons)
    with Cons False show ?thesis by simp
  qed
qed simp

lemma v6_loop_ellipsis:
  assumes "gs \<noteq> []" and "\<forall>g \<in> set gs. g < 65536" and "length acc + 2 * length gs < 16"
  shows "v6_loop acc None (join_groups gs @ ''::'' @ s) =
    (let acc' = acc @ bytes_of_groups gs
     in if s = [] then Some (acc', Some (length acc'), []) else v6_loop acc' (Some (length acc')) s)"
  using assms
proof (induction gs arbitrary: acc)
  case (Cons g gs)
  show ?case
  proof (cases "gs = []")
    case True
    with Cons.prems v6_loop_group(3,4) [of g acc] show ?thesis by (cases "s = []") (simp_all add: Let_def)
  next
    case False
    with Cons.prems v6_loop_group(2) [of g acc "join_groups gs @ ''::'' @ s" None] join_groups_hd_colon
    have "v6_loop acc None (join_groups (g # gs) @ ''::'' @ s) =
        v6_loop (acc @ group_bytes g) None (join_groups gs @ ''::'' @ s)"
      by (simp add: join_groups_Cons)
    with Cons False show ?thesis by (simp add: Let_def)
  qed
qed simp

lemma groups_of_bytes: "even (length ip) \<Longrightarrow>
    bytes_of_groups (groups_of ip) = ip \<and> 2 * length (groups_of ip) = length ip \<and>
    (\<forall>g \<in> set (groups_of ip). g < 65536)"
proof (induction ip rule: groups_of.induct)
  case (1 h l bs)
  have "unat h < 256" "unat l < 256" by (rule unat_byte)+
  with 1 show ?case by (simp add: group_bytes_def)
qed auto

text \<open>A run of zero groups found by the search is one.\<close>

definition run_ok :: "nat list \<Rightarrow> nat \<times> nat \<Rightarrow> bool" where
  "run_ok gs r \<longleftrightarrow> (case r of (i, j) \<Rightarrow>
     i < j \<and> j \<le> length gs \<and> take (j - i) (drop i gs) = replicate (j - i) 0)"

lemma run_ok_split: "run_ok gs (i, j) \<Longrightarrow> gs = take i gs @ replicate (j - i) 0 @ drop j gs"
  using append_take_drop_id [of i gs] append_take_drop_id [of "j - i" "drop i gs"]
  by (simp add: run_ok_def)

lemma zero_run_ok:
  assumes "0 < zero_run gs i"
  shows "run_ok gs (i, i + zero_run gs i)"
proof -
  let ?l = "zero_run gs i"
  have le: "?l \<le> length (drop i gs)"
    unfolding zero_run_def by (rule length_takeWhile_le)
  have "takeWhile (\<lambda>g. g = 0) (drop i gs) = replicate ?l 0"
    unfolding zero_run_def by (rule replicate_eqI) (auto dest: set_takeWhileD)
  moreover have "takeWhile (\<lambda>g. g = 0) (drop i gs) = take ?l (drop i gs)"
    unfolding zero_run_def by (rule takeWhile_eq_take)
  ultimately have "take ?l (drop i gs) = replicate ?l 0" by simp
  with le assms show ?thesis by (simp add: run_ok_def)
qed

lemma longest_run_ok:
  "longest_run gs is best = Some r \<Longrightarrow> pred_option (run_ok gs) best \<Longrightarrow> run_ok gs r"
proof (induction gs "is" best rule: longest_run.induct)
  case (2 gs i "is" best)
  then show ?case
    by (auto simp: Let_def zero_run_ok split: if_splits)
qed auto

lemma v6_finish_ellipsis:
  "length (a @ b) < 16 \<Longrightarrow> v6_finish (a @ b, Some (length a), []) =
     Some (a @ replicate (16 - length (a @ b)) 0 @ b)"
  by (simp add: v6_finish_def)

lemma bytes_of_zero_groups: "bytes_of_groups (replicate n 0) = replicate (2 * n) 0"
  by (induction n) (auto simp: group_bytes_def)

lemma v6_String_chars: "c \<in> set (v6_String ip) \<Longrightarrow> is_hex_char c \<or> c = CHR '':''"
  by (auto simp: v6_String_def Let_def dest: join_groups_chars split: option.splits)

text \<open>\<open>parseIPv6\<close> without a zone, on the text before the percent sign.\<close>

definition v6_body :: "string \<Rightarrow> bytes option" where
  "v6_body s =
     (if prefix ''::'' s then
        (if drop 2 s = [] then Some (replicate 16 0)
         else Option.bind (v6_loop [] (Some 0) (drop 2 s)) v6_finish)
      else Option.bind (v6_loop [] None s) v6_finish)"

lemma parseIPv6_body:
  "parseIPv6 s = (case strCut CHR ''%'' s of (b, zone, f) \<Rightarrow>
     if f \<and> zone = [] then None else map_option (\<lambda>ip. (ip, zone)) (v6_body b))"
  by (cases "strCut CHR ''%'' s") (simp add: parseIPv6_def v6_body_def)

lemma not_prefix_colons: "s \<noteq> [] \<Longrightarrow> hd s \<noteq> CHR '':'' \<Longrightarrow> \<not> prefix ''::'' s"
  by (cases s) auto

lemma v6_body_join:
  assumes "length gs = 8" and "\<forall>g \<in> set gs. g < 65536"
  shows "v6_body (join_groups gs) = Some (bytes_of_groups gs)"
proof -
  from assms(1) have ne: "gs \<noteq> []" by auto
  then have "\<not> prefix ''::'' (join_groups gs)"
    by (simp add: not_prefix_colons join_groups_hd_colon)
  with assms ne v6_loop_join [of gs "[]" None] show ?thesis
    by (simp add: v6_body_def v6_finish_def)
qed

lemma v6_body_ellipsis:
  assumes "length gs + length hs < 8" and "\<forall>g \<in> set gs \<union> set hs. g < 65536"
  shows "v6_body (join_groups gs @ ''::'' @ join_groups hs) =
    Some (bytes_of_groups gs @ replicate (16 - 2 * length gs - 2 * length hs) 0 @ bytes_of_groups hs)"
proof (cases "gs = []")
  case True
  with assms v6_loop_join [of hs "[]" "Some 0"] v6_finish_ellipsis [of "[]" "bytes_of_groups hs"]
  show ?thesis by (cases "hs = []") (simp_all add: v6_body_def)
next
  case False
  then have np: "\<not> prefix ''::'' (join_groups gs @ ''::'' @ join_groups hs)"
    using join_groups_hd_colon [OF False] by (simp add: not_prefix_colons)
  have "v6_loop [] None (join_groups gs @ ''::'' @ join_groups hs) =
      Some (bytes_of_groups gs @ bytes_of_groups hs, Some (length (bytes_of_groups gs)), [])"
    using v6_loop_ellipsis [OF False, of "[]" "join_groups hs"] assms
      v6_loop_join [of hs "bytes_of_groups gs" "Some (2 * length gs)"]
    by (cases "hs = []") (simp_all add: Let_def)
  with np v6_finish_ellipsis [of "bytes_of_groups gs" "bytes_of_groups hs"] assms
  show ?thesis by (simp add: v6_body_def)
qed

lemma v6_body_String:
  assumes "length ip = 16"
  shows "v6_body (v6_String ip) = Some ip"
proof -
  let ?gs = "groups_of ip"
  have gs: "bytes_of_groups ?gs = ip" "length ?gs = 8" "\<forall>g \<in> set ?gs. g < 65536"
    using groups_of_bytes [of ip] assms by auto
  show ?thesis
  proof (cases "longest_run ?gs [0..<8] None")
    case None
    with gs v6_body_join [of ?gs] show ?thesis by (simp add: v6_String_def)
  next
    case (Some r)
    obtain i j where r: "r = (i, j)" by force
    from longest_run_ok [OF Some] have ok: "run_ok ?gs (i, j)" by (simp add: r)
    then have b: "i < j" "j \<le> 8" using gs by (simp_all add: run_ok_def)
    have "\<forall>g \<in> set (take i ?gs) \<union> set (drop j ?gs). g < 65536"
      using gs(3) by (auto dest: in_set_takeD in_set_dropD)
    with b gs(2) have "v6_body (join_groups (take i ?gs) @ ''::'' @ join_groups (drop j ?gs)) =
        Some (bytes_of_groups (take i ?gs) @ replicate (2 * (j - i)) 0 @ bytes_of_groups (drop j ?gs))"
      by (subst v6_body_ellipsis) (auto simp: algebra_simps)
    also have "\<dots> = Some (bytes_of_groups (take i ?gs @ replicate (j - i) 0 @ drop j ?gs))"
      by (simp only: map_append concat_append bytes_of_zero_groups)
    also have "\<dots> = Some ip"
      using run_ok_split [OF ok] gs(1) by simp
    finally show ?thesis by (simp add: v6_String_def Some r Let_def)
  qed
qed

lemma v6_String_colon:
  assumes "length ip = 16"
  shows "CHR '':'' \<in> set (v6_String ip)"
proof -
  have "length (groups_of ip) = 8" using groups_of_bytes [of ip] assms by auto
  then have "CHR '':'' \<in> set (join_groups (groups_of ip))"
    by (auto simp: numeral_eq_Suc length_Suc_conv)
  then show ?thesis by (auto simp: v6_String_def Let_def split: option.split)
qed

section \<open>Addresses, networks and endpoints are read back\<close>

lemma find_first:
  assumes "c \<in> set s" and "P c" and "\<forall>x \<in> set s. P x \<longrightarrow> x = c"
  shows "find P (s @ t) = Some c"
  using assms
proof (induction s)
  case (Cons a s)
  show ?case
  proof (cases "P a")
    case True
    with Cons.prems(3) have "a = c" by (meson list.set_intros(1))
    with True show ?thesis by simp
  next
    case False
    with Cons.prems(1,2) have "c \<in> set s" by (metis set_ConsD)
    with False Cons.IH [OF _ Cons.prems(2)] Cons.prems(3) show ?thesis by simp
  qed
qed simp

lemma not_digit_hex: "is_digit c \<Longrightarrow> is_hex_char c"
proof -
  assume "is_digit c"
  then obtain d where d: "digit_val c = Some d" by (auto simp: is_digit_def)
  then have "d < 10" by (rule digit_val_bound)
  then have "c = hex_char d" using digit_val_inv [OF d] by (simp add: digit_char_def hex_char_def)
  with \<open>d < 10\<close> show ?thesis by (simp add: is_hex_char_hex)
qed

definition addr_ok :: "bytes \<Rightarrow> bool" where
  "addr_ok ip \<longleftrightarrow> length ip = 4 \<or> (length ip = 16 \<and> To4 ip = None)"

lemma To4_16_None: "length ip = 16 \<Longrightarrow> To4 ip = None \<longleftrightarrow> take 12 ip \<noteq> v4InV6Prefix"
  by (simp add: To4_def)

lemma ParseAddr_v4: "length ip = 4 \<Longrightarrow> netip_ParseAddr (v4_String ip) = Some (ip, [])"
proof -
  assume len: "length ip = 4"
  have "find (\<lambda>c. c = CHR ''.'' \<or> c = CHR '':'' \<or> c = CHR ''%'') (v4_String ip @ []) = Some CHR ''.''"
    by (rule find_first) (use len v4_String_dot v4_String_chars not_digit_hex not_hex_colon in blast)+
  then show ?thesis by (simp add: netip_ParseAddr_def parseIPv4_String len)
qed

lemma ParseAddr_v6:
  assumes "length ip = 16"
  shows "netip_ParseAddr (v6_String ip) = Some (ip, [])"
    and "zone \<noteq> [] \<Longrightarrow> netip_ParseAddr (v6_String ip @ CHR ''%'' # zone) = Some (ip, zone)"
proof -
  have first: "find (\<lambda>c. c = CHR ''.'' \<or> c = CHR '':'' \<or> c = CHR ''%'') (v6_String ip @ t) = Some CHR '':''" for t
    by (rule find_first) (use assms v6_String_colon v6_String_chars not_hex_colon in blast)+
  have no: "CHR ''%'' \<notin> set (v6_String ip)"
    using v6_String_chars not_hex_colon by blast
  show "netip_ParseAddr (v6_String ip) = Some (ip, [])"
    using first [of "[]"] no by (simp add: netip_ParseAddr_def parseIPv6_body v6_body_String assms)
  show "netip_ParseAddr (v6_String ip @ CHR ''%'' # zone) = Some (ip, zone)" if "zone \<noteq> []"
    using first that no by (simp add: netip_ParseAddr_def parseIPv6_body v6_body_String assms)
qed

lemma ParseAddr_IP_String: "addr_ok ip \<Longrightarrow> netip_ParseAddr (IP_String ip) = Some (ip, [])"
  by (auto simp: addr_ok_def IP_String_def ParseAddr_v4 ParseAddr_v6)

lemma IP_String_chars:
  "addr_ok ip \<Longrightarrow> c \<in> set (IP_String ip) \<Longrightarrow> is_hex_char c \<or> c = CHR ''.'' \<or> c = CHR '':''"
  using v4_String_chars [of c ip] v6_String_chars [of c ip] not_digit_hex [of c]
  by (auto simp: addr_ok_def IP_String_def split: if_splits)

text \<open>A network as \<open>ParseCIDR\<close> builds it: a prefix mask of the address's width, no host bits.\<close>

definition ipnet_ok :: "ipnet \<Rightarrow> bool" where
  "ipnet_ok n \<longleftrightarrow> addr_ok (in_IP n) \<and>
     (case simpleMaskLength (in_Mask n) of
        None \<Rightarrow> False
      | Some l \<Rightarrow> l \<le> 8 * length (in_IP n) \<and>
          in_Mask n = CIDRMask (int l) (8 * int (length (in_IP n)))) \<and>
     map2 (AND) (in_IP n) (in_Mask n) = in_IP n"

lemma length_CIDRMask:
  "l \<le> 8 * k \<Longrightarrow> k = 4 \<or> k = 16 \<Longrightarrow> length (CIDRMask (int l) (8 * int k)) = k"
  by (auto simp: CIDRMask_def)

lemma ipnet_okE:
  assumes "ipnet_ok n"
  obtains l where "simpleMaskLength (in_Mask n) = Some l" and "l \<le> 8 * length (in_IP n)"
    and "in_Mask n = CIDRMask (int l) (8 * int (length (in_IP n)))"
    and "length (in_Mask n) = length (in_IP n)" and "addr_ok (in_IP n)"
    and "map2 (AND) (in_IP n) (in_Mask n) = in_IP n"
proof (cases "simpleMaskLength (in_Mask n)")
  case None
  with assms show ?thesis by (simp add: ipnet_ok_def)
next
  case (Some l)
  from assms have l: "l \<le> 8 * length (in_IP n)" "addr_ok (in_IP n)"
      "in_Mask n = CIDRMask (int l) (8 * int (length (in_IP n)))"
      "map2 (AND) (in_IP n) (in_Mask n) = in_IP n"
    unfolding ipnet_ok_def Some option.case by blast+
  then have "length (in_Mask n) = length (in_IP n)"
    using length_CIDRMask [of l "length (in_IP n)"] by (auto simp: addr_ok_def)
  with Some l that show ?thesis by blast
qed

lemma slash_not_in_addr: "addr_ok ip \<Longrightarrow> CHR ''/'' \<notin> set (IP_String ip)"
proof
  assume "addr_ok ip" "CHR ''/'' \<in> set (IP_String ip)"
  then have "is_hex_char CHR ''/'' \<or> CHR ''/'' = CHR ''.'' \<or> CHR ''/'' = CHR '':''"
    by (rule IP_String_chars)
  then show False by (simp add: is_hex_char_def hex_val_def)
qed

lemma IPNet_String_ok:
  assumes "ipnet_ok n" and "simpleMaskLength (in_Mask n) = Some l"
  shows "IPNet_String n = IP_String (in_IP n) @ CHR ''/'' # itoa_nat l"
  using assms(1)
proof (rule ipnet_okE)
  assume m: "length (in_Mask n) = length (in_IP n)" "addr_ok (in_IP n)"
  then have "networkNumberAndMask n = Some (in_IP n, in_Mask n)"
    by (auto simp: networkNumberAndMask_def addr_ok_def Let_def)
  with assms(2) show ?thesis by (simp add: IPNet_String_def)
qed

lemma IP_Mask_ok:
  assumes "addr_ok ip" and "length m = length ip"
  shows "IP_Mask (if length ip = 4 then v4InV6Prefix @ ip else ip) m = map2 (AND) ip m"
  using assms To4_16_None [of ip] by (auto simp: IP_Mask_def addr_ok_def Let_def)

theorem ParseCIDR_String:
  assumes "ipnet_ok n"
  shows "ParseCIDR (IPNet_String n) = Some n"
  using assms
proof (rule ipnet_okE)
  fix l
  assume l: "simpleMaskLength (in_Mask n) = Some l" "l \<le> 8 * length (in_IP n)"
    and m: "in_Mask n = CIDRMask (int l) (8 * int (length (in_IP n)))"
    and len: "length (in_Mask n) = length (in_IP n)" and ok: "addr_ok (in_IP n)"
    and masked: "map2 (AND) (in_IP n) (in_Mask n) = in_IP n"
  have "ParseCIDR (IPNet_String n) = Some \<lparr> in_IP =
      IP_Mask (if length (in_IP n) = 4 then v4InV6Prefix @ in_IP n else in_IP n) (in_Mask n),
      in_Mask = in_Mask n \<rparr>"
    using l slash_not_in_addr [OF ok] ParseAddr_IP_String [OF ok]
    by (simp add: ParseCIDR_def IPNet_String_ok [OF assms l(1)] digits_val_itoa_nat
        Let_def m [symmetric])
  then show ?thesis by (simp only: IP_Mask_ok [OF ok len] masked) simp
qed

lemma IPNet_String_chars:
  assumes "ipnet_ok n" and "c \<in> set (IPNet_String n)"
  shows "is_hex_char c \<or> c = CHR ''.'' \<or> c = CHR '':'' \<or> c = CHR ''/''"
  using assms(1)
proof (rule ipnet_okE)
  fix l
  assume l: "simpleMaskLength (in_Mask n) = Some l" and ok: "addr_ok (in_IP n)"
  from assms(2) show ?thesis
    using IPNet_String_ok [OF assms(1) l] IP_String_chars [OF ok] itoa_nat_digits not_digit_hex
    by auto
qed

text \<open>An endpoint that prints as a literal; a zone belongs to IPv6 and has no bracket of either kind.\<close>

definition endpoint_ok :: "udpaddr \<Rightarrow> bool" where
  "endpoint_ok a \<longleftrightarrow> (length (ua_IP a) = 4 \<or> length (ua_IP a) = 16) \<and>
     0 \<le> ua_Port a \<and> ua_Port a \<le> 65535 \<and>
     (ua_Zone a = [] \<or> (To4 (ua_IP a) = None \<and> CHR ''['' \<notin> set (ua_Zone a) \<and> CHR '']'' \<notin> set (ua_Zone a)))"

text \<open>What is read back: the same endpoint with its address in 16 bytes.\<close>

definition endpoint_16 :: "udpaddr \<Rightarrow> udpaddr" where
  "endpoint_16 a = a\<lparr> ua_IP := (case To16 (ua_IP a) of Some v \<Rightarrow> v | None \<Rightarrow> []) \<rparr>"

lemma v4_String_chars_not: "CHR '':'' \<notin> set (v4_String ip)" "CHR ''['' \<notin> set (v4_String ip)"
proof -
  have "\<not> is_hex_char CHR ''[''" by (simp add: is_hex_char_def hex_val_def)
  then show "CHR '':'' \<notin> set (v4_String ip)" "CHR ''['' \<notin> set (v4_String ip)"
    using v4_String_chars not_digit_hex not_hex_colon by blast+
qed

lemma v4_String_nonempty: "length ip = 4 \<Longrightarrow> v4_String ip \<noteq> []"
  using v4_String_dot by fastforce

lemma cut_last_append: "c \<notin> set b \<Longrightarrow> cut_last c (a @ c # b) = (a, b)"
  by (simp add: cut_last_def takeWhile_append dropWhile_append)

lemma SplitHostPort_plain:
  assumes "set host \<inter> {CHR '':'', CHR ''['', CHR '']''} = {}" and "host \<noteq> []"
    and "set port \<inter> {CHR '':'', CHR ''['', CHR '']''} = {}"
  shows "SplitHostPort (host @ CHR '':'' # port) = Inr (host, port)"
proof -
  have "hd (host @ CHR '':'' # port) \<noteq> CHR ''[''" using assms(1,2) by (cases host) auto
  with assms show ?thesis by (auto simp: SplitHostPort_def cut_last_append)
qed

lemma strCut_first: "c \<notin> set a \<Longrightarrow> strCut c (a @ c # b) = (a, b, True)"
  by (induction a) auto

lemma SplitHostPort_brackets:
  assumes "set host \<inter> {CHR ''['', CHR '']''} = {}" and "set port \<inter> {CHR '':'', CHR ''['', CHR '']''} = {}"
  shows "SplitHostPort (CHR ''['' # host @ CHR '']'' # CHR '':'' # port) = Inr (host, port)"
proof -
  let ?s = "CHR ''['' # host @ CHR '']'' # CHR '':'' # port"
  have "cut_last CHR '':'' ?s = (CHR ''['' # host @ '']'', port)"
    using assms(2) cut_last_append [of "CHR '':''" port "CHR ''['' # host @ '']''"] by simp
  moreover have "strCut CHR '']'' ?s = (CHR ''['' # host, CHR '':'' # port, True)"
    using assms(1) strCut_first [of "CHR '']''" "CHR ''['' # host" "CHR '':'' # port"] by simp
  ultimately show ?thesis using assms by (auto simp: SplitHostPort_def)
qed

lemma digits_val_mono: "digits_val acc s = Some v \<Longrightarrow> acc \<le> v"
  by (induction s arbitrary: acc) (force split: option.splits)+

lemma port_loop_digits:
  "digits_val acc s = Some v \<Longrightarrow> v < 2 ^ 20 \<Longrightarrow> port_loop (of_nat acc) s = Some (of_nat v)"
proof (induction s arbitrary: acc)
  case (Cons c s)
  obtain d where d: "digit_val c = Some d" "digits_val (10 * acc + d) s = Some v"
    using Cons.prems(1) by (auto split: option.splits)
  then have le: "10 * acc + d \<le> v" using digits_val_mono by blast
  then have small: "10 * acc + d < 2 ^ 20" using Cons.prems(2) by simp
  have u: "unat (of_nat k :: 32 word) = k" if "k < 2 ^ 20" for k
    using that by (simp add: unat_of_nat take_bit_nat_eq_self)
  have "\<not> (2 ^ 30 :: 32 word) \<le> of_nat acc" using small u [of acc] by (simp add: word_le_nat_alt)
  moreover have "\<not> (of_nat (10 * acc + d) :: 32 word) < of_nat (10 * acc)"
    using small u [of "10 * acc + d"] u [of "10 * acc"] by (simp add: word_less_nat_alt)
  ultimately show ?case using Cons.IH [OF d(2) Cons.prems(2)] d(1) by (simp add: Let_def)
qed simp

lemma parsePort_itoa:
  assumes "0 \<le> p" and "p \<le> 65535"
  shows "parsePort (itoa p) = Some p"
proof -
  have t: "itoa p = itoa_nat (nat p)" using assms by (simp add: itoa_nonneg)
  have "itoa_nat (nat p) \<noteq> []" by (simp add: itoa_nat.simps [of "nat p"])
  then have "is_digit (hd (itoa_nat (nat p)))" using itoa_nat_digits hd_in_set by blast
  then have sign: "hd (itoa p) \<noteq> CHR ''-''" "hd (itoa p) \<noteq> CHR ''+''"
    by (auto simp: t is_digit_def digit_val_def)
  have "port_loop 0 (itoa p) = Some (of_nat (nat p))"
    using port_loop_digits [OF digits_val_itoa_nat [of "nat p"]] assms by (simp add: t)
  moreover have "uint (of_nat (nat p) :: 32 word) = p"
    using assms by (simp add: unsigned_of_int take_bit_int_eq_self)
  moreover have "\<not> (2 ^ 30 :: 32 word) \<le> of_nat (nat p)"
    using assms by (simp add: word_le_def unsigned_of_int take_bit_int_eq_self)
  ultimately show ?thesis using sign by (simp add: parsePort_def Let_def)
qed

lemma itoa_no_brackets: "0 \<le> p \<Longrightarrow> set (itoa p) \<inter> {CHR '':'', CHR ''['', CHR '']''} = {}"
proof -
  have "\<not> is_digit CHR '':''" "\<not> is_digit CHR ''[''" "\<not> is_digit CHR '']''"
    by (simp_all add: is_digit_def digit_val_def)
  then show ?thesis using itoa_chars [of _ p] by auto
qed

lemma ResolveUDPAddr_v4:
  assumes "length v = 4" and "0 \<le> p" and "p \<le> 65535"
  shows "ResolveUDPAddr resolver (JoinHostPort (v4_String v) (itoa p)) =
    Inr \<lparr> ua_IP = v4InV6Prefix @ v, ua_Port = p, ua_Zone = [] \<rparr>"
proof -
  have "\<not> is_hex_char CHR '']''" by (simp add: is_hex_char_def hex_val_def)
  then have "CHR '']'' \<notin> set (v4_String v)" using v4_String_chars not_digit_hex by blast
  then have host: "set (v4_String v) \<inter> {CHR '':'', CHR ''['', CHR '']''} = {}"
    using v4_String_chars_not [of v] by auto
  note split = SplitHostPort_plain [OF host v4_String_nonempty [OF assms(1)] itoa_no_brackets [OF assms(2)]]
  show ?thesis
    using assms v4_String_chars_not(1) [of v] parsePort_itoa [OF assms(2,3)] v4_String_nonempty [OF assms(1)]
    by (simp add: ResolveUDPAddr_def JoinHostPort_def ParseAddr_v4 split)
qed

lemma ResolveUDPAddr_v6:
  assumes "length v = 16" and "0 \<le> p" and "p \<le> 65535" and "CHR ''['' \<notin> set zone" and "CHR '']'' \<notin> set zone"
    and host: "host = (if zone = [] then v6_String v else v6_String v @ CHR ''%'' # zone)"
  shows "ResolveUDPAddr resolver (JoinHostPort host (itoa p)) = Inr \<lparr> ua_IP = v, ua_Port = p, ua_Zone = zone \<rparr>"
proof -
  have "\<not> is_hex_char CHR '']''" "\<not> is_hex_char CHR ''[''" by (simp_all add: is_hex_char_def hex_val_def)
  then have nb: "set host \<inter> {CHR ''['', CHR '']''} = {}"
    using v6_String_chars [of "CHR '']''" v] v6_String_chars [of "CHR ''[''" v] assms(4,5)
    by (auto simp: host split: if_splits)
  have colon: "CHR '':'' \<in> set host" using v6_String_colon [OF assms(1)] by (simp add: host)
  have "netip_ParseAddr host = Some (v, zone)"
    using ParseAddr_v6 [OF assms(1)] by (simp add: host)
  with colon SplitHostPort_brackets [OF nb itoa_no_brackets [OF assms(2)]] parsePort_itoa [OF assms(2,3)] assms
  show ?thesis by (auto simp: ResolveUDPAddr_def JoinHostPort_def)
qed

theorem ResolveUDPAddr_String:
  assumes "endpoint_ok a"
  shows "ResolveUDPAddr resolver (UDPAddr_String a) = Inr (endpoint_16 a)"
proof (cases "To4 (ua_IP a)")
  case None
  with assms have "ResolveUDPAddr resolver (UDPAddr_String a) = Inr a"
    using ResolveUDPAddr_v6 [of "ua_IP a" "ua_Port a" "ua_Zone a"]
    by (auto simp: endpoint_ok_def UDPAddr_String_def IP_String_def)
  with None assms show ?thesis by (auto simp: endpoint_16_def endpoint_ok_def)
next
  case (Some v)
  with assms To4_length [OF Some] have
      "ResolveUDPAddr resolver (UDPAddr_String a) = Inr (a\<lparr> ua_IP := v4InV6Prefix @ v \<rparr>)"
    using ResolveUDPAddr_v4 [of v "ua_Port a"]
    by (auto simp: endpoint_ok_def UDPAddr_String_def IP_String_def)
  with To4_imp_To16 [OF Some] show ?thesis by (simp add: endpoint_16_def)
qed

text \<open>An opening bracket in a zone makes the printed endpoint unreadable.\<close>

lemma ResolveUDPAddr_bracket:
  assumes "CHR '':'' \<in> set host" and "CHR ''['' \<in> set host" and "CHR '']'' \<notin> set host" and "0 \<le> p"
  shows "\<exists>e. ResolveUDPAddr resolver (JoinHostPort host (itoa p)) = Inl e"
proof -
  let ?s = "CHR ''['' # host @ CHR '']'' # CHR '':'' # itoa p"
  have "cut_last CHR '':'' ?s = (CHR ''['' # host @ '']'', itoa p)"
    using itoa_no_brackets [OF assms(4)] cut_last_append [of "CHR '':''" "itoa p" "CHR ''['' # host @ '']''"] by simp
  moreover have "strCut CHR '']'' ?s = (CHR ''['' # host, CHR '':'' # itoa p, True)"
    using assms(3) strCut_first [of "CHR '']''" "CHR ''['' # host" "CHR '':'' # itoa p"] by simp
  ultimately have "SplitHostPort ?s = Inl ''unexpected '[' in address''"
    using assms(2) by (simp add: SplitHostPort_def)
  with assms(1) show ?thesis by (simp add: ResolveUDPAddr_def JoinHostPort_def)
qed

lemma UDPAddr_String_chars:
  assumes "endpoint_ok a" and "c \<in> set (UDPAddr_String a)"
  shows "is_hex_char c \<or> c \<in> set ''.:-%[]'' \<or> c \<in> set (ua_Zone a)"
proof -
  have "is_hex_char c \<or> c = CHR ''.'' \<or> c = CHR '':''" if "c \<in> set (IP_String (ua_IP a))"
    using that assms(1) v4_String_chars [of c] v6_String_chars [of c] not_digit_hex [of c]
    by (auto simp: endpoint_ok_def IP_String_def split: if_splits option.splits)
  with assms itoa_chars [of c "ua_Port a"] not_digit_hex [of c] show ?thesis
    by (auto simp: UDPAddr_String_def JoinHostPort_def endpoint_ok_def Let_def split: if_splits)
qed

end
