(* ===== verification/LinuxParse.thy ===== *)
theory LinuxParse
  imports LinuxEncode GoIPText
begin

text \<open>
  \<open>internal/wglinux/parse_linux.go\<close>: a device from the generic netlink messages of a dump. A decoder
  that meets an error stops, and the error is the result of \<open>ad.Err()\<close>; so a loop over attributes
  is a fold over the decoded list with the error as \<^const>\<open>Inl\<close>, and then the decoder's own error.
  A message is the payload \<open>m.Data\<close>.
\<close>

section \<open>Structures in memory\<close>

fun fold_res :: "('a \<Rightarrow> 's \<Rightarrow> 'e + 's) \<Rightarrow> 'a list \<Rightarrow> 's \<Rightarrow> 'e + 's" where
  "fold_res f [] s = Inr s"
| "fold_res f (x # xs) s = res_bind (f x s) (fold_res f xs)"

lemma fold_res_append: "fold_res f (xs @ ys) s = res_bind (fold_res f xs s) (fold_res f ys)"
proof (induction xs arbitrary: s)
  case (Cons x xs)
  then show ?case by (cases "f x s") simp_all
qed simp

text \<open>\<open>for ad.Next() { ... }; return ad.Err()\<close>\<close>

definition decoder_result :: "go_error option \<Rightarrow> 'a \<Rightarrow> go_error + 'a" where
  "decoder_result err x = (case err of None \<Rightarrow> Inr x | Some e \<Rightarrow> Inl e)"

lemma decoder_result_None [simp]: "decoder_result None x = Inr x"
  by (simp add: decoder_result_def)

definition with_attrs ::
    "netlink \<Rightarrow> (u16 \<times> bytes \<Rightarrow> 's \<Rightarrow> go_error + 's) \<Rightarrow> bytes \<Rightarrow> 's \<Rightarrow> go_error + 's" where
  "with_attrs nl f b s =
     res_bind (nl_decode nl b) (\<lambda>(as, err). res_bind (fold_res f as s) (decoder_result err))"

definition parseAddr :: "bytes \<Rightarrow> go_error + bytes" where
  "parseAddr b =
     (if length b = 4 \<or> length b = 16 then Inr b
      else Inl (ErrText ''wglinux: unexpected IP address size''))"

definition parseSockaddr :: "netlink \<Rightarrow> bytes \<Rightarrow> go_error + udpaddr" where
  "parseSockaddr nl b =
     (let port = int (unat (sockaddrPort nl (int (host_get (nl_big nl) (take 2 (drop 2 b))))))
      in if length b = 16
         then Inr \<lparr> ua_IP = take 4 (drop 4 b), ua_Port = port, ua_Zone = [] \<rparr>
         else if length b = 28
         then Inr \<lparr> ua_IP = take 16 (drop 8 b), ua_Port = port, ua_Zone = [] \<rparr>
         else Inl (ErrText ''wglinux: unexpected sockaddr size''))"

text \<open>A signed field of \<open>n\<close> bits.\<close>

definition signed_bits :: "nat \<Rightarrow> nat \<Rightarrow> int" where
  "signed_bits n x = signed_take_bit (n - 1) (int x)"

text \<open>\<open>parseTimespec(&p.LastHandshakeTime)\<close>; the field keeps its value unless the time is positive.\<close>

definition parseTimespec :: "netlink \<Rightarrow> gotime \<Rightarrow> bytes \<Rightarrow> go_error + gotime" where
  "parseTimespec nl t b =
     (let word = (\<lambda>n i. signed_bits (8 * n) (host_get (nl_big nl) (take n (drop i b))))
      in if length b = 8
         then Inr (if word 4 0 > 0 \<or> word 4 4 > 0 then time_Unix (word 4 0) (word 4 4) else t)
         else if length b = 16
         then Inr (if word 8 0 > 0 \<or> word 8 8 > 0 then time_Unix (word 8 0) (word 8 8) else t)
         else Inl (ErrText ''wglinux: unexpected timespec size''))"

section \<open>Allowed IPs\<close>

text \<open>The local variables \<open>ipn.IP\<close>, \<open>mask\<close> and \<open>family\<close> of the loop over one allowed IP.\<close>

definition allowed_attr ::
    "netlink \<Rightarrow> u16 \<times> bytes \<Rightarrow> bytes \<times> int \<times> int \<Rightarrow> go_error + bytes \<times> int \<times> int" where
  "allowed_attr nl a st =
     (case (a, st) of ((t, d), (ip, mask', family)) \<Rightarrow>
        if t = WGALLOWEDIP_A_IPADDR then res_bind (parseAddr d) (\<lambda>ip. Inr (ip, mask', family))
        else if t = WGALLOWEDIP_A_CIDR_MASK
        then res_bind (rd_u8 nl d) (\<lambda>m. Inr (ip, uint m, family))
        else if t = WGALLOWEDIP_A_FAMILY
        then res_bind (rd_u16 nl d) (\<lambda>f. Inr (ip, mask', uint f))
        else Inr st)"

definition parseAllowedIP :: "netlink \<Rightarrow> bytes \<Rightarrow> go_error + ipnet" where
  "parseAllowedIP nl b =
     res_bind (with_attrs nl (allowed_attr nl) b ([], 0, 0)) (\<lambda>(ip, mask', family).
       Inr \<lparr> in_IP = ip,
             in_Mask = (if family = uint AF_INET then CIDRMask mask' 32
                        else if family = uint AF_INET6 then CIDRMask mask' 128 else []) \<rparr>)"

text \<open>A netlink array: its elements in order, their types ignored.\<close>

fun parse_array :: "('b \<Rightarrow> 'e + 'a) \<Rightarrow> ('t \<times> 'b) list \<Rightarrow> 'e + 'a list" where
  "parse_array f [] = Inr []"
| "parse_array f (x # xs) =
     res_bind (f (snd x)) (\<lambda>y. res_bind (parse_array f xs) (\<lambda>ys. Inr (y # ys)))"

definition array_of :: "netlink \<Rightarrow> (bytes \<Rightarrow> go_error + 'a) \<Rightarrow> bytes \<Rightarrow> go_error + 'a list" where
  "array_of nl f b =
     res_bind (nl_decode nl b) (\<lambda>(as, err). res_bind (parse_array f as) (decoder_result err))"

definition parseAllowedIPs :: "netlink \<Rightarrow> bytes \<Rightarrow> go_error + ipnet list" where
  "parseAllowedIPs nl b = array_of nl (parseAllowedIP nl) b"

section \<open>Peers\<close>

definition awgPeerFFixedHeaders :: "32 word" where "awgPeerFFixedHeaders = 1"
definition awgPeerFNoS4 :: "32 word" where "awgPeerFNoS4 = 2"

definition peer_attr :: "netlink \<Rightarrow> u16 \<times> bytes \<Rightarrow> Peer \<Rightarrow> go_error + Peer" where
  "peer_attr nl a p =
     (case a of (t, d) \<Rightarrow>
        if t = WGPEER_A_PUBLIC_KEY then res_bind (NewKey d) (\<lambda>k. Inr (p\<lparr> peer_PublicKey := k \<rparr>))
        else if t = WGPEER_A_PRESHARED_KEY then res_bind (NewKey d) (\<lambda>k. Inr (p\<lparr> peer_PresharedKey := k \<rparr>))
        else if t = WGPEER_A_ENDPOINT
        then res_bind (parseSockaddr nl d) (\<lambda>e. Inr (p\<lparr> peer_Endpoint := Some e \<rparr>))
        else if t = WGPEER_A_PERSISTENT_KEEPALIVE_INTERVAL
        then res_bind (rd_u16 nl d) (\<lambda>v.
               Inr (p\<lparr> peer_PersistentKeepaliveInterval := i64 (uint v * second) \<rparr>))
        else if t = WGPEER_A_LAST_HANDSHAKE_TIME
        then res_bind (parseTimespec nl (peer_LastHandshakeTime p) d) (\<lambda>x.
               Inr (p\<lparr> peer_LastHandshakeTime := x \<rparr>))
        else if t = WGPEER_A_RX_BYTES
        then res_bind (rd_u64 nl d) (\<lambda>v. Inr (p\<lparr> peer_ReceiveBytes := sint v \<rparr>))
        else if t = WGPEER_A_TX_BYTES
        then res_bind (rd_u64 nl d) (\<lambda>v. Inr (p\<lparr> peer_TransmitBytes := sint v \<rparr>))
        else if t = WGPEER_A_ALLOWEDIPS
        then res_bind (parseAllowedIPs nl d) (\<lambda>ips. Inr (p\<lparr> peer_AllowedIPs := ips \<rparr>))
        else if t = WGPEER_A_PROTOCOL_VERSION
        then res_bind (rd_u32 nl d) (\<lambda>v. Inr (p\<lparr> peer_ProtocolVersion := uint v \<rparr>))
        else if t = WGPEER_A_ADVANCED_SECURITY then Inr (p\<lparr> peer_AdvancedSecurity := True \<rparr>)
        else if t = WGPEER_A_AWG_PEER_FLAGS
        then res_bind (rd_u32 nl d) (\<lambda>flags. Inr (p\<lparr> peer_AWGPeerFlagsKnown := True,
               peer_FixedHeaders := (flags AND awgPeerFFixedHeaders \<noteq> 0),
               peer_NoS4 := (flags AND awgPeerFNoS4 \<noteq> 0) \<rparr>))
        else Inr p)"

definition parsePeer :: "netlink \<Rightarrow> bytes \<Rightarrow> go_error + Peer" where
  "parsePeer nl b = with_attrs nl (peer_attr nl) b zeroPeer"

section \<open>The device\<close>

definition int16_attr ::
    "netlink \<Rightarrow> ((int \<Rightarrow> int) \<Rightarrow> Device \<Rightarrow> Device) \<Rightarrow> bytes \<Rightarrow> Device \<Rightarrow> go_error + Device" where
  "int16_attr nl upd d dev = res_bind (rd_u16 nl d) (\<lambda>v. Inr (upd (\<lambda>_. uint v) dev))"

definition device_attr :: "netlink \<Rightarrow> u16 \<times> bytes \<Rightarrow> Device \<Rightarrow> go_error + Device" where
  "device_attr nl a dev =
     (case a of (t, d) \<Rightarrow>
        if t = WGDEVICE_A_IFINDEX then Inr dev
        else if t = WGDEVICE_A_IFNAME then Inr (dev\<lparr> dev_Name := rd_str nl d \<rparr>)
        else if t = WGDEVICE_A_PRIVATE_KEY
        then res_bind (NewKey d) (\<lambda>k. Inr (dev\<lparr> dev_PrivateKey := k \<rparr>))
        else if t = WGDEVICE_A_PUBLIC_KEY
        then res_bind (NewKey d) (\<lambda>k. Inr (dev\<lparr> dev_PublicKey := k \<rparr>))
        else if t = WGDEVICE_A_LISTEN_PORT then int16_attr nl dev_ListenPort_update d dev
        else if t = WGDEVICE_A_FWMARK
        then res_bind (rd_u32 nl d) (\<lambda>v. Inr (dev\<lparr> dev_FirewallMark := uint v \<rparr>))
        else if t = WGDEVICE_A_JC then int16_attr nl dev_Jc_update d dev
        else if t = WGDEVICE_A_JMIN then int16_attr nl dev_Jmin_update d dev
        else if t = WGDEVICE_A_JMAX then int16_attr nl dev_Jmax_update d dev
        else if t = WGDEVICE_A_S1 then int16_attr nl dev_S1_update d dev
        else if t = WGDEVICE_A_S2 then int16_attr nl dev_S2_update d dev
        else if t = WGDEVICE_A_S3 then int16_attr nl dev_S3_update d dev
        else if t = WGDEVICE_A_S4 then int16_attr nl dev_S4_update d dev
        else if t = WGDEVICE_A_H1 then Inr (dev\<lparr> dev_H1 := rd_str nl d \<rparr>)
        else if t = WGDEVICE_A_H2 then Inr (dev\<lparr> dev_H2 := rd_str nl d \<rparr>)
        else if t = WGDEVICE_A_H3 then Inr (dev\<lparr> dev_H3 := rd_str nl d \<rparr>)
        else if t = WGDEVICE_A_H4 then Inr (dev\<lparr> dev_H4 := rd_str nl d \<rparr>)
        else if t = WGDEVICE_A_I1 then Inr (dev\<lparr> dev_I1 := rd_str nl d \<rparr>)
        else if t = WGDEVICE_A_I2 then Inr (dev\<lparr> dev_I2 := rd_str nl d \<rparr>)
        else if t = WGDEVICE_A_I3 then Inr (dev\<lparr> dev_I3 := rd_str nl d \<rparr>)
        else if t = WGDEVICE_A_I4 then Inr (dev\<lparr> dev_I4 := rd_str nl d \<rparr>)
        else if t = WGDEVICE_A_I5 then Inr (dev\<lparr> dev_I5 := rd_str nl d \<rparr>)
        else if t = WGDEVICE_A_PEERS
        then res_bind (array_of nl (parsePeer nl) d) (\<lambda>ps. Inr (dev\<lparr> dev_Peers := ps \<rparr>))
        else Inr dev)"

definition parseDeviceLoop :: "netlink \<Rightarrow> bytes \<Rightarrow> go_error + Device" where
  "parseDeviceLoop nl m =
     with_attrs nl (device_attr nl) m (zeroDevice\<lparr> dev_Type := LinuxKernel \<rparr>)"

section \<open>Merging the messages of a dump\<close>

text \<open>The map \<open>knownPeers\<close> from the public key to the index in \<open>target.Peers\<close>.\<close>

type_synonym known_peers = "Key \<Rightarrow> nat option"

fun merge_peers :: "Peer list \<Rightarrow> Peer list \<times> known_peers \<Rightarrow> Peer list \<times> known_peers" where
  "merge_peers [] st = st"
| "merge_peers (q # qs) (target, known) =
     (case known (peer_PublicKey q) of
        Some i \<Rightarrow>
          merge_peers qs
            (target[i := (target ! i)\<lparr> peer_AllowedIPs := peer_AllowedIPs (target ! i) @ peer_AllowedIPs q \<rparr>],
             known)
      | None \<Rightarrow> merge_peers qs (target @ [q], known(peer_PublicKey q \<mapsto> length target)))"

definition mergeDevices :: "Device \<Rightarrow> Device \<Rightarrow> known_peers \<Rightarrow> Device \<times> known_peers" where
  "mergeDevices target d known =
     (case merge_peers (dev_Peers d) (dev_Peers target, known) of
        (ps, known') \<Rightarrow> (target\<lparr> dev_Peers := ps \<rparr>, known'))"

definition known_of :: "Peer list \<Rightarrow> known_peers" where
  "known_of ps = map_of (rev (zip (map peer_PublicKey ps) [0..<length ps]))"

fun merge_messages :: "netlink \<Rightarrow> bytes list \<Rightarrow> Device \<times> known_peers \<Rightarrow> go_error + Device" where
  "merge_messages nl [] st = Inr (fst st)"
| "merge_messages nl (m # ms) st =
     res_bind (parseDeviceLoop nl m) (\<lambda>d. merge_messages nl ms (mergeDevices (fst st) d (snd st)))"

text \<open>Without any message the code returns the zero device.\<close>

definition linux_parseDevice :: "netlink \<Rightarrow> bytes list \<Rightarrow> go_error + Device" where
  "linux_parseDevice nl msgs =
     (case msgs of
        [] \<Rightarrow> Inr zeroDevice
      | m # ms \<Rightarrow> res_bind (parseDeviceLoop nl m)
          (\<lambda>first. merge_messages nl ms (first, known_of (dev_Peers first))))"

section \<open>What merging keeps\<close>

definition known_ok :: "Peer list \<Rightarrow> known_peers \<Rightarrow> bool" where
  "known_ok ps known \<longleftrightarrow> distinct (map peer_PublicKey ps) \<and>
     (\<forall>k i. known k = Some i \<longleftrightarrow> i < length ps \<and> peer_PublicKey (ps ! i) = k)"

definition ips_of :: "Peer list \<Rightarrow> Key \<Rightarrow> ipnet list" where
  "ips_of ps k = concat (map peer_AllowedIPs (filter (\<lambda>p. peer_PublicKey p = k) ps))"

lemma ips_of_simps [simp]:
  "ips_of [] k = []"
  "ips_of (p # ps) k = (if peer_PublicKey p = k then peer_AllowedIPs p else []) @ ips_of ps k"
  "ips_of (ps @ qs) k = ips_of ps k @ ips_of qs k"
  by (simp_all add: ips_of_def)

lemma known_ok_None: "known_ok ps known \<Longrightarrow> known k = None \<longleftrightarrow> k \<notin> peer_PublicKey ` set ps"
  by (auto simp: known_ok_def in_set_conv_nth image_iff) (metis not_None_eq nth_mem)+

lemma ips_of_absent: "k \<notin> peer_PublicKey ` set ps \<Longrightarrow> ips_of ps k = []"
  by (induction ps) auto

lemma ips_of_update:
  assumes "distinct (map peer_PublicKey ps)" and "i < length ps"
  shows "ips_of (ps[i := (ps ! i)\<lparr> peer_AllowedIPs := peer_AllowedIPs (ps ! i) @ ips \<rparr>]) k =
    ips_of ps k @ (if peer_PublicKey (ps ! i) = k then ips else [])"
  using assms
proof (induction ps arbitrary: i)
  case (Cons p ps)
  show ?case
  proof (cases i)
    case 0
    with Cons.prems show ?thesis by (auto simp: ips_of_absent)
  next
    case (Suc j)
    with Cons show ?thesis by simp
  qed
qed simp

lemma known_ok_update:
  assumes "known_ok ps known" and "i < length ps" and "peer_PublicKey q = peer_PublicKey (ps ! i)"
  shows "known_ok (ps[i := q]) known"
proof -
  have "map peer_PublicKey (ps[i := q]) = map peer_PublicKey ps"
    using assms(2,3) by (simp add: map_update list_update_same_conv)
  then have "peer_PublicKey (ps[i := q] ! j) = peer_PublicKey (ps ! j)" if "j < length ps" for j
    using that by (metis length_list_update nth_map)
  with assms(1) \<open>map peer_PublicKey (ps[i := q]) = map peer_PublicKey ps\<close> show ?thesis
    by (auto simp: known_ok_def)
qed

lemma known_ok_snoc:
  assumes "known_ok ps known" and "known (peer_PublicKey q) = None"
  shows "known_ok (ps @ [q]) (known(peer_PublicKey q \<mapsto> length ps))"
proof -
  have new: "peer_PublicKey q \<notin> peer_PublicKey ` set ps" using assms known_ok_None by blast
  with assms(1) show ?thesis
    by (auto simp: known_ok_def nth_append less_Suc_eq image_iff Ball_def) (metis nth_mem)+
qed

text \<open>Everything but the allowed IPs comes from the first report of a peer.\<close>

definition first_report :: "Peer list \<Rightarrow> Key \<Rightarrow> Peer option" where
  "first_report ps k =
     map_option (\<lambda>p. p\<lparr> peer_AllowedIPs := [] \<rparr>) (find (\<lambda>p. peer_PublicKey p = k) ps)"

lemma first_report_update:
  assumes "i < length ps"
  shows "first_report (ps[i := (ps ! i)\<lparr> peer_AllowedIPs := x \<rparr>]) k = first_report ps k"
  using assms
proof (induction ps arbitrary: i)
  case (Cons p ps)
  then show ?case by (cases i) (auto simp: first_report_def)
qed simp

lemma first_report_append:
  "first_report (ps @ qs) k = (case first_report ps k of None \<Rightarrow> first_report qs k | Some p \<Rightarrow> Some p)"
  by (induction ps) (auto simp: first_report_def)

lemma first_report_None: "first_report ps k = None \<longleftrightarrow> k \<notin> peer_PublicKey ` set ps"
  by (auto simp: first_report_def find_None_iff)

lemma first_report_Cons: "first_report (q # qs) k =
    (if peer_PublicKey q = k then Some (q\<lparr> peer_AllowedIPs := [] \<rparr>) else first_report qs k)"
  by (simp add: first_report_def)

lemma merge_peers_keeps:
  assumes "known_ok ps known" and "merge_peers qs (ps, known) = (ps', known')"
  shows "known_ok ps' known' \<and> ips_of ps' k = ips_of ps k @ ips_of qs k \<and>
    first_report ps' k = first_report (ps @ qs) k"
  using assms
proof (induction qs arbitrary: ps known)
  case Nil
  then show ?case by simp
next
  case (Cons q qs)
  show ?case
  proof (cases "known (peer_PublicKey q)")
    case None
    have "merge_peers qs (ps @ [q], known(peer_PublicKey q \<mapsto> length ps)) = (ps', known')"
      using Cons.prems(2) None by simp
    from Cons.IH [OF known_ok_snoc [OF Cons.prems(1) None] this] show ?thesis by simp
  next
    case (Some i)
    let ?p = "(ps ! i)\<lparr> peer_AllowedIPs := peer_AllowedIPs (ps ! i) @ peer_AllowedIPs q \<rparr>"
    from Some Cons.prems(1) have i: "i < length ps" "peer_PublicKey (ps ! i) = peer_PublicKey q"
      and d: "distinct (map peer_PublicKey ps)"
      by (auto simp: known_ok_def)
    have "merge_peers qs (ps[i := ?p], known) = (ps', known')"
      using Cons.prems(2) Some by simp
    from Cons.IH [OF known_ok_update [OF Cons.prems(1) i(1)] this] i
    have ih: "known_ok ps' known'" "ips_of ps' k = ips_of (ps[i := ?p]) k @ ips_of qs k"
        "first_report ps' k = first_report (ps[i := ?p] @ qs) k"
      by simp_all
    have "peer_PublicKey q \<in> peer_PublicKey ` set ps"
      using i nth_mem by (metis image_eqI)
    then have "first_report (ps @ q # qs) k = first_report (ps @ qs) k"
      using first_report_None [of ps k]
      by (auto simp: first_report_append first_report_Cons split: option.split)
    with ih show ?thesis
      by (simp add: ips_of_update [OF d i(1)] i(2) first_report_append first_report_update [OF i(1)])
  qed
qed

lemma known_of_ok:
  assumes "distinct (map peer_PublicKey ps)"
  shows "known_ok ps (known_of ps)"
proof -
  let ?al = "rev (zip (map peer_PublicKey ps) [0..<length ps])"
  have "distinct (map fst ?al)" using assms by (simp flip: rev_map)
  then have "known_of ps k = Some i \<longleftrightarrow> (k, i) \<in> set ?al" for k i
    unfolding known_of_def by (rule map_of_eq_Some_iff)
  then have "known_of ps k = Some i \<longleftrightarrow> i < length ps \<and> peer_PublicKey (ps ! i) = k" for k i
    by (auto simp: in_set_zip intro!: exI [of _ i])
  with assms show ?thesis by (simp add: known_ok_def)
qed

text \<open>The peers of all messages of a dump, in order.\<close>

fun all_messages :: "netlink \<Rightarrow> bytes list \<Rightarrow> go_error + Peer list" where
  "all_messages nl [] = Inr []"
| "all_messages nl (m # ms) =
     res_bind (parseDeviceLoop nl m) (\<lambda>d. res_bind (all_messages nl ms) (\<lambda>ps. Inr (dev_Peers d @ ps)))"

lemma merge_messages_keeps:
  assumes "known_ok (dev_Peers t) known" and "merge_messages nl ms (t, known) = Inr d"
  shows "\<exists>ps. all_messages nl ms = Inr ps \<and> distinct (map peer_PublicKey (dev_Peers d)) \<and>
    d = t\<lparr> dev_Peers := dev_Peers d \<rparr> \<and>
    (\<forall>k. ips_of (dev_Peers d) k = ips_of (dev_Peers t @ ps) k \<and>
         first_report (dev_Peers d) k = first_report (dev_Peers t @ ps) k)"
  using assms
proof (induction ms arbitrary: t known)
  case Nil
  then show ?case by (simp add: known_ok_def)
next
  case (Cons m ms)
  from Cons.prems(2) obtain dm where dm: "parseDeviceLoop nl m = Inr dm"
    and rest: "merge_messages nl ms (mergeDevices t dm known) = Inr d"
    by (auto simp: res_bind_Inr)
  obtain ps' known' where m: "merge_peers (dev_Peers dm) (dev_Peers t, known) = (ps', known')"
    by force
  let ?t = "t\<lparr> dev_Peers := ps' \<rparr>"
  note keep = merge_peers_keeps [OF Cons.prems(1) m]
  have "known_ok (dev_Peers ?t) known'" using keep by simp
  moreover have "merge_messages nl ms (?t, known') = Inr d"
    using rest by (simp add: mergeDevices_def m)
  ultimately obtain ps where ps: "all_messages nl ms = Inr ps"
      "distinct (map peer_PublicKey (dev_Peers d))" "d = ?t\<lparr> dev_Peers := dev_Peers d \<rparr>"
      "\<forall>k. ips_of (dev_Peers d) k = ips_of (ps' @ ps) k \<and>
           first_report (dev_Peers d) k = first_report (ps' @ ps) k"
    using Cons.IH [of ?t known'] by auto
  have "first_report (ps' @ ps) k = first_report (dev_Peers t @ dev_Peers dm @ ps) k" for k
    using keep [of k] by (simp add: first_report_append split: option.split)
  moreover have "ips_of (ps' @ ps) k = ips_of (dev_Peers t @ dev_Peers dm @ ps) k" for k
    using keep [of k] by simp
  moreover have "d = t\<lparr> dev_Peers := dev_Peers d \<rparr>" using ps(3) by (metis Device.update_convs(24) Device.surjective)
  ultimately show ?case
    using ps dm by (intro exI [of _ "dev_Peers dm @ ps"]) simp
qed

end
