(* ===== verification/UserConfigure.thy ===== *)
theory UserConfigure
  imports GoIPText Validate
begin

text \<open>
  \<open>internal/wguser/configure.go\<close>: the \<open>set=1\<close> request of the userspace protocol, the check that a
  value stays on its line, and the exchange with the daemon. The socket is a parameter: a record of
  the operations of \<open>net.Conn\<close> and the dialer over the state of the outside world.
\<close>

section \<open>The request\<close>

abbreviation LF :: char where "LF \<equiv> CHR 0x0A"
abbreviation CR :: char where "CR \<equiv> CHR 0x0D"

definition checkLineValues :: "Config \<Rightarrow> go_error option" where
  "checkLineValues cfg = first_error
     (map (\<lambda>(name, v). case v of
         None \<Rightarrow> None
       | Some s \<Rightarrow> if containsAny s [CR, LF]
                 then Some (ErrText (''wguser: '' @ name @ '' must not contain a line break'')) else None)
       (zip [''H1'', ''H2'', ''H3'', ''H4'', ''I1'', ''I2'', ''I3'', ''I4'', ''I5'']
         (cfg_headers cfg @ cfg_inits cfg)))"

definition hexKey :: "Key \<Rightarrow> string" where
  "hexKey k = hexEncode k"

text \<open>
  Every \<open>Fprintf\<close> of \<open>writeConfig\<close> writes one line \<open>key=value\<close>. The lines are first listed as
  pairs and then rendered.
\<close>

definition opt_line :: "string \<Rightarrow> ('a \<Rightarrow> string) \<Rightarrow> 'a option \<Rightarrow> (string \<times> string) list" where
  "opt_line key pr v = (case v of None \<Rightarrow> [] | Some x \<Rightarrow> [(key, pr x)])"

definition flag_line :: "string \<Rightarrow> bool \<Rightarrow> (string \<times> string) list" where
  "flag_line key b = (if b then [(key, ''true'')] else [])"

definition peer_lines :: "PeerConfig \<Rightarrow> (string \<times> string) list" where
  "peer_lines p =
     (''public_key'', hexKey (pc_PublicKey p)) #
     flag_line ''remove'' (pc_Remove p) @
     flag_line ''update_only'' (pc_UpdateOnly p) @
     opt_line ''preshared_key'' hexKey (pc_PresharedKey p) @
     opt_line ''endpoint'' UDPAddr_String (pc_Endpoint p) @
     opt_line ''persistent_keepalive_interval'' (\<lambda>d. itoa (secs d)) (pc_PersistentKeepaliveInterval p) @
     flag_line ''replace_allowed_ips'' (pc_ReplaceAllowedIPs p) @
     map (\<lambda>ip. (''allowed_ip'', IPNet_String ip)) (pc_AllowedIPs p)"

definition device_lines :: "Config \<Rightarrow> (string \<times> string) list" where
  "device_lines cfg =
     opt_line ''private_key'' hexKey (cfg_PrivateKey cfg) @
     opt_line ''listen_port'' itoa (cfg_ListenPort cfg) @
     opt_line ''fwmark'' itoa (cfg_FirewallMark cfg) @
     opt_line ''jc'' itoa (cfg_Jc cfg) @
     opt_line ''jmin'' itoa (cfg_Jmin cfg) @
     opt_line ''jmax'' itoa (cfg_Jmax cfg) @
     opt_line ''s1'' itoa (cfg_S1 cfg) @
     opt_line ''s2'' itoa (cfg_S2 cfg) @
     opt_line ''s3'' itoa (cfg_S3 cfg) @
     opt_line ''s4'' itoa (cfg_S4 cfg) @
     opt_line ''h1'' (\<lambda>s. s) (cfg_H1 cfg) @
     opt_line ''h2'' (\<lambda>s. s) (cfg_H2 cfg) @
     opt_line ''h3'' (\<lambda>s. s) (cfg_H3 cfg) @
     opt_line ''h4'' (\<lambda>s. s) (cfg_H4 cfg) @
     opt_line ''i1'' (\<lambda>s. s) (cfg_I1 cfg) @
     opt_line ''i2'' (\<lambda>s. s) (cfg_I2 cfg) @
     opt_line ''i3'' (\<lambda>s. s) (cfg_I3 cfg) @
     opt_line ''i4'' (\<lambda>s. s) (cfg_I4 cfg) @
     opt_line ''i5'' (\<lambda>s. s) (cfg_I5 cfg)"

definition config_lines :: "Config \<Rightarrow> (string \<times> string) list" where
  "config_lines cfg = device_lines cfg @ flag_line ''replace_peers'' (cfg_ReplacePeers cfg) @
     concat (map peer_lines (cfg_Peers cfg))"

definition kv_text :: "string \<times> string \<Rightarrow> string" where
  "kv_text kv = fst kv @ CHR ''='' # snd kv"

definition render :: "(string \<times> string) list \<Rightarrow> string" where
  "render kvs = concat (map (\<lambda>kv. kv_text kv @ [LF]) kvs)"

definition writeConfig :: "Config \<Rightarrow> string" where
  "writeConfig cfg = render (config_lines cfg)"

definition set_request :: "Config \<Rightarrow> string" where
  "set_request cfg = ''set=1'' @ [LF] @ writeConfig cfg @ [LF]"

section \<open>White space\<close>

text \<open>
  \<open>strings.TrimSpace\<close>: the ASCII white space and, in UTF-8, the rest of Unicode's (U+0085, U+00A0,
  U+1680, U+2000 to U+200A, U+2028, U+2029, U+202F, U+205F, U+3000).
\<close>

definition white_space :: "string list" where
  "white_space =
     [[CHR 0x09], [CHR 0x0A], [CHR 0x0B], [CHR 0x0C], [CHR 0x0D], [CHR 0x20],
      [CHR 0xC2, CHR 0x85], [CHR 0xC2, CHR 0xA0], [CHR 0xE1, CHR 0x9A, CHR 0x80]] @
     map (\<lambda>n. [CHR 0xE2, CHR 0x80, char_of n]) ([128..<139] @ [168, 169, 175 :: nat]) @
     [[CHR 0xE2, CHR 0x81, CHR 0x9F], [CHR 0xE3, CHR 0x80, CHR 0x80]]"

fun strip_front :: "string list \<Rightarrow> nat \<Rightarrow> string \<Rightarrow> string" where
  "strip_front ws 0 s = s"
| "strip_front ws (Suc k) s =
     (case find (\<lambda>w. prefix w s) ws of None \<Rightarrow> s | Some w \<Rightarrow> strip_front ws k (drop (length w) s))"

definition TrimSpace :: "string \<Rightarrow> string" where
  "TrimSpace s =
     (let l = strip_front white_space (length s) s
      in rev (strip_front (map rev white_space) (length l) (rev l)))"

section \<open>The exchange\<close>

record ('c, 's) sockets =
  sk_dial :: "string \<Rightarrow> 's \<Rightarrow> (go_error + 'c) \<times> 's"
  sk_deadline :: "'c \<Rightarrow> 's \<Rightarrow> go_error option \<times> 's"
  sk_write :: "'c \<Rightarrow> string \<Rightarrow> 's \<Rightarrow> go_error option \<times> 's"
  sk_read :: "'c \<Rightarrow> nat \<Rightarrow> 's \<Rightarrow> (go_error + string) \<times> 's"
  sk_stream :: "'c \<Rightarrow> 's \<Rightarrow> (string \<times> go_error option) \<times> 's"
  sk_close :: "'c \<Rightarrow> 's \<Rightarrow> 's"

text \<open>
  \<open>sk_read\<close> is one \<open>Read\<close> into a buffer of the given size. \<open>sk_stream\<close> is all that can be read
  until the end of the stream or an error, which comes with it; the scanner of \<open>parseDevice\<close> reads
  from there. \<open>hasDeadline\<close> says whether the context carries a deadline.
\<close>

definition set_deadline :: "('c, 's) sockets \<Rightarrow> bool \<Rightarrow> 'c \<Rightarrow> 's \<Rightarrow> go_error option \<times> 's" where
  "set_deadline sk hasDeadline c s = (if hasDeadline then sk_deadline sk c s else (None, s))"

text \<open>What \<open>configureDevice\<close> makes of the daemon's reply.\<close>

definition reply_error :: "string \<Rightarrow> go_error option" where
  "reply_error res =
     (let str = TrimSpace res
      in if str \<noteq> ''errno=0'' then Some (SyscallError ''read'' (ErrText (''wguser: '' @ str))) else None)"

definition configure_conn ::
    "('c, 's) sockets \<Rightarrow> bool \<Rightarrow> Config \<Rightarrow> 'c \<Rightarrow> 's \<Rightarrow> go_error option \<times> 's" where
  "configure_conn sk hasDeadline cfg c s =
     (case checkLineValues cfg of
        Some e \<Rightarrow> (Some e, s)
      | None \<Rightarrow>
          (case set_deadline sk hasDeadline c s of
             (Some e, s) \<Rightarrow> (Some e, s)
           | (None, s) \<Rightarrow>
               (case sk_write sk c (set_request cfg) s of
                  (Some e, s) \<Rightarrow> (Some e, s)
                | (None, s) \<Rightarrow>
                    (case sk_read sk c 32 s of
                       (Inl e, s) \<Rightarrow> (Some e, s)
                     | (Inr res, s) \<Rightarrow> (reply_error res, s)))))"

definition configureDevice ::
    "('c, 's) sockets \<Rightarrow> bool \<Rightarrow> string \<Rightarrow> Config \<Rightarrow> 's \<Rightarrow> go_error option \<times> 's" where
  "configureDevice sk hasDeadline device cfg s =
     (case sk_dial sk device s of
        (Inl e, s) \<Rightarrow> (Some e, s)
      | (Inr c, s) \<Rightarrow>
          (case configure_conn sk hasDeadline cfg c s of (r, s) \<Rightarrow> (r, sk_close sk c s)))"

end
