(* ===== verification/UserParse.thy ===== *)
theory UserParse
  imports UserConfigure
begin

text \<open>
  \<open>internal/wguser/parse.go\<close>: the parser of the daemon's answer to \<open>get=1\<close>. \<open>deviceParser\<close> is the
  state, one operation per method; \<open>parseDevice\<close> runs it over the lines of the stream. The public
  key of a private key (curve25519) and the system's name resolution are parameters.
\<close>

section \<open>The parser's state and its value parsers\<close>

record deviceParser =
  dp_d :: Device
  dp_err :: "go_error option"
  dp_parsePeers :: bool
  dp_peers :: nat
  dp_hsSec :: int
  dp_hsNano :: int

definition newParser :: deviceParser where
  "newParser = \<lparr> dp_d = zeroDevice, dp_err = None, dp_parsePeers = False, dp_peers = 0,
     dp_hsSec = 0, dp_hsNano = 0 \<rparr>"

text \<open>
  The parse methods share one shape: nothing is read after an error, a failure is remembered and
  the zero value returned.
\<close>

definition dp_value :: "(string \<Rightarrow> go_error + 'a) \<Rightarrow> 'a \<Rightarrow> string \<Rightarrow> deviceParser \<Rightarrow> 'a \<times> deviceParser" where
  "dp_value rd zero s dp =
     (if dp_err dp \<noteq> None then (zero, dp)
      else case rd s of
        Inl e \<Rightarrow> (zero, dp\<lparr> dp_err := Some e \<rparr>)
      | Inr v \<Rightarrow> (v, dp))"

definition read_key :: "string \<Rightarrow> go_error + Key" where
  "read_key s = (case hexDecode s of None \<Rightarrow> Inl (ErrText ''encoding/hex'') | Some b \<Rightarrow> NewKey b)"

definition read_int :: "string \<Rightarrow> go_error + int" where
  "read_int s = (case atoi s of None \<Rightarrow> Inl (ErrText ''strconv'') | Some v \<Rightarrow> Inr v)"

definition read_int64 :: "string \<Rightarrow> go_error + int" where
  "read_int64 s = (case parseInt 64 s of None \<Rightarrow> Inl (ErrText ''strconv'') | Some v \<Rightarrow> Inr v)"

definition read_cidr :: "string \<Rightarrow> go_error + ipnet" where
  "read_cidr s = (case ParseCIDR s of None \<Rightarrow> Inl (ErrText ''invalid CIDR address'') | Some n \<Rightarrow> Inr n)"

type_synonym resolver = "string \<Rightarrow> go_error + udpaddr"

definition dp_parseKey :: "string \<Rightarrow> deviceParser \<Rightarrow> Key \<times> deviceParser" where
  "dp_parseKey s dp = dp_value read_key zeroKey s dp"

definition dp_parseInt :: "string \<Rightarrow> deviceParser \<Rightarrow> int \<times> deviceParser" where
  "dp_parseInt s dp = dp_value read_int 0 s dp"

definition dp_parseInt64 :: "string \<Rightarrow> deviceParser \<Rightarrow> int \<times> deviceParser" where
  "dp_parseInt64 s dp = dp_value read_int64 0 s dp"

definition dp_parseAddr :: "resolver \<Rightarrow> string \<Rightarrow> deviceParser \<Rightarrow> udpaddr option \<times> deviceParser" where
  "dp_parseAddr dns s dp =
     dp_value (\<lambda>s. map_sum id Some (ResolveUDPAddr dns s)) None s dp"

definition dp_parseCIDR :: "string \<Rightarrow> deviceParser \<Rightarrow> ipnet option \<times> deviceParser" where
  "dp_parseCIDR s dp = dp_value (\<lambda>s. map_sum id Some (read_cidr s)) None s dp"

section \<open>Fields of the device\<close>

definition on_device :: "(Device \<Rightarrow> Device) \<Rightarrow> deviceParser \<Rightarrow> deviceParser" where
  "on_device f dp = dp\<lparr> dp_d := f (dp_d dp) \<rparr>"

text \<open>\<open>dp.d.X = dp.parseInt(value)\<close>: the field is assigned whether or not the value parses.\<close>

definition int_field ::
    "((int \<Rightarrow> int) \<Rightarrow> Device \<Rightarrow> Device) \<Rightarrow> string \<Rightarrow> deviceParser \<Rightarrow> deviceParser" where
  "int_field upd value dp = (case dp_parseInt value dp of (v, dp) \<Rightarrow> on_device (upd (\<lambda>_. v)) dp)"

definition deviceField :: "string \<Rightarrow> string \<Rightarrow> deviceParser \<Rightarrow> deviceParser" where
  "deviceField key value dp =
     (if key = ''private_key''
      then (case dp_parseKey value dp of (k, dp) \<Rightarrow> on_device (dev_PrivateKey_update (\<lambda>_. k)) dp)
      else if key = ''listen_port'' then int_field dev_ListenPort_update value dp
      else if key = ''fwmark'' then int_field dev_FirewallMark_update value dp
      else if key = ''jc''
      then on_device (dev_IsAmnezia_update (\<lambda>_. True)) (int_field dev_Jc_update value dp)
      else if key = ''jmin'' then int_field dev_Jmin_update value dp
      else if key = ''jmax'' then int_field dev_Jmax_update value dp
      else if key = ''s1'' then int_field dev_S1_update value dp
      else if key = ''s2'' then int_field dev_S2_update value dp
      else if key = ''s3'' then int_field dev_S3_update value dp
      else if key = ''s4'' then int_field dev_S4_update value dp
      else if key = ''h1'' then on_device (dev_H1_update (\<lambda>_. value)) dp
      else if key = ''h2'' then on_device (dev_H2_update (\<lambda>_. value)) dp
      else if key = ''h3'' then on_device (dev_H3_update (\<lambda>_. value)) dp
      else if key = ''h4'' then on_device (dev_H4_update (\<lambda>_. value)) dp
      else if key = ''i1'' then on_device (dev_I1_update (\<lambda>_. value)) dp
      else if key = ''i2'' then on_device (dev_I2_update (\<lambda>_. value)) dp
      else if key = ''i3'' then on_device (dev_I3_update (\<lambda>_. value)) dp
      else if key = ''i4'' then on_device (dev_I4_update (\<lambda>_. value)) dp
      else if key = ''i5'' then on_device (dev_I5_update (\<lambda>_. value)) dp
      else dp)"

section \<open>Fields of the current peer\<close>

text \<open>\<open>dp.d.Peers[dp.peers-1]\<close>, which the code updates in place.\<close>

definition curPeer :: "deviceParser \<Rightarrow> Peer" where
  "curPeer dp = dev_Peers (dp_d dp) ! (dp_peers dp - 1)"

definition on_peer :: "(Peer \<Rightarrow> Peer) \<Rightarrow> deviceParser \<Rightarrow> deviceParser" where
  "on_peer f dp =
     on_device (dev_Peers_update (\<lambda>ps. ps[dp_peers dp - 1 := f (ps ! (dp_peers dp - 1))])) dp"

definition setHandshakeTime :: "deviceParser \<Rightarrow> deviceParser" where
  "setHandshakeTime dp =
     (if dp_hsSec dp = 0 \<and> dp_hsNano dp = 0
      then on_peer (peer_LastHandshakeTime_update (\<lambda>_. ZeroTime)) dp
      else on_peer (peer_LastHandshakeTime_update (\<lambda>_. time_Unix (dp_hsSec dp) (dp_hsNano dp))) dp)"

definition peerParse :: "resolver \<Rightarrow> string \<Rightarrow> string \<Rightarrow> deviceParser \<Rightarrow> deviceParser" where
  "peerParse dns key value dp =
     (if key = ''preshared_key''
      then (case dp_parseKey value dp of (k, dp) \<Rightarrow> on_peer (peer_PresharedKey_update (\<lambda>_. k)) dp)
      else if key = ''endpoint''
      then (case dp_parseAddr dns value dp of (a, dp) \<Rightarrow> on_peer (peer_Endpoint_update (\<lambda>_. a)) dp)
      else if key = ''last_handshake_time_sec''
      then (case dp_parseInt value dp of (v, dp) \<Rightarrow> setHandshakeTime (dp\<lparr> dp_hsSec := v \<rparr>))
      else if key = ''last_handshake_time_nsec''
      then (case dp_parseInt value dp of (v, dp) \<Rightarrow> setHandshakeTime (dp\<lparr> dp_hsNano := v \<rparr>))
      else if key = ''tx_bytes''
      then (case dp_parseInt64 value dp of (v, dp) \<Rightarrow> on_peer (peer_TransmitBytes_update (\<lambda>_. v)) dp)
      else if key = ''rx_bytes''
      then (case dp_parseInt64 value dp of (v, dp) \<Rightarrow> on_peer (peer_ReceiveBytes_update (\<lambda>_. v)) dp)
      else if key = ''persistent_keepalive_interval''
      then (case dp_parseInt value dp of (v, dp) \<Rightarrow>
              on_peer (peer_PersistentKeepaliveInterval_update (\<lambda>_. i64 (v * second))) dp)
      else if key = ''allowed_ip''
      then (case dp_parseCIDR value dp of
              (None, dp) \<Rightarrow> dp
            | (Some cidr, dp) \<Rightarrow> on_peer (peer_AllowedIPs_update (\<lambda>ips. ips @ [cidr])) dp)
      else if key = ''protocol_version''
      then (case dp_parseInt value dp of (v, dp) \<Rightarrow> on_peer (peer_ProtocolVersion_update (\<lambda>_. v)) dp)
      else dp)"

section \<open>One key=value pair\<close>

definition startPeer :: "string \<Rightarrow> deviceParser \<Rightarrow> deviceParser" where
  "startPeer value dp =
     (let dp = dp\<lparr> dp_parsePeers := True, dp_peers := dp_peers dp + 1, dp_hsSec := 0, dp_hsNano := 0 \<rparr>
      in case dp_parseKey value dp of
           (k, dp) \<Rightarrow> on_device (dev_Peers_update (\<lambda>ps. ps @ [zeroPeer\<lparr> peer_PublicKey := k \<rparr>])) dp)"

definition errno_error :: "int \<Rightarrow> go_error" where
  "errno_error n = SyscallError ''read'' (ErrText (''wguser: errno='' @ itoa n))"

definition Parse :: "resolver \<Rightarrow> string \<Rightarrow> string \<Rightarrow> deviceParser \<Rightarrow> deviceParser" where
  "Parse dns key value dp =
     (case (if key = ''errno'' then dp_parseInt value dp else (0, dp)) of
        (errno, dp) \<Rightarrow>
          if errno \<noteq> 0 then dp\<lparr> dp_err := Some (errno_error errno) \<rparr>
          else if key = ''public_key'' then startPeer value dp
          else if dp_parsePeers dp then peerParse dns key value dp
          else deviceField key value dp)"

text \<open>\<open>deviceParser.Device\<close>: the device, or the first error. \<open>pub\<close> is \<open>Key.PublicKey\<close>.\<close>

definition dp_Device :: "(Key \<Rightarrow> Key) \<Rightarrow> deviceParser \<Rightarrow> go_error + Device" where
  "dp_Device pub dp =
     (case dp_err dp of
        Some e \<Rightarrow> Inl e
      | None \<Rightarrow> Inr ((dp_d dp)\<lparr> dev_PublicKey := pub (dev_PrivateKey (dp_d dp)) \<rparr>))"

section \<open>The stream\<close>

text \<open>
  \<open>bufio.Scanner\<close> with its default buffer: lines end with a newline, a last one may lack it, one
  carriage return before the end is dropped, and a line of 65536 bytes or more is an error.
\<close>

definition raw_lines :: "string \<Rightarrow> string list" where
  "raw_lines s = (let ls = splitOn LF s in if last ls = [] then butlast ls else ls)"

definition maxLine :: nat where
  "maxLine = 65536"

definition dropCR :: "string \<Rightarrow> string" where
  "dropCR l = trimSuffix [CR] l"

text \<open>The loop of \<open>parseDevice\<close>; \<open>rerr\<close> is the error the stream ends with, if any.\<close>

fun parse_lines ::
    "(Key \<Rightarrow> Key) \<Rightarrow> resolver \<Rightarrow> go_error option \<Rightarrow> string list \<Rightarrow> deviceParser \<Rightarrow> go_error + Device" where
  "parse_lines pub dns rerr [] dp = (case rerr of Some e \<Rightarrow> Inl e | None \<Rightarrow> dp_Device pub dp)"
| "parse_lines pub dns rerr (l # ls) dp =
     (if maxLine \<le> length l then Inl (ErrText ''bufio.Scanner: token too long'')
      else let b = dropCR l in
        if b = [] then dp_Device pub dp
        else (case splitOn CHR ''='' b of
                [key, value] \<Rightarrow> parse_lines pub dns rerr ls (Parse dns key value dp)
              | _ \<Rightarrow> Inl (ErrText (''wguser: invalid key=value pair: '' @ b))))"

definition parseDevice :: "(Key \<Rightarrow> Key) \<Rightarrow> resolver \<Rightarrow> string \<times> go_error option \<Rightarrow> go_error + Device" where
  "parseDevice pub dns stream =
     parse_lines pub dns (snd stream) (raw_lines (fst stream)) newParser"

section \<open>The first error sticks\<close>

lemma dp_value_err: "dp_err dp = Some e \<Longrightarrow> dp_value rd z s dp = (z, dp)"
  by (simp add: dp_value_def)

lemma dp_value_cases: "snd (dp_value rd z s dp) = dp \<or> (\<exists>e. snd (dp_value rd z s dp) = dp\<lparr> dp_err := Some e \<rparr>)"
  by (auto simp: dp_value_def split: sum.split)

lemmas dp_readers = dp_parseKey_def dp_parseInt_def dp_parseInt64_def dp_parseAddr_def dp_parseCIDR_def

lemma on_device_simps [simp]:
  "dp_err (on_device f dp) = dp_err dp" "dp_parsePeers (on_device f dp) = dp_parsePeers dp"
  "dp_peers (on_device f dp) = dp_peers dp" "dp_hsSec (on_device f dp) = dp_hsSec dp"
  "dp_hsNano (on_device f dp) = dp_hsNano dp" "dp_d (on_device f dp) = f (dp_d dp)"
  by (simp_all add: on_device_def)

lemma on_peer_simps [simp]:
  "dp_err (on_peer f dp) = dp_err dp" "dp_parsePeers (on_peer f dp) = dp_parsePeers dp"
  "dp_peers (on_peer f dp) = dp_peers dp" "dp_hsSec (on_peer f dp) = dp_hsSec dp"
  "dp_hsNano (on_peer f dp) = dp_hsNano dp"
  "dev_Peers (dp_d (on_peer f dp)) =
     (dev_Peers (dp_d dp))[dp_peers dp - 1 := f (dev_Peers (dp_d dp) ! (dp_peers dp - 1))]"
  by (simp_all add: on_peer_def)

lemma setHandshakeTime_simps [simp]:
  "dp_err (setHandshakeTime dp) = dp_err dp" "dp_parsePeers (setHandshakeTime dp) = dp_parsePeers dp"
  "dp_peers (setHandshakeTime dp) = dp_peers dp"
  "length (dev_Peers (dp_d (setHandshakeTime dp))) = length (dev_Peers (dp_d dp))"
  by (simp_all add: setHandshakeTime_def)

lemma int_field_err: "dp_err dp = Some e \<Longrightarrow> dp_err (int_field upd v dp) = Some e"
  by (simp add: int_field_def dp_readers dp_value_err)

lemma peerParse_err: "dp_err dp = Some e \<Longrightarrow> dp_err (peerParse dns k v dp) = Some e"
  by (simp add: peerParse_def dp_readers dp_value_err)

lemma deviceField_err: "dp_err dp = Some e \<Longrightarrow> dp_err (deviceField k v dp) = Some e"
  by (simp add: deviceField_def int_field_err dp_readers dp_value_err)

lemma startPeer_err: "dp_err dp = Some e \<Longrightarrow> dp_err (startPeer v dp) = Some e"
  by (simp add: startPeer_def Let_def dp_readers dp_value_err)

lemma Parse_err: "dp_err dp = Some e \<Longrightarrow> dp_err (Parse dns k v dp) = Some e"
  by (simp add: Parse_def dp_parseInt_def dp_value_err peerParse_err deviceField_err startPeer_err)

section \<open>The current peer exists\<close>

definition dp_ok :: "deviceParser \<Rightarrow> bool" where
  "dp_ok dp \<longleftrightarrow> dp_peers dp = length (dev_Peers (dp_d dp)) \<and> (dp_parsePeers dp \<longleftrightarrow> 0 < dp_peers dp)"

lemma dp_ok_newParser: "dp_ok newParser"
  by (simp add: dp_ok_def newParser_def zeroDevice_def)

lemma dp_ok_index: "dp_ok dp \<Longrightarrow> dp_parsePeers dp \<Longrightarrow> dp_peers dp - 1 < length (dev_Peers (dp_d dp))"
  by (auto simp: dp_ok_def)

lemma dp_value_same [simp]:
  "dp_ok (snd (dp_value rd z s dp)) = dp_ok dp"
  "dp_parsePeers (snd (dp_value rd z s dp)) = dp_parsePeers dp"
  "dp_peers (snd (dp_value rd z s dp)) = dp_peers dp"
  "dp_d (snd (dp_value rd z s dp)) = dp_d dp"
  by (simp_all add: dp_value_def dp_ok_def split: sum.split)

lemma dp_ok_on_peer [simp]: "dp_ok (on_peer f dp) = dp_ok dp"
  by (simp add: dp_ok_def)

lemma dp_ok_handshake [simp]: "dp_ok (setHandshakeTime dp) = dp_ok dp"
  by (simp add: dp_ok_def)

lemma dp_ok_hs [simp]:
  "dp_ok (dp\<lparr> dp_hsSec := x \<rparr>) = dp_ok dp" "dp_ok (dp\<lparr> dp_hsNano := x \<rparr>) = dp_ok dp"
  "dp_ok (dp\<lparr> dp_err := y \<rparr>) = dp_ok dp"
  by (simp_all add: dp_ok_def)

lemma peerParse_ok: "dp_ok dp \<Longrightarrow> dp_ok (peerParse dns k v dp)"
  by (simp add: peerParse_def dp_readers case_prod_beta split: option.split)

lemma dp_ok_on_device: "(\<And>d. dev_Peers (f d) = dev_Peers d) \<Longrightarrow> dp_ok (on_device f dp) = dp_ok dp"
  by (simp add: dp_ok_def)

lemma deviceField_ok: "dp_ok dp \<Longrightarrow> dp_ok (deviceField k v dp)"
  by (simp add: deviceField_def int_field_def dp_readers case_prod_beta dp_ok_on_device)

lemma startPeer_ok: "dp_ok dp \<Longrightarrow> dp_ok (startPeer v dp)"
  by (simp add: startPeer_def Let_def dp_readers case_prod_beta) (simp add: dp_ok_def)

lemma Parse_ok: "dp_ok dp \<Longrightarrow> dp_ok (Parse dns k v dp)"
  by (simp add: Parse_def dp_parseInt_def peerParse_ok deviceField_ok startPeer_ok case_prod_beta)

section \<open>The handshake time\<close>

lemma Parse_peer:
  "dp_parsePeers dp \<Longrightarrow> k \<noteq> ''errno'' \<Longrightarrow> k \<noteq> ''public_key'' \<Longrightarrow> Parse dns k v dp = peerParse dns k v dp"
  by (simp add: Parse_def)

lemma Parse_device:
  "\<not> dp_parsePeers dp \<Longrightarrow> k \<noteq> ''errno'' \<Longrightarrow> k \<noteq> ''public_key'' \<Longrightarrow> Parse dns k v dp = deviceField k v dp"
  by (simp add: Parse_def)

lemma Parse_public_key: "Parse dns ''public_key'' v dp = startPeer v dp"
  by (simp add: Parse_def)

text \<open>What the two handshake lines leave behind, whichever comes first.\<close>

definition handshake_time :: "int \<Rightarrow> int \<Rightarrow> gotime" where
  "handshake_time sec nsec = (if sec = 0 \<and> nsec = 0 then ZeroTime else time_Unix sec nsec)"

lemma setHandshakeTime_eq:
  "setHandshakeTime dp =
     on_peer (peer_LastHandshakeTime_update (\<lambda>_. handshake_time (dp_hsSec dp) (dp_hsNano dp))) dp"
  by (simp add: setHandshakeTime_def handshake_time_def)

lemma handshake_lines:
  assumes "dp_ok dp" and "dp_parsePeers dp" and "dp_err dp = None"
    and "read_int a = Inr x" and "read_int b = Inr y"
  defines "dp' \<equiv> on_peer (peer_LastHandshakeTime_update (\<lambda>_. handshake_time x y))
      (dp\<lparr> dp_hsSec := x, dp_hsNano := y \<rparr>)"
  shows "Parse dns ''last_handshake_time_nsec'' b (Parse dns ''last_handshake_time_sec'' a dp) = dp'"
    and "Parse dns ''last_handshake_time_sec'' a (Parse dns ''last_handshake_time_nsec'' b dp) = dp'"
  using assms(2-5) dp_ok_index [OF assms(1,2)]
  by (auto simp: dp'_def Parse_peer peerParse_def setHandshakeTime_eq dp_parseInt_def
      dp_value_def on_peer_def on_device_def intro!: deviceParser.equality Device.equality)

end
