(* ===== verification/UserProtocol.thy ===== *)
theory UserProtocol
  imports UserParse
begin

text \<open>
  The two directions of the userspace protocol together. A field's printer and reader are an
  interface, the locale \<open>field_codec\<close>: what is printed fits on its line and is read back. With it,
  the request that \<open>writeConfig\<close> renders has one line per field, and \<open>parseDevice\<close> reads a rendered
  configuration back into a device with the configured fields.
\<close>

section \<open>Values that stay on their line\<close>

definition value_ok :: "string \<Rightarrow> bool" where
  "value_ok s \<longleftrightarrow> (\<forall>c \<in> set s. c \<noteq> LF \<and> c \<noteq> CR \<and> c \<noteq> CHR ''='')"

definition kv_ok :: "string \<times> string \<Rightarrow> bool" where
  "kv_ok kv \<longleftrightarrow> value_ok (fst kv) \<and> value_ok (snd kv)"

lemma line_char: "is_hex_char c \<or> c \<in> set ''.:/-%[]<>?nil'' \<Longrightarrow> c \<noteq> LF \<and> c \<noteq> CR \<and> c \<noteq> CHR ''=''"
proof (erule disjE)
  show "is_hex_char c \<Longrightarrow> c \<noteq> LF \<and> c \<noteq> CR \<and> c \<noteq> CHR ''=''"
    using not_hex_chars by metis
qed auto

lemma value_okI: "(\<And>c. c \<in> set s \<Longrightarrow> is_hex_char c \<or> c \<in> set ''.:/-%[]<>?nil'') \<Longrightarrow> value_ok s"
  unfolding value_ok_def using line_char by blast

lemma value_ok_chars:
  "value_ok s \<Longrightarrow> LF \<notin> set s" "value_ok s \<Longrightarrow> CR \<notin> set s" "value_ok s \<Longrightarrow> CHR ''='' \<notin> set s"
  by (auto simp: value_ok_def)

lemma kv_text_chars:
  "kv_ok kv \<Longrightarrow> LF \<notin> set (kv_text kv)" "kv_ok kv \<Longrightarrow> CR \<notin> set (kv_text kv)"
  by (auto simp: kv_ok_def value_ok_def kv_text_def)

lemma kv_text_split: "kv_ok kv \<Longrightarrow> splitOn CHR ''='' (kv_text kv) = [fst kv, snd kv]"
  by (simp add: kv_ok_def kv_text_def splitOn_pair value_ok_chars)

lemma dropCR_kv: "kv_ok kv \<Longrightarrow> dropCR (kv_text kv) = kv_text kv"
  by (simp add: dropCR_def not_suffix_char kv_text_chars)

lemma dropCR_Nil [simp]: "dropCR [] = []"
  by (simp add: dropCR_def trimSuffix_def)

lemma kv_text_nonempty [simp]: "kv_text kv \<noteq> []"
  by (simp add: kv_text_def)

lemma splitOn_render:
  "\<forall>kv \<in> set kvs. kv_ok kv \<Longrightarrow> splitOn LF (render kvs @ rest) = map kv_text kvs @ splitOn LF rest"
  by (induction kvs) (simp_all add: render_def splitOn_append kv_text_chars)

lemma raw_lines_render:
  assumes "\<forall>kv \<in> set kvs. kv_ok kv"
  shows "raw_lines (render kvs @ [LF]) = map kv_text kvs @ [[]]"
  using splitOn_render [OF assms, of "[LF]"] by (simp add: raw_lines_def Let_def butlast_append)

section \<open>Framing\<close>

text \<open>The pairs of a stream up to its empty line, or the framing error the scan stops with.\<close>

fun frame :: "go_error option \<Rightarrow> string list \<Rightarrow> go_error + (string \<times> string) list" where
  "frame rerr [] = (case rerr of Some e \<Rightarrow> Inl e | None \<Rightarrow> Inr [])"
| "frame rerr (l # ls) =
     (if maxLine \<le> length l then Inl (ErrText ''bufio.Scanner: token too long'')
      else let b = dropCR l in
        if b = [] then Inr []
        else (case splitOn CHR ''='' b of
                [key, value] \<Rightarrow> map_sum id (\<lambda>kvs. (key, value) # kvs) (frame rerr ls)
              | _ \<Rightarrow> Inl (ErrText (''wguser: invalid key=value pair: '' @ b))))"

definition Parse_all :: "resolver \<Rightarrow> (string \<times> string) list \<Rightarrow> deviceParser \<Rightarrow> deviceParser" where
  "Parse_all dns kvs dp = fold (\<lambda>(k, v). Parse dns k v) kvs dp"

lemma Parse_all_simps [simp]:
  "Parse_all dns [] dp = dp"
  "Parse_all dns (kv # kvs) dp = Parse_all dns kvs (Parse dns (fst kv) (snd kv) dp)"
  "Parse_all dns (kvs @ kvs') dp = Parse_all dns kvs' (Parse_all dns kvs dp)"
  by (simp_all add: Parse_all_def case_prod_beta)

lemma parse_lines_frame:
  "parse_lines pub dns rerr ls dp =
     res_bind (frame rerr ls) (\<lambda>kvs. dp_Device pub (Parse_all dns kvs dp))"
proof (induction ls arbitrary: dp)
  case Nil
  then show ?case by (simp split: option.split)
next
  case (Cons l ls)
  then show ?case by (cases "frame rerr ls") (auto simp: Let_def split: list.split)
qed

lemma frame_render:
  assumes "\<forall>kv \<in> set kvs. kv_ok kv \<and> length (kv_text kv) < maxLine"
  shows "frame rerr (map kv_text kvs @ [[]]) = Inr kvs"
  using assms by (induction kvs) (auto simp: Let_def dropCR_kv kv_text_split maxLine_def)

lemma Parse_all_err: "dp_err dp = Some e \<Longrightarrow> dp_err (Parse_all dns kvs dp) = Some e"
  by (induction kvs arbitrary: dp) (auto simp: Parse_err)

lemma Parse_all_ok: "dp_ok dp \<Longrightarrow> dp_ok (Parse_all dns kvs dp)"
  by (induction kvs arbitrary: dp) (auto simp: Parse_ok)

text \<open>An \<open>errno\<close> line other than \<open>errno=0\<close>.\<close>

lemma Parse_errno:
  "dp_err dp = None \<Longrightarrow> read_int v = Inr n \<Longrightarrow> n \<noteq> 0 \<Longrightarrow>
   dp_err (Parse dns ''errno'' v dp) = Some (errno_error n)"
  by (simp add: Parse_def dp_parseInt_def dp_value_def)

section \<open>Printers and readers of fields\<close>

text \<open>Laws: a good value is read back, as \<open>red\<close> says, and its text stays on one line.\<close>

locale field_codec =
  fixes pr :: "'a \<Rightarrow> string"
    and rd :: "string \<Rightarrow> go_error + 'b"
    and ok :: "'a \<Rightarrow> bool"
    and red :: "'a \<Rightarrow> 'b"
  assumes reads: "ok x \<Longrightarrow> rd (pr x) = Inr (red x)"
    and on_line: "ok x \<Longrightarrow> value_ok (pr x)"
begin

lemma dp_value_pr: "dp_err dp = None \<Longrightarrow> ok x \<Longrightarrow> dp_value rd z (pr x) dp = (red x, dp)"
  by (simp add: dp_value_def reads)

lemma opt_line_ok: "pred_option ok v \<Longrightarrow> value_ok key \<Longrightarrow> \<forall>kv \<in> set (opt_line key pr v). kv_ok kv"
  by (cases v) (auto simp: opt_line_def kv_ok_def on_line)

lemma map_line_ok: "list_all ok xs \<Longrightarrow> value_ok key \<Longrightarrow> \<forall>kv \<in> set (map (\<lambda>x. (key, pr x)) xs). kv_ok kv"
  by (auto simp: list_all_iff kv_ok_def on_line)

end

definition int_ok :: "int \<Rightarrow> bool" where
  "int_ok x \<longleftrightarrow> - (2 ^ 63) \<le> x \<and> x < 2 ^ 63"

interpretation int_codec: field_codec itoa read_int int_ok "\<lambda>x. x"
proof
  fix x :: int
  assume "int_ok x"
  then show "read_int (itoa x) = Inr x"
    by (simp add: int_ok_def read_int_def atoi_def parseInt_itoa)
  show "value_ok (itoa x)"
    by (rule value_okI) (auto dest!: itoa_chars not_digit_hex)
qed

interpretation key_codec: field_codec hexKey read_key key_ok "\<lambda>k. k"
proof
  fix k :: Key
  assume "key_ok k"
  then show "read_key (hexKey k) = Inr k"
    by (simp add: read_key_def hexKey_def hexDecode_hexEncode NewKey_Inr)
  show "value_ok (hexKey k)"
    by (rule value_okI) (auto simp: hexKey_def dest: hexEncode_chars)
qed

interpretation text_codec: field_codec "\<lambda>s. s" Inr value_ok "\<lambda>s. s"
  by unfold_locales simp_all

definition keepalive_ok :: "int \<Rightarrow> bool" where
  "keepalive_ok d \<longleftrightarrow> 0 \<le> d \<and> d \<le> 65535 * second"

lemma secs_bounds: "keepalive_ok d \<Longrightarrow> 0 \<le> secs d \<and> secs d \<le> 65535"
  using zdiv_mono1 [of d "65535 * second" second]
  by (auto simp: keepalive_ok_def secs_def second_def pos_imp_zdiv_nonneg_iff)

interpretation keepalive_codec: field_codec "\<lambda>d. itoa (secs d)" read_int keepalive_ok secs
  by unfold_locales (use secs_bounds int_codec.reads int_codec.on_line in \<open>force simp: int_ok_def\<close>)+

interpretation cidr_codec:
  field_codec IPNet_String "\<lambda>s. map_sum id Some (read_cidr s)" ipnet_ok Some
proof
  fix n
  assume ok: "ipnet_ok n"
  then show "map_sum id Some (read_cidr (IPNet_String n)) = Inr (Some n)"
    by (simp add: read_cidr_def ParseCIDR_String)
  show "value_ok (IPNet_String n)"
    by (rule value_okI) (use IPNet_String_chars [OF ok] in auto)
qed

definition peer_endpoint_ok :: "udpaddr \<Rightarrow> bool" where
  "peer_endpoint_ok a \<longleftrightarrow> endpoint_ok a \<and> value_ok (ua_Zone a)"

lemma endpoint_value_ok: "peer_endpoint_ok a \<Longrightarrow> value_ok (UDPAddr_String a)"
proof -
  assume ok: "peer_endpoint_ok a"
  have "c \<noteq> LF \<and> c \<noteq> CR \<and> c \<noteq> CHR ''=''" if "c \<in> set (UDPAddr_String a)" for c
  proof -
    have "is_hex_char c \<or> c \<in> set ''.:-%[]'' \<or> c \<in> set (ua_Zone a)"
      using ok that UDPAddr_String_chars by (simp add: peer_endpoint_ok_def)
    then have "(is_hex_char c \<or> c \<in> set ''.:/-%[]<>?nil'') \<or> c \<in> set (ua_Zone a)" by auto
    then show ?thesis using line_char ok by (auto simp: peer_endpoint_ok_def value_ok_def)
  qed
  then show ?thesis by (simp add: value_ok_def)
qed

interpretation endpoint_codec:
  field_codec UDPAddr_String "\<lambda>s. map_sum id Some (ResolveUDPAddr dns s)" peer_endpoint_ok
    "\<lambda>a. Some (endpoint_16 a)" for dns
proof
  fix a
  assume "peer_endpoint_ok a"
  then show "map_sum id Some (ResolveUDPAddr dns (UDPAddr_String a)) = Inr (Some (endpoint_16 a))"
    and "value_ok (UDPAddr_String a)"
    by (simp_all add: peer_endpoint_ok_def ResolveUDPAddr_String endpoint_value_ok)
qed

section \<open>One line per field\<close>

lemma Some_map_filter: "h \<in> set (List.map_filter id hs) \<longleftrightarrow> Some h \<in> set hs"
  by (auto simp: List.map_filter_def image_iff)

lemma checkLineValues_None:
  "checkLineValues cfg = None \<longleftrightarrow>
     (\<forall>s. Some s \<in> set (cfg_headers cfg @ cfg_inits cfg) \<longrightarrow> LF \<notin> set s \<and> CR \<notin> set s)"
proof -
  have one: "(if containsAny s [CR, LF] then Some e else None) = None \<longleftrightarrow> LF \<notin> set s \<and> CR \<notin> set s"
    for s and e :: go_error
    by (auto simp: containsAny_def)
  have gen: "first_error (map (\<lambda>(name, v). case v of None \<Rightarrow> None
       | Some s \<Rightarrow> if containsAny s [CR, LF] then Some (f name) else None) (zip names vs)) = None \<longleftrightarrow>
     (\<forall>s. Some s \<in> set vs \<longrightarrow> LF \<notin> set s \<and> CR \<notin> set s)"
    if "length names = length vs" for f :: "string \<Rightarrow> go_error" and names vs
    using that
  proof (induction names vs rule: list_induct2)
    case (Cons n ns v vs)
    then show ?case by (cases v) (auto simp: one first_error_None split: if_splits)
  qed simp
  show ?thesis
    unfolding checkLineValues_def by (rule gen) (simp add: cfg_headers_def cfg_inits_def)
qed

lemma tag_ok_no_eq: "tag_ok tag n \<Longrightarrow> CHR ''='' \<notin> set tag"
proof (induction rule: tag_ok.induct)
  case (tag_b hex)
  have "CHR ''='' \<notin> set ''0123456789abcdefABCDEF''" by simp
  with tag_b(3) have "CHR ''='' \<notin> set hex" unfolding isHex_def by blast
  then show ?case by simp
next
  case (tag_rand key num n)
  have "c \<noteq> CHR ''=''" if "c \<in> set (trimSuffix [CHR 0x0A] num)" for c
    using parseInt_chars [OF tag_rand(2) that] not_digits(3) by (elim disjE) auto
  then have "CHR ''='' \<notin> set num" using trimSuffix_set [of num "[CHR 0x0A]"] by auto
  with tag_rand(1) show ?case by auto
qed simp_all

lemma init_spec_no_eq: "init_spec s n \<Longrightarrow> CHR ''='' \<notin> set s"
  by (induction rule: init_spec.induct) (auto simp: blanks_def dest: tag_ok_no_eq)

text \<open>In a valid configuration whose text fields have no line break, they are good line values.\<close>

lemma text_fields_ok:
  assumes "Validate cfg = None" and "checkLineValues cfg = None"
    and "Some s \<in> set (cfg_headers cfg @ cfg_inits cfg)"
  shows "value_ok s"
proof -
  have v: "valid_config cfg" using assms(1) by (simp add: Validate_None_iff)
  have "CHR ''='' \<notin> set s"
  proof (cases "Some s \<in> set (cfg_headers cfg)")
    case True
    then have "s \<in> set (List.map_filter id (cfg_headers cfg))" by (simp only: Some_map_filter)
    with v have "header_range s \<noteq> {}" by (auto simp: valid_config_def valid_headers_def)
    then obtain a b where "ParseMagicHeader s = Inr (a, b)" by (auto simp: header_range_nonempty)
    from ParseMagicHeader_chars [OF this, of "CHR ''=''"] show ?thesis using not_digits by auto
  next
    case False
    with assms(3) v have "valid_init s" by (auto simp: valid_config_def)
    then show ?thesis by (auto simp: valid_init_def dest: init_spec_no_eq)
  qed
  with assms(2,3) show ?thesis unfolding checkLineValues_None value_ok_def by blast
qed

lemma IP_String_value_ok: "value_ok (IP_String ip)"
proof (rule value_okI)
  fix c assume c: "c \<in> set (IP_String ip)"
  then consider "c \<in> set ''<nil>?''" | "c \<in> set (hexEncode ip)"
    | v where "c \<in> set (v4_String v)" | "c \<in> set (v6_String ip)"
    by (auto simp: IP_String_def split: if_splits option.splits)
  then show "is_hex_char c \<or> c \<in> set ''.:/-%[]<>?nil''"
    by cases (auto dest: hexEncode_chars v4_String_chars v6_String_chars not_digit_hex)
qed

lemma value_ok_append [simp]: "value_ok (a @ b) \<longleftrightarrow> value_ok a \<and> value_ok b"
  by (auto simp: value_ok_def)

lemma value_ok_Cons [simp]: "value_ok (c # b) \<longleftrightarrow> (c \<noteq> LF \<and> c \<noteq> CR \<and> c \<noteq> CHR ''='') \<and> value_ok b"
  by (auto simp: value_ok_def)

lemma value_ok_Nil [simp]: "value_ok []"
  by (simp add: value_ok_def)

lemma itoa_value_ok: "value_ok (itoa i)"
  by (rule value_okI) (auto dest!: itoa_chars not_digit_hex)

lemma hex_value_ok: "value_ok (hexEncode b)"
  by (rule value_okI) (auto dest: hexEncode_chars)

lemma IPNet_String_value_ok: "value_ok (IPNet_String n)"
proof -
  have "value_ok (itoa_nat l)" for l using itoa_value_ok [of "int l"] by (simp add: itoa_nonneg)
  then show ?thesis
    by (auto simp: IPNet_String_def IP_String_value_ok hex_value_ok split: option.split)
qed

lemma UDPAddr_String_value_ok: "value_ok (ua_Zone a) \<Longrightarrow> value_ok (UDPAddr_String a)"
  by (simp add: UDPAddr_String_def JoinHostPort_def Let_def IP_String_value_ok itoa_value_ok)

text \<open>The zone of an IPv6 endpoint is free text that nothing else checks.\<close>

definition zones_ok :: "Config \<Rightarrow> bool" where
  "zones_ok cfg \<longleftrightarrow>
     list_all (\<lambda>p. pred_option (\<lambda>a. value_ok (ua_Zone a)) (pc_Endpoint p)) (cfg_Peers cfg)"

lemma opt_line_kv_ok:
  "value_ok key \<Longrightarrow> (\<And>x. v = Some x \<Longrightarrow> value_ok (pr x)) \<Longrightarrow> \<forall>kv \<in> set (opt_line key pr v). kv_ok kv"
  by (auto simp: opt_line_def kv_ok_def split: option.split)

lemma flag_line_kv_ok: "value_ok key \<Longrightarrow> \<forall>kv \<in> set (flag_line key b). kv_ok kv"
  by (auto simp: flag_line_def kv_ok_def)

lemma peer_lines_kv_ok:
  assumes "pred_option (\<lambda>a. value_ok (ua_Zone a)) (pc_Endpoint p)"
  shows "\<forall>kv \<in> set (peer_lines p). kv_ok kv"
  unfolding peer_lines_def set_append ball_Un set_simps ball_simps
  using assms
  by (intro conjI opt_line_kv_ok flag_line_kv_ok)
    (auto simp: kv_ok_def hexKey_def hex_value_ok itoa_value_ok UDPAddr_String_value_ok IPNet_String_value_ok)

lemma device_lines_kv_ok:
  assumes "\<And>s. Some s \<in> set (cfg_headers cfg @ cfg_inits cfg) \<Longrightarrow> value_ok s"
  shows "\<forall>kv \<in> set (device_lines cfg). kv_ok kv"
  unfolding device_lines_def set_append ball_Un
  by (intro conjI opt_line_kv_ok)
    (use assms in \<open>auto simp: hexKey_def hex_value_ok itoa_value_ok cfg_headers_def cfg_inits_def\<close>)

lemma config_lines_kv_ok:
  assumes "Validate cfg = None" and "checkLineValues cfg = None" and "zones_ok cfg"
  shows "\<forall>kv \<in> set (config_lines cfg). kv_ok kv"
proof -
  have "\<forall>kv \<in> set (concat (map peer_lines (cfg_Peers cfg))). kv_ok kv"
    using assms(3) peer_lines_kv_ok by (auto simp: zones_ok_def list_all_iff)
  moreover have "\<forall>kv \<in> set (device_lines cfg). kv_ok kv"
    by (rule device_lines_kv_ok) (rule text_fields_ok [OF assms(1,2)])
  ultimately show ?thesis
    using flag_line_kv_ok [of "''replace_peers''" "cfg_ReplacePeers cfg"]
    by (auto simp: config_lines_def)
qed

text \<open>The whole request, as the daemon splits it into lines.\<close>

lemma set_request_lines:
  assumes "\<forall>kv \<in> set (config_lines cfg). kv_ok kv"
  shows "raw_lines (set_request cfg) = map kv_text ((''set'', ''1'') # config_lines cfg) @ [[]]"
proof -
  have "set_request cfg = render ((''set'', ''1'') # config_lines cfg) @ [LF]"
    by (simp add: set_request_def writeConfig_def render_def kv_text_def)
  moreover have "kv_ok (''set'', ''1'')" by (simp add: kv_ok_def)
  ultimately show ?thesis
    using raw_lines_render [of "(''set'', ''1'') # config_lines cfg"] assms by simp
qed

end
