(* ===== verification/UserEcho.thy ===== *)
theory UserEcho
  imports UserProtocol
begin

text \<open>
  Reading a configuration back: \<open>parseDevice\<close> on the text of \<open>writeConfig\<close> gives the device with the
  configured fields, \<open>echo_device\<close>. Each line of the request is shown to update one field of the
  parser's device, or of its current peer.
\<close>

section \<open>The device a configuration describes\<close>

definition echo_peer :: "PeerConfig \<Rightarrow> Peer" where
  "echo_peer p = zeroPeer\<lparr>
     peer_PublicKey := pc_PublicKey p,
     peer_PresharedKey := (case pc_PresharedKey p of None \<Rightarrow> zeroKey | Some k \<Rightarrow> k),
     peer_Endpoint := map_option endpoint_16 (pc_Endpoint p),
     peer_PersistentKeepaliveInterval :=
       (case pc_PersistentKeepaliveInterval p of None \<Rightarrow> 0 | Some d \<Rightarrow> secs d * second),
     peer_AllowedIPs := pc_AllowedIPs p \<rparr>"

definition num :: "int option \<Rightarrow> int" where
  "num v = (case v of None \<Rightarrow> 0 | Some x \<Rightarrow> x)"

definition str :: "string option \<Rightarrow> string" where
  "str v = (case v of None \<Rightarrow> [] | Some x \<Rightarrow> x)"

definition echo_fields :: "Config \<Rightarrow> Device" where
  "echo_fields c = zeroDevice\<lparr>
     dev_PrivateKey := (case cfg_PrivateKey c of None \<Rightarrow> zeroKey | Some k \<Rightarrow> k),
     dev_ListenPort := num (cfg_ListenPort c), dev_FirewallMark := num (cfg_FirewallMark c),
     dev_IsAmnezia := (cfg_Jc c \<noteq> None),
     dev_Jc := num (cfg_Jc c), dev_Jmin := num (cfg_Jmin c), dev_Jmax := num (cfg_Jmax c),
     dev_S1 := num (cfg_S1 c), dev_S2 := num (cfg_S2 c), dev_S3 := num (cfg_S3 c),
     dev_S4 := num (cfg_S4 c),
     dev_H1 := str (cfg_H1 c), dev_H2 := str (cfg_H2 c), dev_H3 := str (cfg_H3 c),
     dev_H4 := str (cfg_H4 c), dev_I1 := str (cfg_I1 c), dev_I2 := str (cfg_I2 c),
     dev_I3 := str (cfg_I3 c), dev_I4 := str (cfg_I4 c), dev_I5 := str (cfg_I5 c) \<rparr>"

definition echo_device :: "(Key \<Rightarrow> Key) \<Rightarrow> Config \<Rightarrow> Device" where
  "echo_device pub c = (echo_fields c)\<lparr>
     dev_PublicKey := pub (case cfg_PrivateKey c of None \<Rightarrow> zeroKey | Some k \<Rightarrow> k),
     dev_Peers := map echo_peer (cfg_Peers c) \<rparr>"

section \<open>Lines of the device\<close>

definition device_mode :: "deviceParser \<Rightarrow> bool" where
  "device_mode dp \<longleftrightarrow> \<not> dp_parsePeers dp \<and> dp_err dp = None"

lemma device_mode_on_device [simp]: "device_mode (on_device f dp) = device_mode dp"
  by (simp add: device_mode_def)

text \<open>\<open>put upd v d\<close>: set the field if there is a value.\<close>

definition put :: "(('a \<Rightarrow> 'a) \<Rightarrow> 'd \<Rightarrow> 'd) \<Rightarrow> 'a option \<Rightarrow> 'd \<Rightarrow> 'd" where
  "put upd v d = (case v of None \<Rightarrow> d | Some x \<Rightarrow> upd (\<lambda>_. x) d)"

lemma put_None [simp]: "put upd None = (\<lambda>d. d)"
  by (rule ext) (simp add: put_def)

lemma put_Some [simp]: "put upd (Some x) = upd (\<lambda>_. x)"
  by (rule ext) (simp add: put_def)

lemma on_device_id [simp]: "on_device (\<lambda>d. d) dp = dp"
  by (simp add: on_device_def)

lemma int_field_itoa:
  "device_mode dp \<Longrightarrow> int_ok x \<Longrightarrow> int_field upd (itoa x) dp = on_device (upd (\<lambda>_. x)) dp"
  by (simp add: int_field_def dp_parseInt_def int_codec.dp_value_pr device_mode_def)

lemma int_line:
  assumes "device_mode dp" and "pred_option int_ok v"
    and "\<And>s. Parse dns key s dp = int_field upd s dp"
  shows "Parse_all dns (opt_line key itoa v) dp = on_device (put upd v) dp"
  using assms by (cases v) (auto simp: opt_line_def int_field_itoa)

lemma int_lines:
  assumes "device_mode dp" and "pred_option int_ok v"
  shows "Parse_all dns (opt_line ''listen_port'' itoa v) dp = on_device (put dev_ListenPort_update v) dp"
    and "Parse_all dns (opt_line ''fwmark'' itoa v) dp = on_device (put dev_FirewallMark_update v) dp"
    and "Parse_all dns (opt_line ''jmin'' itoa v) dp = on_device (put dev_Jmin_update v) dp"
    and "Parse_all dns (opt_line ''jmax'' itoa v) dp = on_device (put dev_Jmax_update v) dp"
    and "Parse_all dns (opt_line ''s1'' itoa v) dp = on_device (put dev_S1_update v) dp"
    and "Parse_all dns (opt_line ''s2'' itoa v) dp = on_device (put dev_S2_update v) dp"
    and "Parse_all dns (opt_line ''s3'' itoa v) dp = on_device (put dev_S3_update v) dp"
    and "Parse_all dns (opt_line ''s4'' itoa v) dp = on_device (put dev_S4_update v) dp"
  using assms
  by (auto intro!: int_line simp: device_mode_def Parse_device deviceField_def)

lemma jc_line:
  assumes "device_mode dp" and "pred_option int_ok v"
  shows "Parse_all dns (opt_line ''jc'' itoa v) dp =
    on_device (put dev_IsAmnezia_update (map_option (\<lambda>_. True) v)) (on_device (put dev_Jc_update v) dp)"
  using assms
  by (cases v)
    (auto simp: opt_line_def device_mode_def Parse_device deviceField_def
      int_field_def dp_parseInt_def int_codec.dp_value_pr)

lemma text_lines:
  assumes "device_mode dp"
  shows "Parse_all dns (opt_line ''h1'' (\<lambda>s. s) v) dp = on_device (put dev_H1_update v) dp"
    and "Parse_all dns (opt_line ''h2'' (\<lambda>s. s) v) dp = on_device (put dev_H2_update v) dp"
    and "Parse_all dns (opt_line ''h3'' (\<lambda>s. s) v) dp = on_device (put dev_H3_update v) dp"
    and "Parse_all dns (opt_line ''h4'' (\<lambda>s. s) v) dp = on_device (put dev_H4_update v) dp"
    and "Parse_all dns (opt_line ''i1'' (\<lambda>s. s) v) dp = on_device (put dev_I1_update v) dp"
    and "Parse_all dns (opt_line ''i2'' (\<lambda>s. s) v) dp = on_device (put dev_I2_update v) dp"
    and "Parse_all dns (opt_line ''i3'' (\<lambda>s. s) v) dp = on_device (put dev_I3_update v) dp"
    and "Parse_all dns (opt_line ''i4'' (\<lambda>s. s) v) dp = on_device (put dev_I4_update v) dp"
    and "Parse_all dns (opt_line ''i5'' (\<lambda>s. s) v) dp = on_device (put dev_I5_update v) dp"
  using assms
  by (cases v; simp add: opt_line_def device_mode_def Parse_device deviceField_def on_device_def)+

lemma private_key_line:
  assumes "device_mode dp" and "pred_option key_ok v"
  shows "Parse_all dns (opt_line ''private_key'' hexKey v) dp = on_device (put dev_PrivateKey_update v) dp"
  using assms
  by (cases v)
    (auto simp: opt_line_def device_mode_def Parse_device deviceField_def
      dp_parseKey_def key_codec.dp_value_pr)

lemma replace_peers_line:
  "device_mode dp \<Longrightarrow> Parse_all dns (flag_line ''replace_peers'' b) dp = dp"
  by (simp add: flag_line_def device_mode_def Parse_device deviceField_def)

text \<open>The fields a device line may set hold good integers and keys.\<close>

definition fields_ok :: "Config \<Rightarrow> bool" where
  "fields_ok c \<longleftrightarrow> pred_option key_ok (cfg_PrivateKey c) \<and>
     list_all (pred_option int_ok) [cfg_ListenPort c, cfg_FirewallMark c, cfg_Jc c, cfg_Jmin c,
       cfg_Jmax c, cfg_S1 c, cfg_S2 c, cfg_S3 c, cfg_S4 c]"

lemma device_mode_new [simp]: "device_mode newParser"
  by (simp add: device_mode_def newParser_def)

text \<open>A field after \<open>put\<close> on another field, and on the field itself.\<close>

lemma put_other: "(\<And>x d. f (upd (\<lambda>_. x) d) = f d) \<Longrightarrow> f (put upd v d) = f d"
  by (cases v) simp_all

lemma put_own: "(\<And>x d. f (upd (\<lambda>_. x) d) = x) \<Longrightarrow> f (put upd v d) = (case v of None \<Rightarrow> f d | Some x \<Rightarrow> x)"
  by (cases v) simp_all

lemmas put_others =
  put_other [where f = dev_Name] put_other [where f = dev_Type]
  put_other [where f = dev_PrivateKey] put_other [where f = dev_PublicKey]
  put_other [where f = dev_ListenPort] put_other [where f = dev_FirewallMark]
  put_other [where f = dev_IsAmnezia] put_other [where f = dev_Jc] put_other [where f = dev_Jmin]
  put_other [where f = dev_Jmax] put_other [where f = dev_S1] put_other [where f = dev_S2]
  put_other [where f = dev_S3] put_other [where f = dev_S4] put_other [where f = dev_H1]
  put_other [where f = dev_H2] put_other [where f = dev_H3] put_other [where f = dev_H4]
  put_other [where f = dev_I1] put_other [where f = dev_I2] put_other [where f = dev_I3]
  put_other [where f = dev_I4] put_other [where f = dev_I5] put_other [where f = dev_Peers]

lemmas put_owns =
  put_own [where f = dev_PrivateKey] put_own [where f = dev_ListenPort]
  put_own [where f = dev_FirewallMark] put_own [where f = dev_IsAmnezia]
  put_own [where f = dev_Jc] put_own [where f = dev_Jmin] put_own [where f = dev_Jmax]
  put_own [where f = dev_S1] put_own [where f = dev_S2] put_own [where f = dev_S3]
  put_own [where f = dev_S4] put_own [where f = dev_H1] put_own [where f = dev_H2]
  put_own [where f = dev_H3] put_own [where f = dev_H4] put_own [where f = dev_I1]
  put_own [where f = dev_I2] put_own [where f = dev_I3] put_own [where f = dev_I4]
  put_own [where f = dev_I5]

definition fill :: "Config \<Rightarrow> Device \<Rightarrow> Device" where
  "fill c d =
     put dev_I5_update (cfg_I5 c) (put dev_I4_update (cfg_I4 c) (put dev_I3_update (cfg_I3 c)
     (put dev_I2_update (cfg_I2 c) (put dev_I1_update (cfg_I1 c)
     (put dev_H4_update (cfg_H4 c) (put dev_H3_update (cfg_H3 c) (put dev_H2_update (cfg_H2 c)
     (put dev_H1_update (cfg_H1 c)
     (put dev_S4_update (cfg_S4 c) (put dev_S3_update (cfg_S3 c) (put dev_S2_update (cfg_S2 c)
     (put dev_S1_update (cfg_S1 c)
     (put dev_Jmax_update (cfg_Jmax c) (put dev_Jmin_update (cfg_Jmin c)
     (put dev_IsAmnezia_update (map_option (\<lambda>_. True) (cfg_Jc c)) (put dev_Jc_update (cfg_Jc c)
     (put dev_FirewallMark_update (cfg_FirewallMark c) (put dev_ListenPort_update (cfg_ListenPort c)
     (put dev_PrivateKey_update (cfg_PrivateKey c) d)))))))))))))))))))"

lemma is_some: "(case v of None \<Rightarrow> False | Some x \<Rightarrow> True) \<longleftrightarrow> v \<noteq> None"
  by (cases v) simp_all

lemma fill_zero: "fill c zeroDevice = echo_fields c"
  by (rule Device.equality)
    (simp_all add: fill_def put_others put_owns is_some echo_fields_def num_def str_def zeroDevice_def
      cong: option.case_cong del: not_None_eq)

lemma device_lines_echo:
  assumes "fields_ok c"
  shows "Parse_all dns (device_lines c) newParser = newParser\<lparr> dp_d := echo_fields c \<rparr>"
proof -
  have "Parse_all dns (device_lines c) newParser = on_device (fill c) newParser"
    using assms
    by (simp add: device_lines_def fields_ok_def int_lines jc_line text_lines private_key_line)
      (simp add: on_device_def fill_def)
  then show ?thesis by (simp add: on_device_def fill_zero newParser_def)
qed

section \<open>Lines of a peer\<close>

definition peer_mode :: "deviceParser \<Rightarrow> bool" where
  "peer_mode dp \<longleftrightarrow> dp_parsePeers dp \<and> dp_err dp = None \<and> dp_ok dp"

lemma peer_mode_on_peer [simp]: "peer_mode (on_peer f dp) = peer_mode dp"
  by (simp add: peer_mode_def)

lemma on_peer_on_peer: "peer_mode dp \<Longrightarrow> on_peer f (on_peer g dp) = on_peer (f \<circ> g) dp"
  using dp_ok_index [of dp]
  by (auto simp: peer_mode_def on_peer_def on_device_def intro!: deviceParser.equality Device.equality)

lemma on_peer_id [simp]: "on_peer (\<lambda>p. p) dp = dp" "on_peer id dp = dp"
  by (simp_all add: on_peer_def on_device_def)

lemma preshared_line:
  assumes "peer_mode dp" and "pred_option key_ok v"
  shows "Parse_all dns (opt_line ''preshared_key'' hexKey v) dp = on_peer (put peer_PresharedKey_update v) dp"
  using assms
  by (cases v)
    (auto simp: opt_line_def peer_mode_def Parse_peer peerParse_def
      dp_parseKey_def key_codec.dp_value_pr)

lemma endpoint_line:
  assumes "peer_mode dp" and "pred_option peer_endpoint_ok v"
  shows "Parse_all dns (opt_line ''endpoint'' UDPAddr_String v) dp =
    on_peer (put peer_Endpoint_update (map_option (\<lambda>a. Some (endpoint_16 a)) v)) dp"
  using assms
  by (cases v)
    (auto simp: opt_line_def peer_mode_def Parse_peer peerParse_def
      dp_parseAddr_def endpoint_codec.dp_value_pr)

lemma i64_secs: "keepalive_ok d \<Longrightarrow> i64 (secs d * second) = secs d * second"
  using secs_bounds [of d] by (intro i64_id) (auto simp: second_def)

lemma keepalive_line:
  assumes "peer_mode dp" and "pred_option keepalive_ok v"
  shows "Parse_all dns (opt_line ''persistent_keepalive_interval'' (\<lambda>d. itoa (secs d)) v) dp =
    on_peer (put peer_PersistentKeepaliveInterval_update (map_option (\<lambda>d. secs d * second) v)) dp"
  using assms
  by (cases v)
    (auto simp: opt_line_def peer_mode_def Parse_peer peerParse_def
      dp_parseInt_def keepalive_codec.dp_value_pr i64_secs)

lemma peer_flag_lines:
  assumes "peer_mode dp"
  shows "Parse_all dns (flag_line ''remove'' b) dp = dp"
    and "Parse_all dns (flag_line ''update_only'' b) dp = dp"
    and "Parse_all dns (flag_line ''replace_allowed_ips'' b) dp = dp"
  using assms by (simp_all add: flag_line_def peer_mode_def Parse_peer peerParse_def)

lemma allowed_ip_line:
  "peer_mode dp \<Longrightarrow> ipnet_ok n \<Longrightarrow> Parse dns ''allowed_ip'' (IPNet_String n) dp =
    on_peer (peer_AllowedIPs_update (\<lambda>ips. ips @ [n])) dp"
  by (simp add: peer_mode_def Parse_peer peerParse_def dp_parseCIDR_def cidr_codec.dp_value_pr)

lemma allowed_ip_lines:
  "peer_mode dp \<Longrightarrow> list_all ipnet_ok ips \<Longrightarrow>
   Parse_all dns (map (\<lambda>ip. (''allowed_ip'', IPNet_String ip)) ips) dp =
   on_peer (peer_AllowedIPs_update (\<lambda>xs. xs @ ips)) dp"
proof (induction ips arbitrary: dp)
  case (Cons n ips)
  then show ?case by (simp add: allowed_ip_line on_peer_on_peer comp_def)
next
  case Nil
  have "peer_AllowedIPs_update (\<lambda>xs. xs) = (\<lambda>p::Peer. p)" by (rule ext) simp
  then show ?case by simp
qed

definition peer_echo_ok :: "PeerConfig \<Rightarrow> bool" where
  "peer_echo_ok p \<longleftrightarrow> key_ok (pc_PublicKey p) \<and> pred_option key_ok (pc_PresharedKey p) \<and>
     pred_option peer_endpoint_ok (pc_Endpoint p) \<and>
     pred_option keepalive_ok (pc_PersistentKeepaliveInterval p) \<and> list_all ipnet_ok (pc_AllowedIPs p)"

definition add_peer :: "Peer \<Rightarrow> deviceParser \<Rightarrow> deviceParser" where
  "add_peer q dp = dp\<lparr> dp_parsePeers := True, dp_peers := dp_peers dp + 1, dp_hsSec := 0, dp_hsNano := 0,
     dp_d := (dp_d dp)\<lparr> dev_Peers := dev_Peers (dp_d dp) @ [q] \<rparr> \<rparr>"

lemma startPeer_echo:
  assumes "dp_err dp = None" and "key_ok k"
  shows "startPeer (hexKey k) dp = add_peer (zeroPeer\<lparr> peer_PublicKey := k \<rparr>) dp"
  using assms
  by (simp add: startPeer_def Let_def dp_parseKey_def key_codec.dp_value_pr on_device_def add_peer_def)

lemma add_peer_mode: "dp_err dp = None \<Longrightarrow> dp_ok dp \<Longrightarrow> peer_mode (add_peer q dp)"
  by (simp add: peer_mode_def add_peer_def dp_ok_def)

lemma on_peer_add_peer: "dp_ok dp \<Longrightarrow> on_peer f (add_peer q dp) = add_peer (f q) dp"
  by (simp add: on_peer_def on_device_def add_peer_def dp_ok_def)

lemma put_peer:
  "put peer_PresharedKey_update k p = p\<lparr> peer_PresharedKey := (case k of None \<Rightarrow> peer_PresharedKey p | Some x \<Rightarrow> x) \<rparr>"
  "put peer_Endpoint_update e p = p\<lparr> peer_Endpoint := (case e of None \<Rightarrow> peer_Endpoint p | Some x \<Rightarrow> x) \<rparr>"
  "put peer_PersistentKeepaliveInterval_update i p =
     p\<lparr> peer_PersistentKeepaliveInterval := (case i of None \<Rightarrow> peer_PersistentKeepaliveInterval p | Some x \<Rightarrow> x) \<rparr>"
  by (simp_all add: put_def split: option.split)

lemma peer_lines_echo:
  assumes "dp_err dp = None" and "dp_ok dp" and "peer_echo_ok p"
  shows "Parse_all dns (peer_lines p) dp = add_peer (echo_peer p) dp"
proof -
  note mode = add_peer_mode [OF assms(1,2)]
  have "Parse_all dns (peer_lines p) dp = add_peer
      (peer_AllowedIPs_update (\<lambda>xs. xs @ pc_AllowedIPs p)
        (put peer_PersistentKeepaliveInterval_update
            (map_option (\<lambda>d. secs d * second) (pc_PersistentKeepaliveInterval p))
          (put peer_Endpoint_update (map_option (\<lambda>a. Some (endpoint_16 a)) (pc_Endpoint p))
            (put peer_PresharedKey_update (pc_PresharedKey p)
              (zeroPeer\<lparr> peer_PublicKey := pc_PublicKey p \<rparr>))))) dp"
    using assms(3)
    by (simp add: peer_lines_def Parse_public_key startPeer_echo [OF assms(1)] peer_echo_ok_def
        mode peer_flag_lines preshared_line endpoint_line keepalive_line allowed_ip_lines
        on_peer_add_peer [OF assms(2)])
  then show ?thesis
    by (simp add: put_peer echo_peer_def zeroPeer_def option.case_eq_if map_option_case)
qed

lemma add_peer_simps [simp]: "dp_err (add_peer q dp) = dp_err dp" "dp_ok dp \<Longrightarrow> dp_ok (add_peer q dp)"
  by (simp_all add: add_peer_def dp_ok_def)

lemma all_peers_echo:
  assumes "dp_err dp = None" and "dp_ok dp" and "list_all peer_echo_ok ps"
  shows "Parse_all dns (concat (map peer_lines ps)) dp = fold (\<lambda>p. add_peer (echo_peer p)) ps dp"
  using assms by (induction ps arbitrary: dp) (simp_all add: peer_lines_echo)

lemma fold_add_peer:
  "dp_err (fold (\<lambda>p. add_peer (f p)) ps dp) = dp_err dp"
  "dp_d (fold (\<lambda>p. add_peer (f p)) ps dp) = (dp_d dp)\<lparr> dev_Peers := dev_Peers (dp_d dp) @ map f ps \<rparr>"
  by (induction ps arbitrary: dp) (simp_all add: add_peer_def)

section \<open>The whole configuration\<close>

definition short_lines :: "Config \<Rightarrow> bool" where
  "short_lines c \<longleftrightarrow> list_all (\<lambda>kv. length (kv_text kv) < maxLine) (config_lines c)"

text \<open>
  A configuration whose values can be told on the wire: keys of 32 bytes, networks without host
  bits, endpoints with a literal address, lines that fit the scanner.
\<close>

definition echo_ok :: "Config \<Rightarrow> bool" where
  "echo_ok c \<longleftrightarrow> cfg_wf c \<and> short_lines c \<and>
     list_all (\<lambda>p. pred_option peer_endpoint_ok (pc_Endpoint p) \<and> list_all ipnet_ok (pc_AllowedIPs p))
       (cfg_Peers c)"

lemma in_upto_int_ok: "in_upto b v \<Longrightarrow> b < 2 ^ 63 \<Longrightarrow> pred_option int_ok v"
  by (cases v) (auto simp: in_upto_def int_ok_def)

lemma valid_fields_ok: "valid_config c \<Longrightarrow> cfg_wf c \<Longrightarrow> fields_ok c"
  by (simp add: valid_config_def fields_ok_def cfg_wf_def) (use in_upto_int_ok in force)

lemma valid_peers_ok:
  assumes "valid_config c" and "echo_ok c"
  shows "list_all peer_echo_ok (cfg_Peers c)"
  using assms
  by (auto simp: valid_config_def echo_ok_def cfg_wf_def pc_wf_def list_all_iff peer_echo_ok_def
      valid_peer_def keepalive_ok_def option.pred_set)

lemma echo_zones: "echo_ok c \<Longrightarrow> zones_ok c"
  by (auto simp: echo_ok_def zones_ok_def list_all_iff peer_endpoint_ok_def option.pred_set)

lemma parseDevice_echo:
  assumes "Validate c = None" and "checkLineValues c = None" and "echo_ok c"
  shows "parseDevice pub dns (writeConfig c @ [LF], rerr) = Inr (echo_device pub c)"
proof -
  have v: "valid_config c" using assms(1) by (simp add: Validate_None_iff)
  have kv: "\<forall>kv \<in> set (config_lines c). kv_ok kv"
    using config_lines_kv_ok [OF assms(1,2) echo_zones [OF assms(3)]] .
  then have fr: "frame rerr (map kv_text (config_lines c) @ [[]]) = Inr (config_lines c)"
    using assms(3) by (intro frame_render) (auto simp: echo_ok_def short_lines_def list_all_iff)
  have fields: "Parse_all dns (device_lines c) newParser = newParser\<lparr> dp_d := echo_fields c \<rparr>"
    using device_lines_echo valid_fields_ok [OF v] assms(3) by (simp add: echo_ok_def)
  let ?dp = "newParser\<lparr> dp_d := echo_fields c \<rparr>"
  have ok: "dp_ok ?dp" "dp_err ?dp = None"
    by (simp_all add: dp_ok_def newParser_def echo_fields_def zeroDevice_def)
  have mode: "device_mode ?dp"
    by (simp add: device_mode_def newParser_def)
  have "Parse_all dns (config_lines c) newParser =
      fold (\<lambda>p. add_peer (echo_peer p)) (cfg_Peers c) ?dp"
    using all_peers_echo [OF ok(2,1) valid_peers_ok [OF v assms(3)]]
    by (simp add: config_lines_def fields replace_peers_line mode)
  then show ?thesis
    using ok(2)
    by (simp add: parseDevice_def parse_lines_frame writeConfig_def raw_lines_render [OF kv] fr
        dp_Device_def fold_add_peer echo_device_def)
      (simp add: echo_fields_def zeroDevice_def)
qed

end
