(* ===== verification/LinuxEcho.thy ===== *)
theory LinuxEcho
  imports LinuxParse UserEcho
begin

text \<open>
  The Linux backend's encoder and parser together: the attributes that \<open>configAttrs\<close> sends, parsed
  by \<open>parseDeviceLoop\<close>, give a device with the configured fields. The lemmas are proved in the
  locale \<open>netlink_lib\<close>, from the documented behaviour of the netlink library.
\<close>

section \<open>What comes back\<close>

text \<open>An endpoint as a sockaddr keeps it: IPv4 in four bytes, and no zone.\<close>

definition endpoint_raw :: "udpaddr \<Rightarrow> udpaddr" where
  "endpoint_raw a = a\<lparr> ua_IP := (case To4 (ua_IP a) of Some v \<Rightarrow> v | None \<Rightarrow> ua_IP a), ua_Zone := [] \<rparr>"

definition linux_echo_peer :: "PeerConfig \<Rightarrow> Peer" where
  "linux_echo_peer p = (echo_peer p)\<lparr>
     peer_Endpoint := map_option endpoint_raw (pc_Endpoint p),
     peer_AdvancedSecurity := pc_AdvancedSecurity p \<rparr>"

definition linux_echo :: "string \<Rightarrow> Config \<Rightarrow> Device" where
  "linux_echo name c = (echo_fields c)\<lparr> dev_Name := name, dev_Type := LinuxKernel,
     dev_IsAmnezia := False, dev_Peers := map linux_echo_peer (cfg_Peers c) \<rparr>"

section \<open>Byte order of ports\<close>

lemma be_put_2: "be_put 2 n = [of_nat (n div 256), of_nat n]"
  by (simp add: numeral_2_eq_2)

lemma be_put_get: "be_put (length bs) (be_get bs) = bs"
proof (induction bs rule: rev_induct)
  case (snoc b bs)
  have "unat b < 256" by (rule unat_byte)
  moreover have "(of_nat (256 * be_get bs + unat b) :: byte) = b"
    using \<open>unat b < 256\<close> by (intro word_unat_eq_iff [THEN iffD2]) (simp add: unat_of_nat_byte del: of_nat_add)
  ultimately show ?case using snoc by (simp add: be_get_snoc del: of_nat_add of_nat_mult)
qed (simp add: be_get_def)

lemma swap_div_mod: "(n::nat) < 65536 \<Longrightarrow>
    256 * (n mod 256) + n div 256 < 65536 \<and>
    (256 * (n mod 256) + n div 256) div 256 = n mod 256 \<and>
    (256 * (n mod 256) + n div 256) mod 256 = n div 256"
  by (simp add: div_less_iff_less_mult)

lemma be_get_little: "n < 65536 \<Longrightarrow> be_get (host_put False 2 n) = 256 * (n mod 256) + n div 256"
  by (simp add: host_put_def be_put_2 be_get_def unat_of_nat_byte div_less_iff_less_mult)

lemma be_get_host_twice:
  assumes "n < 65536"
  shows "be_get (host_put big 2 (be_get (host_put big 2 n))) = n"
proof (cases big)
  case True
  with assms show ?thesis by (simp add: host_put_def be_get_put)
next
  case False
  note s = swap_div_mod [OF assms]
  have "be_get (host_put False 2 (be_get (host_put False 2 n))) =
      256 * ((256 * (n mod 256) + n div 256) mod 256) + (256 * (n mod 256) + n div 256) div 256"
    using s by (simp only: be_get_little [OF assms] be_get_little)
  also have "\<dots> = n" using s by simp
  finally show ?thesis using False by simp
qed

lemma unat_u16_bound: "unat (x::u16) < 65536"
  by (rule order.strict_trans2 [OF unsigned_less]) simp

lemma be_get_host_bound: "be_get (host_put big 2 n) < 65536"
  using be_get_bound [of "host_put big 2 n"] by simp

lemma unat_of_nat_u16: "n < 65536 \<Longrightarrow> unat (of_nat n :: u16) = n"
  by (simp add: unsigned_of_nat take_bit_eq_mod)

lemma decoded_snd: "snd (decoded (t, n, d)) = d"
  by (simp add: decoded_def)

context netlink_lib
begin

lemma sockaddrPort_twice: "sockaddrPort nl (int (unat (sockaddrPort nl p))) = of_int p"
proof -
  let ?g = "\<lambda>n. be_get (host_put (nl_big nl) 2 n)"
  have port: "sockaddrPort nl q = of_nat (?g (unat (of_int q :: u16)))" for q
    by (simp add: sockaddrPort_def host_u16)
  have "sockaddrPort nl (int (unat (sockaddrPort nl p))) = of_nat (?g (?g (unat (of_int p :: u16))))"
    by (simp add: port [of "int _"] port [of p] unat_of_nat_u16 be_get_host_bound)
  then show ?thesis by (simp add: be_get_host_twice unat_u16_bound)
qed

text \<open>In memory the port is in network byte order.\<close>

lemma port_bytes:
  assumes "0 \<le> p" and "p \<le> 65535"
  shows "host_put (nl_big nl) 2 (unat (sockaddrPort nl p)) = be_put 2 (nat p)"
proof -
  have n: "unat (of_int p :: u16) = nat p"
    using assms by (simp add: unsigned_of_int take_bit_int_eq_self)
  have "unat (sockaddrPort nl p) = be_get (host_put (nl_big nl) 2 (nat p))"
    using be_get_host_bound by (simp add: sockaddrPort_def host_u16 n unat_of_nat_u16)
  moreover have "host_put big 2 (be_get (host_put big 2 (nat p))) = be_put 2 (nat p)" for big
    using be_put_get [of "host_put big 2 (nat p)"] by (cases big) (simp_all add: host_put_def)
  ultimately show ?thesis by simp
qed

lemmas sockaddrPort_uint = sockaddrPort_twice [unfolded uint_nat [symmetric]]

lemma read_sockaddr:
  assumes "encodeSockaddr nl ep = Inr sa" and "0 \<le> ua_Port ep" and "ua_Port ep \<le> 65535"
  shows "parseSockaddr nl sa = Inr (endpoint_raw ep)"
proof -
  let ?p = "host_put (nl_big nl) 2 (unat (sockaddrPort nl (ua_Port ep)))"
  have "host_get (nl_big nl) ?p = unat (sockaddrPort nl (ua_Port ep))"
    using unat_u16_bound [of "sockaddrPort nl (ua_Port ep)"] by (simp add: host_get_put)
  then have port: "int (unat (sockaddrPort nl (int (host_get (nl_big nl) ?p)))) = ua_Port ep"
    using assms(2,3) by (simp add: sockaddrPort_uint unsigned_of_int take_bit_int_eq_self)
  show ?thesis
  proof (cases "To4 (ua_IP ep)")
    case None
    with assms(1) obtain v where v: "To16 (ua_IP ep) = Some v"
      by (auto simp: encodeSockaddr_def isValidIP_def split: if_splits)
    then have "v = ua_IP ep" using None by (auto simp: To16_def To4_def split: if_splits)
    with assms(1) None v port To16_length [OF v] show ?thesis
      by (auto simp: encodeSockaddr_def isValidIP_def isIPv6_def parseSockaddr_def endpoint_raw_def Let_def)
  next
    case (Some v)
    with assms(1) port To4_length [OF Some] show ?thesis
      by (auto simp: encodeSockaddr_def isValidIP_def isIPv6_def parseSockaddr_def endpoint_raw_def
          Let_def split: if_splits)
  qed
qed

section \<open>Allowed IPs\<close>

lemma read_allowed_ip:
  assumes "ipnet_ok n" and "encodeAllowedIP nl n = Inr cs" and "nl_encode nl cs = Inr b"
  shows "parseAllowedIP nl b = Inr n"
  using assms(1)
proof (rule ipnet_okE)
  fix l
  assume l: "simpleMaskLength (in_Mask n) = Some l" "l \<le> 8 * length (in_IP n)"
    and m: "in_Mask n = CIDRMask (int l) (8 * int (length (in_IP n)))" and ok: "addr_ok (in_IP n)"
  let ?fam = "if length (in_IP n) = 4 then AF_INET else AF_INET6"
  have ones: "fst (mask_Size (in_Mask n)) = int l" using l(1) by (simp add: mask_Size_def)
  have "cs = [(WGALLOWEDIP_A_FAMILY, False, nl_u16 nl ?fam), (WGALLOWEDIP_A_IPADDR, False, in_IP n),
      (WGALLOWEDIP_A_CIDR_MASK, False, nl_u8 nl (of_nat l))]"
    using assms(2) ok ones
    by (auto simp: encodeAllowedIP_def addr_ok_def isValidIP_def isIPv6_def Let_def split: if_splits)
  then have "nl_decode nl b = Inr ([(WGALLOWEDIP_A_FAMILY, nl_u16 nl ?fam), (WGALLOWEDIP_A_IPADDR, in_IP n),
      (WGALLOWEDIP_A_CIDR_MASK, nl_u8 nl (of_nat l))], None)"
    using decode_encode [OF assms(3)] by (simp add: decoded_def attr_type_def allowedip_attrs)
  moreover have "l < 256" using l(2) ok by (auto simp: addr_ok_def)
  then have "uint (of_nat l :: byte) = int l" by (simp add: uint_nat unat_of_nat_byte)
  moreover have "length (in_IP n) = 4 \<or> length (in_IP n) = 16" using ok by (auto simp: addr_ok_def)
  ultimately show ?thesis
    using m by (auto simp: parseAllowedIP_def with_attrs_def allowed_attr_def allowedip_attrs parseAddr_def
        read_u8 read_u16 AF_INET_def AF_INET6_def)
qed

lemma read_array:
  assumes "array_attrs nl f i xs = Inr as"
    and "\<And>x cs b. x \<in> set xs \<Longrightarrow> f x = Inr cs \<Longrightarrow> nl_encode nl cs = Inr b \<Longrightarrow> g b = Inr (h x)"
  shows "parse_array g (map decoded as) = Inr (map h xs)"
  using assms
proof (induction xs arbitrary: i "as")
  case (Cons x xs)
  from Cons.prems(1) obtain cs b rest where "f x = Inr cs" "nl_encode nl cs = Inr b"
      "array_attrs nl f (Suc i) xs = Inr rest" "as = (of_nat i, True, b) # rest"
    by (auto simp: res_bind_Inr)
  moreover from calculation have "g b = Inr (h x)" by (intro Cons.prems(2)) simp_all
  moreover have "parse_array g (map decoded rest) = Inr (map h xs)"
    using calculation by (intro Cons.IH) (use Cons.prems(2) in auto)
  ultimately show ?case by (simp add: decoded_snd)
qed simp

lemma read_allowed_ips:
  assumes "list_all ipnet_ok ips" and "encodeAllowedIPs nl ips = Inr cs" and "nl_encode nl cs = Inr b"
  shows "parseAllowedIPs nl b = Inr ips"
proof -
  have "parse_array (parseAllowedIP nl) (map decoded cs) = Inr (map (\<lambda>n. n) ips)"
    by (rule read_array [OF assms(2) [unfolded encodeAllowedIPs_def]])
      (use assms(1) read_allowed_ip in \<open>auto simp: list_all_iff\<close>)
  with decode_encode [OF assms(3)] show ?thesis by (simp add: parseAllowedIPs_def array_of_def)
qed

end

section \<open>Peers\<close>

definition u16_ok :: "int \<Rightarrow> bool" where
  "u16_ok i \<longleftrightarrow> 0 \<le> i \<and> i < 2 ^ 16"

definition linux_peer_ok :: "PeerConfig \<Rightarrow> bool" where
  "linux_peer_ok p \<longleftrightarrow> key_ok (pc_PublicKey p) \<and> pred_option key_ok (pc_PresharedKey p) \<and>
     pred_option (\<lambda>e. 0 \<le> ua_Port e \<and> ua_Port e \<le> 65535) (pc_Endpoint p) \<and>
     pred_option keepalive_ok (pc_PersistentKeepaliveInterval p) \<and> list_all ipnet_ok (pc_AllowedIPs p)"

lemma i64_u16: "0 \<le> x \<Longrightarrow> x \<le> 65535 \<Longrightarrow> i64 (x * second) = x * second"
  by (rule i64_id) (auto simp: second_def)

lemma NewKey_ok: "key_ok k \<Longrightarrow> NewKey k = Inr k"
  by (simp add: NewKey_Inr)

text \<open>What the parser does with each attribute that the encoder sends.\<close>

lemma peer_attr_decoded:
  "peer_attr nl (decoded (WGPEER_A_PUBLIC_KEY, n, d)) p =
     res_bind (NewKey d) (\<lambda>k. Inr (p\<lparr> peer_PublicKey := k \<rparr>))"
  "peer_attr nl (decoded (WGPEER_A_PRESHARED_KEY, n, d)) p =
     res_bind (NewKey d) (\<lambda>k. Inr (p\<lparr> peer_PresharedKey := k \<rparr>))"
  "peer_attr nl (decoded (WGPEER_A_FLAGS, n, d)) p = Inr p"
  "peer_attr nl (decoded (WGPEER_A_ENDPOINT, n, d)) p =
     res_bind (parseSockaddr nl d) (\<lambda>e. Inr (p\<lparr> peer_Endpoint := Some e \<rparr>))"
  "peer_attr nl (decoded (WGPEER_A_PERSISTENT_KEEPALIVE_INTERVAL, n, d)) p =
     res_bind (rd_u16 nl d) (\<lambda>v. Inr (p\<lparr> peer_PersistentKeepaliveInterval := i64 (uint v * second) \<rparr>))"
  "peer_attr nl (decoded (WGPEER_A_ALLOWEDIPS, n, d)) p =
     res_bind (parseAllowedIPs nl d) (\<lambda>ips. Inr (p\<lparr> peer_AllowedIPs := ips \<rparr>))"
  "peer_attr nl (decoded (WGPEER_A_ADVANCED_SECURITY, n, d)) p = Inr (p\<lparr> peer_AdvancedSecurity := True \<rparr>)"
  by (simp_all add: peer_attr_def decoded_def attr_type_def peer_attrs)

abbreviation read_peer_attrs :: "netlink \<Rightarrow> attr list \<Rightarrow> Peer \<Rightarrow> go_error + Peer" where
  "read_peer_attrs nl as \<equiv> fold_res (peer_attr nl) (map decoded as)"

context netlink_lib
begin

lemma read_preshared:
  "pred_option key_ok v \<Longrightarrow> read_peer_attrs nl (opt_attr WGPEER_A_PRESHARED_KEY (\<lambda>k. k) v) q =
     Inr (put peer_PresharedKey_update v q)"
  by (cases v) (auto simp: opt_attr_def peer_attr_decoded NewKey_ok)

lemma read_keepalive:
  assumes "pred_option keepalive_ok v"
  shows "read_peer_attrs nl
      (opt_attr WGPEER_A_PERSISTENT_KEEPALIVE_INTERVAL (\<lambda>d. nl_u16 nl (of_int (secs d))) v) q =
    Inr (put peer_PersistentKeepaliveInterval_update (map_option (\<lambda>d. secs d * second) v) q)"
proof (cases v)
  case (Some d)
  with assms have "0 \<le> secs d \<and> secs d \<le> 65535" using secs_bounds by simp
  with Some show ?thesis
    using read_int16 [of "secs d"] by (simp add: opt_attr_def peer_attr_decoded i64_u16)
qed (simp add: opt_attr_def)

lemma read_endpoint:
  assumes "(case v of None \<Rightarrow> Inr [] | Some ep \<Rightarrow>
      res_bind (encodeSockaddr nl ep) (\<lambda>sa. Inr [(WGPEER_A_ENDPOINT, False, sa)])) = Inr as"
    and "pred_option (\<lambda>e. 0 \<le> ua_Port e \<and> ua_Port e \<le> 65535) v"
  shows "read_peer_attrs nl as q = Inr (put peer_Endpoint_update (map_option (\<lambda>a. Some (endpoint_raw a)) v) q)"
  using assms by (cases v) (auto simp: res_bind_Inr peer_attr_decoded read_sockaddr)

lemma read_ips:
  assumes "(if ips = [] then Inr []
       else res_bind (encodeAllowedIPs nl ips) (\<lambda>as.
              res_bind (nl_encode nl as) (\<lambda>d. Inr [(WGPEER_A_ALLOWEDIPS, True, d)]))) = Inr as"
    and "list_all ipnet_ok ips" and "peer_AllowedIPs q = []"
  shows "read_peer_attrs nl as q = Inr (q\<lparr> peer_AllowedIPs := ips \<rparr>)"
  using assms by (auto simp: res_bind_Inr peer_attr_decoded read_allowed_ips split: if_splits)

lemma read_peer:
  assumes "linux_peer_ok p" and "encodePeer nl p = Inr cs" and "nl_encode nl cs = Inr b"
  shows "parsePeer nl b = Inr (linux_echo_peer p)"
proof -
  from assms(2) obtain ep ips where ep: "(case pc_Endpoint p of None \<Rightarrow> Inr []
       | Some ep \<Rightarrow> res_bind (encodeSockaddr nl ep) (\<lambda>sa. Inr [(WGPEER_A_ENDPOINT, False, sa)])) = Inr ep"
    and ips: "(if pc_AllowedIPs p = [] then Inr []
       else res_bind (encodeAllowedIPs nl (pc_AllowedIPs p)) (\<lambda>as.
              res_bind (nl_encode nl as) (\<lambda>d. Inr [(WGPEER_A_ALLOWEDIPS, True, d)]))) = Inr ips"
    and cs: "cs = [(WGPEER_A_PUBLIC_KEY, False, pc_PublicKey p)] @
       (if peer_flags p \<noteq> 0 then [(WGPEER_A_FLAGS, False, nl_u32 nl (peer_flags p))] else []) @
       (if pc_AdvancedSecurity p then [(WGPEER_A_ADVANCED_SECURITY, False, [])] else []) @
       opt_attr WGPEER_A_PRESHARED_KEY (\<lambda>k. k) (pc_PresharedKey p) @ ep @
       opt_attr WGPEER_A_PERSISTENT_KEEPALIVE_INTERVAL (\<lambda>d. nl_u16 nl (of_int (secs d)))
         (pc_PersistentKeepaliveInterval p) @ ips"
    by (auto simp: encodePeer_def res_bind_Inr)
  let ?q = "put peer_PersistentKeepaliveInterval_update
      (map_option (\<lambda>d. secs d * second) (pc_PersistentKeepaliveInterval p))
      (put peer_Endpoint_update (map_option (\<lambda>a. Some (endpoint_raw a)) (pc_Endpoint p))
        (put peer_PresharedKey_update (pc_PresharedKey p)
          (zeroPeer\<lparr> peer_PublicKey := pc_PublicKey p, peer_AdvancedSecurity := pc_AdvancedSecurity p \<rparr>)))"
  have flags: "read_peer_attrs nl
      (if peer_flags p \<noteq> 0 then [(WGPEER_A_FLAGS, False, nl_u32 nl (peer_flags p))] else []) q = Inr q" for q
    by (simp add: peer_attr_decoded)
  have adv: "read_peer_attrs nl (if pc_AdvancedSecurity p then [(WGPEER_A_ADVANCED_SECURITY, False, [])] else [])
      (zeroPeer\<lparr> peer_PublicKey := k \<rparr>) =
      Inr (zeroPeer\<lparr> peer_PublicKey := k, peer_AdvancedSecurity := pc_AdvancedSecurity p \<rparr>)" for k
    by (simp add: peer_attr_decoded zeroPeer_def)
  have noips: "peer_AllowedIPs ?q = []"
    by (simp add: put_peer zeroPeer_def)
  have "read_peer_attrs nl cs zeroPeer = Inr (?q\<lparr> peer_AllowedIPs := pc_AllowedIPs p \<rparr>)"
    using assms(1) read_ips [OF ips _ noips] unfolding cs map_append fold_res_append
    by (simp add: flags adv peer_attr_decoded NewKey_ok read_preshared read_keepalive
        read_endpoint [OF ep] linux_peer_ok_def)
  moreover have "?q\<lparr> peer_AllowedIPs := pc_AllowedIPs p \<rparr> = linux_echo_peer p"
    by (simp add: put_peer linux_echo_peer_def echo_peer_def zeroPeer_def map_option_case option.case_eq_if)
  ultimately show ?thesis
    using decode_encode [OF assms(3)] by (simp add: parsePeer_def with_attrs_def)
qed

end

section \<open>The device\<close>

lemma device_attr_decoded:
  "device_attr nl (decoded (WGDEVICE_A_IFNAME, n, d)) v = Inr (v\<lparr> dev_Name := rd_str nl d \<rparr>)"
  "device_attr nl (decoded (WGDEVICE_A_PRIVATE_KEY, n, d)) v =
     res_bind (NewKey d) (\<lambda>k. Inr (v\<lparr> dev_PrivateKey := k \<rparr>))"
  "device_attr nl (decoded (WGDEVICE_A_FLAGS, n, d)) v = Inr v"
  "device_attr nl (decoded (WGDEVICE_A_FWMARK, n, d)) v =
     res_bind (rd_u32 nl d) (\<lambda>x. Inr (v\<lparr> dev_FirewallMark := uint x \<rparr>))"
  "device_attr nl (decoded (WGDEVICE_A_PEERS, n, d)) v =
     res_bind (array_of nl (parsePeer nl) d) (\<lambda>ps. Inr (v\<lparr> dev_Peers := ps \<rparr>))"
  by (simp_all add: device_attr_def decoded_def attr_type_def device_attrs)

lemma device_int_decoded:
  "device_attr nl (decoded (WGDEVICE_A_LISTEN_PORT, n, d)) v = int16_attr nl dev_ListenPort_update d v"
  "device_attr nl (decoded (WGDEVICE_A_JC, n, d)) v = int16_attr nl dev_Jc_update d v"
  "device_attr nl (decoded (WGDEVICE_A_JMIN, n, d)) v = int16_attr nl dev_Jmin_update d v"
  "device_attr nl (decoded (WGDEVICE_A_JMAX, n, d)) v = int16_attr nl dev_Jmax_update d v"
  "device_attr nl (decoded (WGDEVICE_A_S1, n, d)) v = int16_attr nl dev_S1_update d v"
  "device_attr nl (decoded (WGDEVICE_A_S2, n, d)) v = int16_attr nl dev_S2_update d v"
  "device_attr nl (decoded (WGDEVICE_A_S3, n, d)) v = int16_attr nl dev_S3_update d v"
  "device_attr nl (decoded (WGDEVICE_A_S4, n, d)) v = int16_attr nl dev_S4_update d v"
  by (simp_all add: device_attr_def decoded_def attr_type_def device_attrs)

lemma device_str_decoded:
  "device_attr nl (decoded (WGDEVICE_A_H1, n, d)) v = Inr (dev_H1_update (\<lambda>_. rd_str nl d) v)"
  "device_attr nl (decoded (WGDEVICE_A_H2, n, d)) v = Inr (dev_H2_update (\<lambda>_. rd_str nl d) v)"
  "device_attr nl (decoded (WGDEVICE_A_H3, n, d)) v = Inr (dev_H3_update (\<lambda>_. rd_str nl d) v)"
  "device_attr nl (decoded (WGDEVICE_A_H4, n, d)) v = Inr (dev_H4_update (\<lambda>_. rd_str nl d) v)"
  "device_attr nl (decoded (WGDEVICE_A_I1, n, d)) v = Inr (dev_I1_update (\<lambda>_. rd_str nl d) v)"
  "device_attr nl (decoded (WGDEVICE_A_I2, n, d)) v = Inr (dev_I2_update (\<lambda>_. rd_str nl d) v)"
  "device_attr nl (decoded (WGDEVICE_A_I3, n, d)) v = Inr (dev_I3_update (\<lambda>_. rd_str nl d) v)"
  "device_attr nl (decoded (WGDEVICE_A_I4, n, d)) v = Inr (dev_I4_update (\<lambda>_. rd_str nl d) v)"
  "device_attr nl (decoded (WGDEVICE_A_I5, n, d)) v = Inr (dev_I5_update (\<lambda>_. rd_str nl d) v)"
  by (simp_all add: device_attr_def decoded_def attr_type_def device_attrs)

abbreviation read_device_attrs :: "netlink \<Rightarrow> attr list \<Rightarrow> Device \<Rightarrow> go_error + Device" where
  "read_device_attrs nl as \<equiv> fold_res (device_attr nl) (map decoded as)"

definition no_nul :: "string \<Rightarrow> bool" where
  "no_nul s \<longleftrightarrow> CHR 0x00 \<notin> set s"

definition linux_fill :: "Config \<Rightarrow> Device \<Rightarrow> Device" where
  "linux_fill c d =
     put dev_I5_update (cfg_I5 c) (put dev_I4_update (cfg_I4 c) (put dev_I3_update (cfg_I3 c)
     (put dev_I2_update (cfg_I2 c) (put dev_I1_update (cfg_I1 c)
     (put dev_H4_update (cfg_H4 c) (put dev_H3_update (cfg_H3 c) (put dev_H2_update (cfg_H2 c)
     (put dev_H1_update (cfg_H1 c)
     (put dev_S4_update (cfg_S4 c) (put dev_S3_update (cfg_S3 c) (put dev_S2_update (cfg_S2 c)
     (put dev_S1_update (cfg_S1 c)
     (put dev_Jmax_update (cfg_Jmax c) (put dev_Jmin_update (cfg_Jmin c) (put dev_Jc_update (cfg_Jc c)
     (put dev_FirewallMark_update (cfg_FirewallMark c) (put dev_ListenPort_update (cfg_ListenPort c)
     (put dev_PrivateKey_update (cfg_PrivateKey c) d))))))))))))))))))"

lemma linux_fill_zero:
  "linux_fill c (zeroDevice\<lparr> dev_Name := name, dev_Type := LinuxKernel \<rparr>) =
     (echo_fields c)\<lparr> dev_Name := name, dev_Type := LinuxKernel, dev_IsAmnezia := False \<rparr>"
  by (rule Device.equality)
    (simp_all add: linux_fill_def put_others put_owns echo_fields_def num_def str_def zeroDevice_def
      cong: option.case_cong)

text \<open>A configuration whose values fit the attributes.\<close>

definition linux_ok :: "string \<Rightarrow> Config \<Rightarrow> bool" where
  "linux_ok name c \<longleftrightarrow> no_nul name \<and> pred_option key_ok (cfg_PrivateKey c) \<and>
     list_all (pred_option u16_ok) [cfg_ListenPort c, cfg_Jc c, cfg_Jmin c, cfg_Jmax c,
       cfg_S1 c, cfg_S2 c, cfg_S3 c, cfg_S4 c] \<and>
     pred_option (\<lambda>i. 0 \<le> i \<and> i < 2 ^ 32) (cfg_FirewallMark c) \<and>
     list_all (pred_option no_nul) (cfg_headers c @ cfg_inits c) \<and>
     list_all linux_peer_ok (cfg_Peers c)"

context netlink_lib
begin

lemma read_int_attr:
  assumes "pred_option u16_ok v"
    and "\<And>d x. device_attr nl (decoded (t, False, d)) x = int16_attr nl upd d x"
  shows "read_device_attrs nl (opt_attr t (\<lambda>i. nl_u16 nl (of_int i)) v) q = Inr (put upd v q)"
  using assms read_int16 by (cases v) (auto simp: opt_attr_def int16_attr_def u16_ok_def)

lemma read_str_attr:
  assumes "pred_option no_nul v"
    and "\<And>d x. device_attr nl (decoded (t, False, d)) x = Inr (upd (\<lambda>_. rd_str nl d) x)"
  shows "read_device_attrs nl (opt_attr t (nl_str nl) v) q = Inr (put upd v q)"
  using assms read_str by (cases v) (auto simp: opt_attr_def no_nul_def)

lemmas read_int_attrs = device_int_decoded [where nl = nl and n = False, THEN read_int_attr [rotated]]
lemma read_str_attrs:
  assumes "pred_option no_nul v"
  shows "read_device_attrs nl (opt_attr WGDEVICE_A_H1 (nl_str nl) v) q = Inr (put dev_H1_update v q)"
    and "read_device_attrs nl (opt_attr WGDEVICE_A_H2 (nl_str nl) v) q = Inr (put dev_H2_update v q)"
    and "read_device_attrs nl (opt_attr WGDEVICE_A_H3 (nl_str nl) v) q = Inr (put dev_H3_update v q)"
    and "read_device_attrs nl (opt_attr WGDEVICE_A_H4 (nl_str nl) v) q = Inr (put dev_H4_update v q)"
    and "read_device_attrs nl (opt_attr WGDEVICE_A_I1 (nl_str nl) v) q = Inr (put dev_I1_update v q)"
    and "read_device_attrs nl (opt_attr WGDEVICE_A_I2 (nl_str nl) v) q = Inr (put dev_I2_update v q)"
    and "read_device_attrs nl (opt_attr WGDEVICE_A_I3 (nl_str nl) v) q = Inr (put dev_I3_update v q)"
    and "read_device_attrs nl (opt_attr WGDEVICE_A_I4 (nl_str nl) v) q = Inr (put dev_I4_update v q)"
    and "read_device_attrs nl (opt_attr WGDEVICE_A_I5 (nl_str nl) v) q = Inr (put dev_I5_update v q)"
  by (rule read_str_attr [OF assms], rule device_str_decoded)+

lemma read_private_key:
  "pred_option key_ok v \<Longrightarrow> read_device_attrs nl (opt_attr WGDEVICE_A_PRIVATE_KEY (\<lambda>k. k) v) q =
     Inr (put dev_PrivateKey_update v q)"
  by (cases v) (auto simp: opt_attr_def device_attr_decoded NewKey_ok)

lemma read_fwmark:
  "pred_option (\<lambda>i. 0 \<le> i \<and> i < 2 ^ 32) v \<Longrightarrow>
   read_device_attrs nl (opt_attr WGDEVICE_A_FWMARK (\<lambda>i. nl_u32 nl (of_int i)) v) q =
     Inr (put dev_FirewallMark_update v q)"
  using read_int32 by (cases v) (auto simp: opt_attr_def device_attr_decoded)

lemma read_device_list:
  assumes "linux_ok name c"
  shows "read_device_attrs nl (device_attr_list nl name c) (zeroDevice\<lparr> dev_Type := LinuxKernel \<rparr>) =
    Inr (linux_fill c (zeroDevice\<lparr> dev_Name := name, dev_Type := LinuxKernel \<rparr>))"
proof -
  have replace: "read_device_attrs nl
      (if b then [(WGDEVICE_A_FLAGS, False, x)] else []) q = Inr q" for b x q
    by (simp add: device_attr_decoded)
  have name: "read_device_attrs nl [(WGDEVICE_A_IFNAME, False, nl_str nl name)]
      (zeroDevice\<lparr> dev_Type := LinuxKernel \<rparr>) = Inr (zeroDevice\<lparr> dev_Name := name, dev_Type := LinuxKernel \<rparr>)"
    using assms read_str by (simp add: device_attr_decoded linux_ok_def no_nul_def zeroDevice_def)
  show ?thesis
    using assms unfolding device_attr_list_def Let_def map_append fold_res_append name
    by (simp add: linux_ok_def cfg_headers_def cfg_inits_def replace read_private_key read_fwmark
        read_int_attrs read_str_attrs linux_fill_def)
qed

lemma read_device:
  assumes "linux_ok name c" and "configAttrs nl name c = Inr b"
  shows "parseDeviceLoop nl b = Inr (linux_echo name c)"
proof -
  from assms(2) obtain peers where peers: "(if cfg_Peers c = [] then Inr []
       else res_bind (array_attrs nl (encodePeer nl) 0 (cfg_Peers c)) (\<lambda>as.
              res_bind (nl_encode nl as) (\<lambda>d. Inr [(WGDEVICE_A_PEERS, True, d)]))) = Inr peers"
    and b: "nl_encode nl (device_attr_list nl name c @ peers) = Inr b"
    by (auto simp: configAttrs_def res_bind_Inr)
  have "read_device_attrs nl peers q = Inr (q\<lparr> dev_Peers := map linux_echo_peer (cfg_Peers c) \<rparr>)"
    if "dev_Peers q = []" for q
  proof (cases "cfg_Peers c = []")
    case True
    with peers that show ?thesis by simp
  next
    case False
    with peers obtain as d where as: "array_attrs nl (encodePeer nl) 0 (cfg_Peers c) = Inr as"
      and d: "nl_encode nl as = Inr d" and "peers = [(WGDEVICE_A_PEERS, True, d)]"
      by (auto simp: res_bind_Inr)
    moreover have "parse_array (parsePeer nl) (map decoded as) = Inr (map linux_echo_peer (cfg_Peers c))"
      by (rule read_array [OF as]) (use assms(1) read_peer in \<open>auto simp: linux_ok_def list_all_iff\<close>)
    ultimately show ?thesis by (simp add: device_attr_decoded array_of_def decode_encode [OF d])
  qed
  then show ?thesis
    using decode_encode [OF b] read_device_list [OF assms(1)]
    by (simp add: parseDeviceLoop_def with_attrs_def fold_res_append linux_fill_zero linux_echo_def)
      (simp add: echo_fields_def zeroDevice_def)
qed

end

section \<open>Valid configurations fit\<close>

lemma tag_ok_no_nul: "tag_ok tag n \<Longrightarrow> CHR 0x00 \<notin> set tag"
proof (induction rule: tag_ok.induct)
  case (tag_b hex)
  have "CHR 0x00 \<notin> set ''0123456789abcdefABCDEF''" by simp
  with tag_b(3) have "CHR 0x00 \<notin> set hex" unfolding isHex_def by blast
  then show ?case by simp
next
  case (tag_rand key num n)
  have nd: "\<not> is_digit CHR 0x00" by (simp add: is_digit_def digit_val_def)
  have "c \<noteq> CHR 0x00" if "c \<in> set (trimSuffix [CHR 0x0A] num)" for c
    using parseInt_chars [OF tag_rand(2) that] nd by (elim disjE) auto
  then have "CHR 0x00 \<notin> set num" using trimSuffix_set [of num "[CHR 0x0A]"] by auto
  with tag_rand(1) show ?case by auto
qed simp_all

lemma init_spec_no_nul: "init_spec s n \<Longrightarrow> CHR 0x00 \<notin> set s"
  by (induction rule: init_spec.induct) (auto simp: blanks_def dest: tag_ok_no_nul)

lemma valid_text_no_nul:
  assumes "valid_config cfg" and "Some s \<in> set (cfg_headers cfg @ cfg_inits cfg)"
  shows "no_nul s"
proof (cases "Some s \<in> set (cfg_headers cfg)")
  case True
  have nd: "\<not> is_digit CHR 0x00" by (simp add: is_digit_def digit_val_def)
  from True have "s \<in> set (List.map_filter id (cfg_headers cfg))" by (simp only: Some_map_filter)
  with assms(1) have "header_range s \<noteq> {}" by (auto simp: valid_config_def valid_headers_def)
  then obtain a b where "ParseMagicHeader s = Inr (a, b)" by (auto simp: header_range_nonempty)
  from ParseMagicHeader_chars [OF this, of "CHR 0x00"] nd show ?thesis by (auto simp: no_nul_def)
next
  case False
  with assms have "valid_init s" by (auto simp: valid_config_def)
  then show ?thesis by (auto simp: valid_init_def no_nul_def dest: init_spec_no_nul)
qed

text \<open>What validation does not look at: key lengths and the form of allowed IPs.\<close>

definition wire_ok :: "Config \<Rightarrow> bool" where
  "wire_ok c \<longleftrightarrow> cfg_wf c \<and> list_all (\<lambda>p. list_all ipnet_ok (pc_AllowedIPs p)) (cfg_Peers c)"

lemma in_upto_u16: "in_upto b v \<Longrightarrow> b < 65536 \<Longrightarrow> pred_option u16_ok v"
  by (cases v) (auto simp: in_upto_def u16_ok_def)

lemma valid_linux_ok:
  assumes "Validate c = None" and "wire_ok c" and "no_nul name"
  shows "linux_ok name c"
proof -
  have v: "valid_config c" using assms(1) by (simp add: Validate_None_iff)
  have "list_all (pred_option no_nul) (cfg_headers c @ cfg_inits c)"
    using valid_text_no_nul [OF v] by (auto simp: list_all_iff option.pred_set)
  moreover have "list_all linux_peer_ok (cfg_Peers c)"
    using v assms(2)
    by (auto simp: valid_config_def wire_ok_def cfg_wf_def pc_wf_def list_all_iff linux_peer_ok_def
        valid_peer_def keepalive_ok_def option.pred_set)
  moreover have "list_all (pred_option u16_ok) [cfg_ListenPort c, cfg_Jc c, cfg_Jmin c, cfg_Jmax c,
       cfg_S1 c, cfg_S2 c, cfg_S3 c, cfg_S4 c]"
    using v in_upto_u16 by (simp add: valid_config_def) force
  moreover have "pred_option (\<lambda>i. 0 \<le> i \<and> i < 2 ^ 32) (cfg_FirewallMark c)"
    using v by (cases "cfg_FirewallMark c") (auto simp: valid_config_def in_upto_def)
  ultimately show ?thesis
    using assms(2,3) by (simp add: linux_ok_def wire_ok_def cfg_wf_def)
qed

end
