(* ===== verification/LinuxClient.thy ===== *)
theory LinuxClient
  imports LinuxParse LinuxBatch
begin

text \<open>
  \<open>internal/wglinux/client_linux.go\<close>: the client of the kernel module. The generic netlink
  connection, the rtnetlink socket and the context are parameters over the state of the outside
  world; the code decides which requests are sent, in which order, and what an error means.
\<close>

section \<open>The outside world\<close>

record family =
  fam_ID :: u16
  fam_Name :: string
  fam_Version :: byte

text \<open>
  An error of the netlink library: one that \<open>errors.As\<close> finds a \<open>netlink.OpError\<close> in, with that
  error's \<open>Err\<close>, or another.
\<close>

datatype exec_error = OpError go_error | OtherError go_error

definition exec_error_value :: "exec_error \<Rightarrow> go_error" where
  "exec_error_value x = (case x of OpError e \<Rightarrow> Wrapped ''netlink'' e | OtherError e \<Rightarrow> e)"

text \<open>The deadlines the code sets: the context's own, one in the past, none.\<close>

datatype deadline = NoDeadline | ContextDeadline | PastDeadline

text \<open>A request: command, version, payload, family and flags.\<close>

record request =
  rq_Command :: byte
  rq_Version :: byte
  rq_Data :: bytes
  rq_Family :: u16
  rq_Flags :: u16

record 's linux_env =
  le_nl :: netlink
  le_GetFamily :: "string \<Rightarrow> 's \<Rightarrow> (go_error + family) \<times> 's"
  le_CloseConn :: "'s \<Rightarrow> go_error option \<times> 's"
  le_Execute :: "request \<Rightarrow> 's \<Rightarrow> (exec_error + bytes list) \<times> 's"
  le_SetDeadline :: "deadline \<Rightarrow> 's \<Rightarrow> go_error option \<times> 's"
  le_NetlinkRIB :: "'s \<Rightarrow> (go_error + (u16 \<times> bytes) list) \<times> 's"
  le_rtnlDial :: "'s \<Rightarrow> go_error option \<times> 's"
  le_rtnlExecute :: "u16 \<Rightarrow> u16 \<Rightarrow> bytes \<Rightarrow> 's \<Rightarrow> (exec_error + (u16 \<times> bytes) list) \<times> 's"
  le_rtnlClose :: "'s \<Rightarrow> 's"
  le_ctxErr :: "'s \<Rightarrow> go_error option"
  le_ctxDone :: bool
  le_ctxDeadline :: bool

definition ENODEV :: nat where "ENODEV = 19"
definition ENOTSUP :: nat where "ENOTSUP = 95"

definition WG_GENL_NAME :: string where "WG_GENL_NAME = ''wireguard''"
definition amneziaGenlName :: string where "amneziaGenlName = ''amneziawg''"
definition amneziaKind :: string where "amneziaKind = ''amneziawg''"
definition wgKind :: string where "wgKind = ''wireguard''"
definition amneziaGenlVersion :: byte where "amneziaGenlVersion = 2"
definition WG_CMD_GET_DEVICE :: byte where "WG_CMD_GET_DEVICE = 0"
definition WG_CMD_SET_DEVICE :: byte where "WG_CMD_SET_DEVICE = 1"
definition nlRequest :: u16 where "nlRequest = 1"
definition nlAcknowledge :: u16 where "nlAcknowledge = 4"
definition nlDump :: u16 where "nlDump = 0x300"

section \<open>Links\<close>

definition SizeofIfInfomsg :: nat where "SizeofIfInfomsg = 16"
definition IFNAMSIZ :: nat where "IFNAMSIZ = 16"
definition RTM_NEWLINK :: u16 where "RTM_NEWLINK = 16"
definition RTM_GETLINK :: u16 where "RTM_GETLINK = 18"
definition IFLA_IFNAME :: u16 where "IFLA_IFNAME = 3"
definition IFLA_LINKINFO :: u16 where "IFLA_LINKINFO = 18"
definition IFLA_INFO_KIND :: u16 where "IFLA_INFO_KIND = 1"

definition linkInfoKind :: "netlink \<Rightarrow> bytes \<Rightarrow> string \<Rightarrow> go_error + string" where
  "linkInfoKind nl b kind =
     with_attrs nl (\<lambda>(t, d) kind. Inr (if t = IFLA_INFO_KIND then rd_str nl d else kind)) b kind"

definition parseLinkKind :: "netlink \<Rightarrow> bytes \<Rightarrow> go_error + string" where
  "parseLinkKind nl b =
     (if length b < SizeofIfInfomsg
      then Inl (ErrText ''wglinux: rtnetlink message is too short for ifinfomsg'')
      else with_attrs nl (\<lambda>(t, d) kind. if t = IFLA_LINKINFO then linkInfoKind nl d kind else Inr kind)
             (drop SizeofIfInfomsg b) [])"

text \<open>\<open>isWGKind\<close> returns at the first kind that matches, before any later error of the decoder.\<close>

definition isWGKind :: "netlink \<Rightarrow> bytes \<Rightarrow> bool \<Rightarrow> go_error + bool" where
  "isWGKind nl b ok =
     res_bind (nl_decode nl b) (\<lambda>(as, err).
       if list_ex (\<lambda>(t, d). t = IFLA_INFO_KIND \<and> (rd_str nl d = wgKind \<or> rd_str nl d = amneziaKind)) as
       then Inr True else decoder_result err ok)"

definition link_attr :: "netlink \<Rightarrow> u16 \<times> bytes \<Rightarrow> string \<times> bool \<Rightarrow> go_error + string \<times> bool" where
  "link_attr nl a st =
     (case (a, st) of ((t, d), (ifi, isWG)) \<Rightarrow>
        if t = IFLA_IFNAME then Inr (rd_str nl d, isWG)
        else if t = IFLA_LINKINFO then res_bind (isWGKind nl d isWG) (\<lambda>w. Inr (ifi, w))
        else Inr (ifi, isWG))"

fun parseRTNLInterfaces :: "netlink \<Rightarrow> (u16 \<times> bytes) list \<Rightarrow> go_error + string list" where
  "parseRTNLInterfaces nl [] = Inr []"
| "parseRTNLInterfaces nl ((ty, data) # msgs) =
     (if ty \<noteq> RTM_NEWLINK then parseRTNLInterfaces nl msgs
      else if length data < SizeofIfInfomsg
      then Inl (ErrText ''wglinux: rtnetlink message is too short for ifinfomsg'')
      else res_bind (with_attrs nl (link_attr nl) (drop SizeofIfInfomsg data) ([], False)) (\<lambda>(ifi, isWG).
             res_bind (parseRTNLInterfaces nl msgs) (\<lambda>ifis. Inr (if isWG then ifi # ifis else ifis))))"

definition rtnlInterfaces :: "'s linux_env \<Rightarrow> 's \<Rightarrow> (go_error + string list) \<times> 's" where
  "rtnlInterfaces env s =
     (case le_NetlinkRIB env s of
        (Inl e, s) \<Rightarrow> (Inl (Wrapped ''wglinux: failed to get list of interfaces from rtnetlink'' e), s)
      | (Inr msgs, s) \<Rightarrow> (parseRTNLInterfaces (le_nl env) msgs, s))"

text \<open>The request and its answer on an open rtnetlink socket.\<close>

definition link_request :: "'s linux_env \<Rightarrow> string \<Rightarrow> 's \<Rightarrow> (go_error + string) \<times> 's" where
  "link_request env name s =
     (case nl_encode (le_nl env) [(IFLA_IFNAME, False, nl_str (le_nl env) name)] of
        Inl e \<Rightarrow> (Inl e, s)
      | Inr attrs \<Rightarrow>
          (case le_rtnlExecute env RTM_GETLINK nlRequest (replicate SizeofIfInfomsg 0 @ attrs) s of
             (Inl x, s) \<Rightarrow>
               (Inl (case x of
                   OpError e \<Rightarrow>
                     if errors_is e (Errno ENODEV) then ErrNotExist
                     else Wrapped ''wglinux: failed to look up link'' (exec_error_value x)
                 | OtherError e \<Rightarrow> Wrapped ''wglinux: failed to look up link'' e), s)
           | (Inr msgs, s) \<Rightarrow>
               (case find (\<lambda>m. fst m = RTM_NEWLINK) msgs of
                  None \<Rightarrow> (Inl ErrNotExist, s)
                | Some m \<Rightarrow> (parseLinkKind (le_nl env) (snd m), s))))"

definition rtnlLinkKind :: "'s linux_env \<Rightarrow> string \<Rightarrow> 's \<Rightarrow> (go_error + string) \<times> 's" where
  "rtnlLinkKind env name s =
     (if name = [] \<or> IFNAMSIZ \<le> length name then (Inl ErrNotExist, s)
      else case le_rtnlDial env s of
        (Some e, s) \<Rightarrow> (Inl (Wrapped ''wglinux: failed to dial rtnetlink'' e), s)
      | (None, s) \<Rightarrow>
          (case link_request env name s of (r, s) \<Rightarrow> (r, le_rtnlClose env s)))"

section \<open>The client\<close>

record 's linux_client =
  lc_wgFamily :: "family option"
  lc_amneziaFamily :: "family option"
  lc_interfaces :: "'s \<Rightarrow> (go_error + string list) \<times> 's"
  lc_linkKind :: "string \<Rightarrow> 's \<Rightarrow> (go_error + string) \<times> 's"

text \<open>\<open>(client, ok, err)\<close>: \<^const>\<open>Inl\<close> an error, \<^const>\<open>None\<close> not supported.\<close>

definition initClient :: "'s linux_env \<Rightarrow> 's \<Rightarrow> (go_error + 's linux_client option) \<times> 's" where
  "initClient env s =
     (case le_GetFamily env WG_GENL_NAME s of (wg, s) \<Rightarrow>
        (case le_GetFamily env amneziaGenlName s of (am, s) \<Rightarrow>
           (case (wg, am) of
              (Inl errWg, Inl _) \<Rightarrow>
                (case le_CloseConn env s of (_, s) \<Rightarrow>
                   if \<not> errors_is errWg ErrNotExist then (Inl errWg, s) else (Inr None, s))
            | _ \<Rightarrow>
                (Inr (Some \<lparr> lc_wgFamily = (case wg of Inr f \<Rightarrow> Some f | Inl _ \<Rightarrow> None),
                             lc_amneziaFamily = (case am of Inr f \<Rightarrow> Some f | Inl _ \<Rightarrow> None),
                             lc_interfaces = rtnlInterfaces env, lc_linkKind = rtnlLinkKind env \<rparr>), s))))"

definition familyFor :: "'s linux_client \<Rightarrow> string \<Rightarrow> 's \<Rightarrow> (go_error + family) \<times> 's" where
  "familyFor c name s =
     (case lc_linkKind c name s of
        (Inl e, s) \<Rightarrow> (Inl e, s)
      | (Inr kind, s) \<Rightarrow>
          ((if kind = wgKind \<and> lc_wgFamily c \<noteq> None
            then (case lc_wgFamily c of Some f \<Rightarrow> Inr f | None \<Rightarrow> Inl ErrNotExist)
            else case (kind = amneziaKind, lc_amneziaFamily c) of
              (True, Some f) \<Rightarrow>
                if fam_Version f > amneziaGenlVersion
                then Inl (Wrapped ''wglinux'' ErrAWGVersionNotSupported) else Inr f
            | _ \<Rightarrow> Inl ErrNotExist), s))"

definition op_text :: "byte \<Rightarrow> string \<Rightarrow> family \<Rightarrow> string" where
  "op_text command device fam =
     ''wglinux: '' @ (if command = WG_CMD_SET_DEVICE then ''set device'' else ''get device'') @
     '' '' @ device @ '' ('' @ fam_Name fam @ '')''"

definition execute_error :: "byte \<Rightarrow> string \<Rightarrow> family \<Rightarrow> exec_error \<Rightarrow> go_error" where
  "execute_error command device fam x =
     (case x of
        OtherError e \<Rightarrow> Wrapped (op_text command device fam) e
      | OpError e \<Rightarrow>
          if e = Errno ENODEV \<or> e = Errno ENOTSUP
          then SyscallError (op_text command device fam @ '': no such WireGuard device'') ErrNotExist
          else SyscallError (op_text command device fam) e)"

definition execute ::
    "'s linux_env \<Rightarrow> family \<Rightarrow> byte \<Rightarrow> u16 \<Rightarrow> bytes \<Rightarrow> string \<Rightarrow> 's \<Rightarrow> (go_error + bytes list) \<times> 's" where
  "execute env fam command flags attrb device s =
     (case le_Execute env \<lparr> rq_Command = command, rq_Version = fam_Version fam, rq_Data = attrb,
                            rq_Family = fam_ID fam, rq_Flags = flags \<rparr> s of
        (Inr msgs, s) \<Rightarrow> (Inr msgs, s)
      | (Inl x, s) \<Rightarrow> (Inl (execute_error command device fam x), s))"

text \<open>
  \<open>withContext\<close> when no cancellation interrupts the call; what a cancellation does meanwhile is the
  step relation of theory LinuxContext.
\<close>

definition withContext ::
    "'s linux_env \<Rightarrow> ('s \<Rightarrow> (go_error + 'a) \<times> 's) \<Rightarrow> 's \<Rightarrow> (go_error + 'a) \<times> 's" where
  "withContext env fn s =
     (if \<not> le_ctxDone env then fn s
      else case (if le_ctxDeadline env then le_SetDeadline env ContextDeadline s else (None, s)) of
        (Some _, s) \<Rightarrow> fn s
      | (None, s) \<Rightarrow>
          (case fn s of (r, s) \<Rightarrow>
             (case (case (r, le_ctxErr env s) of
                      (Inl e, Some c) \<Rightarrow> Inl (Wrapped ''wglinux'' c)
                    | _ \<Rightarrow> r) of
                r \<Rightarrow> (r, snd (le_SetDeadline env NoDeadline s)))))"

definition getDeviceInternal :: "'s linux_env \<Rightarrow> string \<Rightarrow> family \<Rightarrow> 's \<Rightarrow> (go_error + Device) \<times> 's" where
  "getDeviceInternal env name fam s =
     (case nl_encode (le_nl env) [(WGDEVICE_A_IFNAME, False, nl_str (le_nl env) name)] of
        Inl e \<Rightarrow> (Inl e, s)
      | Inr b \<Rightarrow>
          (case execute env fam WG_CMD_GET_DEVICE (nlRequest OR nlDump) b name s of
             (Inl e, s) \<Rightarrow> (Inl e, s)
           | (Inr msgs, s) \<Rightarrow>
               (map_sum id (\<lambda>d. if fam_Name fam = amneziaGenlName then d\<lparr> dev_IsAmnezia := True \<rparr> else d)
                  (linux_parseDevice (le_nl env) msgs), s)))"

definition linux_Device :: "'s linux_env \<Rightarrow> 's linux_client \<Rightarrow> string \<Rightarrow> 's \<Rightarrow> (go_error + Device) \<times> 's" where
  "linux_Device env c name s =
     (case le_ctxErr env s of
        Some e \<Rightarrow> (Inl e, s)
      | None \<Rightarrow>
          if name = [] then (Inl ErrNotExist, s)
          else case familyFor c name s of
            (Inl e, s) \<Rightarrow> (Inl e, s)
          | (Inr fam, s) \<Rightarrow> withContext env (getDeviceInternal env name fam) s)"

fun linux_devices_loop ::
    "'s linux_env \<Rightarrow> 's linux_client \<Rightarrow> string list \<Rightarrow> 's \<Rightarrow> (go_error + Device list) \<times> 's" where
  "linux_devices_loop env c [] s = (Inr [], s)"
| "linux_devices_loop env c (ifi # ifis) s =
     (case linux_Device env c ifi s of
        (Inl e, s) \<Rightarrow>
          if errors_is e ErrNotExist then linux_devices_loop env c ifis s else (Inl e, s)
      | (Inr d, s) \<Rightarrow>
          (case linux_devices_loop env c ifis s of
             (Inl e, s) \<Rightarrow> (Inl e, s)
           | (Inr ds, s) \<Rightarrow> (Inr (d # ds), s)))"

definition linux_Devices :: "'s linux_env \<Rightarrow> 's linux_client \<Rightarrow> 's \<Rightarrow> (go_error + Device list) \<times> 's" where
  "linux_Devices env c s =
     (case le_ctxErr env s of
        Some e \<Rightarrow> (Inl e, s)
      | None \<Rightarrow>
          (case lc_interfaces c s of
             (Inl e, s) \<Rightarrow> (Inl e, s)
           | (Inr ifis, s) \<Rightarrow> linux_devices_loop env c ifis s))"

text \<open>The loop over the batches.\<close>

fun send_batches :: "'s linux_env \<Rightarrow> family \<Rightarrow> string \<Rightarrow> Config list \<Rightarrow> 's \<Rightarrow> go_error option \<times> 's" where
  "send_batches env fam name [] s = (None, s)"
| "send_batches env fam name (b # bs) s =
     (case le_ctxErr env s of
        Some e \<Rightarrow> (Some e, s)
      | None \<Rightarrow>
          (case configAttrs (le_nl env) name b of
             Inl e \<Rightarrow> (Some e, s)
           | Inr attrs \<Rightarrow>
               (case withContext env
                       (execute env fam WG_CMD_SET_DEVICE (nlRequest OR nlAcknowledge) attrs name) s of
                  (Inl e, s) \<Rightarrow> (Some e, s)
                | (Inr _, s) \<Rightarrow> send_batches env fam name bs s)))"

definition linux_ConfigureDevice ::
    "'s linux_env \<Rightarrow> 's linux_client \<Rightarrow> string \<Rightarrow> Config \<Rightarrow> 's \<Rightarrow> go_error option \<times> 's" where
  "linux_ConfigureDevice env c name cfg s =
     (case le_ctxErr env s of
        Some e \<Rightarrow> (Some e, s)
      | None \<Rightarrow>
          (case familyFor c name s of
             (Inl e, s) \<Rightarrow> (Some e, s)
           | (Inr fam, s) \<Rightarrow>
               if fam_Name fam \<noteq> amneziaGenlName \<and> hasAWGFields cfg
               then (Some (Wrapped ''wglinux'' ErrAWGNotSupported), s)
               else if buildBatches cfg = [] then (None, s)
               else send_batches env fam name (buildBatches cfg) s))"

section \<open>Which client, which family\<close>

lemma initClient_families:
  assumes "fst (initClient env s) = Inr (Some c)"
  shows "lc_wgFamily c \<noteq> None \<or> lc_amneziaFamily c \<noteq> None"
  using assms by (auto simp: initClient_def split: prod.splits sum.splits if_splits)

lemma initClient_unsupported:
  "fst (initClient env s) = Inr None \<longleftrightarrow>
     (\<exists>e1 s1 e2. le_GetFamily env WG_GENL_NAME s = (Inl e1, s1) \<and> errors_is e1 ErrNotExist \<and>
        fst (le_GetFamily env amneziaGenlName s1) = Inl e2)"
  by (auto simp: initClient_def split: prod.splits sum.splits if_splits)

text \<open>The kinds that the client serves, with the family for each.\<close>

lemma familyFor_Inr:
  assumes "fst (familyFor c name s) = Inr f"
  shows "\<exists>kind. fst (lc_linkKind c name s) = Inr kind \<and>
    ((kind = wgKind \<and> lc_wgFamily c = Some f) \<or>
     (kind = amneziaKind \<and> lc_amneziaFamily c = Some f \<and> fam_Version f \<le> amneziaGenlVersion))"
  using assms
  by (auto simp: familyFor_def split: prod.splits sum.splits option.splits if_splits bool.splits)

section \<open>What an error of the kernel means\<close>

lemma execute_error_NotExist:
  "errors_is (execute_error cmd device fam (OpError e)) ErrNotExist \<longleftrightarrow>
     e = Errno ENODEV \<or> e = Errno ENOTSUP \<or> errors_is e ErrNotExist"
  by (auto simp: execute_error_def)

lemma execute_error_keeps:
  assumes "errors_is (exec_error_value x) (Errno n)" and "n \<noteq> ENODEV" and "n \<noteq> ENOTSUP"
  shows "errors_is (execute_error cmd device fam x) (Errno n)"
  using assms by (cases x) (auto simp: execute_error_def exec_error_value_def)

section \<open>The requests of a configuration\<close>

text \<open>The same world with a log of the requests sent and whether each was accepted.\<close>

definition lift :: "('s \<Rightarrow> 'a \<times> 's) \<Rightarrow> 's \<times> 'l \<Rightarrow> 'a \<times> 's \<times> 'l" where
  "lift f sl = (case f (fst sl) of (r, s) \<Rightarrow> (r, s, snd sl))"

definition logged :: "'s linux_env \<Rightarrow> ('s \<times> (request \<times> bool) list) linux_env" where
  "logged env =
     \<lparr> le_nl = le_nl env,
       le_GetFamily = (\<lambda>n. lift (le_GetFamily env n)),
       le_CloseConn = lift (le_CloseConn env),
       le_Execute = (\<lambda>rq sl. case le_Execute env rq (fst sl) of (x, s) \<Rightarrow> (x, s, snd sl @ [(rq, \<not> isl x)])),
       le_SetDeadline = (\<lambda>d. lift (le_SetDeadline env d)),
       le_NetlinkRIB = lift (le_NetlinkRIB env),
       le_rtnlDial = lift (le_rtnlDial env),
       le_rtnlExecute = (\<lambda>t f b. lift (le_rtnlExecute env t f b)),
       le_rtnlClose = (\<lambda>sl. (le_rtnlClose env (fst sl), snd sl)),
       le_ctxErr = le_ctxErr env \<circ> fst,
       le_ctxDone = le_ctxDone env, le_ctxDeadline = le_ctxDeadline env \<rparr>"

lemma snd_lift [simp]: "snd (snd (lift f sl)) = snd sl"
  by (simp add: lift_def case_prod_beta)

lemma lift_log: "lift f sl = (r, sl') \<Longrightarrow> snd sl' = snd sl"
  using snd_lift [of f sl] by simp

definition set_request_of :: "family \<Rightarrow> bytes \<Rightarrow> request" where
  "set_request_of fam d = \<lparr> rq_Command = WG_CMD_SET_DEVICE, rq_Version = fam_Version fam, rq_Data = d,
     rq_Family = fam_ID fam, rq_Flags = nlRequest OR nlAcknowledge \<rparr>"

lemma execute_log:
  assumes "execute (logged env) fam WG_CMD_SET_DEVICE (nlRequest OR nlAcknowledge) d name sl = (x, sl')"
  shows "snd sl' = snd sl @ [(set_request_of fam d, \<not> isl x)]"
  using assms by (auto simp: execute_def logged_def set_request_of_def split: prod.splits sum.splits)

lemma withContext_log:
  assumes "\<And>sl x sl'. fn sl = (x, sl') \<Longrightarrow> snd sl' = snd sl @ [(q, \<not> isl x)]"
    and "withContext (logged env) fn sl = (x, sl')"
  shows "snd sl' = snd sl @ [(q, \<not> isl x)]"
proof -
  have keep: "snd (snd (le_SetDeadline (logged env) d t)) = snd t" for d t
    by (simp add: logged_def)
  have start: "snd u = snd t" if "le_SetDeadline (logged env) d t = (y, u)" for d t y u
    using keep [of d t] that by simp
  show ?thesis
    using assms(2) start [of ContextDeadline sl]
    by (auto simp: withContext_def keep split: if_splits prod.splits option.splits sum.splits dest!: assms(1))
qed

lemma withContext_Inr:
  "fst (withContext env fn s) = Inr x \<Longrightarrow> \<exists>t. fst (fn t) = Inr x"
  by (auto simp: withContext_def case_prod_beta split: if_splits option.splits sum.splits)

text \<open>
  How a configuration ends: with no error when every batch was sent and accepted; with an error when
  the last request sent was refused, or when all were accepted and, before the next, the context was done
  or the next batch could not be encoded.
\<close>

definition ends_as :: "'s linux_env \<Rightarrow> string \<Rightarrow> Config list \<Rightarrow> (request \<times> bool) list \<Rightarrow> go_error option \<Rightarrow> 's \<Rightarrow> bool" where
  "ends_as env name bs log r s \<longleftrightarrow>
     (case r of
        None \<Rightarrow> length log = length bs \<and> list_all snd log
      | Some e \<Rightarrow> (log \<noteq> [] \<and> \<not> snd (last log)) \<or>
          (length log < length bs \<and> list_all snd log \<and>
           (le_ctxErr env s = Some e \<or> configAttrs (le_nl env) name (bs ! length log) = Inl e)))"

lemma send_batches_log:
  assumes "send_batches (logged env) fam name bs sl = (r, sl')"
  shows "\<exists>ds log. list_all2 (\<lambda>b d. configAttrs (le_nl env) name b = Inr d) (take (length log) bs) ds \<and>
    snd sl' = snd sl @ log \<and> map fst log = map (set_request_of fam) ds \<and> list_all snd (butlast log) \<and>
    ends_as env name bs log r (fst sl')"
  using assms
proof (induction bs arbitrary: sl)
  case Nil
  then show ?case by (auto simp: ends_as_def)
next
  case (Cons b bs)
  have env: "le_ctxErr (logged env) = le_ctxErr env \<circ> fst" "le_nl (logged env) = le_nl env"
    by (simp_all add: logged_def)
  let ?send = "\<lambda>d. withContext (logged env)
    (execute (logged env) fam WG_CMD_SET_DEVICE (nlRequest OR nlAcknowledge) d name) sl"
  show ?case
  proof (cases "le_ctxErr env (fst sl) = None \<and> (\<exists>d. configAttrs (le_nl env) name b = Inr d)")
    case False
    then have "sl' = sl" "ends_as env name (b # bs) [] r (fst sl)"
      using Cons.prems
      by (cases "le_ctxErr env (fst sl)"; cases "configAttrs (le_nl env) name b"; auto simp: env ends_as_def)+
    then show ?thesis by (intro exI [of _ "[]"]) simp
  next
    case True
    then obtain d where d: "configAttrs (le_nl env) name b = Inr d" and e: "le_ctxErr env (fst sl) = None" by blast
    obtain x t where x: "?send d = (x, t)" by (rule prod.exhaust)
    have log: "snd t = snd sl @ [(set_request_of fam d, \<not> isl x)]"
      by (rule withContext_log [OF _ x]) (rule execute_log)
    show ?thesis
    proof (cases x)
      case (Inl err)
      then have "r = Some err" "sl' = t" using Cons.prems x d e by (simp_all add: env)
      with log Inl d show ?thesis
        by (intro exI [of _ "[d]"] exI [of _ "[(set_request_of fam d, False)]"]) (simp add: ends_as_def)
    next
      case (Inr y)
      then have "send_batches (logged env) fam name bs t = (r, sl')" using Cons.prems x d e by (simp add: env)
      from Cons.IH [OF this] obtain ds l where
        "list_all2 (\<lambda>b d. configAttrs (le_nl env) name b = Inr d) (take (length l) bs) ds"
        "snd sl' = snd t @ l" "map fst l = map (set_request_of fam) ds" "list_all snd (butlast l)"
        "ends_as env name bs l r (fst sl')" by blast
      with log Inr d show ?thesis
        by (intro exI [of _ "d # ds"] exI [of _ "(set_request_of fam d, True) # l"])
          (auto simp: ends_as_def split: option.splits)
    qed
  qed
qed

text \<open>No AmneziaWG field is ever sent to the plain WireGuard family.\<close>

lemma configure_guard:
  assumes "familyFor c name s = (Inr fam, s')" and "fam_Name fam \<noteq> amneziaGenlName"
    and "hasAWGFields cfg" and "le_ctxErr env s = None"
  shows "linux_ConfigureDevice env c name cfg s = (Some (Wrapped ''wglinux'' ErrAWGNotSupported), s')"
  using assms by (simp add: linux_ConfigureDevice_def)

section \<open>Links as the kernel describes them\<close>

text \<open>A link message: an empty \<open>ifinfomsg\<close>, the name, and the kind nested in \<open>IFLA_LINKINFO\<close>.\<close>

definition link_message :: "netlink \<Rightarrow> string \<times> string \<Rightarrow> go_error + bytes" where
  "link_message nl l =
     res_bind (nl_encode nl [(IFLA_INFO_KIND, False, nl_str nl (snd l))]) (\<lambda>info.
     res_bind (nl_encode nl [(IFLA_IFNAME, False, nl_str nl (fst l)), (IFLA_LINKINFO, True, info)]) (\<lambda>b.
       Inr (replicate SizeofIfInfomsg 0 @ b)))"

definition link_ok :: "string \<times> string \<Rightarrow> bool" where
  "link_ok l \<longleftrightarrow> CHR 0x00 \<notin> set (fst l) \<and> CHR 0x00 \<notin> set (snd l)"

definition wg_link :: "string \<times> string \<Rightarrow> bool" where
  "wg_link l \<longleftrightarrow> snd l = wgKind \<or> snd l = amneziaKind"

lemma decoded_link:
  "decoded (IFLA_INFO_KIND, n, d) = (IFLA_INFO_KIND, d)" "decoded (IFLA_IFNAME, n, d) = (IFLA_IFNAME, d)"
  "decoded (IFLA_LINKINFO, n, d) = (IFLA_LINKINFO, d)"
  by (simp_all add: decoded_def attr_type_def IFLA_INFO_KIND_def IFLA_IFNAME_def IFLA_LINKINFO_def)

lemma link_types: "IFLA_IFNAME \<noteq> IFLA_LINKINFO" "IFLA_LINKINFO \<noteq> IFLA_IFNAME"
  by (simp_all add: IFLA_IFNAME_def IFLA_LINKINFO_def)

context netlink_lib
begin

lemma link_message_parts:
  assumes "link_message nl l = Inr b"
  shows "\<exists>info a. b = replicate SizeofIfInfomsg 0 @ a \<and>
    nl_decode nl info = Inr ([(IFLA_INFO_KIND, nl_str nl (snd l))], None) \<and>
    nl_decode nl a = Inr ([(IFLA_IFNAME, nl_str nl (fst l)), (IFLA_LINKINFO, info)], None)"
proof -
  from assms obtain info a where
    "nl_encode nl [(IFLA_INFO_KIND, False, nl_str nl (snd l))] = Inr info"
    "nl_encode nl [(IFLA_IFNAME, False, nl_str nl (fst l)), (IFLA_LINKINFO, True, info)] = Inr a"
    "b = replicate SizeofIfInfomsg 0 @ a"
    by (auto simp: link_message_def res_bind_Inr)
  then show ?thesis
    using decode_encode by (intro exI [of _ info] exI [of _ a]) (auto simp: decoded_link)
qed

lemma read_link_kind:
  assumes "link_message nl l = Inr b" and "CHR 0x00 \<notin> set (snd l)"
  shows "parseLinkKind nl b = Inr (snd l)"
  using link_message_parts [OF assms(1)] assms(2) read_str
  by (auto simp: parseLinkKind_def linkInfoKind_def with_attrs_def link_types)

lemma read_link:
  assumes "link_message nl l = Inr b" and "link_ok l"
  shows "with_attrs nl (link_attr nl) (drop SizeofIfInfomsg b) ([], False) = Inr (fst l, wg_link l)"
    and "\<not> length b < SizeofIfInfomsg"
  using link_message_parts [OF assms(1)] assms(2) read_str
  by (auto simp: with_attrs_def link_attr_def link_types isWGKind_def link_ok_def wg_link_def)

lemma read_interfaces:
  assumes "list_all2 (\<lambda>l m. fst m = RTM_NEWLINK \<and> link_message nl l = Inr (snd m)) ls msgs"
    and "list_all link_ok ls"
  shows "parseRTNLInterfaces nl msgs = Inr (map fst (filter wg_link ls))"
  using assms
proof (induction rule: list_all2_induct)
  case (Cons l ls m msgs)
  obtain b where m: "m = (RTM_NEWLINK, b)" "link_message nl l = Inr b"
    using Cons.hyps(1) by (cases m) auto
  from Cons.prems have ok: "link_ok l" by simp
  from read_link [OF m(2) ok] Cons show ?case by (simp add: m(1))
qed simp

end

end
