(* ===== verification/LinuxRead.thy ===== *)
theory LinuxRead
  imports LinuxEcho LinuxClient
begin

text \<open>
  The Linux backend end to end: a configuration is split into batches, each is encoded, a kernel keeps
  the messages it is sent and reports them in its dump, and the client parses and merges the dump.
  The lemmas show that the merge of a dump undoes the split into batches.
\<close>

section \<open>Merging undoes splitting\<close>

lemma merge_peers_append: "merge_peers (xs @ ys) st = merge_peers ys (merge_peers xs st)"
  by (induction xs st rule: merge_peers.induct) (auto split: option.splits)

lemma echo_chunk [simp]:
  "peer_PublicKey (linux_echo_peer p) = pc_PublicKey p"
  "peer_AllowedIPs (linux_echo_peer p) = pc_AllowedIPs p"
  "linux_echo_peer (p\<lparr> pc_AllowedIPs := ips \<rparr>) = (linux_echo_peer p)\<lparr> peer_AllowedIPs := ips \<rparr>"
  by (simp_all add: linux_echo_peer_def echo_peer_def)

lemma chunk_peer_fresh: "linux_echo_peer (chunk_peer True p c) = (linux_echo_peer p)\<lparr> peer_AllowedIPs := c \<rparr>"
  by (simp add: linux_echo_peer_def echo_peer_def chunk_peer_def zeroPeerConfig_def Let_def)

text \<open>The chunks after the first add their allowed IPs to the peer.\<close>

lemma merge_later_chunks:
  assumes "known (pc_PublicKey p) = Some i" and "i < length ps"
  shows "merge_peers (map linux_echo_peer (chunk_peers False p cs)) (ps, known) =
    (ps[i := (ps ! i)\<lparr> peer_AllowedIPs := peer_AllowedIPs (ps ! i) @ concat cs \<rparr>], known)"
  using assms
proof (induction cs arbitrary: ps)
  case Nil
  have "(ps ! i)\<lparr> peer_AllowedIPs := peer_AllowedIPs (ps ! i) \<rparr> = ps ! i" by simp
  then show ?case by simp
next
  case (Cons c cs)
  then show ?case by simp
qed

lemma merge_chunks:
  assumes "known (pc_PublicKey p) = None"
  shows "merge_peers (map linux_echo_peer (chunk_peers True p (ip_chunks (pc_AllowedIPs p)))) (ps, known) =
    (ps @ [linux_echo_peer p], known(pc_PublicKey p \<mapsto> length ps))"
proof -
  obtain c cs where c: "ip_chunks (pc_AllowedIPs p) = c # cs"
    by (meson ip_chunks_nonempty neq_Nil_conv)
  have "c @ concat cs = pc_AllowedIPs p"
    using concat_ip_chunks [of "pc_AllowedIPs p"] c by simp
  moreover have "(linux_echo_peer p)\<lparr> peer_AllowedIPs := pc_AllowedIPs p \<rparr> = linux_echo_peer p"
    by (simp add: linux_echo_peer_def echo_peer_def)
  ultimately show ?thesis
    using assms by (simp add: c chunk_peer_fresh merge_later_chunks)
qed

text \<open>Peers with few allowed IPs are one chunk each.\<close>

lemma all_chunks_small:
  assumes "list_all (\<lambda>p. length (pc_AllowedIPs p) \<le> ipBatchChunk) ps"
    and "distinct (map pc_PublicKey ps)" and "pc_PublicKey ` set ps \<inter> set seen = {}"
  shows "all_chunks seen ps = ps"
  using assms
proof (induction ps arbitrary: seen)
  case (Cons p ps)
  then have "ip_chunks (pc_AllowedIPs p) = [pc_AllowedIPs p]" and "pc_PublicKey p \<notin> set seen"
    by (simp_all add: ip_chunks.simps)
  moreover have "chunk_peer True p (pc_AllowedIPs p) = p"
    by (simp add: chunk_peer_def zeroPeerConfig_def Let_def)
  moreover have "all_chunks (pc_PublicKey p # seen) ps = ps"
    by (rule Cons.IH) (use Cons.prems in auto)
  ultimately show ?case by simp
qed simp

lemma merge_all_chunks:
  assumes "distinct (map pc_PublicKey cs)" and "pc_PublicKey ` set cs \<inter> set seen = {}"
    and "dom known = set seen"
  shows "fst (merge_peers (map linux_echo_peer (all_chunks seen cs)) (ps, known)) = ps @ map linux_echo_peer cs"
  using assms
proof (induction cs arbitrary: seen ps known)
  case Nil
  then show ?case by simp
next
  case (Cons p cs)
  have new: "pc_PublicKey p \<notin> set seen" and none: "known (pc_PublicKey p) = None"
    using Cons.prems by auto
  have "fst (merge_peers (map linux_echo_peer (all_chunks (pc_PublicKey p # seen) cs))
      (ps @ [linux_echo_peer p], known(pc_PublicKey p \<mapsto> length ps))) =
    (ps @ [linux_echo_peer p]) @ map linux_echo_peer cs"
  proof (rule Cons.IH)
    show "dom (known(pc_PublicKey p \<mapsto> length ps)) = set (pc_PublicKey p # seen)"
      using Cons.prems(3) by simp
  qed (use Cons.prems in auto)
  then show ?case by (simp add: new none merge_peers_append merge_chunks)
qed

section \<open>Every batch fits the attributes\<close>

lemma linux_peer_ok_chunk:
  assumes "linux_peer_ok p" and "c \<in> set (ip_chunks (pc_AllowedIPs p))"
  shows "linux_peer_ok (chunk_peer fresh p c)"
proof -
  have "set c \<subseteq> set (pc_AllowedIPs p)"
    using assms(2) concat_ip_chunks [of "pc_AllowedIPs p"] by (metis UN_upper set_concat)
  with assms(1) show ?thesis by (auto simp: linux_peer_ok_def list_all_iff)
qed

lemma chunk_peers_ok:
  assumes "linux_peer_ok p" and "set cs \<subseteq> set (ip_chunks (pc_AllowedIPs p))"
  shows "list_all linux_peer_ok (chunk_peers fresh p cs)"
  using assms(2) by (induction cs arbitrary: fresh) (auto intro: linux_peer_ok_chunk [OF assms(1)])

lemma all_chunks_ok: "list_all linux_peer_ok ps \<Longrightarrow> list_all linux_peer_ok (all_chunks seen ps)"
  by (induction ps arbitrary: seen) (auto intro: chunk_peers_ok)

lemma linux_ok_peers: "linux_ok name c \<Longrightarrow> linux_peer_ok q \<Longrightarrow> linux_ok name (c\<lparr> cfg_Peers := [q] \<rparr>)"
  by (simp add: linux_ok_def cfg_headers_def cfg_inits_def)

lemma linux_ok_rest: "linux_ok name c \<Longrightarrow> linux_peer_ok q \<Longrightarrow> linux_ok name (rest_batch c q)"
  by (simp add: linux_ok_def rest_batch_def stripAWG_def cfg_headers_def cfg_inits_def)

lemma linux_echo_peers:
  "dev_Peers (linux_echo name c) = map linux_echo_peer (cfg_Peers c)"
  "linux_echo name (c\<lparr> cfg_Peers := qs \<rparr>) = (linux_echo name c)\<lparr> dev_Peers := map linux_echo_peer qs \<rparr>"
  by (simp_all add: linux_echo_def echo_fields_def)

section \<open>A dump of the batches\<close>

lemma rest_batch_peers: "concat (map dev_Peers (map (\<lambda>q. linux_echo name (rest_batch c q)) qs)) = map linux_echo_peer qs"
  by (induction qs) (simp_all add: linux_echo_peers rest_batch_def)

lemma merge_messages_peers:
  assumes "list_all2 (\<lambda>m d. parseDeviceLoop nl m = Inr d) ms ds"
  shows "merge_messages nl ms (t, known) =
    Inr (t\<lparr> dev_Peers := fst (merge_peers (concat (map dev_Peers ds)) (dev_Peers t, known)) \<rparr>)"
  using assms
proof (induction arbitrary: t known rule: list_all2_induct)
  case Nil
  then show ?case by simp
next
  case (Cons m ms d ds)
  then show ?case
    by (simp add: mergeDevices_def merge_peers_append split: prod.split)
qed

definition dumped :: "netlink \<Rightarrow> string \<Rightarrow> Config list \<Rightarrow> bytes list \<Rightarrow> bool" where
  "dumped nl name = list_all2 (\<lambda>b d. configAttrs nl name b = Inr d)"

context netlink_lib
begin

lemma read_batches:
  assumes "linux_ok name c" and "distinct (map pc_PublicKey (cfg_Peers c))"
    and "dumped nl name (buildBatches c) ms"
  shows "linux_parseDevice nl ms = Inr (linux_echo name c)"
proof (cases "shouldBatch c")
  case False
  with assms(3) obtain m where m: "ms = [m]" "configAttrs nl name c = Inr m"
    by (auto simp: buildBatches_def dumped_def list_all2_Cons1)
  with read_device [OF assms(1) m(2)] show ?thesis by (simp add: linux_parseDevice_def)
next
  case True
  obtain q qs where q: "all_chunks [] (cfg_Peers c) = q # qs"
      "buildBatches c = c\<lparr> cfg_Peers := [q] \<rparr> # map (rest_batch c) qs"
    using buildBatches_eq [OF True] by blast
  have ok: "list_all linux_peer_ok (q # qs)"
    using all_chunks_ok [of "cfg_Peers c" "[]"] assms(1) q(1) by (simp add: linux_ok_def)
  obtain m ms' where ms: "ms = m # ms'" "configAttrs nl name (c\<lparr> cfg_Peers := [q] \<rparr>) = Inr m"
      "dumped nl name (map (rest_batch c) qs) ms'"
    using assms(3) q(2) by (auto simp: dumped_def list_all2_Cons1)
  let ?first = "linux_echo name (c\<lparr> cfg_Peers := [q] \<rparr>)"
  have first: "parseDeviceLoop nl m = Inr ?first"
    using read_device [OF linux_ok_peers [OF assms(1)] ms(2)] ok by simp
  have "list_all2 (\<lambda>m d. parseDeviceLoop nl m = Inr d) ms' (map (\<lambda>q. linux_echo name (rest_batch c q)) qs)"
    using ms(3) ok
  proof (induction qs arbitrary: ms')
    case (Cons r rs)
    then show ?case
      by (auto simp: dumped_def list_all2_Cons1 intro: read_device [OF linux_ok_rest [OF assms(1)]])
  qed (simp add: dumped_def)
  from merge_messages_peers [OF this]
  have rest: "merge_messages nl ms' (?first, known) = Inr (?first\<lparr> dev_Peers :=
      fst (merge_peers (map linux_echo_peer qs) ([linux_echo_peer q], known)) \<rparr>)" for known
    unfolding rest_batch_peers by (simp add: linux_echo_peers)
  have "known_of [linux_echo_peer q] = [pc_PublicKey q \<mapsto> 0]"
    by (simp add: known_of_def)
  then have "fst (merge_peers (map linux_echo_peer qs) ([linux_echo_peer q], known_of [linux_echo_peer q])) =
      map linux_echo_peer (cfg_Peers c)"
    using merge_all_chunks [OF assms(2), of "[]" Map.empty "[]"] q(1) by simp
  then show ?thesis
    using first rest by (simp add: ms(1) linux_parseDevice_def linux_echo_peers flip: linux_echo_peers(2))
qed

end

section \<open>A kernel that keeps what it is given\<close>

text \<open>
  The same world with one device that was just created: the kernel keeps the messages that configure
  it, and its dump has one message for each of them.
\<close>

definition keeping :: "'s linux_env \<Rightarrow> ('s \<times> bytes list) linux_env" where
  "keeping env =
     \<lparr> le_nl = le_nl env,
       le_GetFamily = (\<lambda>n. lift (le_GetFamily env n)),
       le_CloseConn = lift (le_CloseConn env),
       le_Execute = (\<lambda>rq sl.
         if rq_Command rq = WG_CMD_SET_DEVICE then (Inr [], fst sl, snd sl @ [rq_Data rq])
         else (Inr (snd sl), sl)),
       le_SetDeadline = (\<lambda>d. lift (le_SetDeadline env d)),
       le_NetlinkRIB = lift (le_NetlinkRIB env),
       le_rtnlDial = lift (le_rtnlDial env),
       le_rtnlExecute = (\<lambda>t f b. lift (le_rtnlExecute env t f b)),
       le_rtnlClose = (\<lambda>sl. (le_rtnlClose env (fst sl), snd sl)),
       le_ctxErr = le_ctxErr env \<circ> fst,
       le_ctxDone = le_ctxDone env, le_ctxDeadline = le_ctxDeadline env \<rparr>"

lemma keeping_simps [simp]: "le_nl (keeping env) = le_nl env" "le_ctxErr (keeping env) sl = le_ctxErr env (fst sl)"
  by (simp_all add: keeping_def)

text \<open>What \<open>withContext\<close> does around a call that succeeds.\<close>

lemma withContext_keeping:
  assumes "\<And>sl. \<exists>s. fn sl = (Inr (r (snd sl)), s, k (snd sl))"
  shows "\<exists>s. withContext (keeping env) fn sl = (Inr (r (snd sl)), s, k (snd sl))"
proof -
  have fn: "fst (fn sl) = Inr (r (snd sl)) \<and> snd (snd (fn sl)) = k (snd sl)" for sl
    using assms [of sl] by auto
  have dl: "snd (snd (le_SetDeadline (keeping env) d sl)) = snd sl" for d sl
    by (simp add: keeping_def)
  have "fst (withContext (keeping env) fn sl) = Inr (r (snd sl)) \<and> snd (snd (withContext (keeping env) fn sl)) = k (snd sl)"
    using fn dl by (simp add: withContext_def case_prod_beta split: option.split)
  then show ?thesis by (cases "withContext (keeping env) fn sl") auto
qed

lemma send_batch_keeping:
  "\<exists>s. withContext (keeping env) (execute (keeping env) fam WG_CMD_SET_DEVICE fl d name) sl =
     (Inr [], s, snd sl @ [d])"
  by (rule withContext_keeping) (simp add: execute_def keeping_def)

lemma send_batches_keeping:
  assumes "dumped (le_nl env) name bs ms" and "\<And>s. le_ctxErr env s = None"
  shows "\<exists>s. send_batches (keeping env) fam name bs sl = (None, s, snd sl @ ms)"
  using assms(1) unfolding dumped_def
proof (induction arbitrary: sl rule: list_all2_induct)
  case Nil
  then show ?case by (cases sl) simp
next
  case (Cons b bs d ms)
  obtain s where s: "withContext (keeping env)
      (execute (keeping env) fam WG_CMD_SET_DEVICE (nlRequest OR nlAcknowledge) d name) sl = (Inr [], s, snd sl @ [d])"
    using send_batch_keeping [of env fam "nlRequest OR nlAcknowledge" d name sl] by blast
  from Cons.IH [of "(s, snd sl @ [d])"] Cons.hyps assms(2) show ?case by (simp add: s)
qed

lemma buildBatches_nonempty: "buildBatches cfg \<noteq> []"
  using buildBatches_eq [of cfg] by (cases "shouldBatch cfg") (auto simp: buildBatches_def)

lemma getDevice_keeping:
  assumes "nl_encode (le_nl env) [(WGDEVICE_A_IFNAME, False, nl_str (le_nl env) name)] = Inr b"
    and "linux_parseDevice (le_nl env) (snd sl) = Inr d"
  shows "fst (withContext (keeping env) (getDeviceInternal (keeping env) name fam) sl) =
    Inr (if fam_Name fam = amneziaGenlName then d\<lparr> dev_IsAmnezia := True \<rparr> else d)"
proof -
  have "fst (getDeviceInternal (keeping env) name fam sl') =
      map_sum id (\<lambda>d. if fam_Name fam = amneziaGenlName then d\<lparr> dev_IsAmnezia := True \<rparr> else d)
        (linux_parseDevice (le_nl env) (snd sl'))" for sl'
    using assms(1)
    by (simp add: getDeviceInternal_def execute_def WG_CMD_GET_DEVICE_def WG_CMD_SET_DEVICE_def keeping_def)
  moreover have "snd (snd (le_SetDeadline (keeping env) dl sl')) = snd sl'" for dl sl'
    by (simp add: keeping_def)
  ultimately show ?thesis
    using assms(2) by (simp add: withContext_def case_prod_beta split: option.split)
qed

lemma kept_configure_then_read:
  assumes "netlink_lib (le_nl env)" and "linux_ok name c" and "name \<noteq> []"
    and "distinct (map pc_PublicKey (cfg_Peers c))"
    and "\<And>sl. fst (familyFor cl name sl) = Inr fam \<and> snd (snd (familyFor cl name sl)) = snd sl"
    and "fam_Name fam = amneziaGenlName \<or> \<not> hasAWGFields c"
    and "\<And>s. le_ctxErr env s = None"
    and "nl_encode (le_nl env) [(WGDEVICE_A_IFNAME, False, nl_str (le_nl env) name)] = Inr b"
    and "dumped (le_nl env) name (buildBatches c) ms"
  shows "\<exists>s'. linux_ConfigureDevice (keeping env) cl name c (s, []) = (None, s', ms) \<and>
    fst (linux_Device (keeping env) cl name (s', ms)) =
      Inr ((linux_echo name c)\<lparr> dev_IsAmnezia := (fam_Name fam = amneziaGenlName) \<rparr>)"
proof -
  obtain t where t: "familyFor cl name (s, []) = (Inr fam, t, [])"
    using assms(5) [of "(s, [])"] by (cases "familyFor cl name (s, [])") auto
  obtain s' where s': "send_batches (keeping env) fam name (buildBatches c) (t, []) = (None, s', ms)"
    using send_batches_keeping [OF assms(9,7), of fam "(t, [])"] by auto
  have "linux_ConfigureDevice (keeping env) cl name c (s, []) = (None, s', ms)"
    using assms(6) by (auto simp: linux_ConfigureDevice_def assms(7) t buildBatches_nonempty s')
  moreover obtain t' where t': "familyFor cl name (s', ms) = (Inr fam, t', ms)"
    using assms(5) [of "(s', ms)"] by (cases "familyFor cl name (s', ms)") auto
  have "dev_IsAmnezia (linux_echo name c) = False" by (simp add: linux_echo_def)
  then have "(linux_echo name c)\<lparr> dev_IsAmnezia := False \<rparr> = linux_echo name c" by simp
  then have "fst (linux_Device (keeping env) cl name (s', ms)) =
      Inr ((linux_echo name c)\<lparr> dev_IsAmnezia := (fam_Name fam = amneziaGenlName) \<rparr>)"
    using getDevice_keeping [OF assms(8), of "(t', ms)"] netlink_lib.read_batches [OF assms(1,2,4,9)]
    by (simp add: linux_Device_def assms(3,7) t')
  ultimately show ?thesis by blast
qed

end
