(* ===== verification/LinuxContext.thy ===== *)
theory LinuxContext
  imports LinuxClient
begin

text \<open>
  The concurrency of \<open>withContext\<close> in \<open>internal/wglinux/client_linux.go\<close>. The calling goroutine sets
  the deadline, registers \<open>context.AfterFunc\<close>, runs the call, and cleans up; the function registered
  runs in a goroutine of its own once the context is done, and puts the socket's deadline into the
  past. The context may be done at any moment. Every interleaving is a run of \<open>ctx_step\<close>.
\<close>

section \<open>States and steps\<close>

text \<open>
  Where the caller is: before \<open>SetDeadline(dl)\<close>, before \<open>AfterFunc\<close>, inside \<open>fn()\<close>, at \<open>stop()\<close>, at
  \<open><-fired\<close>, at \<open>SetDeadline(time.Time{})\<close>, returned; or inside \<open>fn()\<close> without a bound, when the
  socket has no deadlines.
\<close>

datatype caller =
    SettingDeadline | Registering | Calling | StoppingWatcher | AwaitingFired | Clearing | Returned
  | CallingUnbounded

text \<open>Where the registered function is: not registered, waiting, started, after \<open>SetDeadline\<close>, after
  \<open>close(fired)\<close>; or stopped before it started.\<close>

datatype watcher = NotRegistered | Watching | Started | PastSet | FiredClosed | Stopped

record ctx_state =
  cx_caller :: caller
  cx_watcher :: watcher
  cx_deadline :: deadline
  cx_done :: bool

definition ctx_init :: ctx_state where
  "ctx_init = \<lparr> cx_caller = SettingDeadline, cx_watcher = NotRegistered, cx_deadline = NoDeadline,
     cx_done = False \<rparr>"

inductive ctx_step :: "ctx_state \<Rightarrow> ctx_state \<Rightarrow> bool" where
  context_done: "ctx_step s (s\<lparr> cx_done := True \<rparr>)"
| set_deadline: "cx_caller s = SettingDeadline \<Longrightarrow>
     ctx_step s (s\<lparr> cx_caller := Registering, cx_deadline := ContextDeadline \<rparr>)"
| no_deadline: "cx_caller s = SettingDeadline \<Longrightarrow> ctx_step s (s\<lparr> cx_caller := Registering \<rparr>)"
| unbounded: "cx_caller s = SettingDeadline \<Longrightarrow> ctx_step s (s\<lparr> cx_caller := CallingUnbounded \<rparr>)"
| unbounded_return: "cx_caller s = CallingUnbounded \<Longrightarrow> ctx_step s (s\<lparr> cx_caller := Returned \<rparr>)"
| register: "cx_caller s = Registering \<Longrightarrow>
     ctx_step s (s\<lparr> cx_caller := Calling, cx_watcher := Watching \<rparr>)"
| start: "cx_watcher s = Watching \<Longrightarrow> cx_done s \<Longrightarrow> ctx_step s (s\<lparr> cx_watcher := Started \<rparr>)"
| set_past: "cx_watcher s = Started \<Longrightarrow>
     ctx_step s (s\<lparr> cx_watcher := PastSet, cx_deadline := PastDeadline \<rparr>)"
| close_fired: "cx_watcher s = PastSet \<Longrightarrow> ctx_step s (s\<lparr> cx_watcher := FiredClosed \<rparr>)"
| call_returns: "cx_caller s = Calling \<Longrightarrow> ctx_step s (s\<lparr> cx_caller := StoppingWatcher \<rparr>)"
| stop_true: "cx_caller s = StoppingWatcher \<Longrightarrow> cx_watcher s = Watching \<Longrightarrow>
     ctx_step s (s\<lparr> cx_caller := Clearing, cx_watcher := Stopped \<rparr>)"
| stop_false: "cx_caller s = StoppingWatcher \<Longrightarrow> cx_watcher s \<noteq> Watching \<Longrightarrow>
     ctx_step s (s\<lparr> cx_caller := AwaitingFired \<rparr>)"
| fired: "cx_caller s = AwaitingFired \<Longrightarrow> cx_watcher s = FiredClosed \<Longrightarrow>
     ctx_step s (s\<lparr> cx_caller := Clearing \<rparr>)"
| clear: "cx_caller s = Clearing \<Longrightarrow>
     ctx_step s (s\<lparr> cx_caller := Returned, cx_deadline := NoDeadline \<rparr>)"

inductive ctx_reachable :: "ctx_state \<Rightarrow> bool" where
  init: "ctx_reachable ctx_init"
| step: "ctx_reachable s \<Longrightarrow> ctx_step s t \<Longrightarrow> ctx_reachable t"

section \<open>The invariant\<close>

definition running :: "watcher \<Rightarrow> bool" where
  "running w \<longleftrightarrow> w = Started \<or> w = PastSet \<or> w = FiredClosed"

definition watcher_fits :: "caller \<Rightarrow> watcher \<Rightarrow> bool" where
  "watcher_fits c w \<longleftrightarrow> (case c of
     SettingDeadline \<Rightarrow> w = NotRegistered
   | Registering \<Rightarrow> w = NotRegistered
   | CallingUnbounded \<Rightarrow> w = NotRegistered
   | Calling \<Rightarrow> w = Watching \<or> running w
   | StoppingWatcher \<Rightarrow> w = Watching \<or> running w
   | AwaitingFired \<Rightarrow> running w
   | Clearing \<Rightarrow> w = Stopped \<or> w = FiredClosed
   | Returned \<Rightarrow> w = NotRegistered \<or> w = Stopped \<or> w = FiredClosed)"

definition deadline_fits :: "ctx_state \<Rightarrow> bool" where
  "deadline_fits s \<longleftrightarrow>
     (cx_caller s \<in> {SettingDeadline, CallingUnbounded, Returned} \<longrightarrow> cx_deadline s = NoDeadline) \<and>
     (cx_caller s \<in> {Calling, StoppingWatcher, AwaitingFired} \<longrightarrow>
        cx_watcher s \<in> {PastSet, FiredClosed} \<longrightarrow> cx_deadline s = PastDeadline)"

definition ctx_inv :: "ctx_state \<Rightarrow> bool" where
  "ctx_inv s \<longleftrightarrow> watcher_fits (cx_caller s) (cx_watcher s) \<and> deadline_fits s \<and>
     (running (cx_watcher s) \<longrightarrow> cx_done s)"

lemma ctx_inv_init: "ctx_inv ctx_init"
  by (simp add: ctx_inv_def ctx_init_def watcher_fits_def deadline_fits_def running_def)

lemma ctx_inv_step: "ctx_step s t \<Longrightarrow> ctx_inv s \<Longrightarrow> ctx_inv t"
  by (induction rule: ctx_step.induct)
    (auto simp: ctx_inv_def watcher_fits_def deadline_fits_def running_def split: caller.splits)

lemma ctx_inv_reachable: "ctx_reachable s \<Longrightarrow> ctx_inv s"
  by (induction rule: ctx_reachable.induct) (auto intro: ctx_inv_init ctx_inv_step)

inductive_cases ctx_stepE: "ctx_step s t"

text \<open>After the return, no step changes the socket's deadline.\<close>

lemma returned_quiet:
  assumes "ctx_reachable s" and "cx_caller s = Returned"
  shows "cx_deadline s = NoDeadline" and "ctx_step s t \<Longrightarrow> cx_deadline t = NoDeadline \<and> cx_caller t = Returned"
proof -
  from ctx_inv_reachable [OF assms(1)] assms(2) have inv: "cx_deadline s = NoDeadline"
      "cx_watcher s = NotRegistered \<or> cx_watcher s = Stopped \<or> cx_watcher s = FiredClosed"
    by (simp_all add: ctx_inv_def deadline_fits_def watcher_fits_def)
  then show "cx_deadline s = NoDeadline" by simp
  show "cx_deadline t = NoDeadline \<and> cx_caller t = Returned" if "ctx_step s t"
    using that inv assms(2) by (auto elim!: ctx_stepE)
qed

section \<open>Progress\<close>

abbreviation ctx_steps :: "ctx_state \<Rightarrow> ctx_state \<Rightarrow> bool" where
  "ctx_steps \<equiv> ctx_step\<^sup>*\<^sup>*"

text \<open>Once the context is done, the watcher alone puts the deadline of the call into the past.\<close>

lemma cancelled_call_interrupted:
  assumes "ctx_reachable s" and "cx_caller s = Calling" and "cx_done s"
  shows "\<exists>t. ctx_steps s t \<and> cx_caller t = Calling \<and> cx_deadline t = PastDeadline"
proof -
  have inv: "ctx_inv s" using assms(1) by (rule ctx_inv_reachable)
  have started: "\<exists>t. ctx_steps u t \<and> cx_caller t = Calling \<and> cx_deadline t = PastDeadline"
    if "cx_watcher u = Started" "cx_caller u = Calling" for u
    using set_past [OF that(1)] that(2)
    by (intro exI [of _ "u\<lparr> cx_watcher := PastSet, cx_deadline := PastDeadline \<rparr>"]) auto
  consider "cx_watcher s = Watching" | "cx_watcher s = Started"
    | "cx_watcher s = PastSet \<or> cx_watcher s = FiredClosed"
    using inv assms(2) by (auto simp: ctx_inv_def watcher_fits_def running_def)
  then show ?thesis
  proof cases
    case 1
    let ?u = "s\<lparr> cx_watcher := Started \<rparr>"
    have "ctx_step s ?u" using 1 assms(3) by (rule start)
    moreover obtain t where "ctx_steps ?u t" "cx_caller t = Calling" "cx_deadline t = PastDeadline"
      using started [of ?u] assms(2) by auto
    ultimately show ?thesis by (meson converse_rtranclp_into_rtranclp)
  next
    case 2
    then show ?thesis using started assms(2) by blast
  next
    case 3
    then have "cx_deadline s = PastDeadline" using inv assms(2) by (auto simp: ctx_inv_def deadline_fits_def)
    then show ?thesis using assms(2) by blast
  qed
qed

text \<open>The caller is never stuck: when the call has returned, it reaches its own return.\<close>

lemma clearing_returns:
  "cx_caller s = Clearing \<Longrightarrow> \<exists>t. ctx_steps s t \<and> cx_caller t = Returned"
  using clear [of s] by (intro exI [of _ "s\<lparr> cx_caller := Returned, cx_deadline := NoDeadline \<rparr>"]) auto

lemma awaiting_returns:
  assumes "cx_caller s = AwaitingFired" and "running (cx_watcher s)"
  shows "\<exists>t. ctx_steps s t \<and> cx_caller t = Returned"
proof -
  have closed: "\<exists>t. ctx_steps u t \<and> cx_caller t = Returned"
    if "cx_caller u = AwaitingFired" "cx_watcher u = FiredClosed" for u
    using fired [OF that] clearing_returns [of "u\<lparr> cx_caller := Clearing \<rparr>"]
    by (auto intro: converse_rtranclp_into_rtranclp)
  have past: "\<exists>t. ctx_steps u t \<and> cx_caller t = Returned"
    if "cx_caller u = AwaitingFired" "cx_watcher u = PastSet" for u
    using close_fired [OF that(2)] closed [of "u\<lparr> cx_watcher := FiredClosed \<rparr>"] that(1)
    by (auto intro: converse_rtranclp_into_rtranclp)
  consider "cx_watcher s = Started" | "cx_watcher s = PastSet" | "cx_watcher s = FiredClosed"
    using assms(2) by (auto simp: running_def)
  then show ?thesis
  proof cases
    case 1
    show ?thesis
      using set_past [OF 1] past [of "s\<lparr> cx_watcher := PastSet, cx_deadline := PastDeadline \<rparr>"] assms(1)
      by (auto intro: converse_rtranclp_into_rtranclp)
  qed (use assms(1) past closed in blast)+
qed

lemma stopping_returns:
  assumes "ctx_reachable s" and "cx_caller s = StoppingWatcher"
  shows "\<exists>t. ctx_steps s t \<and> cx_caller t = Returned"
proof (cases "cx_watcher s = Watching")
  case True
  show ?thesis
    using stop_true [OF assms(2) True]
      clearing_returns [of "s\<lparr> cx_caller := Clearing, cx_watcher := Stopped \<rparr>"]
    by (auto intro: converse_rtranclp_into_rtranclp)
next
  case False
  then have "running (cx_watcher s)"
    using ctx_inv_reachable [OF assms(1)] assms(2) by (auto simp: ctx_inv_def watcher_fits_def)
  then show ?thesis
    using stop_false [OF assms(2) False] awaiting_returns [of "s\<lparr> cx_caller := AwaitingFired \<rparr>"]
    by (auto intro: converse_rtranclp_into_rtranclp)
qed

end
