(* ===== verification/Instances.thy ===== *)
theory Instances
  imports Validate GoIPText
begin

text \<open>
  Concrete configurations on which the properties are instantiated, with the facts a witness needs
  of them: that they validate and what they hold.
\<close>

definition demo_peer :: PeerConfig where
  "demo_peer = zeroPeerConfig\<lparr> pc_PublicKey := replicate 32 7,
     pc_Endpoint := Some \<lparr> ua_IP = [192, 0, 2, 1], ua_Port = 51820, ua_Zone = [] \<rparr>,
     pc_PersistentKeepaliveInterval := Some (25 * second),
     pc_AllowedIPs := [\<lparr> in_IP = [10, 0, 0, 0], in_Mask = [255, 0, 0, 0] \<rparr>] \<rparr>"

definition demo_config :: Config where
  "demo_config = zeroConfig\<lparr> cfg_ListenPort := Some 51820, cfg_Jc := Some 4,
     cfg_H1 := Some ''1-5'', cfg_Peers := [demo_peer] \<rparr>"

lemma demo_header: "ParseMagicHeader ''1-5'' = Inr (1, 5)"
  by (simp add: ParseMagicHeader_def parseKernelUint32_def parseUint_def digit_val_def
      trimSuffix_def trimPrefix_def suffix_to_prefix)

lemma demo_check_peer: "check_peer demo_peer = None"
  by (simp add: check_peer_def demo_peer_def zeroPeerConfig_def second_def)

lemma demo_config_valid: "Validate demo_config = None"
  using demo_check_peer demo_header
  by (simp add: Validate_def demo_config_def zeroConfig_def check_port_def check_fwmark_def
      check_junk_def check_jmin_def check_padding_def check_init_def cfg_headers_def cfg_inits_def
      maxJunkCount_def)

lemma demo_endpoint_ok: "addr_ok [192, 0, 2, 1]"
  by (simp add: addr_ok_def)

lemma demo_ipnet_ok: "ipnet_ok \<lparr> in_IP = [10, 0, 0, 0], in_Mask = [255, 0, 0, 0] \<rparr>"
  by code_simp

lemma digit_table:
  "digit_char 0 = CHR ''0''" "digit_char 1 = CHR ''1''" "digit_char (Suc 0) = CHR ''1''"
  "digit_char 2 = CHR ''2''" "digit_char 5 = CHR ''5''" "digit_char 8 = CHR ''8''" "digit_char 9 = CHR ''9''"
  by code_simp+

text \<open>How the demo's endpoint and network are written.\<close>

lemma demo_endpoint_text:
  "UDPAddr_String \<lparr> ua_IP = [192, 0, 2, 1], ua_Port = 51820, ua_Zone = [] \<rparr> = ''192.0.2.1:51820''"
  by (simp add: UDPAddr_String_def JoinHostPort_def Let_def IP_String_def v4_String_def itoa_def
      itoa_nat.simps digit_table)

lemma demo_ipnet_text:
  "IPNet_String \<lparr> in_IP = [10, 0, 0, 0], in_Mask = [255, 0, 0, 0] \<rparr> = ''10.0.0.0/8''"
proof -
  have "simpleMaskLength [255, 0, 0, 0] = Some 8" by code_simp
  then have "IPNet_String \<lparr> in_IP = [10, 0, 0, 0], in_Mask = [255, 0, 0, 0] \<rparr> =
      IP_String [10, 0, 0, 0] @ ''/'' @ itoa_nat 8"
    by (simp add: IPNet_String_def networkNumberAndMask_def Let_def del: simpleMaskLength.simps)
  then show ?thesis
    by (simp add: IP_String_def v4_String_def itoa_nat.simps digit_table)
qed

end
