(* ===== verification/LinuxSpec.thy ===== *)
theory LinuxSpec
  imports LinuxRead LinuxContext Instances
begin

text \<open>
  The properties of the Linux backend, each with its instance on a concrete configuration.
\<close>

section \<open>The demo configuration fits into netlink attributes\<close>

definition tlv_len :: "attr list \<Rightarrow> nat" where
  "tlv_len as = sum_list (map (\<lambda>(t, n, d). 4 + length d + pad4 (length d)) as)"

lemma tlv_encode_fits:
  "list_all (\<lambda>(t, n, d). length d \<le> 65531) as \<Longrightarrow> \<exists>b. tlv_encode big as = Inr b \<and> length b = tlv_len as"
  by (induction "as") (auto simp: tlv_len_def)

lemma demo_ip_attrs:
  "\<exists>d. encodeAllowedIPs (host_netlink big) (pc_AllowedIPs demo_peer) = Inr [(0, True, d)] \<and> length d = 24"
proof -
  have v: "To4 [10, 0, 0, 0 :: byte] = Some [10, 0, 0, 0]"
    by simp
  obtain as where "encodeAllowedIP (host_netlink big) \<lparr> in_IP = [10, 0, 0, 0], in_Mask = [255, 0, 0, 0] \<rparr> = Inr as"
    and "list_all (\<lambda>(t, n, d). length d \<le> 65531) as" and "tlv_len as = 24"
    by (simp add: encodeAllowedIP_def isIPv6_def isValidIP_def To16_def Let_def v host_netlink_def tlv_len_def pad4_def)
  with tlv_encode_fits [of "as" big] show ?thesis
    by (auto simp: encodeAllowedIPs_def demo_peer_def host_netlink_def)
qed

text \<open>The peer of the example under another key.\<close>

abbreviation demo_peer_of :: "Key \<Rightarrow> PeerConfig" where
  "demo_peer_of k \<equiv> demo_peer\<lparr> pc_PublicKey := k \<rparr>"

lemma demo_peer_of_own: "demo_peer_of (replicate 32 7) = demo_peer"
  by (simp add: demo_peer_def)

lemma demo_encode_peer:
  assumes "length k = 32"
  shows "\<exists>as. encodePeer (host_netlink big) (demo_peer_of k) = Inr as \<and>
     list_all (\<lambda>(t, n, d). length d \<le> 65531) as \<and> tlv_len as < 200"
proof -
  obtain d where ips: "encodeAllowedIPs (host_netlink big) (pc_AllowedIPs (demo_peer_of k)) = Inr [(0, True, d)]"
    and d: "length d = 24"
    using demo_ip_attrs by auto
  obtain b where b: "tlv_encode big [(0, True, d)] = Inr b" "length b = 28"
    using tlv_encode_fits [of "[(0, True, d)]" big] d by (auto simp: tlv_len_def pad4_def)
  have "encodeSockaddr (host_netlink big) \<lparr> ua_IP = [192, 0, 2, 1], ua_Port = 51820, ua_Zone = [] \<rparr> \<noteq> Inl e" for e
    by (simp add: encodeSockaddr_def isValidIP_def To16_def)
  then obtain sa where sa: "encodeSockaddr (host_netlink big)
      \<lparr> ua_IP = [192, 0, 2, 1], ua_Port = 51820, ua_Zone = [] \<rparr> = Inr sa"
    by (cases "encodeSockaddr (host_netlink big) \<lparr> ua_IP = [192, 0, 2, 1], ua_Port = 51820, ua_Zone = [] \<rparr>") auto
  then have "length sa = 16"
    by (auto simp: encodeSockaddr_def isValidIP_def isIPv6_def To16_def host_netlink_def)
  have ne: "pc_AllowedIPs (demo_peer_of k) \<noteq> []" by (simp add: demo_peer_def)
  have enc: "nl_encode (host_netlink big) = tlv_encode big" by (simp add: host_netlink_def)
  show ?thesis
    using ne sa \<open>length sa = 16\<close> b assms
    unfolding encodePeer_def ips enc
    by (auto simp: demo_peer_def zeroPeerConfig_def peer_flags_def opt_attr_def tlv_len_def pad4_def
        host_netlink_def)
qed

lemma demo_encodes:
  assumes "cfg_Peers c = [demo_peer_of k]" and "length k = 32"
    and "list_all (\<lambda>(t, n, d). length d \<le> 65531) (device_attr_list (host_netlink big) name c)"
  shows "\<exists>b. configAttrs (host_netlink big) name c = Inr b"
proof -
  have enc: "nl_encode (host_netlink big) = tlv_encode big" by (simp add: host_netlink_def)
  obtain as where as: "encodePeer (host_netlink big) (demo_peer_of k) = Inr as"
    "list_all (\<lambda>(t, n, d). length d \<le> 65531) as" "tlv_len as < 200"
    using demo_encode_peer [OF assms(2)] by blast
  obtain p where p: "tlv_encode big as = Inr p" "length p < 200"
    using tlv_encode_fits [OF as(2)] as(3) by metis
  obtain ps where ps: "tlv_encode big [(0, True, p)] = Inr ps" "length ps < 300"
    using tlv_encode_fits [of "[(0, True, p)]" big] p(2) by (auto simp: tlv_len_def pad4_def)
  have "list_all (\<lambda>(t, n, d). length d \<le> 65531)
      (device_attr_list (host_netlink big) name c @ [(WGDEVICE_A_PEERS, True, ps)])"
    using ps(2) assms(3) by simp
  from tlv_encode_fits [OF this, of big] show ?thesis
    using as(1) p(1) ps(1) by (auto simp: configAttrs_def enc assms(1))
qed

lemma demo_config_encodes: "\<exists>b. configAttrs (host_netlink big) ''awg0'' demo_config = Inr b"
  by (rule demo_encodes [where k = "replicate 32 7"])
    (simp_all add: device_attr_list_def demo_config_def zeroConfig_def opt_attr_def host_netlink_def
      string_bytes_def demo_peer_of_own)

section \<open>Encoding and decoding\<close>

text \<open>
  C2. Round trip through netlink: for every netlink library with the documented behaviour, the kernel
  message built from a configuration that validates, read by the parser of device dumps, is the
  device with exactly the fields, peers, endpoints, keepalives and allowed IPs of the configuration, but
  for what the message cannot carry: zones of endpoints and fractions of a second of keepalives.
\<close>

theorem linux_config_reads_back:
  assumes "netlink_lib nl" and "Validate c = None" and "wire_ok c" and "no_nul name"
    and "configAttrs nl name c = Inr b"
  shows "parseDeviceLoop nl b = Inr (linux_echo name c)"
  using netlink_lib.read_device [OF assms(1) valid_linux_ok [OF assms(2-4)] assms(5)] .

lemma demo_wire_ok: "wire_ok demo_config"
  using demo_ipnet_ok
  by (simp add: wire_ok_def demo_config_def cfg_wf_def pc_wf_def demo_peer_def zeroConfig_def
      zeroPeerConfig_def key_ok_def KeyLen_def)

lemma demo_no_nul: "no_nul ''awg0''"
  by (simp add: no_nul_def)

theorem linux_config_reads_back_witness:
  "\<exists>b. configAttrs (host_netlink True) ''awg0'' demo_config = Inr b \<and>
       parseDeviceLoop (host_netlink True) b = Inr (linux_echo ''awg0'' demo_config)"
proof -
  obtain b where "configAttrs (host_netlink True) ''awg0'' demo_config = Inr b"
    using demo_config_encodes by blast
  with linux_config_reads_back [OF host.netlink_lib_axioms demo_config_valid demo_wire_ok demo_no_nul this]
  show ?thesis by blast
qed

text \<open>
  The port of an endpoint is in network byte order in the socket address, whatever the byte order
  of the machine.
\<close>

theorem sockaddr_port_network_order:
  assumes "netlink_lib nl" and "encodeSockaddr nl ep = Inr sa" and "0 \<le> ua_Port ep" and "ua_Port ep \<le> 65535"
  shows "take 2 (drop 2 sa) = be_put 2 (nat (ua_Port ep))"
  using assms(2) netlink_lib.port_bytes [OF assms(1,3,4)]
  by (auto simp: encodeSockaddr_def split: if_splits)

theorem sockaddr_port_network_order_witness:
  "\<exists>sa. encodeSockaddr (host_netlink False) \<lparr> ua_IP = [192, 0, 2, 1], ua_Port = 51820, ua_Zone = [] \<rparr> = Inr sa \<and>
     take 2 (drop 2 sa) = [202, 108]"
proof -
  let ?ep = "\<lparr> ua_IP = [192, 0, 2, 1], ua_Port = 51820, ua_Zone = [] \<rparr>"
  obtain sa where "encodeSockaddr (host_netlink False) ?ep = Inr sa"
    by (auto simp: encodeSockaddr_def isValidIP_def To16_def isIPv6_def)
  with sockaddr_port_network_order [OF host.netlink_lib_axioms this] show ?thesis
    by (simp add: be_put_2)
qed

text \<open>
  C18. The peers of a dump in several messages: the device is that of the first message; each peer
  appears once, as first reported, with all its allowed IPs of all messages in order; no message's
  peer is lost.
\<close>

theorem dump_merges_peers:
  assumes "parseDeviceLoop nl m = Inr first" and "distinct (map peer_PublicKey (dev_Peers first))"
    and "linux_parseDevice nl (m # ms) = Inr d"
  shows "\<exists>ps. all_messages nl ms = Inr ps \<and> distinct (map peer_PublicKey (dev_Peers d)) \<and>
    d = first\<lparr> dev_Peers := dev_Peers d \<rparr> \<and>
    (\<forall>k. ips_of (dev_Peers d) k = ips_of (dev_Peers first @ ps) k \<and>
         first_report (dev_Peers d) k = first_report (dev_Peers first @ ps) k)"
  using merge_messages_keeps [OF known_of_ok [OF assms(2)]] assms(1,3)
  by (simp add: linux_parseDevice_def)

theorem dump_merges_peers_witness:
  "\<exists>b d. linux_parseDevice (host_netlink True) [b, b] = Inr d \<and>
     ips_of (dev_Peers d) (replicate 32 7) =
       [\<lparr> in_IP = [10, 0, 0, 0], in_Mask = [255, 0, 0, 0] \<rparr>, \<lparr> in_IP = [10, 0, 0, 0], in_Mask = [255, 0, 0, 0] \<rparr>]"
proof -
  let ?nl = "host_netlink True" and ?first = "linux_echo ''awg0'' demo_config"
  obtain b where b: "configAttrs ?nl ''awg0'' demo_config = Inr b"
    using demo_config_encodes by blast
  have p: "parseDeviceLoop ?nl b = Inr ?first"
    using host.read_device [OF valid_linux_ok [OF demo_config_valid demo_wire_ok demo_no_nul] b] .
  have peers: "dev_Peers ?first = [linux_echo_peer demo_peer]"
    by (simp add: linux_echo_def demo_config_def)
  have ips: "ips_of [linux_echo_peer demo_peer, linux_echo_peer demo_peer] (replicate 32 7) =
      pc_AllowedIPs demo_peer @ pc_AllowedIPs demo_peer"
    by (simp add: linux_echo_peer_def echo_peer_def demo_peer_def zeroPeerConfig_def)
  obtain d where d: "linux_parseDevice ?nl [b, b] = Inr d"
    by (simp add: linux_parseDevice_def p)
  have dist: "distinct (map peer_PublicKey (dev_Peers ?first))" by (simp add: peers)
  have all: "all_messages ?nl [b] = Inr [linux_echo_peer demo_peer]" by (simp add: p peers)
  from dump_merges_peers [OF p dist d] all peers
  have "ips_of (dev_Peers d) (replicate 32 7) =
      ips_of [linux_echo_peer demo_peer, linux_echo_peer demo_peer] (replicate 32 7)"
    by simp
  with d ips show ?thesis by (simp add: demo_peer_def) blast
qed

section \<open>Batches\<close>

text \<open>
  C7. Splitting a configuration that lists no peer twice into batches changes nothing: on the device that
  applies one message at a time, the batches have together the effect of the whole configuration. For one
  that repeats a peer this is not so.
\<close>

theorem batches_refine:
  assumes "distinct (map pc_PublicKey (cfg_Peers c))"
  shows "apply_all ref_set_device ref_clear_peers ref_set_peer (buildBatches c) s =
    apply_config ref_set_device ref_clear_peers ref_set_peer c s"
  using ref.apply_batches [OF assms] .

definition many_peers :: Config where
  "many_peers = zeroConfig\<lparr> cfg_ReplacePeers := True, cfg_Jc := Some 4,
     cfg_Peers := map (\<lambda>i. demo_peer_of (replicate 32 (of_nat i))) [0..<33] \<rparr>"

lemma many_peers_distinct: "distinct (map pc_PublicKey (cfg_Peers many_peers))"
proof -
  have "of_nat a \<noteq> (of_nat b :: byte)" if "a < b" "b < 33" for a b
    using that unat_of_nat_byte [of a] unat_of_nat_byte [of b] by auto
  then have "inj_on (of_nat :: nat \<Rightarrow> byte) {0..<33}"
    by (intro linorder_inj_onI) auto
  then show ?thesis by (auto simp: many_peers_def distinct_map inj_on_def)
qed

lemma many_peers_batched: "shouldBatch many_peers"
  by (simp add: shouldBatch_def many_peers_def peerBatchChunk_def)

theorem batches_refine_witness:
  "shouldBatch many_peers \<and>
   (\<forall>s. apply_all ref_set_device ref_clear_peers ref_set_peer (buildBatches many_peers) s =
     apply_config ref_set_device ref_clear_peers ref_set_peer many_peers s)"
  using many_peers_batched batches_refine [OF many_peers_distinct] by blast

text \<open>
  C32. The shape of the batches. A configuration of at most 32 peers with at most 256 allowed IPs
  altogether is sent as it is. Any other is sent in batches of one peer with at most 256 allowed IPs
  each, of which the first has the device's fields as they are and the others neither AmneziaWG
  parameters nor the request to replace the peers.
\<close>

theorem batches_shape:
  "if length (cfg_Peers cfg) \<le> 32 \<and> (\<Sum>p\<leftarrow>cfg_Peers cfg. length (pc_AllowedIPs p)) \<le> 256
   then buildBatches cfg = [cfg]
   else \<exists>q qs. buildBatches cfg = cfg\<lparr> cfg_Peers := [q] \<rparr> # map (rest_batch cfg) qs \<and>
     (\<forall>p \<in> set (q # qs). length (pc_AllowedIPs p) \<le> 256)"
proof -
  have small: "length (cfg_Peers cfg) \<le> 32 \<and> (\<Sum>p\<leftarrow>cfg_Peers cfg. length (pc_AllowedIPs p)) \<le> 256 \<longleftrightarrow>
      \<not> shouldBatch cfg"
    by (auto simp: shouldBatch_def peerBatchChunk_def ipBatchChunk_def)
  have "\<exists>q qs. buildBatches cfg = cfg\<lparr> cfg_Peers := [q] \<rparr> # map (rest_batch cfg) qs \<and>
      (\<forall>p \<in> set (q # qs). length (pc_AllowedIPs p) \<le> 256)" if large: "shouldBatch cfg"
  proof -
    obtain q qs where q: "all_chunks [] (cfg_Peers cfg) = q # qs"
      and b: "buildBatches cfg = cfg\<lparr> cfg_Peers := [q] \<rparr> # map (rest_batch cfg) qs"
      using buildBatches_eq [OF large] by blast
    have "\<forall>p \<in> set (q # qs). length (pc_AllowedIPs p) \<le> 256"
      using all_chunks_bound [of _ "[]" "cfg_Peers cfg"] q by (auto simp: ipBatchChunk_def)
    with b show ?thesis by blast
  qed
  then show ?thesis unfolding small by (simp add: buildBatches_def)
qed

theorem batches_shape_witness:
  "\<exists>q qs. buildBatches many_peers = many_peers\<lparr> cfg_Peers := [q] \<rparr> # map (rest_batch many_peers) qs"
  using batches_shape [of many_peers] by (auto simp: many_peers_def)

text \<open>
  C33. No allowed IP is lost, duplicated, reordered or given to another peer by the batches.
\<close>

theorem batches_keep_ips:
  "peer_ips (concat (map cfg_Peers (buildBatches cfg))) = peer_ips (cfg_Peers cfg)"
  by (rule buildBatches_ips)

lemma all_chunks_append:
  "\<exists>known'. all_chunks known (ps @ qs) = all_chunks known ps @ all_chunks known' qs \<and>
     set known' = set known \<union> pc_PublicKey ` set ps"
proof (induction ps arbitrary: known)
  case (Cons p ps)
  show ?case
    using Cons.IH [of "if pc_PublicKey p \<in> set known then known else pc_PublicKey p # known"] by auto
qed auto

text \<open>
  C39. A second entry for a peer in a large configuration keeps its allowed IPs, but its preshared
  key, endpoint, keepalive and its request to replace the allowed IPs are not sent.
\<close>

theorem repeated_peer_stripped:
  assumes "shouldBatch cfg" and "cfg_Peers cfg = ps @ p # qs" and "pc_PublicKey p \<in> pc_PublicKey ` set ps"
  shows "\<exists>as bs. concat (map cfg_Peers (buildBatches cfg)) =
    as @ map (\<lambda>ips. continue_peer p\<lparr> pc_AllowedIPs := ips \<rparr>) (ip_chunks (pc_AllowedIPs p)) @ bs"
proof -
  have later: "chunk_peers False p cs = map (\<lambda>ips. continue_peer p\<lparr> pc_AllowedIPs := ips \<rparr>) cs" for cs
    by (induction cs) (auto simp: chunk_peer_def continue_peer_def zeroPeerConfig_def)
  obtain known where all: "all_chunks [] (ps @ p # qs) = all_chunks [] ps @ all_chunks known (p # qs)"
    and known: "set known = pc_PublicKey ` set ps"
    using all_chunks_append [of "[]" ps "p # qs"] by auto
  then show ?thesis
    unfolding peers_of_batches [OF assms(1)] assms(2) all
    using assms(3) by (simp add: later) blast
qed

definition repeated_peer :: Config where
  "repeated_peer = many_peers\<lparr> cfg_Peers := cfg_Peers many_peers @
     [demo_peer\<lparr> pc_PublicKey := replicate 32 0, pc_PresharedKey := Some (replicate 32 9) \<rparr>] \<rparr>"

theorem repeated_peer_stripped_witness:
  "\<exists>p ps. last (cfg_Peers repeated_peer) = p \<and> pc_PresharedKey p \<noteq> None \<and>
     continue_peer p \<in> set (concat (map cfg_Peers (buildBatches repeated_peer)))"
proof -
  let ?p = "demo_peer\<lparr> pc_PublicKey := replicate 32 0, pc_PresharedKey := Some (replicate 32 9) \<rparr>"
  have s: "shouldBatch repeated_peer"
    by (simp add: shouldBatch_def repeated_peer_def many_peers_def peerBatchChunk_def)
  have c: "cfg_Peers repeated_peer = cfg_Peers many_peers @ ?p # []" by (simp add: repeated_peer_def)
  have k: "pc_PublicKey ?p \<in> pc_PublicKey ` set (cfg_Peers many_peers)"
    by (auto simp: many_peers_def image_iff intro!: bexI [of _ 0])
  have i: "ip_chunks (pc_AllowedIPs ?p) = [pc_AllowedIPs ?p]"
    by (subst ip_chunks.simps) (simp add: demo_peer_def ipBatchChunk_def)
  from repeated_peer_stripped [OF s c k] obtain as bs where
    "concat (map cfg_Peers (buildBatches repeated_peer)) =
       as @ [continue_peer ?p\<lparr> pc_AllowedIPs := pc_AllowedIPs ?p \<rparr>] @ bs"
    unfolding i by auto
  moreover have "continue_peer ?p\<lparr> pc_AllowedIPs := pc_AllowedIPs ?p \<rparr> = continue_peer ?p"
    by (simp add: continue_peer_def)
  ultimately show ?thesis using c by (intro exI [of _ ?p]) simp
qed

section \<open>Cancellation\<close>

text \<open>
  C10. Whatever the interleaving of caller, registered function and cancellation: when \<open>withContext\<close>
  has returned, the socket has no deadline, and nothing that still happens gives it one, so that the
  next request on it is not hurt.
\<close>

theorem withContext_leaves_no_deadline:
  assumes "ctx_reachable s" and "cx_caller s = Returned" and "ctx_steps s t"
  shows "cx_deadline t = NoDeadline"
proof -
  from assms(3) have "ctx_reachable t \<and> cx_caller t = Returned"
  proof (induction rule: rtranclp_induct)
    case (step u v)
    then show ?case using returned_quiet(2) [of u v] ctx_reachable.step [of u v] by blast
  qed (use assms in blast)
  then show ?thesis using returned_quiet(1) by blast
qed

definition cancelled_run :: ctx_state where
  "cancelled_run = \<lparr> cx_caller = Returned, cx_watcher = FiredClosed, cx_deadline = NoDeadline, cx_done = True \<rparr>"

definition cancelled_call :: ctx_state where
  "cancelled_call = \<lparr> cx_caller = Calling, cx_watcher = Watching, cx_deadline = ContextDeadline, cx_done = True \<rparr>"

lemma cancelled_call_reachable: "ctx_reachable cancelled_call"
proof -
  note s1 = step [OF init set_deadline [of ctx_init], simplified ctx_init_def, simplified]
  note s2 = step [OF s1 register, simplified]
  note s3 = step [OF s2 context_done, simplified]
  from s3 show ?thesis by (simp add: cancelled_call_def)
qed

lemma cancelled_run_reachable: "ctx_reachable cancelled_run"
proof -
  note s1 = step [OF cancelled_call_reachable start, unfolded cancelled_call_def, simplified]
  note s2 = step [OF s1 set_past, simplified]
  note s3 = step [OF s2 call_returns, simplified]
  note s4 = step [OF s3 stop_false, simplified]
  note s5 = step [OF s4 close_fired, simplified]
  note s6 = step [OF s5 fired, simplified]
  note s7 = step [OF s6 clear, simplified]
  from s7 show ?thesis by (simp add: cancelled_run_def)
qed

theorem withContext_leaves_no_deadline_witness:
  "ctx_reachable cancelled_run \<and> cx_watcher cancelled_run = FiredClosed \<and> cx_deadline cancelled_run = NoDeadline"
  using cancelled_run_reachable withContext_leaves_no_deadline [OF cancelled_run_reachable, of cancelled_run]
  by (simp add: cancelled_run_def)

text \<open>
  C19. A cancellation interrupts a bounded call: from every reachable state in which the call is in
  progress and the context is done, the steps of the registered function alone put the socket's
  deadline into the past while the call is still running.
\<close>

theorem cancellation_interrupts:
  assumes "ctx_reachable s" and "cx_caller s = Calling" and "cx_done s"
  shows "\<exists>t. ctx_steps s t \<and> cx_caller t = Calling \<and> cx_deadline t = PastDeadline"
  using cancelled_call_interrupted [OF assms] .

theorem cancellation_interrupts_witness:
  "\<exists>t. ctx_steps cancelled_call t \<and> cx_caller t = Calling \<and> cx_deadline t = PastDeadline"
  using cancellation_interrupts [OF cancelled_call_reachable] by (simp add: cancelled_call_def)

text \<open>
  C20. The caller never waits for ever on the registered function: once the call itself has returned,
  \<open>withContext\<close> can return.
\<close>

theorem withContext_returns:
  assumes "ctx_reachable s" and "cx_caller s \<in> {StoppingWatcher, AwaitingFired, Clearing}"
  shows "\<exists>t. ctx_steps s t \<and> cx_caller t = Returned"
proof -
  have "cx_caller s = AwaitingFired \<Longrightarrow> running (cx_watcher s)"
    using ctx_inv_reachable [OF assms(1)] by (simp add: ctx_inv_def watcher_fits_def)
  with assms stopping_returns awaiting_returns clearing_returns show ?thesis by blast
qed

definition awaiting_state :: ctx_state where
  "awaiting_state = \<lparr> cx_caller = AwaitingFired, cx_watcher = Started, cx_deadline = ContextDeadline, cx_done = True \<rparr>"

lemma awaiting_reachable: "ctx_reachable awaiting_state"
proof -
  note s1 = step [OF cancelled_call_reachable start, unfolded cancelled_call_def, simplified]
  note s2 = step [OF s1 call_returns, simplified]
  note s3 = step [OF s2 stop_false, simplified]
  from s3 show ?thesis by (simp add: awaiting_state_def)
qed

theorem withContext_returns_witness: "\<exists>t. ctx_steps awaiting_state t \<and> cx_caller t = Returned"
  using withContext_returns [OF awaiting_reachable] by (simp add: awaiting_state_def)

section \<open>Families and requests\<close>

text \<open>
  The family a device is configured through: that of the kind of the link, provided the kernel has
  it and, for AmneziaWG, its version is at most the one the library speaks.
\<close>

theorem familyFor_serves:
  "fst (familyFor c name s) = Inr f \<longleftrightarrow>
    (\<exists>kind. fst (lc_linkKind c name s) = Inr kind \<and>
      ((kind = wgKind \<and> lc_wgFamily c = Some f) \<or>
       (kind = amneziaKind \<and> lc_amneziaFamily c = Some f \<and> fam_Version f \<le> amneziaGenlVersion)))"
proof
  show "fst (familyFor c name s) = Inr f \<Longrightarrow> \<exists>kind. fst (lc_linkKind c name s) = Inr kind \<and>
      ((kind = wgKind \<and> lc_wgFamily c = Some f) \<or>
       (kind = amneziaKind \<and> lc_amneziaFamily c = Some f \<and> fam_Version f \<le> amneziaGenlVersion))"
    by (rule familyFor_Inr)
  have "amneziaKind \<noteq> wgKind" by (simp add: amneziaKind_def wgKind_def)
  then show "\<exists>kind. fst (lc_linkKind c name s) = Inr kind \<and>
      ((kind = wgKind \<and> lc_wgFamily c = Some f) \<or>
       (kind = amneziaKind \<and> lc_amneziaFamily c = Some f \<and> fam_Version f \<le> amneziaGenlVersion)) \<Longrightarrow>
    fst (familyFor c name s) = Inr f"
    by (auto simp: familyFor_def split: prod.splits)
qed

text \<open>
  The fields that make \<open>hasAWGFields\<close> true are exactly those encoded as attributes that plain
  WireGuard does not know: a device attribute past \<open>WGDEVICE_A_PEERS\<close>, or the advanced security flag
  of a peer.
\<close>

theorem hasAWGFields_decides:
  "hasAWGFields cfg \<longleftrightarrow>
     (\<exists>a \<in> set (device_attr_list nl name cfg). awg_attr a) \<or> (\<exists>p \<in> set (cfg_Peers cfg). awg_peer p)"
  by (rule hasAWGFields_iff)

text \<open>
  C15. The requests of \<open>ConfigureDevice\<close>: the encoded batches, in order, from the first; none is sent after
  one that the kernel refuses. No error is returned exactly when all were sent and accepted. With an
  error, the last request sent was refused, or all were accepted and then, before the next, the context
  was done or the next batch could not be encoded. Nothing is sent when the configuration has AmneziaWG
  fields and the device belongs to plain WireGuard.
\<close>

theorem configure_sends_batches:
  assumes "familyFor c name sl = (Inr fam, sl1)" and "le_ctxErr env (fst sl) = None"
    and "linux_ConfigureDevice (logged env) c name cfg sl = (r, sl2)"
  shows "if fam_Name fam \<noteq> amneziaGenlName \<and> hasAWGFields cfg
    then snd sl2 = snd sl1 \<and> r = Some (Wrapped ''wglinux'' ErrAWGNotSupported)
    else \<exists>ds log. snd sl2 = snd sl1 @ log \<and> map fst log = map (set_request_of fam) ds \<and>
      list_all2 (\<lambda>b d. configAttrs (le_nl env) name b = Inr d) (take (length log) (buildBatches cfg)) ds \<and>
      list_all snd (butlast log) \<and>
      (case r of
         None \<Rightarrow> length log = length (buildBatches cfg) \<and> list_all snd log
       | Some e \<Rightarrow> (log \<noteq> [] \<and> \<not> snd (last log)) \<or>
           (length log < length (buildBatches cfg) \<and> list_all snd log \<and>
            (le_ctxErr env (fst sl2) = Some e \<or> configAttrs (le_nl env) name (buildBatches cfg ! length log) = Inl e)))"
proof (cases "fam_Name fam \<noteq> amneziaGenlName \<and> hasAWGFields cfg")
  case True
  then show ?thesis using assms by (auto simp: linux_ConfigureDevice_def logged_def)
next
  case False
  with assms have "send_batches (logged env) fam name (buildBatches cfg) sl1 = (r, sl2)"
    by (auto simp: linux_ConfigureDevice_def logged_def buildBatches_nonempty split: if_splits)
  from send_batches_log [OF this] False show ?thesis unfolding ends_as_def by auto
qed

text \<open>A kernel that accepts every request, for one AmneziaWG interface.\<close>

definition happy_env :: "unit linux_env" where
  "happy_env =
     \<lparr> le_nl = host_netlink True, le_GetFamily = (\<lambda>n s. (Inl ErrNotExist, s)), le_CloseConn = (\<lambda>s. (None, s)),
       le_Execute = (\<lambda>rq s. (Inr [], s)), le_SetDeadline = (\<lambda>d s. (None, s)),
       le_NetlinkRIB = (\<lambda>s. (Inr [], s)), le_rtnlDial = (\<lambda>s. (None, s)),
       le_rtnlExecute = (\<lambda>t f b s. (Inr [], s)), le_rtnlClose = id, le_ctxErr = (\<lambda>s. None),
       le_ctxDone = False, le_ctxDeadline = False \<rparr>"

definition awg_family :: family where
  "awg_family = \<lparr> fam_ID = 30, fam_Name = amneziaGenlName, fam_Version = 2 \<rparr>"

definition happy_client :: "(unit \<times> (request \<times> bool) list) linux_client" where
  "happy_client = \<lparr> lc_wgFamily = None, lc_amneziaFamily = Some awg_family,
     lc_interfaces = (\<lambda>s. (Inr [], s)), lc_linkKind = (\<lambda>n s. (Inr amneziaKind, s)) \<rparr>"

lemma demo_one_batch: "buildBatches demo_config = [demo_config]"
  by (simp add: buildBatches_def shouldBatch_def demo_config_def demo_peer_def peerBatchChunk_def ipBatchChunk_def)

theorem configure_sends_batches_witness:
  "\<exists>d. configAttrs (host_netlink True) ''awg0'' demo_config = Inr d \<and>
     linux_ConfigureDevice (logged happy_env) happy_client ''awg0'' demo_config ((), []) =
       (None, ((), [(set_request_of awg_family d, True)]))"
proof -
  obtain d where d: "configAttrs (host_netlink True) ''awg0'' demo_config = Inr d"
    using demo_config_encodes by blast
  have f: "familyFor happy_client ''awg0'' ((), []) = (Inr awg_family, ((), []))"
    by (simp add: familyFor_def happy_client_def awg_family_def amneziaKind_def wgKind_def amneziaGenlVersion_def)
  have e: "le_ctxErr happy_env (fst ((), [])) = None" by (simp add: happy_env_def)
  obtain r sl2 where run: "linux_ConfigureDevice (logged happy_env) happy_client ''awg0'' demo_config ((), []) = (r, sl2)"
    by (rule prod.exhaust)
  have r: "r = None"
    using run demo_one_batch d
    by (auto simp: linux_ConfigureDevice_def f logged_def happy_env_def awg_family_def withContext_def
        execute_def)
  have nl: "le_nl happy_env = host_netlink True" by (simp add: happy_env_def)
  have "\<not> (fam_Name awg_family \<noteq> amneziaGenlName \<and> hasAWGFields demo_config)" by (simp add: awg_family_def)
  with configure_sends_batches [OF f e run] r demo_one_batch obtain ds log where
      "snd sl2 = log" "map fst log = map (set_request_of awg_family) ds"
      "list_all2 (\<lambda>b d. configAttrs (host_netlink True) ''awg0'' b = Inr d) (take (length log) [demo_config]) ds"
      "length log = 1" "list_all snd log"
    by (auto simp: nl)
  then have "sl2 = ((), [(set_request_of awg_family d, True)])"
    using d by (cases sl2) (auto simp: list_all2_Cons1 length_Suc_conv)
  with d run r show ?thesis by blast
qed







section \<open>Interfaces and kernel errors\<close>

text \<open>
  C37. Finding the interfaces: from the link messages of the kernel, exactly the names of the links of
  kind wireguard or amneziawg are returned, in order, and each message's kind is read as it was
  written.
\<close>

theorem lists_wireguard_links:
  assumes "netlink_lib nl"
    and "list_all2 (\<lambda>l m. fst m = RTM_NEWLINK \<and> link_message nl l = Inr (snd m)) ls msgs"
    and "list_all link_ok ls"
  shows "parseRTNLInterfaces nl msgs = Inr (map fst (filter wg_link ls)) \<and>
    list_all2 (\<lambda>l m. parseLinkKind nl (snd m) = Inr (snd l)) ls msgs"
proof -
  have "list_all2 (\<lambda>l m. parseLinkKind nl (snd m) = Inr (snd l)) ls msgs"
    using assms(2,3)
    by (induction rule: list_all2_induct) (auto simp: link_ok_def intro: netlink_lib.read_link_kind [OF assms(1)])
  with netlink_lib.read_interfaces [OF assms] show ?thesis by blast
qed

lemma demo_link_message:
  "\<exists>b. link_message (host_netlink True) (''awg0'', ''amneziawg'') = Inr b"
  "\<exists>b. link_message (host_netlink True) (''eth0'', ''bridge'') = Inr b"
  by (simp_all add: link_message_def host_netlink_def string_bytes_def pad4_def)

theorem lists_wireguard_links_witness:
  "\<exists>a b. link_message (host_netlink True) (''awg0'', ''amneziawg'') = Inr a \<and>
     link_message (host_netlink True) (''eth0'', ''bridge'') = Inr b \<and>
     parseRTNLInterfaces (host_netlink True) [(RTM_NEWLINK, b), (RTM_NEWLINK, a)] = Inr [''awg0'']"
proof -
  obtain a b where ab: "link_message (host_netlink True) (''awg0'', ''amneziawg'') = Inr a"
      "link_message (host_netlink True) (''eth0'', ''bridge'') = Inr b"
    using demo_link_message by blast
  with lists_wireguard_links [OF host.netlink_lib_axioms,
      where ls = "[(''eth0'', ''bridge''), (''awg0'', ''amneziawg'')]"
        and msgs = "[(RTM_NEWLINK, b), (RTM_NEWLINK, a)]"]
  show ?thesis by (auto simp: link_ok_def wg_link_def wgKind_def amneziaKind_def)
qed

text \<open>
  A kernel error is reported as "does not exist" exactly when it is \<open>ENODEV\<close> or \<open>ENOTSUP\<close> (or was
  such an error already); any other error number can still be recognised in the error returned.
\<close>

theorem kernel_error_classified:
  "(errors_is (execute_error cmd device fam (OpError e)) ErrNotExist \<longleftrightarrow>
      e = Errno ENODEV \<or> e = Errno ENOTSUP \<or> errors_is e ErrNotExist) \<and>
   (n = ENODEV \<or> n = ENOTSUP \<or> errors_is (execute_error cmd device fam (OpError (Errno n))) (Errno n))"
  using execute_error_NotExist [of cmd device fam e] execute_error_keeps [of "OpError (Errno n)" n cmd device fam]
  by (auto simp: exec_error_value_def)

text \<open>
  The kernel backend is available exactly when one of the two generic netlink families can be
  resolved; when neither can, it is reported as unsupported only if the plain WireGuard family does
  not exist, and any other failure is returned as an error.
\<close>

theorem initClient_decides:
  "case le_GetFamily env WG_GENL_NAME s of (wg, s1) \<Rightarrow>
   case le_GetFamily env amneziaGenlName s1 of (am, s2) \<Rightarrow>
     fst (initClient env s) =
       (if isl wg \<and> isl am
        then (if errors_is (projl wg) ErrNotExist then Inr None else Inl (projl wg))
        else Inr (Some \<lparr> lc_wgFamily = (case wg of Inr f \<Rightarrow> Some f | Inl _ \<Rightarrow> None),
               lc_amneziaFamily = (case am of Inr f \<Rightarrow> Some f | Inl _ \<Rightarrow> None),
               lc_interfaces = rtnlInterfaces env, lc_linkKind = rtnlLinkKind env \<rparr>))"
  by (auto simp: initClient_def split: prod.split sum.split)

end
