(* ===== verification/UserClient.thy ===== *)
theory UserClient
  imports UserEcho "HOL-Library.Multiset"
begin

text \<open>
  \<open>internal/wguser/client.go\<close> and \<open>conn_unix.go\<close>: finding the sockets of userspace daemons and the
  operations of \<open>wginternal.Client\<close> on them. Sockets, directories and the clock of the context are
  parameters over the state of the outside world. The locale \<open>socket_env\<close> states what the socket
  operations do to the set of open connections; it is interpreted on a world of simulated daemons.
\<close>

section \<open>File paths\<close>

text \<open>\<open>path/filepath\<close> on UNIX: \<open>Base\<close>, \<open>Ext\<close>, \<open>Clean\<close>, \<open>Dir\<close> and \<open>Join\<close> of two elements.\<close>

definition no_slash :: "char \<Rightarrow> bool" where
  "no_slash c \<longleftrightarrow> c \<noteq> CHR ''/''"

definition last_element :: "string \<Rightarrow> string" where
  "last_element p = rev (takeWhile no_slash (rev p))"

definition filepath_Base :: "string \<Rightarrow> string" where
  "filepath_Base p =
     (if p = [] then ''.''
      else let s = rev (dropWhile (\<lambda>c. \<not> no_slash c) (rev p))
        in if s = [] then ''/'' else last_element s)"

definition filepath_Ext :: "string \<Rightarrow> string" where
  "filepath_Ext p =
     (let e = last_element p
      in if CHR ''.'' \<in> set e then CHR ''.'' # rev (takeWhile (\<lambda>c. c \<noteq> CHR ''.'') (rev e)) else [])"

definition clean_step :: "bool \<Rightarrow> string list \<Rightarrow> string \<Rightarrow> string list" where
  "clean_step rooted acc c =
     (if c = [] \<or> c = ''.'' then acc
      else if c = ''..''
        then (if acc \<noteq> [] \<and> last acc \<noteq> ''..'' then butlast acc
              else if rooted then acc else acc @ [c])
      else acc @ [c])"

fun join_slash :: "string list \<Rightarrow> string" where
  "join_slash [] = []"
| "join_slash [c] = c"
| "join_slash (c # cs) = c @ CHR ''/'' # join_slash cs"

definition filepath_Clean :: "string \<Rightarrow> string" where
  "filepath_Clean p =
     (if p = [] then ''.''
      else let rooted = (hd p = CHR ''/'');
               cs = foldl (clean_step rooted) [] (splitOn CHR ''/'' p)
        in if rooted then CHR ''/'' # join_slash cs
           else if cs = [] then ''.'' else join_slash cs)"

definition filepath_Dir :: "string \<Rightarrow> string" where
  "filepath_Dir p = filepath_Clean (take (length p - length (last_element p)) p)"

definition filepath_Join :: "string \<Rightarrow> string \<Rightarrow> string" where
  "filepath_Join a b =
     (if a = [] \<and> b = [] then []
      else filepath_Clean (if a = [] then b else if b = [] then a else a @ CHR ''/'' # b))"

definition deviceName :: "string \<Rightarrow> string" where
  "deviceName sock = trimSuffix (filepath_Ext sock) (filepath_Base sock)"

definition isAmneziaSocket :: "string \<Rightarrow> bool" where
  "isAmneziaSocket path \<longleftrightarrow> filepath_Base (filepath_Dir path) = ''amneziawg''"

section \<open>Finding sockets\<close>

text \<open>\<open>ECONNREFUSED\<close> is errno 111 on Linux; the BSDs number it 61.\<close>

definition isStaleSocket :: "nat \<Rightarrow> go_error \<Rightarrow> bool" where
  "isStaleSocket ECONNREFUSED e \<longleftrightarrow> errors_is e (Errno ECONNREFUSED)"

text \<open>\<open>readDir\<close> is \<open>os.ReadDir\<close>: the names of a directory and whether each is a socket.\<close>

type_synonym 's readdir = "string \<Rightarrow> 's \<Rightarrow> (go_error + (string \<times> bool) list) \<times> 's"

fun findUNIXSockets :: "'s readdir \<Rightarrow> string list \<Rightarrow> 's \<Rightarrow> (go_error + string list) \<times> 's" where
  "findUNIXSockets readDir [] s = (Inr [], s)"
| "findUNIXSockets readDir (d # ds) s =
     (case readDir d s of
        (Inl e, s) \<Rightarrow>
          if errors_is e ErrNotExist then findUNIXSockets readDir ds s else (Inl e, s)
      | (Inr files, s) \<Rightarrow>
          (case findUNIXSockets readDir ds s of
             (Inl e, s) \<Rightarrow> (Inl e, s)
           | (Inr socks, s) \<Rightarrow>
               (Inr (map (\<lambda>(name, isSock). filepath_Join d name) (filter snd files) @ socks), s)))"

definition find_sockets :: "'s readdir \<Rightarrow> 's \<Rightarrow> (go_error + string list) \<times> 's" where
  "find_sockets readDir s = findUNIXSockets readDir [''/var/run/wireguard'', ''/var/run/amneziawg''] s"

section \<open>The client\<close>

text \<open>
  The client's two functions \<open>dial\<close> (with the other socket operations) and \<open>find\<close>, the error of
  the context and whether it has a deadline, the parser's two parameters, and the error number.
\<close>

record ('c, 's) user_env =
  ue_sk :: "('c, 's) sockets"
  ue_find :: "'s \<Rightarrow> (go_error + string list) \<times> 's"
  ue_ctxErr :: "'s \<Rightarrow> go_error option"
  ue_deadline :: bool
  ue_pub :: "Key \<Rightarrow> Key"
  ue_dns :: resolver
  ue_refused :: nat

definition get_request :: string where
  "get_request = ''get=1'' @ [LF, LF]"

definition get_conn :: "('c, 's) user_env \<Rightarrow> string \<Rightarrow> 'c \<Rightarrow> 's \<Rightarrow> (go_error + Device) \<times> 's" where
  "get_conn env device c s =
     (case set_deadline (ue_sk env) (ue_deadline env) c s of
        (Some e, s) \<Rightarrow> (Inl e, s)
      | (None, s) \<Rightarrow>
          (case sk_write (ue_sk env) c get_request s of
             (Some e, s) \<Rightarrow> (Inl e, s)
           | (None, s) \<Rightarrow>
               (case sk_stream (ue_sk env) c s of
                  (stream, s) \<Rightarrow>
                    (map_sum id (\<lambda>d. d\<lparr> dev_Name := deviceName device, dev_Type := Userspace \<rparr>)
                       (parseDevice (ue_pub env) (ue_dns env) stream), s))))"

definition getDevice :: "('c, 's) user_env \<Rightarrow> string \<Rightarrow> 's \<Rightarrow> (go_error + Device) \<times> 's" where
  "getDevice env device s =
     (case sk_dial (ue_sk env) device s of
        (Inl e, s) \<Rightarrow> (Inl e, s)
      | (Inr c, s) \<Rightarrow>
          (case get_conn env device c s of (r, s) \<Rightarrow> (r, sk_close (ue_sk env) c s)))"

text \<open>\<open>if isAmneziaSocket(d) { wgd.IsAmnezia = true }\<close>\<close>

definition mark_amnezia :: "string \<Rightarrow> Device \<Rightarrow> Device" where
  "mark_amnezia path d = (if isAmneziaSocket path then d\<lparr> dev_IsAmnezia := True \<rparr> else d)"

fun user_devices_loop :: "('c, 's) user_env \<Rightarrow> string list \<Rightarrow> 's \<Rightarrow> (go_error + Device list) \<times> 's" where
  "user_devices_loop env [] s = (Inr [], s)"
| "user_devices_loop env (p # ps) s =
     (case getDevice env p s of
        (Inl e, s) \<Rightarrow>
          if errors_is e ErrNotExist \<or> isStaleSocket (ue_refused env) e
          then user_devices_loop env ps s else (Inl e, s)
      | (Inr d, s) \<Rightarrow>
          (case user_devices_loop env ps s of
             (Inl e, s) \<Rightarrow> (Inl e, s)
           | (Inr ds, s) \<Rightarrow> (Inr (mark_amnezia p d # ds), s)))"

definition user_Devices :: "('c, 's) user_env \<Rightarrow> 's \<Rightarrow> (go_error + Device list) \<times> 's" where
  "user_Devices env s =
     (case ue_ctxErr env s of
        Some e \<Rightarrow> (Inl e, s)
      | None \<Rightarrow>
          (case ue_find env s of
             (Inl e, s) \<Rightarrow> (Inl e, s)
           | (Inr ps, s) \<Rightarrow> user_devices_loop env ps s))"

definition user_Device :: "('c, 's) user_env \<Rightarrow> string \<Rightarrow> 's \<Rightarrow> (go_error + Device) \<times> 's" where
  "user_Device env name s =
     (case ue_ctxErr env s of
        Some e \<Rightarrow> (Inl e, s)
      | None \<Rightarrow>
          (case ue_find env s of
             (Inl e, s) \<Rightarrow> (Inl e, s)
           | (Inr ps, s) \<Rightarrow>
               (case find (\<lambda>p. name = deviceName p) ps of
                  None \<Rightarrow> (Inl ErrNotExist, s)
                | Some p \<Rightarrow>
                    (case getDevice env p s of (r, s) \<Rightarrow> (map_sum id (mark_amnezia p) r, s)))))"

definition user_ConfigureDevice ::
    "('c, 's) user_env \<Rightarrow> string \<Rightarrow> Config \<Rightarrow> 's \<Rightarrow> go_error option \<times> 's" where
  "user_ConfigureDevice env name cfg s =
     (case ue_ctxErr env s of
        Some e \<Rightarrow> (Some e, s)
      | None \<Rightarrow>
          (case ue_find env s of
             (Inl e, s) \<Rightarrow> (Some e, s)
           | (Inr ps, s) \<Rightarrow>
               (case find (\<lambda>p. name = deviceName p) ps of
                  None \<Rightarrow> (Some ErrNotExist, s)
                | Some p \<Rightarrow> configureDevice (ue_sk env) (ue_deadline env) p cfg s)))"

section \<open>Paths of sockets\<close>

text \<open>A file name as a directory lists it.\<close>

definition file_name :: "string \<Rightarrow> bool" where
  "file_name n \<longleftrightarrow> CHR ''/'' \<notin> set n \<and> n \<noteq> [] \<and> n \<noteq> ''.'' \<and> n \<noteq> ''..''"

lemma takeWhile_no_slash: "CHR ''/'' \<notin> set n \<Longrightarrow> takeWhile no_slash (rev n @ CHR ''/'' # t) = rev n"
  by (subst takeWhile_append2) (auto simp: no_slash_def)

lemma last_element_join: "CHR ''/'' \<notin> set n \<Longrightarrow> last_element (d @ CHR ''/'' # n) = n"
  by (simp add: last_element_def takeWhile_no_slash)

lemma Base_join: "file_name n \<Longrightarrow> filepath_Base (d @ CHR ''/'' # n) = n"
proof -
  assume n: "file_name n"
  then have "hd (rev n) \<noteq> CHR ''/''" by (metis file_name_def hd_in_set rev_is_Nil_conv set_rev)
  then have "dropWhile (\<lambda>c. \<not> no_slash c) (rev n @ CHR ''/'' # rev d) = rev n @ CHR ''/'' # rev d"
    using n by (cases "rev n") (auto simp: no_slash_def file_name_def)
  with n show ?thesis
    by (simp add: filepath_Base_def Let_def last_element_join file_name_def)
qed

lemma Dir_join: "CHR ''/'' \<notin> set n \<Longrightarrow> filepath_Dir (d @ CHR ''/'' # n) = filepath_Clean (d @ ''/'')"
  by (simp add: filepath_Dir_def last_element_join)

lemma splitOn_slash_name: "file_name n \<Longrightarrow> splitOn CHR ''/'' n = [n]"
  by (simp add: file_name_def)

lemma Join_var_run:
  assumes "file_name n"
  shows "filepath_Join ''/var/run/wireguard'' n = ''/var/run/wireguard/'' @ n"
    and "filepath_Join ''/var/run/amneziawg'' n = ''/var/run/amneziawg/'' @ n"
  using assms
  by (simp_all add: filepath_Join_def filepath_Clean_def splitOn_slash_name clean_step_def file_name_def)

lemma amnezia_path:
  assumes "file_name n"
  shows "isAmneziaSocket (filepath_Join ''/var/run/amneziawg'' n)"
    and "\<not> isAmneziaSocket (filepath_Join ''/var/run/wireguard'' n)"
proof -
  have slash: "CHR ''/'' \<notin> set n" using assms by (simp add: file_name_def)
  have "filepath_Base (filepath_Clean ''/var/run/amneziawg/'') = ''amneziawg''"
    and "filepath_Base (filepath_Clean ''/var/run/wireguard/'') = ''wireguard''"
    by code_simp+
  then show "isAmneziaSocket (filepath_Join ''/var/run/amneziawg'' n)"
    and "\<not> isAmneziaSocket (filepath_Join ''/var/run/wireguard'' n)"
    using Dir_join [OF slash, of "''/var/run/amneziawg''"] Dir_join [OF slash, of "''/var/run/wireguard''"]
    by (simp_all add: isAmneziaSocket_def Join_var_run [OF assms])
qed

lemma Ext_sock: "CHR ''/'' \<notin> set n \<Longrightarrow> filepath_Ext (d @ CHR ''/'' # n @ ''.sock'') = ''.sock''"
  using last_element_join [of "n @ ''.sock''" d] by (simp add: filepath_Ext_def)

lemma deviceName_sock:
  assumes "CHR ''/'' \<notin> set n"
  shows "deviceName (d @ CHR ''/'' # n @ ''.sock'') = n"
proof -
  have "file_name (n @ ''.sock'')" using assms by (auto simp: file_name_def Cons_eq_append_conv)
  then show ?thesis
    using Base_join [of "n @ ''.sock''" d] Ext_sock [OF assms, of d]
    by (simp add: deviceName_def trimSuffix_def suffix_def)
qed

section \<open>Every connection is closed\<close>

text \<open>
  \<open>live\<close> counts the open connections of the outside world. Laws: a successful dial opens one, closing
  closes it, and nothing else opens or closes any.
\<close>

locale socket_env =
  fixes env :: "('c, 's) user_env"
    and live :: "'s \<Rightarrow> 'c multiset"
  assumes live_dial: "live (snd (sk_dial (ue_sk env) p s)) =
        (case fst (sk_dial (ue_sk env) p s) of Inl e \<Rightarrow> live s | Inr c \<Rightarrow> add_mset c (live s))"
    and live_close: "live (sk_close (ue_sk env) c s) = live s - {#c#}"
    and live_deadline: "live (snd (sk_deadline (ue_sk env) c s)) = live s"
    and live_write: "live (snd (sk_write (ue_sk env) c req s)) = live s"
    and live_read: "live (snd (sk_read (ue_sk env) c n s)) = live s"
    and live_stream: "live (snd (sk_stream (ue_sk env) c s)) = live s"
    and live_find: "live (snd (ue_find env s)) = live s"
begin

lemma live_set_deadline: "live (snd (set_deadline (ue_sk env) b c s)) = live s"
  by (simp add: set_deadline_def live_deadline)

lemma live_configure_conn: "live (snd (configure_conn (ue_sk env) b cfg c s)) = live s"
  using live_set_deadline [of b c s] live_write [of c "set_request cfg"] live_read [of c 32]
  by (auto simp: configure_conn_def split: option.splits prod.splits sum.splits) (metis snd_conv)+

lemma live_get_conn: "live (snd (get_conn env p c s)) = live s"
  using live_set_deadline [of "ue_deadline env" c s] live_write [of c get_request] live_stream [of c]
  by (auto simp: get_conn_def split: option.splits prod.splits) (metis snd_conv)+

lemma configureDevice_live: "live (snd (configureDevice (ue_sk env) b p cfg s)) = live s"
  using live_dial [of p s]
  by (auto simp: configureDevice_def live_close split: sum.splits prod.splits)
    (metis add_mset_remove_trivial live_configure_conn snd_conv)

lemma getDevice_live: "live (snd (getDevice env p s)) = live s"
  using live_dial [of p s]
  by (auto simp: getDevice_def live_close split: sum.splits prod.splits)
    (metis add_mset_remove_trivial live_get_conn snd_conv)

lemma user_devices_loop_live: "live (snd (user_devices_loop env ps s)) = live s"
proof (induction ps arbitrary: s)
  case (Cons p ps)
  obtain r t where g: "getDevice env p s = (r, t)" by force
  then have t: "live t = live s" using getDevice_live [of p s] by simp
  obtain r' t' where l: "user_devices_loop env ps t = (r', t')" by force
  then have "live t' = live s" using Cons [of t] t by simp
  with t show ?case by (simp add: g l split: sum.split)
qed simp

lemma client_live:
  "live (snd (user_Devices env s)) = live s"
  "live (snd (user_Device env name s)) = live s"
  "live (snd (user_ConfigureDevice env name cfg s)) = live s"
proof -
  obtain r t where f: "ue_find env s = (r, t)" by force
  then have t: "live t = live s" using live_find [of s] by simp
  have gd: "live (snd (case getDevice env p t of (r, s) \<Rightarrow> (map_sum id (mark_amnezia p) r, s))) = live s" for p
    using getDevice_live [of p t] t by (simp add: case_prod_beta)
  show "live (snd (user_Devices env s)) = live s"
    by (simp add: user_Devices_def f t user_devices_loop_live split: option.split sum.split)
  show "live (snd (user_Device env name s)) = live s"
    by (simp add: user_Device_def f t gd split: option.split sum.split)
  show "live (snd (user_ConfigureDevice env name cfg s)) = live s"
    by (simp add: user_ConfigureDevice_def f t configureDevice_live split: option.split sum.split)
qed

end

section \<open>A world of daemons\<close>

text \<open>
  A simulated world: each daemon, named by its socket, keeps the text of the last configuration it was
  sent, and answers \<open>get=1\<close> with it. A connection holds the daemon's pending answer.
\<close>

record simworld =
  sw_next :: nat
  sw_open :: "(nat \<times> string \<times> string) list"
  sw_store :: "(string \<times> string) list"

fun drop_conn :: "nat \<Rightarrow> (nat \<times> 'a) list \<Rightarrow> (nat \<times> 'a) list" where
  "drop_conn c [] = []"
| "drop_conn c (x # xs) = (if fst x = c then xs else x # drop_conn c xs)"

definition set_conn :: "nat \<Rightarrow> 'a \<Rightarrow> (nat \<times> 'a) list \<Rightarrow> (nat \<times> 'a) list" where
  "set_conn c v xs = map (\<lambda>x. if fst x = c then (c, v) else x) xs"

definition set_text :: "string \<Rightarrow> string \<Rightarrow> (string \<times> string) list \<Rightarrow> (string \<times> string) list" where
  "set_text p v xs = map (\<lambda>x. if fst x = p then (p, v) else x) xs"

definition sim_dial :: "string \<Rightarrow> simworld \<Rightarrow> (go_error + nat) \<times> simworld" where
  "sim_dial p s =
     (case map_of (sw_store s) p of
        None \<Rightarrow> (Inl (SyscallError ''connect'' (Errno 2)), s)
      | Some _ \<Rightarrow> (Inr (sw_next s), s\<lparr> sw_next := sw_next s + 1, sw_open := (sw_next s, p, []) # sw_open s \<rparr>))"

definition set_line :: string where
  "set_line = ''set=1'' @ [LF]"

definition sim_write :: "nat \<Rightarrow> string \<Rightarrow> simworld \<Rightarrow> go_error option \<times> simworld" where
  "sim_write c req s =
     (case map_of (sw_open s) c of
        None \<Rightarrow> (Some (SyscallError ''write'' (Errno 32)), s)
      | Some (p, _) \<Rightarrow>
          if prefix set_line req
          then (None, s\<lparr> sw_store := set_text p (drop (length set_line) req) (sw_store s),
                        sw_open := set_conn c (p, ''errno=0'' @ [LF, LF]) (sw_open s) \<rparr>)
          else (None, s\<lparr> sw_open := set_conn c (p, case map_of (sw_store s) p of None \<Rightarrow> [] | Some t \<Rightarrow> t) (sw_open s) \<rparr>))"

definition sim_read :: "nat \<Rightarrow> nat \<Rightarrow> simworld \<Rightarrow> (go_error + string) \<times> simworld" where
  "sim_read c n s =
     (case map_of (sw_open s) c of
        None \<Rightarrow> (Inl (SyscallError ''read'' (Errno 9)), s)
      | Some (p, out) \<Rightarrow> (Inr (take n out), s))"

definition sim_stream :: "nat \<Rightarrow> simworld \<Rightarrow> (string \<times> go_error option) \<times> simworld" where
  "sim_stream c s =
     ((case map_of (sw_open s) c of None \<Rightarrow> ([], Some (Errno 9)) | Some (p, out) \<Rightarrow> (out, None)), s)"

definition sim_close :: "nat \<Rightarrow> simworld \<Rightarrow> simworld" where
  "sim_close c s = s\<lparr> sw_open := drop_conn c (sw_open s) \<rparr>"

definition sim_env :: "(Key \<Rightarrow> Key) \<Rightarrow> resolver \<Rightarrow> (nat, simworld) user_env" where
  "sim_env pub dns =
     \<lparr> ue_sk = \<lparr> sk_dial = sim_dial, sk_deadline = (\<lambda>c s. (None, s)), sk_write = sim_write,
                 sk_read = sim_read, sk_stream = sim_stream, sk_close = sim_close \<rparr>,
       ue_find = (\<lambda>s. (Inr (map fst (sw_store s)), s)), ue_ctxErr = (\<lambda>s. None),
       ue_deadline = False, ue_pub = pub, ue_dns = dns, ue_refused = 111 \<rparr>"

definition sim_live :: "simworld \<Rightarrow> nat multiset" where
  "sim_live s = mset (map fst (sw_open s))"

lemma map_fst_set_conn [simp]: "map fst (set_conn c v xs) = map fst xs"
  by (induction xs) (auto simp: set_conn_def)

lemma mset_set_conn: "image_mset fst (mset (set_conn c v xs)) = image_mset fst (mset xs)"
  using map_fst_set_conn [of c v xs] by (metis mset_map)

lemma mset_drop_conn: "image_mset fst (mset (drop_conn c xs)) = image_mset fst (mset xs) - {#c#}"
  by (induction xs) auto

interpretation sim: socket_env "sim_env pub dns" sim_live for pub dns
  by unfold_locales
    (auto simp: sim_env_def sim_dial_def sim_close_def sim_write_def sim_read_def sim_stream_def
      sim_live_def mset_drop_conn mset_set_conn split: option.split)

text \<open>A configuration sent to a daemon of this world is what is read from it afterwards.\<close>

lemma map_of_set_conn: "map_of (set_conn c v xs) c = (if map_of xs c = None then None else Some v)"
  by (induction xs) (auto simp: set_conn_def)

lemma map_of_set_text: "map_of (set_text p v xs) p = (if map_of xs p = None then None else Some v)"
  by (induction xs) (auto simp: set_text_def)

lemma map_fst_set_text [simp]: "map fst (set_text p v xs) = map fst xs"
  by (induction xs) (auto simp: set_text_def)

lemma reply_ok: "reply_error (''errno=0'' @ [LF, LF]) = None"
  by code_simp

lemma set_request_front: "set_request cfg = set_line @ writeConfig cfg @ [LF]"
  by (simp add: set_request_def set_line_def)

lemma sim_configureDevice:
  assumes "map_of (sw_store s) p \<noteq> None" and "checkLineValues cfg = None"
  shows "configureDevice (ue_sk (sim_env pub dns)) False p cfg s =
    (None, s\<lparr> sw_next := sw_next s + 1, sw_store := set_text p (writeConfig cfg @ [LF]) (sw_store s),
              sw_open := set_conn (sw_next s) (p, ''errno=0'' @ [LF, LF]) (sw_open s) \<rparr>)"
proof -
  obtain t where "map_of (sw_store s) p = Some t" using assms(1) by auto
  then show ?thesis
    using assms(2) reply_ok
    by (simp add: configureDevice_def configure_conn_def sim_env_def sim_dial_def set_deadline_def
        sim_write_def sim_read_def sim_close_def set_request_front set_conn_def)
qed

lemma sim_getDevice:
  assumes "map_of (sw_store s) p = Some t"
  shows "fst (getDevice (sim_env pub dns) p s) =
    map_sum id (\<lambda>d. d\<lparr> dev_Name := deviceName p, dev_Type := Userspace \<rparr>) (parseDevice pub dns (t, None))"
proof -
  have "\<not> prefix set_line get_request" by code_simp
  with assms show ?thesis
    by (simp add: getDevice_def get_conn_def sim_env_def sim_dial_def set_deadline_def
        sim_write_def sim_stream_def sim_close_def set_conn_def)
qed

lemma find_map_of: "find P (map fst xs) = Some p \<Longrightarrow> map_of xs p \<noteq> None \<and> P p"
  by (metis find_Some_iff list.set_map map_of_eq_None_iff nth_mem)

lemma sim_configure_then_read:
  assumes "find (\<lambda>p. name = deviceName p) (map fst (sw_store s)) = Some p"
    and "Validate cfg = None" and "checkLineValues cfg = None" and "echo_ok cfg"
  shows "\<exists>s'. user_ConfigureDevice (sim_env pub dns) name cfg s = (None, s') \<and>
    fst (user_Device (sim_env pub dns) name s') =
      Inr (mark_amnezia p ((echo_device pub cfg)\<lparr> dev_Name := name, dev_Type := Userspace \<rparr>))"
proof -
  let ?s = "s\<lparr> sw_next := sw_next s + 1, sw_store := set_text p (writeConfig cfg @ [LF]) (sw_store s),
              sw_open := set_conn (sw_next s) (p, ''errno=0'' @ [LF, LF]) (sw_open s) \<rparr>"
  have p: "map_of (sw_store s) p \<noteq> None" "name = deviceName p"
    using find_map_of [OF assms(1)] by auto
  have "user_ConfigureDevice (sim_env pub dns) name cfg s = (None, ?s)"
    using sim_configureDevice [OF p(1) assms(3), of pub dns] assms(1)
    by (simp add: user_ConfigureDevice_def sim_env_def)
  moreover have "fst (getDevice (sim_env pub dns) p ?s) =
      Inr ((echo_device pub cfg)\<lparr> dev_Name := name, dev_Type := Userspace \<rparr>)"
    using sim_getDevice [of ?s p "writeConfig cfg @ [LF]" pub dns] p parseDevice_echo [OF assms(2-4)]
    by (simp add: map_of_set_text)
  ultimately show ?thesis
    using assms(1) by (intro exI [of _ ?s]) (simp add: user_Device_def sim_env_def case_prod_beta)
qed

end
