(* ===== verification/Client.thy ===== *)
theory Client
  imports UserClient
begin

text \<open>
  \<open>client.go\<close>: the \<open>Client\<close> that tries several backends, in order. A backend is the interface
  \<open>wginternal.Client\<close> as a record of its four methods over the state of the outside world. What the
  backends promise each other, that a device is one backend's, is the locale \<open>wg_backend\<close>,
  interpreted on the userspace backend here and on the Linux backend in LinuxBackend.
\<close>

section \<open>Backends\<close>

record 's backend =
  bk_Close :: "'s \<Rightarrow> go_error option \<times> 's"
  bk_Devices :: "'s \<Rightarrow> (go_error + Device list) \<times> 's"
  bk_Device :: "string \<Rightarrow> 's \<Rightarrow> (go_error + Device) \<times> 's"
  bk_ConfigureDevice :: "string \<Rightarrow> Config \<Rightarrow> 's \<Rightarrow> go_error option \<times> 's"

text \<open>The userspace backend; its \<open>Close\<close> does nothing.\<close>

definition user_backend :: "('c, 's) user_env \<Rightarrow> 's backend" where
  "user_backend env =
     \<lparr> bk_Close = (\<lambda>s. (None, s)), bk_Devices = user_Devices env, bk_Device = user_Device env,
       bk_ConfigureDevice = user_ConfigureDevice env \<rparr>"

section \<open>Closing and listing\<close>

fun close_loop :: "'s backend list \<Rightarrow> 's \<Rightarrow> go_error list \<times> 's" where
  "close_loop [] s = ([], s)"
| "close_loop (b # bs) s =
     (case bk_Close b s of (r, s) \<Rightarrow>
       (case close_loop bs s of (errs, s) \<Rightarrow> ((case r of None \<Rightarrow> errs | Some e \<Rightarrow> e # errs), s)))"

definition client_Close :: "'s backend list \<Rightarrow> 's \<Rightarrow> go_error option \<times> 's" where
  "client_Close cs s = (case close_loop cs s of (errs, s) \<Rightarrow> (errors_Join errs, s))"

text \<open>The inner loop over the devices of one backend; \<open>seen\<close> is the map of names.\<close>

fun add_devices :: "string list \<Rightarrow> Device list \<Rightarrow> Device list \<Rightarrow> string list \<times> Device list" where
  "add_devices seen out [] = (seen, out)"
| "add_devices seen out (d # ds) =
     (if dev_Name d \<in> set seen then add_devices seen out ds
      else add_devices (dev_Name d # seen) (out @ [d]) ds)"

fun devices_loop ::
    "('s \<Rightarrow> go_error option) \<Rightarrow> 's backend list \<Rightarrow> string list \<Rightarrow> Device list \<Rightarrow> go_error list \<Rightarrow> 's \<Rightarrow>
     (Device list \<times> go_error option) \<times> 's" where
  "devices_loop ctxErr [] seen out errs s = ((out, errors_Join errs), s)"
| "devices_loop ctxErr (b # bs) seen out errs s =
     (case bk_Devices b s of
        (Inl e, s) \<Rightarrow>
          if ctxErr s \<noteq> None then ((out, Some e), s)
          else devices_loop ctxErr bs seen out (errs @ [e]) s
      | (Inr devs, s) \<Rightarrow>
          (case add_devices seen out devs of
             (seen, out) \<Rightarrow> devices_loop ctxErr bs seen out errs s))"

definition client_Devices ::
    "('s \<Rightarrow> go_error option) \<Rightarrow> 's backend list \<Rightarrow> 's \<Rightarrow> (Device list \<times> go_error option) \<times> 's" where
  "client_Devices ctxErr cs s = devices_loop ctxErr cs [] [] [] s"

section \<open>One device\<close>

fun client_Device :: "'s backend list \<Rightarrow> string \<Rightarrow> 's \<Rightarrow> (go_error + Device) \<times> 's" where
  "client_Device [] name s = (Inl ErrNotExist, s)"
| "client_Device (b # bs) name s =
     (case bk_Device b name s of
        (Inr d, s) \<Rightarrow> (Inr d, s)
      | (Inl e, s) \<Rightarrow> if errors_is e ErrNotExist then client_Device bs name s else (Inl e, s))"

section \<open>Configuring\<close>

definition partial :: "bool list \<Rightarrow> bool" where
  "partial set' \<longleftrightarrow> (let n = length (filter id set') in 0 < n \<and> n < length set')"

definition partialAWG :: "Config \<Rightarrow> bool" where
  "partialAWG cfg \<longleftrightarrow>
     partial [cfg_Jc cfg \<noteq> None, cfg_Jmin cfg \<noteq> None, cfg_Jmax cfg \<noteq> None] \<or>
     partial [cfg_H1 cfg \<noteq> None, cfg_H2 cfg \<noteq> None, cfg_H3 cfg \<noteq> None, cfg_H4 cfg \<noteq> None]"

definition intOr :: "int option \<Rightarrow> int \<Rightarrow> int option" where
  "intOr v cur = (if v \<noteq> None then v else Some cur)"

definition strOr :: "string option \<Rightarrow> string \<Rightarrow> string option" where
  "strOr v cur = (if v \<noteq> None \<or> cur = [] then v else Some cur)"

definition mergeAWG :: "Device \<Rightarrow> Config \<Rightarrow> Config" where
  "mergeAWG d cfg = zeroConfig\<lparr>
     cfg_Jc := intOr (cfg_Jc cfg) (dev_Jc d),
     cfg_Jmin := intOr (cfg_Jmin cfg) (dev_Jmin d),
     cfg_Jmax := intOr (cfg_Jmax cfg) (dev_Jmax d),
     cfg_H1 := strOr (cfg_H1 cfg) (dev_H1 d),
     cfg_H2 := strOr (cfg_H2 cfg) (dev_H2 d),
     cfg_H3 := strOr (cfg_H3 cfg) (dev_H3 d),
     cfg_H4 := strOr (cfg_H4 cfg) (dev_H4 d) \<rparr>"

fun configure_loop :: "'s backend list \<Rightarrow> string \<Rightarrow> Config \<Rightarrow> 's \<Rightarrow> go_error option \<times> 's" where
  "configure_loop [] name cfg s = (Some ErrNotExist, s)"
| "configure_loop (b # bs) name cfg s =
     (case bk_ConfigureDevice b name cfg s of
        (None, s) \<Rightarrow> (None, s)
      | (Some e, s) \<Rightarrow> if errors_is e ErrNotExist then configure_loop bs name cfg s else (Some e, s))"

text \<open>The check of a partial AmneziaWG configuration against the device.\<close>

definition check_partial :: "'s backend list \<Rightarrow> string \<Rightarrow> Config \<Rightarrow> 's \<Rightarrow> go_error option \<times> 's" where
  "check_partial cs name cfg s =
     (if partialAWG cfg
      then (case client_Device cs name s of
              (Inr d, s) \<Rightarrow>
                if dev_IsAmnezia d then (map_option ErrConfig (Validate (mergeAWG d cfg)), s) else (None, s)
            | (Inl e, s) \<Rightarrow> (None, s))
      else (None, s))"

definition client_ConfigureDevice ::
    "'s backend list \<Rightarrow> string \<Rightarrow> Config \<Rightarrow> 's \<Rightarrow> go_error option \<times> 's" where
  "client_ConfigureDevice cs name cfg s =
     (case Validate cfg of
        Some e \<Rightarrow> (Some (ErrConfig e), s)
      | None \<Rightarrow>
          (case check_partial cs name cfg s of
             (Some e, s) \<Rightarrow> (Some e, s)
           | (None, s) \<Rightarrow> configure_loop cs name cfg s))"

section \<open>Listing: the first device of each name\<close>

fun first_of_name :: "string set \<Rightarrow> Device list \<Rightarrow> Device list" where
  "first_of_name seen [] = []"
| "first_of_name seen (d # ds) =
     (if dev_Name d \<in> seen then first_of_name seen ds
      else d # first_of_name (insert (dev_Name d) seen) ds)"

lemma first_of_name_append:
  "first_of_name seen (xs @ ys) = first_of_name seen xs @ first_of_name (seen \<union> dev_Name ` set xs) ys"
proof (induction xs arbitrary: seen)
  case (Cons x xs)
  then show ?case by (auto simp: insert_absorb insert_commute)
qed simp

lemma add_devices_eq:
  "add_devices seen out ds =
     (rev (map dev_Name (first_of_name (set seen) ds)) @ seen, out @ first_of_name (set seen) ds)"
  by (induction seen out ds rule: add_devices.induct) auto

lemma first_of_name_names: "dev_Name ` set (first_of_name seen ds) = dev_Name ` set ds - seen"
  by (induction ds arbitrary: seen) auto

lemma first_of_name_subset: "set (first_of_name seen ds) \<subseteq> set ds"
  by (induction ds arbitrary: seen) auto

lemma first_of_name_distinct: "distinct (map dev_Name (first_of_name seen ds))"
proof (induction ds arbitrary: seen)
  case (Cons d ds)
  have "dev_Name d \<notin> dev_Name ` set (first_of_name (insert (dev_Name d) seen) ds)"
    by (simp add: first_of_name_names)
  with Cons show ?case by simp
qed simp

text \<open>
  What each backend would answer when asked after those before it, with the state that leaves; and the
  answer at which the client gives up: an error when the context is done.
\<close>

fun outcomes :: "'s backend list \<Rightarrow> 's \<Rightarrow> ((go_error + Device list) \<times> 's) list" where
  "outcomes [] s = []"
| "outcomes (b # bs) s = bk_Devices b s # outcomes bs (snd (bk_Devices b s))"

definition gives_up :: "('s \<Rightarrow> go_error option) \<Rightarrow> (go_error + Device list) \<times> 's \<Rightarrow> bool" where
  "gives_up ctxErr x \<longleftrightarrow> isl (fst x) \<and> ctxErr (snd x) \<noteq> None"

definition reports :: "('s \<Rightarrow> go_error option) \<Rightarrow> 's backend list \<Rightarrow> 's \<Rightarrow> (go_error + Device list) list" where
  "reports ctxErr cs s = map fst (takeWhile (\<lambda>x. \<not> gives_up ctxErr x) (outcomes cs s))"

fun found :: "(go_error + Device list) list \<Rightarrow> Device list" where
  "found [] = []"
| "found (Inl e # rs) = found rs"
| "found (Inr ds # rs) = ds @ found rs"

fun failed :: "(go_error + Device list) list \<Rightarrow> go_error list" where
  "failed [] = []"
| "failed (Inl e # rs) = e # failed rs"
| "failed (Inr ds # rs) = failed rs"

text \<open>The error of \<open>Devices\<close>: that of the backend at which it gives up, or all errors joined.\<close>

definition devices_error :: "('s \<Rightarrow> go_error option) \<Rightarrow> 's backend list \<Rightarrow> 's \<Rightarrow> go_error list \<Rightarrow> go_error option" where
  "devices_error ctxErr cs s errs =
     (case dropWhile (\<lambda>x. \<not> gives_up ctxErr x) (outcomes cs s) of
        [] \<Rightarrow> errors_Join (errs @ failed (reports ctxErr cs s))
      | x # _ \<Rightarrow> Some (projl (fst x)))"

lemma reports_Cons:
  "reports ctxErr (b # cs) s = (case bk_Devices b s of (r, t) \<Rightarrow>
     if isl r \<and> ctxErr t \<noteq> None then [] else r # reports ctxErr cs t)"
  by (simp add: reports_def gives_up_def split: prod.split)

lemma devices_error_Cons:
  "devices_error ctxErr (b # cs) s errs = (case bk_Devices b s of
      (Inl e, t) \<Rightarrow> if ctxErr t \<noteq> None then Some e else devices_error ctxErr cs t (errs @ [e])
    | (Inr ds, t) \<Rightarrow> devices_error ctxErr cs t errs)"
proof -
  obtain r t where r: "bk_Devices b s = (r, t)" by force
  show ?thesis
    by (cases r; cases "ctxErr t"; cases "dropWhile (\<lambda>x. \<not> gives_up ctxErr x) (outcomes cs t)")
      (simp_all add: devices_error_def reports_Cons r gives_up_def [of ctxErr "(_, t)"] del: dropWhile_eq_Nil_conv)
qed

lemma devices_loop_eq:
  "fst (devices_loop ctxErr cs seen out errs s) =
     (out @ first_of_name (set seen) (found (reports ctxErr cs s)), devices_error ctxErr cs s errs)"
proof (induction cs arbitrary: seen out errs s)
  case (Cons b cs)
  obtain r t where r: "bk_Devices b s = (r, t)" by force
  show ?case
  proof (cases r)
    case (Inl e)
    with r Cons show ?thesis by (auto simp: reports_Cons devices_error_Cons)
  next
    case (Inr ds)
    with r Cons show ?thesis
      by (simp add: reports_Cons devices_error_Cons add_devices_eq first_of_name_append
          first_of_name_names Un_commute image_set [symmetric])
  qed
qed (simp add: reports_def devices_error_def)

section \<open>Merging with the device\<close>

text \<open>The fields checked together, as the device has them after the configuration was applied.\<close>

definition awg_consistent :: "Device \<Rightarrow> bool" where
  "awg_consistent d \<longleftrightarrow>
     0 \<le> dev_Jc d \<and> dev_Jc d \<le> 128 \<and> 0 \<le> dev_Jmin d \<and> dev_Jmin d \<le> 1280 \<and>
     0 \<le> dev_Jmax d \<and> dev_Jmax d \<le> 1280 \<and> (dev_Jmax d = 0 \<or> dev_Jmin d \<le> dev_Jmax d) \<and>
     valid_headers (filter (\<lambda>h. h \<noteq> []) [dev_H1 d, dev_H2 d, dev_H3 d, dev_H4 d])"

definition over :: "'a option \<Rightarrow> 'a \<Rightarrow> 'a" where
  "over v cur = (case v of None \<Rightarrow> cur | Some x \<Rightarrow> x)"

lemma over_simps [simp]: "over None cur = cur" "over (Some x) cur = x"
  by (simp_all add: over_def)

definition apply_awg :: "Device \<Rightarrow> Config \<Rightarrow> Device" where
  "apply_awg d cfg = d\<lparr>
     dev_Jc := over (cfg_Jc cfg) (dev_Jc d), dev_Jmin := over (cfg_Jmin cfg) (dev_Jmin d),
     dev_Jmax := over (cfg_Jmax cfg) (dev_Jmax d),
     dev_H1 := over (cfg_H1 cfg) (dev_H1 d), dev_H2 := over (cfg_H2 cfg) (dev_H2 d),
     dev_H3 := over (cfg_H3 cfg) (dev_H3 d), dev_H4 := over (cfg_H4 cfg) (dev_H4 d) \<rparr>"

lemma intOr_over: "intOr v cur = Some (over v cur)"
  by (cases v) (auto simp: intOr_def)

lemma strOr_over: "v \<noteq> Some [] \<Longrightarrow> strOr v cur = (if over v cur = [] then None else Some (over v cur))"
  by (cases v) (auto simp: strOr_def)

lemma map_filter_if:
  "List.map_filter id ((if h = [] then None else Some h) # hs) = filter (\<lambda>h. h \<noteq> []) [h] @ List.map_filter id hs"
  by (simp add: map_filter_simps)

lemma empty_header: "header_range [] = {}"
  by (simp add: header_range_def ParseMagicHeader_def parseKernelUint32_def parseUint_def trimPrefix_def
      trimSuffix_def)

lemma valid_no_empty:
  assumes "Validate cfg = None"
  shows "cfg_H1 cfg \<noteq> Some []" "cfg_H2 cfg \<noteq> Some []" "cfg_H3 cfg \<noteq> Some []" "cfg_H4 cfg \<noteq> Some []"
proof -
  have "valid_headers (List.map_filter id (cfg_headers cfg))"
    using assms by (simp add: Validate_None_iff valid_config_def)
  then have "[] \<notin> set (List.map_filter id (cfg_headers cfg))"
    using empty_header by (auto simp: valid_headers_def)
  then have "Some [] \<notin> set (cfg_headers cfg)" by (simp only: Some_map_filter) simp
  then show "cfg_H1 cfg \<noteq> Some []" "cfg_H2 cfg \<noteq> Some []" "cfg_H3 cfg \<noteq> Some []" "cfg_H4 cfg \<noteq> Some []"
    by (auto simp: cfg_headers_def)
qed

lemma mergeAWG_valid_iff:
  assumes "Validate cfg = None"
  shows "Validate (mergeAWG d cfg) = None \<longleftrightarrow> awg_consistent (apply_awg d cfg)"
proof -
  have "List.map_filter id (cfg_headers (mergeAWG d cfg)) =
      filter (\<lambda>h. h \<noteq> []) (map (\<lambda>(v, cur). over v cur)
        [(cfg_H1 cfg, dev_H1 d), (cfg_H2 cfg, dev_H2 d), (cfg_H3 cfg, dev_H3 d), (cfg_H4 cfg, dev_H4 d)])"
    using valid_no_empty [OF assms]
    by (simp add: cfg_headers_def mergeAWG_def strOr_over map_filter_simps)
  then show ?thesis
    unfolding Validate_None_iff valid_config_def awg_consistent_def
    by (simp add: mergeAWG_def zeroConfig_def cfg_inits_def intOr_over in_upto_def apply_awg_def)
qed

lemma partial_3: "\<not> partial [a, b, c] \<Longrightarrow> a = b \<and> b = c"
  by (cases a; cases b; cases c) (auto simp: partial_def)

lemma partial_4: "\<not> partial [a, b, c, e] \<Longrightarrow> a = b \<and> b = c \<and> c = e"
  by (cases a; cases b; cases c; cases e) (auto simp: partial_def)

lemma not_partial_consistent:
  assumes "\<not> partialAWG cfg" and "Validate cfg = None" and "awg_consistent d"
  shows "awg_consistent (apply_awg d cfg)"
proof -
  have v: "valid_config cfg" using assms(2) by (simp add: Validate_None_iff)
  have j: "(cfg_Jc cfg = None \<and> cfg_Jmin cfg = None \<and> cfg_Jmax cfg = None) \<or>
      (\<exists>a b c. cfg_Jc cfg = Some a \<and> cfg_Jmin cfg = Some b \<and> cfg_Jmax cfg = Some c)"
    using assms(1) partial_3 unfolding partialAWG_def by blast
  have h: "(cfg_H1 cfg = None \<and> cfg_H2 cfg = None \<and> cfg_H3 cfg = None \<and> cfg_H4 cfg = None) \<or>
      (\<exists>a b c e. cfg_H1 cfg = Some a \<and> cfg_H2 cfg = Some b \<and> cfg_H3 cfg = Some c \<and> cfg_H4 cfg = Some e)"
    using assms(1) partial_4 unfolding partialAWG_def by blast
  have "valid_headers (filter (\<lambda>h. h \<noteq> [])
      (map (\<lambda>(v, cur). over v cur)
        [(cfg_H1 cfg, dev_H1 d), (cfg_H2 cfg, dev_H2 d), (cfg_H3 cfg, dev_H3 d), (cfg_H4 cfg, dev_H4 d)]))"
    using h v assms(3) valid_no_empty [OF assms(2)]
    by (elim disjE) (auto simp: awg_consistent_def valid_config_def cfg_headers_def map_filter_simps)
  moreover have "0 \<le> over (cfg_Jc cfg) (dev_Jc d) \<and> over (cfg_Jc cfg) (dev_Jc d) \<le> 128 \<and>
      0 \<le> over (cfg_Jmin cfg) (dev_Jmin d) \<and> over (cfg_Jmin cfg) (dev_Jmin d) \<le> 1280 \<and>
      0 \<le> over (cfg_Jmax cfg) (dev_Jmax d) \<and> over (cfg_Jmax cfg) (dev_Jmax d) \<le> 1280 \<and>
      (over (cfg_Jmax cfg) (dev_Jmax d) = 0 \<or>
       over (cfg_Jmin cfg) (dev_Jmin d) \<le> over (cfg_Jmax cfg) (dev_Jmax d))"
    using j v assms(3) by (elim disjE) (auto simp: awg_consistent_def valid_config_def in_upto_def)
  ultimately show ?thesis by (simp add: awg_consistent_def apply_awg_def)
qed

lemma check_partial_safe:
  assumes "Validate cfg = None" and "client_Device cs name s = (Inr d, s')" and "dev_IsAmnezia d"
  shows "fst (check_partial cs name cfg s) = None \<longleftrightarrow>
    (partialAWG cfg \<longrightarrow> awg_consistent (apply_awg d cfg))"
  using assms mergeAWG_valid_iff [OF assms(1), of d] by (simp add: check_partial_def)

section \<open>Each device is one backend's\<close>

text \<open>
  \<open>owns s\<close> is the set of the names of a backend's devices. Laws: for any other name the backend says
  \<open>os.ErrNotExist\<close> and does nothing, and for its own devices it never says so.
\<close>

locale wg_backend =
  fixes b :: "'s backend"
    and owns :: "'s \<Rightarrow> string set"
  assumes device_absent: "name \<notin> owns s \<Longrightarrow> \<exists>e. bk_Device b name s = (Inl e, s) \<and> errors_is e ErrNotExist"
    and device_present: "name \<in> owns s \<Longrightarrow> bk_Device b name s = (Inl e, s') \<Longrightarrow> \<not> errors_is e ErrNotExist"
    and configure_absent: "name \<notin> owns s \<Longrightarrow>
          \<exists>e. bk_ConfigureDevice b name cfg s = (Some e, s) \<and> errors_is e ErrNotExist"
    and configure_present: "name \<in> owns s \<Longrightarrow> bk_ConfigureDevice b name cfg s = (Some e, s') \<Longrightarrow>
          \<not> errors_is e ErrNotExist"
begin

lemma client_Device_step:
  "client_Device (b # bs) name s = (if name \<in> owns s then bk_Device b name s else client_Device bs name s)"
  using device_absent [of name s] device_present [of name s]
  by (auto split: prod.split sum.split)

lemma configure_loop_step:
  "configure_loop (b # bs) name cfg s =
     (if name \<in> owns s then bk_ConfigureDevice b name cfg s else configure_loop bs name cfg s)"
  using configure_absent [of name s cfg] configure_present [of name s cfg]
  by (auto split: prod.split option.split)

end

definition owner :: "('s backend \<times> ('s \<Rightarrow> string set)) list \<Rightarrow> string \<Rightarrow> 's \<Rightarrow> 's backend option" where
  "owner bs name s = map_option fst (find (\<lambda>x. name \<in> snd x s) bs)"

lemma owner_routes:
  assumes "\<forall>x \<in> set bs. wg_backend (fst x) (snd x)"
  shows "client_Device (map fst bs) name s =
      (case owner bs name s of None \<Rightarrow> (Inl ErrNotExist, s) | Some b \<Rightarrow> bk_Device b name s)"
    and "configure_loop (map fst bs) name cfg s =
      (case owner bs name s of None \<Rightarrow> (Some ErrNotExist, s) | Some b \<Rightarrow> bk_ConfigureDevice b name cfg s)"
  using assms
proof (induction bs)
  case (Cons x bs)
  { case 1
    then have "wg_backend (fst x) (snd x)" by simp
    from wg_backend.client_Device_step [OF this, of "map fst bs" name s] Cons(1) 1
    show ?case by (simp add: owner_def del: client_Device.simps(2)) }
  { case 2
    then have "wg_backend (fst x) (snd x)" by simp
    from wg_backend.configure_loop_step [OF this, of "map fst bs" name cfg s] Cons(2) 2
    show ?case by (simp add: owner_def del: configure_loop.simps(2)) }
qed (simp_all add: owner_def)

section \<open>The userspace backend keeps the contract\<close>

text \<open>No error of the protocol's parser is taken for a missing device.\<close>

definition plain :: "go_error \<Rightarrow> bool" where
  "plain e \<longleftrightarrow> \<not> errors_is e ErrNotExist"

definition plain_reader :: "(string \<Rightarrow> go_error + 'a) \<Rightarrow> bool" where
  "plain_reader rd \<longleftrightarrow> (\<forall>s e. rd s = Inl e \<longrightarrow> plain e)"

definition dp_plain :: "deviceParser \<Rightarrow> bool" where
  "dp_plain dp \<longleftrightarrow> pred_option plain (dp_err dp)"

lemma dp_plain_value: "plain_reader rd \<Longrightarrow> dp_plain dp \<Longrightarrow> dp_plain (snd (dp_value rd z s dp))"
  by (auto simp: dp_value_def dp_plain_def plain_reader_def split: sum.split)

lemma dp_plain_on [simp]:
  "dp_plain (on_device f dp) = dp_plain dp" "dp_plain (on_peer g dp) = dp_plain dp"
  "dp_plain (setHandshakeTime dp) = dp_plain dp"
  "dp_plain (dp\<lparr> dp_hsSec := x \<rparr>) = dp_plain dp" "dp_plain (dp\<lparr> dp_hsNano := x \<rparr>) = dp_plain dp"
  by (simp_all add: dp_plain_def)

lemma plain_readers:
  "plain_reader read_key" "plain_reader read_int" "plain_reader read_int64"
  "plain_reader (\<lambda>s. map_sum id Some (read_cidr s))"
  by (auto simp: plain_reader_def plain_def read_key_def read_int_def read_int64_def read_cidr_def
      NewKey_def split: option.splits if_splits)

lemma plain_addr: "plain_reader dns \<Longrightarrow> plain_reader (\<lambda>s. map_sum id Some (ResolveUDPAddr dns s))"
  by (auto simp: plain_reader_def ResolveUDPAddr_def AddrError_def plain_def map_sum_def
      split: option.splits sum.splits if_splits)

lemma dp_plain_Parse:
  assumes "plain_reader dns" and "dp_plain dp"
  shows "dp_plain (Parse dns k v dp)"
proof -
  have start: "dp_plain (dp\<lparr> dp_parsePeers := True, dp_peers := n, dp_hsSec := 0, dp_hsNano := 0 \<rparr>)" for n
    using assms(2) by (simp add: dp_plain_def)
  have peer: "dp_plain (peerParse dns k v dp')" if "dp_plain dp'" for dp'
    using that plain_addr [OF assms(1)]
    by (simp add: peerParse_def dp_readers case_prod_beta dp_plain_value plain_readers split: option.split)
  have dev: "dp_plain (deviceField k v dp')" if "dp_plain dp'" for dp'
    using that by (simp add: deviceField_def int_field_def dp_readers case_prod_beta dp_plain_value plain_readers)
  have "dp_plain (startPeer v dp)"
    using start by (simp add: startPeer_def Let_def dp_readers case_prod_beta dp_plain_value plain_readers)
  moreover have "dp_plain (snd (dp_parseInt v dp))"
    using assms(2) by (simp add: dp_readers dp_plain_value plain_readers)
  moreover have "dp_plain (dp'\<lparr> dp_err := Some (errno_error n) \<rparr>)" for dp' n
    by (simp add: dp_plain_def plain_def errno_error_def)
  moreover have "k = ''errno'' \<Longrightarrow> k \<noteq> ''public_key''" by simp
  ultimately show ?thesis
    using assms(2) peer dev by (simp add: Parse_def case_prod_beta)
qed

lemma dp_plain_Parse_all:
  "plain_reader dns \<Longrightarrow> dp_plain dp \<Longrightarrow> dp_plain (Parse_all dns kvs dp)"
  by (induction kvs arbitrary: dp) (auto simp: dp_plain_Parse)

lemma plain_frame: "frame None ls = Inl e \<Longrightarrow> plain e"
proof (induction ls arbitrary: e)
  case (Cons l ls)
  then show ?case
    by (cases "frame None ls") (auto simp: plain_def Let_def split: if_splits list.splits)
qed simp

lemma plain_parseDevice:
  assumes "plain_reader dns" and "parseDevice pub dns (t, None) = Inl e"
  shows "plain e"
proof (cases "frame None (raw_lines t)")
  case (Inl e')
  with assms(2) plain_frame [OF Inl] show ?thesis by (simp add: parseDevice_def parse_lines_frame)
next
  case (Inr kvs)
  have "dp_plain (Parse_all dns kvs newParser)"
    by (rule dp_plain_Parse_all [OF assms(1)]) (simp add: dp_plain_def newParser_def)
  with Inr assms(2) show ?thesis
    by (auto simp: parseDevice_def parse_lines_frame dp_Device_def dp_plain_def split: option.splits)
qed

text \<open>A system whose resolver knows no names.\<close>

definition no_dns :: resolver where
  "no_dns s = Inl (ErrText ''no such host'')"

definition sim_owns :: "simworld \<Rightarrow> string set" where
  "sim_owns s = (deviceName \<circ> fst) ` set (sw_store s)"

lemma sim_find:
  "name \<notin> sim_owns s \<Longrightarrow> find (\<lambda>p. name = deviceName p) (map fst (sw_store s)) = None"
  "name \<in> sim_owns s \<Longrightarrow> \<exists>p. find (\<lambda>p. name = deviceName p) (map fst (sw_store s)) = Some p"
  by (auto simp: sim_owns_def find_None_iff simp flip: not_None_eq)

lemma checkLineValues_error: "checkLineValues cfg = Some e \<Longrightarrow> plain e"
proof -
  have gen: "first_error (map (\<lambda>(name, v). case v of None \<Rightarrow> None
      | Some x \<Rightarrow> if P x then Some (ErrText (f name)) else None) nvs) = Some e \<Longrightarrow> plain e"
    for P :: "string \<Rightarrow> bool" and f :: "string \<Rightarrow> string" and nvs
    by (induction nvs) (auto simp: plain_def split: option.splits if_splits)
  show "checkLineValues cfg = Some e \<Longrightarrow> plain e"
    unfolding checkLineValues_def by (rule gen)
qed

lemma sim_configure_plain:
  assumes "map_of (sw_store s) p \<noteq> None"
    and "configureDevice (ue_sk (sim_env pub dns)) False p cfg s = (Some e, s')"
  shows "plain e"
proof (cases "checkLineValues cfg")
  case None
  with sim_configureDevice [OF assms(1) None, of pub dns] assms(2) show ?thesis by simp
next
  case (Some e')
  with checkLineValues_error [OF Some] assms show ?thesis
    by (auto simp: configureDevice_def configure_conn_def sim_env_def sim_dial_def)
qed

interpretation user: wg_backend "user_backend (sim_env pub no_dns)" sim_owns for pub
proof
  fix name s s' cfg e
  show "\<exists>e. bk_Device (user_backend (sim_env pub no_dns)) name s = (Inl e, s) \<and> errors_is e ErrNotExist"
    if "name \<notin> sim_owns s"
    using sim_find(1) [OF that] by (simp add: user_backend_def user_Device_def sim_env_def)
  show "\<exists>e. bk_ConfigureDevice (user_backend (sim_env pub no_dns)) name cfg s = (Some e, s) \<and>
      errors_is e ErrNotExist" if "name \<notin> sim_owns s"
    using sim_find(1) [OF that] by (simp add: user_backend_def user_ConfigureDevice_def sim_env_def)
  show "\<not> errors_is e ErrNotExist"
    if own: "name \<in> sim_owns s" and r: "bk_Device (user_backend (sim_env pub no_dns)) name s = (Inl e, s')"
  proof -
    obtain p where p: "find (\<lambda>p. name = deviceName p) (map fst (sw_store s)) = Some p"
      using sim_find(2) [OF own] by blast
    then obtain t where t: "map_of (sw_store s) p = Some t" using find_map_of [OF p] by auto
    have "map_sum id (mark_amnezia p) (fst (getDevice (sim_env pub no_dns) p s)) = Inl e"
      using r p by (simp add: user_backend_def user_Device_def sim_env_def case_prod_beta)
    then have "parseDevice pub no_dns (t, None) = Inl e"
      unfolding sim_getDevice [OF t] by (cases "parseDevice pub no_dns (t, None)") auto
    moreover have "plain_reader no_dns" by (simp add: plain_reader_def no_dns_def plain_def)
    ultimately show ?thesis using plain_parseDevice by (auto simp: plain_def)
  qed
  show "\<not> errors_is e ErrNotExist"
    if own: "name \<in> sim_owns s"
      and r: "bk_ConfigureDevice (user_backend (sim_env pub no_dns)) name cfg s = (Some e, s')"
  proof -
    obtain p where p: "find (\<lambda>p. name = deviceName p) (map fst (sw_store s)) = Some p"
      using sim_find(2) [OF own] by blast
    have "configureDevice (ue_sk (sim_env pub no_dns)) False p cfg s = (Some e, s')"
      using r p by (simp add: user_backend_def user_ConfigureDevice_def sim_env_def)
    with sim_configure_plain [of s p pub no_dns cfg e s'] find_map_of [OF p] show ?thesis
      by (simp add: plain_def)
  qed
qed

end
