(* ===== verification/UserSpec.thy ===== *)
theory UserSpec
  imports Client Instances
begin

text \<open>
  The properties of the userspace backend, each with its instance on a concrete configuration.
\<close>

lemma demo_lines: "checkLineValues demo_config = None"
  by (simp add: checkLineValues_None demo_config_def zeroConfig_def cfg_headers_def cfg_inits_def)

lemma demo_zones: "zones_ok demo_config"
  by (simp add: zones_ok_def demo_config_def demo_peer_def)

lemma demo_echo_ok: "echo_ok demo_config"
proof -
  have "short_lines demo_config"
    using demo_endpoint_text demo_ipnet_text
    by (simp add: short_lines_def demo_config_def zeroConfig_def demo_peer_def zeroPeerConfig_def
      config_lines_def device_lines_def peer_lines_def opt_line_def flag_line_def kv_text_def maxLine_def
      hexKey_def itoa_def itoa_nat.simps secs_def second_def)
  moreover have "peer_endpoint_ok \<lparr> ua_IP = [192, 0, 2, 1], ua_Port = 51820, ua_Zone = [] \<rparr>"
    using demo_endpoint_ok by (simp add: peer_endpoint_ok_def endpoint_ok_def)
  ultimately show ?thesis
    using demo_ipnet_ok
    by (simp add: echo_ok_def demo_config_def cfg_wf_def pc_wf_def demo_peer_def zeroConfig_def
      zeroPeerConfig_def key_ok_def KeyLen_def)
qed

section \<open>The protocol\<close>

text \<open>
  C8. The request is what it means: for a configuration that passes validation and the check of its
  line values, and whose endpoint zones have no line break and no equals sign, which neither check looks
  at, the request consists of exactly the lines of its fields, each of which splits at its only equals sign into the field's key and value. Nothing in a
  field's text can add, remove or change another field.
\<close>

theorem request_lines_exact:
  assumes "Validate cfg = None" and "checkLineValues cfg = None" and "zones_ok cfg"
  shows "raw_lines (set_request cfg) = map kv_text ((''set'', ''1'') # config_lines cfg) @ [[]] \<and>
    map (splitOn CHR ''='') (map kv_text (config_lines cfg)) = map (\<lambda>kv. [fst kv, snd kv]) (config_lines cfg)"
proof -
  have ok: "\<forall>kv \<in> set (config_lines cfg). kv_ok kv" using config_lines_kv_ok [OF assms] .
  then have "map (splitOn CHR ''='' \<circ> kv_text) (config_lines cfg) = map (\<lambda>kv. [fst kv, snd kv]) (config_lines cfg)"
    using kv_text_split by simp
  with set_request_lines [OF ok] show ?thesis by simp
qed

theorem request_lines_exact_witness:
  "raw_lines (set_request demo_config) = map kv_text ((''set'', ''1'') # config_lines demo_config) @ [[]]"
  using request_lines_exact [OF demo_config_valid demo_lines demo_zones] by blast

text \<open>
  C3. Round trip through the protocol, for a configuration that passes validation and the check of its
  line values and can be told on the wire (\<open>echo_ok\<close>: keys of 32 bytes, allowed IPs without host bits,
  endpoints with an IP address, a 16-bit port and a zone, if any, of an IPv6 address and without brackets,
  line breaks and equals signs, no line longer than the scanner's buffer). The parser of \<open>get=1\<close> responses, given
  the text written for it, returns the device with its fields and peers, whatever error follows the empty
  line that ends the response. Addresses come back in 16 bytes, keepalives in whole seconds.
\<close>

theorem user_config_reads_back:
  assumes "Validate c = None" and "checkLineValues c = None" and "echo_ok c"
  shows "parseDevice pub dns (writeConfig c @ [LF], rerr) = Inr (echo_device pub c)"
  using parseDevice_echo [OF assms] .

theorem user_config_reads_back_witness:
  "parseDevice id no_dns (writeConfig demo_config @ [LF], None) = Inr (echo_device id demo_config) \<and>
   dev_Peers (echo_device id demo_config) = [echo_peer demo_peer]"
  using user_config_reads_back [OF demo_config_valid demo_lines demo_echo_ok]
  by (simp add: echo_device_def demo_config_def)

lemma splitOn_join: "splitOn c (a @ c # b) = splitOn c a @ splitOn c b"
  by (induction a) (auto split: list.split)

lemma raw_lines_middle:
  assumes "LF \<notin> set b"
  shows "b \<in> set (raw_lines (a @ LF # b @ LF # d))"
  using assms by (simp add: raw_lines_def Let_def splitOn_join butlast_append)

lemma zone_ip: "To4 (replicate 15 0 @ [1]) = None"
  by code_simp

definition zone_config :: Config where
  "zone_config = zeroConfig\<lparr> cfg_Peers := [zeroPeerConfig\<lparr> pc_PublicKey := replicate 32 7,
     pc_Endpoint := Some \<lparr> ua_IP = replicate 15 0 @ [1], ua_Port = 1, ua_Zone = ''x'' @ [LF] @ ''replace_peers=true'' @ [LF] @ ''y'' \<rparr> \<rparr>] \<rparr>"

text \<open>
  C40. The zone of an endpoint escapes the check: a configuration that does not replace the peers,
  passes validation and the check of its line values, is written with a line that does.
\<close>

theorem zone_injects_line:
  "Validate zone_config = None \<and> checkLineValues zone_config = None \<and>
   \<not> cfg_ReplacePeers zone_config \<and> ''replace_peers=true'' \<in> set (raw_lines (set_request zone_config))"
proof (intro conjI)
  have "check_peer p = None" if "p \<in> set (cfg_Peers zone_config)" for p
    using that by (auto simp: zone_config_def check_peer_def zeroPeerConfig_def)
  then show "Validate zone_config = None"
    by (simp add: Validate_def zone_config_def zeroConfig_def check_port_def check_fwmark_def
      check_junk_def check_jmin_def check_padding_def check_init_def cfg_headers_def cfg_inits_def)
  show "checkLineValues zone_config = None"
    by (simp add: checkLineValues_None zone_config_def zeroConfig_def cfg_headers_def cfg_inits_def)
  show "\<not> cfg_ReplacePeers zone_config"
    by (simp add: zone_config_def zeroConfig_def)
  let ?ip = "replicate 15 0 @ [1] :: bytes"
  have colon: "CHR '':'' \<in> set (IP_String ?ip)"
    using v6_String_colon [of ?ip] zone_ip by (simp add: IP_String_def)
  define front where "front = ''set=1'' @ [LF] @ kv_text (''public_key'', hexKey (replicate 32 7)) @ [LF] @
    ''endpoint=['' @ IP_String ?ip @ ''%x''"
  have "set_request zone_config = front @ LF # ''replace_peers=true'' @ LF # ''y]:1'' @ [LF, LF]"
    using colon
    by (simp add: front_def set_request_def writeConfig_def render_def config_lines_def device_lines_def
      peer_lines_def opt_line_def flag_line_def zone_config_def zeroConfig_def zeroPeerConfig_def kv_text_def
      UDPAddr_String_def JoinHostPort_def Let_def itoa_def itoa_nat_digit digit_table)
  then show "''replace_peers=true'' \<in> set (raw_lines (set_request zone_config))"
    by (simp only:) (rule raw_lines_middle, simp_all)
qed

lemma first_failure:
  assumes "dp_err dp = None" and "dp_err (Parse_all dns kvs dp) = Some e"
  shows "\<exists>ks kv ks'. kvs = ks @ kv # ks' \<and> dp_err (Parse_all dns ks dp) = None \<and>
    dp_err (Parse dns (fst kv) (snd kv) (Parse_all dns ks dp)) = Some e"
  using assms
proof (induction kvs arbitrary: dp)
  case (Cons kv kvs)
  let ?dp = "Parse dns (fst kv) (snd kv) dp"
  show ?case
  proof (cases "dp_err ?dp")
    case None
    from Cons.IH [OF this] Cons.prems(2) obtain ks kv' ks' where "kvs = ks @ kv' # ks'"
      "dp_err (Parse_all dns ks ?dp) = None"
      "dp_err (Parse dns (fst kv') (snd kv') (Parse_all dns ks ?dp)) = Some e" by auto
    then show ?thesis by (intro exI [of _ "kv # ks"] exI [of _ kv'] exI [of _ ks']) simp
  next
    case (Some e')
    with Cons.prems(2) have "e' = e" using Parse_all_err [OF Some, of dns kvs] by simp
    with Some Cons.prems(1) show ?thesis by (intro exI [of _ "[]"] exI [of _ kv] exI [of _ kvs]) simp
  qed
qed simp

text \<open>
  C36. Which error a response gives. One that cannot be taken apart, because of a line that is not
  \<open>key=value\<close>, a line that is too long or a failure of the connection before the empty line at its end,
  gives the error of that, whatever its other lines say. Otherwise the error is that of the first line
  whose value the parser refuses, and no later line hides it; a non-zero \<open>errno\<close> is such a line. There
  are no other errors.
\<close>

theorem first_error_reported:
  "parseDevice pub dns (t, rerr) = Inl e \<longleftrightarrow>
    frame rerr (raw_lines t) = Inl e \<or>
    (\<exists>kvs kv kvs'. frame rerr (raw_lines t) = Inr (kvs @ kv # kvs') \<and>
       dp_err (Parse_all dns kvs newParser) = None \<and>
       dp_err (Parse dns (fst kv) (snd kv) (Parse_all dns kvs newParser)) = Some e)"
proof (cases "frame rerr (raw_lines t)")
  case (Inl e')
  then show ?thesis by (simp add: parseDevice_def parse_lines_frame)
next
  case (Inr ls)
  have start: "dp_err newParser = None" by (simp add: newParser_def)
  have "parseDevice pub dns (t, rerr) = Inl e \<longleftrightarrow> dp_err (Parse_all dns ls newParser) = Some e"
    by (simp add: parseDevice_def parse_lines_frame Inr dp_Device_def split: option.split)
  also have "\<dots> \<longleftrightarrow> (\<exists>kvs kv kvs'. ls = kvs @ kv # kvs' \<and> dp_err (Parse_all dns kvs newParser) = None \<and>
       dp_err (Parse dns (fst kv) (snd kv) (Parse_all dns kvs newParser)) = Some e)"
    using first_failure [OF start] Parse_all_err by fastforce
  finally show ?thesis by (simp add: Inr)
qed

lemma errno_text: "atoi ''22'' = Some 22"
  by (simp add: atoi_def parseInt_def parseUint_def digit_val_def)

theorem first_error_reported_witness:
  "parseDevice id no_dns (''errno=22'' @ [LF, LF], None) = Inl (errno_error 22)"
proof -
  have "raw_lines (''errno=22'' @ [LF, LF]) = [''errno=22'', []]" by (simp add: raw_lines_def Let_def)
  moreover have "dropCR ''errno=22'' = ''errno=22''" by (rule dropCR_kv [of "(''errno'', ''22'')",
        unfolded kv_text_def, simplified]) (simp add: kv_ok_def)
  ultimately have "frame None (raw_lines (''errno=22'' @ [LF, LF])) = Inr ([] @ (''errno'', ''22'') # [])"
    by (simp add: maxLine_def)
  moreover have "dp_err (Parse_all no_dns [] newParser) = None" by (simp add: newParser_def)
  moreover have "dp_err (Parse no_dns (fst (''errno'', ''22'')) (snd (''errno'', ''22'')) (Parse_all no_dns [] newParser)) =
      Some (errno_error 22)"
    using Parse_errno [of newParser "''22''" 22] errno_text by (simp add: newParser_def read_int_def)
  ultimately show ?thesis unfolding first_error_reported by blast
qed

text \<open>
  The parser never indexes a peer that does not exist: after any lines, its count of peers is the
  length of the device's list, and it is in the peer section exactly when there is one.
\<close>

theorem parser_indexes_peers:
  "dp_peers (Parse_all dns kvs newParser) = length (dev_Peers (dp_d (Parse_all dns kvs newParser))) \<and>
   (dp_parsePeers (Parse_all dns kvs newParser) \<longleftrightarrow> 0 < dp_peers (Parse_all dns kvs newParser))"
  using Parse_all_ok [OF dp_ok_newParser] by (simp add: dp_ok_def)

text \<open>
  The two lines of the handshake time may come in either order: both give the peer the time made
  of both, and no time when both are zero.
\<close>

theorem handshake_order_irrelevant:
  assumes "dp_parsePeers (Parse_all dns kvs newParser)" and "dp_err (Parse_all dns kvs newParser) = None"
    and "read_int a = Inr x" and "read_int b = Inr y"
  defines "sec \<equiv> (''last_handshake_time_sec'', a)" and "nsec \<equiv> (''last_handshake_time_nsec'', b)"
  shows "Parse_all dns (kvs @ [sec, nsec]) newParser = Parse_all dns (kvs @ [nsec, sec]) newParser \<and>
    peer_LastHandshakeTime (curPeer (Parse_all dns (kvs @ [sec, nsec]) newParser)) =
      (if x = 0 \<and> y = 0 then ZeroTime else time_Unix x y)"
proof -
  let ?dp = "Parse_all dns kvs newParser"
  have ok: "dp_ok ?dp" by (rule Parse_all_ok [OF dp_ok_newParser])
  note lines = handshake_lines [OF ok assms(1-4), of dns]
  show ?thesis
    using dp_ok_index [OF ok assms(1)]
    by (simp add: sec_def nsec_def lines curPeer_def on_peer_def on_device_def handshake_time_def)
qed

theorem handshake_order_irrelevant_witness:
  "\<exists>kvs. dp_parsePeers (Parse_all no_dns kvs newParser) \<and>
     peer_LastHandshakeTime (curPeer (Parse_all no_dns (kvs @ [(''last_handshake_time_sec'', ''22''),
       (''last_handshake_time_nsec'', ''22'')]) newParser)) = time_Unix 22 22"
proof -
  let ?kvs = "[(''public_key'', hexKey (replicate 32 7))]"
  have "key_ok (replicate 32 7)" by (simp add: key_ok_def KeyLen_def)
  then have p: "dp_parsePeers (Parse_all no_dns ?kvs newParser)" "dp_err (Parse_all no_dns ?kvs newParser) = None"
    using startPeer_echo [of newParser "replicate 32 7"] by (simp_all add: Parse_public_key newParser_def add_peer_def)
  have "read_int ''22'' = Inr 22" by (simp add: read_int_def errno_text)
  from handshake_order_irrelevant [OF p this this, THEN conjunct2] p(1) show ?thesis
    by (intro exI [of _ ?kvs]) (simp del: Parse_all_simps)
qed

section \<open>The client\<close>

text \<open>
  C17. No operation leaks a connection: in every world in which dialing opens a connection and closing
  closes it, \<open>Devices\<close>, \<open>Device\<close> and \<open>ConfigureDevice\<close> leave the same connections open as before, on
  every path, errors included.
\<close>

theorem connections_closed:
  assumes "socket_env env live"
  shows "live (snd (user_Devices env s)) = live s \<and> live (snd (user_Device env name s)) = live s \<and>
    live (snd (user_ConfigureDevice env name cfg s)) = live s"
  using socket_env.client_live [OF assms] by blast

definition sim_world :: simworld where
  "sim_world = \<lparr> sw_next = 0, sw_open = [], sw_store = [(''/var/run/amneziawg/awg0.sock'', [])] \<rparr>"

theorem connections_closed_witness:
  "sim_live (snd (user_Devices (sim_env id no_dns) sim_world)) = {#}"
  using connections_closed [OF sim.socket_env_axioms] by (simp add: sim_live_def sim_world_def)

text \<open>
  A device is called after its socket and recognised as AmneziaWG by its directory: for the
  sockets that \<open>find\<close> returns for the files of the two directories.
\<close>

theorem socket_paths:
  assumes "CHR ''/'' \<notin> set n"
  shows "deviceName (filepath_Join ''/var/run/wireguard'' (n @ ''.sock'')) = n \<and>
    deviceName (filepath_Join ''/var/run/amneziawg'' (n @ ''.sock'')) = n \<and>
    isAmneziaSocket (filepath_Join ''/var/run/amneziawg'' (n @ ''.sock'')) \<and>
    \<not> isAmneziaSocket (filepath_Join ''/var/run/wireguard'' (n @ ''.sock''))"
proof -
  have f: "file_name (n @ ''.sock'')" using assms by (auto simp: file_name_def Cons_eq_append_conv)
  show ?thesis
    using amnezia_path [OF f] deviceName_sock [OF assms, of "''/var/run/wireguard''"]
      deviceName_sock [OF assms, of "''/var/run/amneziawg''"]
    by (simp add: Join_var_run [OF f])
qed

theorem socket_paths_witness: "deviceName (filepath_Join ''/var/run/amneziawg'' ''awg0.sock'') = ''awg0''"
  using socket_paths [of "''awg0''"] by simp

text \<open>What the directories hold, as the search for sockets is to report it.\<close>

fun sockets_in :: "(string \<Rightarrow> go_error + (string \<times> bool) list) \<Rightarrow> string list \<Rightarrow> string list" where
  "sockets_in rd [] = []"
| "sockets_in rd (d # ds) =
     (case rd d of Inl e \<Rightarrow> [] | Inr files \<Rightarrow> map (\<lambda>f. filepath_Join d (fst f)) (filter snd files)) @ sockets_in rd ds"

definition dir_error :: "(string \<Rightarrow> go_error + (string \<times> bool) list) \<Rightarrow> string \<Rightarrow> go_error option" where
  "dir_error rd d = (case rd d of Inl e \<Rightarrow> if errors_is e ErrNotExist then None else Some e | Inr _ \<Rightarrow> None)"

text \<open>
  The search for sockets reports every socket of every directory that exists, in order, and fails
  exactly with the first error of a directory that is not its absence.
\<close>

theorem findUNIXSockets_finds:
  "findUNIXSockets (\<lambda>d s. (rd d, s)) ds s =
     ((case first_error (map (dir_error rd) ds) of Some e \<Rightarrow> Inl e | None \<Rightarrow> Inr (sockets_in rd ds)), s)"
  by (induction ds) (auto simp: dir_error_def case_prod_beta split: sum.splits option.splits)

text \<open>
  Configure, then read: in a world of daemons that keep what they are sent, the device read after a
  successful configuration is the one configured, under its name.
\<close>

theorem configure_then_read:
  assumes "find (\<lambda>p. name = deviceName p) (map fst (sw_store s)) = Some p"
    and "Validate cfg = None" and "checkLineValues cfg = None" and "echo_ok cfg"
  shows "\<exists>s'. user_ConfigureDevice (sim_env pub dns) name cfg s = (None, s') \<and>
    fst (user_Device (sim_env pub dns) name s') =
      Inr (mark_amnezia p ((echo_device pub cfg)\<lparr> dev_Name := name, dev_Type := Userspace \<rparr>))"
  using sim_configure_then_read [OF assms] .

lemma sim_world_name: "deviceName ''/var/run/amneziawg/awg0.sock'' = ''awg0''"
  using deviceName_sock [of "''awg0''" "''/var/run/amneziawg''"] by simp

theorem configure_then_read_witness:
  "\<exists>s'. user_ConfigureDevice (sim_env id no_dns) ''awg0'' demo_config sim_world = (None, s')"
  using configure_then_read [OF _ demo_config_valid demo_lines demo_echo_ok, of "''awg0''" sim_world
      "''/var/run/amneziawg/awg0.sock''" id no_dns] sim_world_name
  by (auto simp: sim_world_def)

end
