(* ===== verification/Memory.thy ===== *)
theory Memory
  imports Netlink
begin

text \<open>
  Memory that the code reads and writes through \<open>unsafe\<close> pointers: structures at offsets of a byte
  buffer, little-endian as on all architectures of these backends. A read outside of the buffer and a
  panic of the Go runtime are the two ways to crash. The locale \<open>c_struct\<close> relates the image of a
  structure and the reading of its fields; sequences of structures are read back for every instance.
\<close>

section \<open>Crashes and reads\<close>

datatype crash = BadRead | Panic string

definition mem_read :: "bytes \<Rightarrow> nat \<Rightarrow> nat \<Rightarrow> crash + bytes" where
  "mem_read m off n = (if off + n \<le> length m then Inr (take n (drop off m)) else Inl BadRead)"

text \<open>A little-endian integer of \<open>n\<close> bytes.\<close>

definition mem_int :: "bytes \<Rightarrow> nat \<Rightarrow> nat \<Rightarrow> crash + nat" where
  "mem_int m off n = res_bind (mem_read m off n) (\<lambda>b. Inr (host_get False b))"

definition le :: "nat \<Rightarrow> nat \<Rightarrow> bytes" where
  "le n v = host_put False n v"

lemma length_le [simp]: "length (le n v) = n"
  by (simp add: le_def)

text \<open>Padding.\<close>

definition pad :: "nat \<Rightarrow> bytes" where
  "pad n = replicate n 0"

lemma length_pad [simp]: "length (pad n) = n"
  by (simp add: pad_def)

lemma host_get_le: "host_get False (le n v) = v mod 256 ^ n"
  by (simp add: le_def host_get_put)

lemma mem_read_at: "length pre = off \<Longrightarrow> length f = n \<Longrightarrow> mem_read (pre @ f @ post) off n = Inr f"
  by (simp add: mem_read_def)

lemma mem_int_at: "length pre = off \<Longrightarrow> mem_int (pre @ le n v @ post) off n = Inr (v mod 256 ^ n)"
  by (simp add: mem_int_def mem_read_at host_get_le)

text \<open>Reading past what stands before a structure.\<close>

lemma mem_read_skip: "mem_read (pre @ m) (length pre + off) n = mem_read m off n"
  by (simp add: mem_read_def)

lemma mem_int_skip: "mem_int (pre @ m) (length pre + off) n = mem_int m off n"
  by (simp add: mem_int_def mem_read_skip)

lemma mem_read_0: "length f = n \<Longrightarrow> mem_read (f @ post) 0 n = Inr f"
  by (simp add: mem_read_def)

lemma mem_int_0: "mem_int (le n v @ post) 0 n = Inr (v mod 256 ^ n)"
  by (simp add: mem_int_def mem_read_0 host_get_le)

lemma mem_read_next: "length f \<le> off \<Longrightarrow> mem_read (f @ m) off n = mem_read m (off - length f) n"
  by (auto simp: mem_read_def)

lemma mem_int_next: "length f \<le> off \<Longrightarrow> mem_int (f @ m) off n = mem_int m (off - length f) n"
  by (simp add: mem_int_def mem_read_next)

lemmas mem_simps = mem_read_0 mem_int_0 mem_read_next mem_int_next

text \<open>Words are read as they were written.\<close>

lemma unat_word_bound: "unat (x :: 'a::len word) < 2 ^ LENGTH('a)"
  by (rule unsigned_less)

lemma word_of_le [simp]:
  "of_nat (unat (a :: 8 word) mod 256) = a"
  "of_nat (unat (b :: 16 word) mod 65536) = b"
  "of_nat (unat (c :: 32 word) mod 4294967296) = c"
  "of_nat (unat (d :: 64 word) mod 18446744073709551616) = d"
  using unat_word_bound [of a] unat_word_bound [of b] unat_word_bound [of c] unat_word_bound [of d]
  by simp_all

section \<open>Structures\<close>

text \<open>\<open>put x\<close> is the image of a structure of size \<open>sz\<close>; \<open>get m off\<close> reads the one at an offset.\<close>

locale c_struct =
  fixes put_s :: "'a \<Rightarrow> bytes"
    and get_s :: "bytes \<Rightarrow> nat \<Rightarrow> crash + 'a"
    and sz :: nat
    and ok :: "'a \<Rightarrow> bool"
  assumes put_length: "ok x \<Longrightarrow> length (put_s x) = sz"
    and get_put: "ok x \<Longrightarrow> get_s (put_s x @ post) 0 = Inr x"
    and get_skip: "get_s (pre @ m) (length pre + off) = get_s m off"

text \<open>An array of structures one after the other.\<close>

fun read_items :: "(nat \<Rightarrow> crash + 'a) \<Rightarrow> nat \<Rightarrow> nat \<Rightarrow> nat \<Rightarrow> crash + 'a list" where
  "read_items get sz 0 off = Inr []"
| "read_items get sz (Suc n) off =
     res_bind (get off) (\<lambda>x. res_bind (read_items get sz n (off + sz)) (\<lambda>xs. Inr (x # xs)))"

context c_struct
begin

lemma read_items_put:
  assumes "list_all ok xs"
  shows "read_items (get_s (pre @ concat (map put_s xs) @ post)) sz (length xs) (length pre) = Inr xs"
  using assms
proof (induction xs arbitrary: pre)
  case (Cons x xs)
  have "get_s (pre @ put_s x @ concat (map put_s xs) @ post) (length pre + 0) = Inr x"
    unfolding get_skip using get_put Cons.prems by simp
  moreover have "read_items (get_s ((pre @ put_s x) @ concat (map put_s xs) @ post)) sz (length xs)
      (length (pre @ put_s x)) = Inr xs"
    by (rule Cons.IH) (use Cons.prems in simp)
  ultimately show ?case using put_length Cons.prems by simp
qed simp

end

text \<open>
  Peers, each followed by its own array: \<open>count\<close> is the length of the array as the peer states it.
\<close>

fun read_nested :: "(nat \<Rightarrow> crash + 'p) \<Rightarrow> nat \<Rightarrow> ('p \<Rightarrow> nat) \<Rightarrow> (nat \<Rightarrow> crash + 'a) \<Rightarrow> nat \<Rightarrow>
    nat \<Rightarrow> nat \<Rightarrow> crash + ('p \<times> 'a list) list" where
  "read_nested getp psz count geta asz 0 off = Inr []"
| "read_nested getp psz count geta asz (Suc n) off =
     res_bind (getp off) (\<lambda>p.
     res_bind (read_items geta asz (count p) (off + psz)) (\<lambda>as.
     res_bind (read_nested getp psz count geta asz n (off + psz + count p * asz)) (\<lambda>ps.
       Inr ((p, as) # ps))))"

definition put_nested :: "('p \<Rightarrow> bytes) \<Rightarrow> ('a \<Rightarrow> bytes) \<Rightarrow> ('p \<times> 'a list) list \<Rightarrow> bytes" where
  "put_nested putp puta xs = concat (map (\<lambda>(p, as). putp p @ concat (map puta as)) xs)"

lemma read_nested_put:
  assumes p: "c_struct putp getp psz okp" and a: "c_struct puta geta asz oka"
    and ok: "list_all (\<lambda>(p, as). okp p \<and> list_all oka as \<and> count p = length as) xs"
  shows "read_nested (getp (pre @ put_nested putp puta xs @ post)) psz count
      (geta (pre @ put_nested putp puta xs @ post)) asz (length xs) (length pre) = Inr xs"
  using ok
proof (induction xs arbitrary: pre)
  case (Cons x xs)
  obtain p "as" where x: "x = (p, as)" by force
  with Cons.prems have okp: "okp p" and oka: "list_all oka as" and c: "count p = length as" by auto
  let ?as = "concat (map puta as)" and ?rest = "put_nested putp puta xs @ post"
  let ?m = "pre @ putp p @ ?as @ ?rest"
  have m: "pre @ put_nested putp puta (x # xs) @ post = ?m" by (simp add: x put_nested_def)
  have "length ?as = length as * asz"
    using oka by (induction "as") (auto simp: c_struct.put_length [OF a])
  moreover have "getp ?m (length pre + 0) = Inr p"
    unfolding c_struct.get_skip [OF p] using c_struct.get_put [OF p okp] by simp
  moreover have "read_items (geta ((pre @ putp p) @ ?as @ ?rest)) asz (length as) (length (pre @ putp p)) = Inr as"
    by (rule c_struct.read_items_put [OF a oka])
  moreover have "read_nested (getp ((pre @ putp p @ ?as) @ put_nested putp puta xs @ post)) psz count
      (geta ((pre @ putp p @ ?as) @ put_nested putp puta xs @ post)) asz (length xs)
      (length (pre @ putp p @ ?as)) = Inr xs"
    by (rule Cons.IH) (use Cons.prems in simp)
  ultimately show ?case
    unfolding m using c c_struct.put_length [OF p okp] by (simp add: x add.assoc)
qed simp

text \<open>Structures that are converted while they are read.\<close>

lemma read_items_conv:
  "read_items get sz n off = Inr xs \<Longrightarrow> list_all2 (\<lambda>x y. f x = Inr y) xs ys \<Longrightarrow>
   read_items (\<lambda>o'. res_bind (get o') f) sz n off = Inr ys"
proof (induction n arbitrary: off xs ys)
  case (Suc n)
  then show ?case by (fastforce simp: res_bind_Inr list_all2_Cons1)
qed simp

lemma read_nested_conv:
  assumes "read_nested getp psz count geta asz n off = Inr xs"
    and "list_all2 (\<lambda>(p, as) (q, bs). fp p = Inr q \<and> count' q = count p \<and>
      list_all2 (\<lambda>a b. fa a = Inr b) as bs) xs ys"
  shows "read_nested (\<lambda>o'. res_bind (getp o') fp) psz count' (\<lambda>o'. res_bind (geta o') fa) asz n off = Inr ys"
  using assms
proof (induction n arbitrary: off xs ys)
  case (Suc n)
  from Suc.prems(1) obtain p "as" ps where p: "getp off = Inr p"
    and "as": "read_items geta asz (count p) (off + psz) = Inr as"
    and ps: "read_nested getp psz count geta asz n (off + psz + count p * asz) = Inr ps"
    and xs: "xs = (p, as) # ps"
    by (auto simp: res_bind_Inr)
  from Suc.prems(2) xs obtain q bs qs where ys: "ys = (q, bs) # qs"
    and q: "fp p = Inr q" "count' q = count p" "list_all2 (\<lambda>a b. fa a = Inr b) as bs"
    and rest: "list_all2 (\<lambda>(p, as) (q, bs). fp p = Inr q \<and> count' q = count p \<and>
      list_all2 (\<lambda>a b. fa a = Inr b) as bs) ps qs"
    by (auto simp: list_all2_Cons1)
  show ?case
    using Suc.IH [OF ps rest] read_items_conv [OF "as" q(3)] p q(1,2) ys by simp
qed simp

end
