(* ===== verification/Layout.thy ===== *)
theory Layout
  imports Memory
begin

text \<open>
  Where the fields of a structure lie. The Go compiler and the C compiler of the kernel compute that
  from the field types by the same rule, but with other alignments of 64-bit integers on 32-bit
  machines. The structures are those of \<open>internal/wgh\<close> of the FreeBSD and OpenBSD backends, which are
  given to the kernel as they are: one file for each architecture.
\<close>

section \<open>Architectures\<close>

datatype goarch = AMD64 | ARM64 | I386 | ARM

instantiation goarch :: enum
begin

definition enum_goarch :: "goarch list" where
  "enum_goarch = [AMD64, ARM64, I386, ARM]"

definition enum_all_goarch :: "(goarch \<Rightarrow> bool) \<Rightarrow> bool" where
  "enum_all_goarch P \<longleftrightarrow> P AMD64 \<and> P ARM64 \<and> P I386 \<and> P ARM"

definition enum_ex_goarch :: "(goarch \<Rightarrow> bool) \<Rightarrow> bool" where
  "enum_ex_goarch P \<longleftrightarrow> P AMD64 \<or> P ARM64 \<or> P I386 \<or> P ARM"

instance
proof
  have U: "UNIV = {AMD64, ARM64, I386, ARM}" using goarch.exhaust by auto
  show "UNIV = set (enum_class.enum :: goarch list)" by (simp add: U enum_goarch_def)
  show "distinct (enum_class.enum :: goarch list)" by (simp add: enum_goarch_def)
  show "\<And>P. (enum_class.enum_all :: (goarch \<Rightarrow> bool) \<Rightarrow> bool) P = Ball UNIV P" by (simp add: U enum_all_goarch_def)
  show "\<And>P. (enum_class.enum_ex :: (goarch \<Rightarrow> bool) \<Rightarrow> bool) P = Bex UNIV P" by (simp add: U enum_ex_goarch_def)
qed

end

lemma forall_goarch: "(\<forall>a. P a) \<longleftrightarrow> P AMD64 \<and> P ARM64 \<and> P I386 \<and> P ARM"
  by (metis goarch.exhaust)

text \<open>Bytes of a pointer, which are also those of Go's \<open>int\<close> and of C's \<open>size_t\<close>; a 64-bit word read as an \<open>int\<close>.\<close>

fun ptr_size :: "goarch \<Rightarrow> nat" where
  "ptr_size AMD64 = 8"
| "ptr_size ARM64 = 8"
| "ptr_size I386 = 4"
| "ptr_size ARM = 4"

definition max_int :: "goarch \<Rightarrow> nat" where
  "max_int a = 2 ^ (8 * ptr_size a - 1)"

definition go_int :: "goarch \<Rightarrow> 64 word \<Rightarrow> int" where
  "go_int a w = signed_take_bit (8 * ptr_size a - 1) (uint w)"

lemma ptr_size_bounds: "ptr_size a = 4 \<or> ptr_size a = 8"
  by (cases a) simp_all

lemma max_int_bound: "max_int a \<le> 2 ^ 63"
  using ptr_size_bounds [of a] by (auto simp: max_int_def)

lemma go_int_of_nat: "n < max_int a \<Longrightarrow> go_int a (of_nat n) = int n"
proof -
  assume n: "n < max_int a"
  then have "n < 2 ^ 63" using max_int_bound [of a] by linarith
  then have "uint (of_nat n :: 64 word) = int n" by (simp add: unsigned_of_nat take_bit_nat_eq_self)
  moreover have "int n < 2 ^ (8 * ptr_size a - 1)"
    using n unfolding max_int_def by (metis of_nat_less_iff of_nat_numeral of_nat_power)
  then have "signed_take_bit (8 * ptr_size a - 1) (int n) = int n"
    by (intro signed_take_bit_int_eq_self) (auto intro: order_trans [of _ 0])
  ultimately show ?thesis by (simp only: go_int_def)
qed

section \<open>Layout\<close>

text \<open>
  The types that fields have: integers of so many bytes, pointers, arrays and structures. A structure has
  no padding of its own in this list.
\<close>

datatype ctyp = Num nat | Ptr | Arr nat ctyp | Struct "ctyp list"

datatype abi = GoABI | CABI

fun int_align :: "abi \<Rightarrow> goarch \<Rightarrow> nat" where
  "int_align GoABI a = ptr_size a"
| "int_align CABI ARM = 8"
| "int_align CABI a = ptr_size a"

fun align_of :: "abi \<Rightarrow> goarch \<Rightarrow> ctyp \<Rightarrow> nat" where
  "align_of abi a (Num n) = min n (int_align abi a)"
| "align_of abi a Ptr = ptr_size a"
| "align_of abi a (Arr n t) = align_of abi a t"
| "align_of abi a (Struct ts) = fold max (map (align_of abi a) ts) 1"

definition align_up :: "nat \<Rightarrow> nat \<Rightarrow> nat" where
  "align_up p al = (p + al - 1) div al * al"

fun size_of :: "abi \<Rightarrow> goarch \<Rightarrow> ctyp \<Rightarrow> nat" where
  "size_of abi a (Num n) = n"
| "size_of abi a Ptr = ptr_size a"
| "size_of abi a (Arr n t) = n * size_of abi a t"
| "size_of abi a (Struct ts) =
     align_up (fold (\<lambda>t p. align_up p (align_of abi a t) + size_of abi a t) ts 0) (align_of abi a (Struct ts))"

fun offsets :: "abi \<Rightarrow> goarch \<Rightarrow> nat \<Rightarrow> ctyp list \<Rightarrow> nat list" where
  "offsets abi a p [] = []"
| "offsets abi a p (t # ts) =
     (let off = align_up p (align_of abi a t) in off # offsets abi a (off + size_of abi a t) ts)"

type_synonym fields = "(string \<times> ctyp) list"

definition struct_of :: "fields \<Rightarrow> ctyp" where
  "struct_of fs = Struct (map snd fs)"

definition struct_size :: "abi \<Rightarrow> goarch \<Rightarrow> fields \<Rightarrow> nat" where
  "struct_size abi a fs = size_of abi a (struct_of fs)"

definition layout :: "abi \<Rightarrow> goarch \<Rightarrow> fields \<Rightarrow> (string \<times> nat) list" where
  "layout abi a fs = zip (map fst fs) (offsets abi a 0 (map snd fs))"

definition field_at :: "goarch \<Rightarrow> fields \<Rightarrow> string \<Rightarrow> nat" where
  "field_at a fs f = the (map_of (layout GoABI a fs) f)"

definition field_size :: "goarch \<Rightarrow> fields \<Rightarrow> string \<Rightarrow> nat" where
  "field_size a fs f = size_of GoABI a (the (map_of fs f))"

lemmas layout_defs = layout_def struct_size_def struct_of_def align_up_def

abbreviation Byte :: ctyp where "Byte \<equiv> Num 1"

text \<open>
  \<open>_IOWR\<close> of the system headers: the number of a request that is given a structure and gives it back
  carries the structure's size.
\<close>

definition iowr :: "char \<Rightarrow> nat \<Rightarrow> nat \<Rightarrow> nat" where
  "iowr g num sz = 0xc0000000 + (sz mod 0x2000) * 0x10000 + of_char g * 0x100 + num"

end
