(* ===== verification/Ioctl.thy ===== *)
theory Ioctl
  imports Layout LinuxEcho
begin

text \<open>
  What the backends share that read structures of a kernel: the \<open>ioctl\<close> call and the errors made of it, device names
  of sixteen bytes, the loop of \<open>Device\<close> that grows a buffer until the kernel's data fits, socket
  addresses in memory, and the listing of the interface group. The system call is a parameter over the
  state of the outside world. A function may return an error or crash, hence \<open>failure\<close>.
\<close>

section \<open>Errors of the system call\<close>

datatype failure = Crash crash | Fail go_error

definition crashing :: "crash + 'a \<Rightarrow> failure + 'a" where
  "crashing = map_sum Crash id"

lemma crashing_simps [simp]: "crashing (Inl c) = Inl (Crash c)" "crashing (Inr x) = Inr x"
  by (simp_all add: crashing_def)

text \<open>The hook made of the raw call, which gives an \<open>errno\<close> and the argument it wrote into.\<close>

definition ioctl :: "('r \<Rightarrow> 'a \<Rightarrow> 's \<Rightarrow> (nat \<times> 'a) \<times> 's) \<Rightarrow> 'r \<Rightarrow> 'a \<Rightarrow> 's \<Rightarrow> (go_error + 'a) \<times> 's" where
  "ioctl syscall req arg s =
     (case syscall req arg s of ((errno, arg'), s') \<Rightarrow>
        (if errno \<noteq> 0 then Inl (SyscallError ''ioctl'' (Errno errno)) else Inr arg', s'))"

text \<open>
  \<open>switch err.(*os.SyscallError).Err\<close>: the numbers that mean that there is no such device; the type
  assertion panics for another error.
\<close>

definition conform :: "nat list \<Rightarrow> go_error \<Rightarrow> failure" where
  "conform gone e =
     (case e of
        SyscallError s inner \<Rightarrow> Fail (if inner \<in> Errno ` set gone then ErrNotExist else e)
      | _ \<Rightarrow> Crash (Panic ''interface conversion''))"

definition ENXIO :: nat where "ENXIO = 6"

lemma conform_ioctl:
  "fst (ioctl sc req arg s) = Inl e \<Longrightarrow>
   \<exists>errno. fst (fst (sc req arg s)) = errno \<and> errno \<noteq> 0 \<and>
     conform gone e = Fail (if errno \<in> set gone then ErrNotExist else SyscallError ''ioctl'' (Errno errno))"
  by (auto simp: ioctl_def conform_def split: prod.splits if_splits)

section \<open>Names\<close>

definition bsd_IFNAMSIZ :: nat where "bsd_IFNAMSIZ = 16"

text \<open>\<open>deviceName\<close>; the message starts with the package's name.\<close>

definition ioctl_name :: "string \<Rightarrow> string \<Rightarrow> go_error + bytes" where
  "ioctl_name pkg name =
     (if bsd_IFNAMSIZ < length name then Inl (ErrText (pkg @ '': interface name too long''))
      else Inr (string_bytes name @ replicate (bsd_IFNAMSIZ - length name) 0))"

text \<open>\<open>string(bytes.TrimRight(b, "\x00"))\<close>\<close>

definition trimmed_name :: "bytes \<Rightarrow> string" where
  "trimmed_name b = bytes_string (rev (dropWhile (\<lambda>x. x = 0) (rev b)))"

lemma ioctl_name_length: "ioctl_name pkg name = Inr b \<Longrightarrow> length b = 16"
  by (auto simp: ioctl_name_def bsd_IFNAMSIZ_def split: if_splits)

lemma string_bytes_last: "CHR 0x00 \<notin> set s \<Longrightarrow> x \<in> set (string_bytes s) \<Longrightarrow> x \<noteq> 0"
proof -
  assume s: "CHR 0x00 \<notin> set s" and "x \<in> set (string_bytes s)"
  then obtain c where c: "c \<in> set s" "x = of_nat (of_char c)" by (auto simp: string_bytes_def)
  show "x \<noteq> 0"
  proof
    assume "x = 0"
    with c have "unat (of_nat (of_char c) :: byte) = 0" by simp
    then have "(of_char c :: nat) = 0" by (simp add: unat_of_nat_byte)
    moreover have "(of_char (CHR 0x00) :: nat) = 0" by simp
    ultimately have "c = CHR 0x00" using of_char_eq_iff [where ?'a = nat] by metis
    with s c show False by simp
  qed
qed

lemma dropWhile_none: "(\<And>x. x \<in> set xs \<Longrightarrow> \<not> P x) \<Longrightarrow> dropWhile P xs = xs"
  by (cases xs) auto

lemma trimmed_ioctl_name:
  assumes "ioctl_name pkg name = Inr b" and "CHR 0x00 \<notin> set name"
  shows "trimmed_name b = name"
proof -
  have "dropWhile (\<lambda>x. x = 0) (replicate n 0 @ xs) = dropWhile (\<lambda>x. x = 0) xs" for n and xs :: bytes
    by (induction n) simp_all
  moreover have "dropWhile (\<lambda>x. x = 0) (rev (string_bytes name)) = rev (string_bytes name)"
    by (rule dropWhile_none) (simp add: string_bytes_last [OF assms(2)])
  ultimately show ?thesis
    using assms(1) by (auto simp: ioctl_name_def trimmed_name_def bytes_string_bytes split: if_splits)
qed

section \<open>The buffer that grows\<close>

text \<open>
  The loop of \<open>Device\<close>: the kernel is given a buffer and its size, and writes its data, if that fits,
  and the size it needs. The loop ends when the buffer is large enough; \<open>check\<close> rejects a size, \<open>gone\<close>
  are the numbers for \<open>conform\<close>. The size is compared as an \<open>int\<close>, which is signed and on some machines
  shorter, and \<open>make\<close> panics for a size that is no \<open>int\<close>. Memory is taken to be there for every buffer.
\<close>

type_synonym 's ioctl_get = "64 word \<Rightarrow> bytes \<Rightarrow> 's \<Rightarrow> (go_error + 64 word \<times> bytes) \<times> 's"

partial_function (option) grow_loop ::
    "goarch \<Rightarrow> 's ioctl_get \<Rightarrow> nat list \<Rightarrow> (64 word \<Rightarrow> go_error option) \<Rightarrow> 64 word \<Rightarrow> bytes \<Rightarrow> 's \<Rightarrow>
     ((failure + bytes) \<times> 's) option" where
  "grow_loop a io gone check sz mem s =
     (case io sz mem s of
        (Inl e, s') \<Rightarrow> Some (Inl (conform gone e), s')
      | (Inr (sz', mem'), s') \<Rightarrow>
          if go_int a sz' \<le> int (length mem) then Some (Inr mem', s')
          else case check sz' of
              Some e \<Rightarrow> Some (Inl (Fail e), s')
            | None \<Rightarrow>
                if max_int a \<le> unat sz' then Some (Inl (Crash (Panic ''makeslice: len out of range'')), s')
                else grow_loop a io gone check sz' (replicate (unat sz') 0) s')"

text \<open>
  A kernel whose device has the image \<open>img s\<close> in state \<open>s\<close>, and which is in state \<open>next s\<close> after a call:
  it writes the image if the buffer has room for it, and the image's size.
\<close>

definition serve :: "('s \<Rightarrow> bytes) \<Rightarrow> ('s \<Rightarrow> 's) \<Rightarrow> 's ioctl_get" where
  "serve img nxt sz mem s =
     (Inr (of_nat (length (img s)),
           if length (img s) \<le> length mem then img s @ drop (length (img s)) mem else mem), nxt s)"

lemma sint_of_nat_64: "n < 2 ^ 63 \<Longrightarrow> sint (of_nat n :: 64 word) = int n"
  by (simp add: signed_of_nat signed_take_bit_int_eq_self)

lemma unat_of_nat_64: "n < 2 ^ 63 \<Longrightarrow> unat (of_nat n :: 64 word) = n"
  by (simp add: unsigned_of_nat take_bit_nat_eq_self)

lemma unat_of_nat_int: "n < max_int a \<Longrightarrow> unat (of_nat n :: 64 word) = n"
  using max_int_bound [of a] by (intro unat_of_nat_64) linarith

text \<open>
  Against such a kernel the loop ends, whatever happens to the device between two calls, if the images
  stay below some bound: each new buffer is larger than the one before.
\<close>

lemma grow_loop_serves:
  assumes "\<forall>s. length (img s) \<le> B" and "B < max_int a" and "\<forall>s. check (of_nat (length (img s))) = None"
  shows "\<exists>s' pad. grow_loop a (serve img nxt) gone check sz mem s = Some (Inr (img s' @ pad), nxt s')"
proof (induction "B - length mem" arbitrary: sz mem s rule: less_induct)
  case less
  let ?n = "length (img s)"
  have n: "?n < max_int a" using assms(1,2) by (metis le_less_trans)
  then have u: "unat (of_nat ?n :: 64 word) = ?n" by (rule unat_of_nat_int)
  note step = grow_loop.simps [of a "serve img nxt" gone check sz mem s]
  show ?case
  proof (cases "?n \<le> length mem")
    case True
    then have "grow_loop a (serve img nxt) gone check sz mem s = Some (Inr (img s @ drop ?n mem), nxt s)"
      using n by (simp add: step serve_def go_int_of_nat)
    then show ?thesis by blast
  next
    case False
    let ?mem = "replicate ?n 0 :: bytes"
    have "B - length ?mem < B - length mem" using False assms(1) [THEN spec, of s] by simp
    from less [OF this] obtain s' pad where
      "grow_loop a (serve img nxt) gone check (of_nat ?n) ?mem (nxt s) = Some (Inr (img s' @ pad), nxt s')"
      by blast
    moreover have "grow_loop a (serve img nxt) gone check sz mem s =
        grow_loop a (serve img nxt) gone check (of_nat ?n) ?mem (nxt s)"
      using False n assms(3) u by (simp add: step serve_def go_int_of_nat)
    ultimately show ?thesis by auto
  qed
qed

text \<open>A device that does not change is read with the second call, into a buffer of its size.\<close>

lemma grow_loop_still:
  assumes "length (img s) < max_int a" and "check (of_nat (length (img s))) = None"
  shows "grow_loop a (serve img id) gone check 0 [] s = Some (Inr (img s), s)"
proof -
  let ?io = "serve img id" and ?n = "of_nat (length (img s)) :: 64 word"
  have u: "unat ?n = length (img s)" using assms(1) by (rule unat_of_nat_int)
  have "grow_loop a ?io gone check ?n (replicate (length (img s)) 0) s = Some (Inr (img s), s)"
    using assms(1) by (simp add: grow_loop.simps [of a ?io gone check ?n] serve_def go_int_of_nat)
  then show ?thesis
    using assms u by (simp add: grow_loop.simps [of a ?io gone check 0 "[]"] serve_def go_int_of_nat)
qed

section \<open>Socket addresses\<close>

text \<open>
  A port is stored big-endian. The code loads it as an integer of the machine, which is little-endian,
  and swaps that integer's bytes: \<open>ntohs\<close> and \<open>htons\<close>.
\<close>

definition ntohs :: "u16 \<Rightarrow> int" where
  "ntohs i = int (be_get (le 2 (unat i)))"

definition htons :: "int \<Rightarrow> u16" where
  "htons i = of_nat (host_get False (be_put 2 (unat (of_int i :: u16))))"

lemma le_2: "le 2 n = [of_nat n, of_nat (n div 256)]"
  by (simp add: le_def host_put_def be_put_2)

lemma le_of_le: "length b = 2 \<Longrightarrow> le 2 (host_get False b) = b"
  using be_put_get [of "rev b"] by (simp add: le_def host_put_def host_get_def)

lemma unat_host_get_2: "length b = 2 \<Longrightarrow> unat (of_nat (host_get False b) :: u16) = host_get False b"
  using be_get_bound [of "rev b"] by (simp add: host_get_def unat_of_nat_u16)

lemma htons_bytes: "le 2 (unat (htons i)) = be_put 2 (unat (of_int i :: u16))"
  by (simp add: htons_def unat_host_get_2 le_of_le)

lemma ntohs_loaded: "length b = 2 \<Longrightarrow> ntohs (of_nat (host_get False b)) = int (be_get b)"
  by (simp add: ntohs_def unat_host_get_2 le_of_le)

lemma ntohs_htons: "0 \<le> i \<Longrightarrow> i \<le> 65535 \<Longrightarrow> ntohs (htons i) = i"
  by (simp add: ntohs_def htons_bytes be_get_put unsigned_of_int take_bit_int_eq_self)

text \<open>
  The sockaddr at an address: family at index 1, \<open>AF_INET6\<close> differs between the systems. A zone is not
  read, and another family is no endpoint.
\<close>

definition parse_sockaddr :: "nat \<Rightarrow> bytes \<Rightarrow> crash + udpaddr option" where
  "parse_sockaddr af6 ep =
     res_bind (mem_int ep 1 1) (\<lambda>fam.
       if fam = 2
       then res_bind (mem_int ep 2 2) (\<lambda>port. res_bind (mem_read ep 4 4) (\<lambda>addr.
              Inr (Some \<lparr> ua_IP = addr, ua_Port = ntohs (of_nat port), ua_Zone = [] \<rparr>)))
       else if fam = af6
       then res_bind (mem_int ep 2 2) (\<lambda>port. res_bind (mem_read ep 8 16) (\<lambda>addr.
              Inr (Some \<lparr> ua_IP = addr, ua_Port = ntohs (of_nat port), ua_Zone = [] \<rparr>)))
       else Inr None)"

definition put_sockaddr :: "nat \<Rightarrow> udpaddr \<Rightarrow> bytes" where
  "put_sockaddr af6 ep =
     (case To4 (ua_IP ep) of
        Some v \<Rightarrow> [0, 2] @ le 2 (unat (htons (ua_Port ep))) @ v @ replicate 8 0
      | None \<Rightarrow> (case To16 (ua_IP ep) of
            Some v \<Rightarrow> [0, of_nat af6] @ le 2 (unat (htons (ua_Port ep))) @ replicate 4 0 @ v @ replicate 4 0
          | None \<Rightarrow> []))"

text \<open>Configurations whose endpoints have an address.\<close>

definition endpoints_valid :: "Config \<Rightarrow> bool" where
  "endpoints_valid c \<longleftrightarrow>
     list_all (\<lambda>p. pred_option (\<lambda>a. To16 (ua_IP a) \<noteq> None) (pc_Endpoint p)) (cfg_Peers c)"

lemma mem_int_load: "mem_int m off n = map_sum id (host_get False) (mem_read m off n)"
  by (cases "mem_read m off n") (simp_all add: mem_int_def)

lemma port_read:
  "mem_int (a # b # le 2 (unat (htons p)) @ post) 2 2 = Inr (unat (htons p))"
  using unat_u16_bound [of "htons p"] by (simp add: mem_int_def mem_read_def host_get_le)

lemma fam_read: "mem_int (a # b # post) (Suc 0) (Suc 0) = Inr (unat b)"
  by (simp add: mem_int_def mem_read_def host_get_def be_get_def)

lemma parse_put_sockaddr:
  assumes "To16 (ua_IP ep) \<noteq> None" and "0 \<le> ua_Port ep" and "ua_Port ep \<le> 65535"
    and "2 < af6" and "af6 < 256"
  shows "parse_sockaddr af6 (put_sockaddr af6 ep) = Inr (Some (endpoint_raw ep))"
proof (cases "To4 (ua_IP ep)")
  case (Some v)
  have "mem_read (0 # 2 # le 2 (unat (htons p)) @ v @ replicate 8 0) 4 4 = Inr v" for p
    using To4_length [OF Some] by (simp add: mem_read_def)
  with Some assms show ?thesis
    by (simp add: parse_sockaddr_def put_sockaddr_def fam_read port_read ntohs_htons endpoint_raw_def)
next
  case None
  with assms obtain v where v: "To16 (ua_IP ep) = Some v" by blast
  have "v = ua_IP ep" using None v by (auto simp: To16_def To4_def split: if_splits)
  moreover have "mem_read (0 # f # le 2 (unat (htons p)) @ replicate 4 0 @ v @ replicate 4 0) 8 16 = Inr v" for f p
    using To16_length [OF v] by (simp add: mem_read_def)
  ultimately show ?thesis using None v assms
    by (simp add: parse_sockaddr_def put_sockaddr_def fam_read port_read ntohs_htons endpoint_raw_def unat_of_nat_byte)
qed

section \<open>The members of the interface group\<close>

text \<open>
  \<open>Devices\<close>: the first call gives the size of the list of names, the second one the names; \<open>&ifgrs[0]\<close>
  panics when there are none. \<open>ioctlIfgroupreq\<close> is given the group, the size and the array.
\<close>

type_synonym 's ioctl_group =
  "bytes \<Rightarrow> 32 word \<Rightarrow> bytes list \<Rightarrow> 's \<Rightarrow> (go_error + 32 word \<times> bytes list) \<times> 's"

definition SizeofIfgreq :: nat where "SizeofIfgreq = 16"

definition ifGroupWG :: bytes where
  "ifGroupWG = string_bytes ''wg'' @ replicate 14 0"

text \<open>The loop over the names. \<open>None\<close> is a call of \<open>Device\<close> that does not return.\<close>

fun device_each ::
    "(string \<Rightarrow> 's \<Rightarrow> ((failure + Device) \<times> 's) option) \<Rightarrow> bytes list \<Rightarrow> 's \<Rightarrow>
     ((failure + Device list) \<times> 's) option" where
  "device_each device [] s = Some (Inr [], s)"
| "device_each device (ifgr # ifgrs) s =
     (case device (trimmed_name ifgr) s of
        None \<Rightarrow> None
      | Some (Inl e, s) \<Rightarrow> Some (Inl e, s)
      | Some (Inr d, s) \<Rightarrow>
          (case device_each device ifgrs s of
             None \<Rightarrow> None
           | Some (r, s) \<Rightarrow> Some (map_sum id ((#) d) r, s)))"

definition bsd_Devices ::
    "'s ioctl_group \<Rightarrow> (string \<Rightarrow> 's \<Rightarrow> ((failure + Device) \<times> 's) option) \<Rightarrow> ('s \<Rightarrow> go_error option) \<Rightarrow> 's \<Rightarrow>
     ((failure + Device list) \<times> 's) option" where
  "bsd_Devices groupreq device ctxErr s =
     (case ctxErr s of
        Some e \<Rightarrow> Some (Inl (Fail e), s)
      | None \<Rightarrow>
          (case groupreq ifGroupWG 0 [] s of
             (Inl e, s) \<Rightarrow> Some (Inl (Fail e), s)
           | (Inr (len, _), s) \<Rightarrow>
               let ifgrs = replicate (unat len div SizeofIfgreq) (replicate 16 0) in
               if ifgrs = [] then Some (Inl (Crash (Panic ''index out of range'')), s)
               else (case groupreq ifGroupWG len ifgrs s of
                       (Inl e, s) \<Rightarrow> Some (Inl (Fail e), s)
                     | (Inr (_, ifgrs), s) \<Rightarrow> device_each device ifgrs s)))"

text \<open>A kernel with the members \<open>names\<close>.\<close>

definition serve_group :: "bytes list \<Rightarrow> 's ioctl_group" where
  "serve_group names g len arr s =
     (Inr (of_nat (SizeofIfgreq * length names), if arr = [] then [] else names), s)"

lemma unat_of_nat_32: "n < 2 ^ 32 \<Longrightarrow> unat (of_nat n :: 32 word) = n"
  by (simp add: unsigned_of_nat take_bit_nat_eq_self)

lemma unat_group_len:
  assumes "length names < 2 ^ 28"
  shows "unat (of_nat (SizeofIfgreq * length names) :: 32 word) div SizeofIfgreq = length names"
proof -
  have "SizeofIfgreq * length names < 2 ^ 32" using assms by (simp add: SizeofIfgreq_def)
  from unat_of_nat_32 [OF this] show ?thesis by (simp only:) (simp add: SizeofIfgreq_def)
qed

lemma bsd_Devices_members:
  assumes "ctxErr s = None" and "length names < 2 ^ 28"
  shows "bsd_Devices (serve_group names) device ctxErr s =
    (if names = [] then Some (Inl (Crash (Panic ''index out of range'')), s)
     else device_each device names s)"
  using unat_group_len [OF assms(2)] by (simp add: bsd_Devices_def serve_group_def assms(1) Let_def)

text \<open>When every member is a device that can be read, each is listed, in order.\<close>

lemma device_each_all:
  assumes "\<forall>n \<in> set names. \<forall>s. device (trimmed_name n) s = Some (Inr (dev (trimmed_name n)), s)"
  shows "device_each device names s = Some (Inr (map (\<lambda>n. dev (trimmed_name n)) names), s)"
  using assms by (induction names) auto

end
