(* ===== verification/Wgh.thy ===== *)
theory Wgh
  imports Layout
begin

text \<open>
  The packages \<open>wgh\<close>: the structures and constants of the kernels, as in \<open>defs_openbsd_*.go\<close> and
  \<open>defs_freebsd_*.go\<close>, file by file, and what \<open>defs.go\<close> says of the C structures. The flags are tables of
  their names.
\<close>

section \<open>OpenBSD\<close>

record openbsd_wgh =
  ob_SizeofIfgreq :: nat
  ob_SIOCGWG :: nat
  ob_SizeofWGAIPIO :: nat
  ob_SizeofWGInterfaceIO :: nat
  ob_SizeofWGPeerIO :: nat
  ob_Ifgroupreq :: fields
  ob_Ifgreq :: fields
  ob_Timespec :: fields
  ob_WGAIPIO :: fields
  ob_WGDataIO :: fields
  ob_WGInterfaceIO :: fields
  ob_WGPeerIO :: fields
  ob_flags :: "(string \<times> nat) list"

definition ob_amd64_Ifgroupreq :: fields where
  "ob_amd64_Ifgroupreq =
     [(''Name'', Arr 16 Byte), (''Len'', Num 4), (''Pad1'', Arr 4 Byte), (''Groups'', Ptr),
      (''Pad2'', Arr 8 Byte)]"

definition ob_amd64_Ifgreq :: fields where
  "ob_amd64_Ifgreq =
     [(''Ifgrqu'', Arr 16 Byte)]"

definition ob_amd64_Timespec :: fields where
  "ob_amd64_Timespec =
     [(''Sec'', Num 8), (''Nsec'', Num 8)]"

definition ob_amd64_WGAIPIO :: fields where
  "ob_amd64_WGAIPIO =
     [(''Af'', Byte), (''Cidr'', Num 4), (''Addr'', Arr 16 Byte)]"

definition ob_amd64_WGDataIO :: fields where
  "ob_amd64_WGDataIO =
     [(''Name'', Arr 16 Byte), (''Size'', Num 8), (''Interface'', Ptr)]"

definition ob_amd64_WGInterfaceIO :: fields where
  "ob_amd64_WGInterfaceIO =
     [(''Flags'', Byte), (''Port'', Num 2), (''Rtable'', Num 4), (''Public'', Arr 32 Byte),
      (''Private'', Arr 32 Byte), (''Peers_count'', Num 8)]"

definition ob_amd64_WGPeerIO :: fields where
  "ob_amd64_WGPeerIO =
     [(''Flags'', Num 4), (''Protocol_version'', Num 4), (''Public'', Arr 32 Byte),
      (''Psk'', Arr 32 Byte), (''Pka'', Num 2), (''Pad_cgo_0'', Arr 2 Byte), (''Endpoint'', Arr 28 Byte),
      (''Txbytes'', Num 8), (''Rxbytes'', Num 8), (''Last_handshake'', struct_of ob_amd64_Timespec),
      (''Aips_count'', Num 8)]"

definition ob_amd64_flags :: "(string \<times> nat) list" where
  "ob_amd64_flags =
     [(''WG_INTERFACE_HAS_PUBLIC'', 0x1), (''WG_INTERFACE_HAS_PRIVATE'', 0x2),
      (''WG_INTERFACE_HAS_PORT'', 0x4), (''WG_INTERFACE_HAS_RTABLE'', 0x8),
      (''WG_INTERFACE_REPLACE_PEERS'', 0x10), (''WG_PEER_HAS_PUBLIC'', 0x1), (''WG_PEER_HAS_PSK'', 0x2),
      (''WG_PEER_HAS_PKA'', 0x4), (''WG_PEER_HAS_ENDPOINT'', 0x8)]"

definition openbsd_amd64 :: openbsd_wgh where
  "openbsd_amd64 =
     \<lparr> ob_SizeofIfgreq = 0x10, ob_SIOCGWG = 0xc02069d3, ob_SizeofWGAIPIO = 0x18,
       ob_SizeofWGInterfaceIO = 0x50, ob_SizeofWGPeerIO = 0x90, ob_Ifgroupreq = ob_amd64_Ifgroupreq,
       ob_Ifgreq = ob_amd64_Ifgreq, ob_Timespec = ob_amd64_Timespec, ob_WGAIPIO = ob_amd64_WGAIPIO,
       ob_WGDataIO = ob_amd64_WGDataIO, ob_WGInterfaceIO = ob_amd64_WGInterfaceIO,
       ob_WGPeerIO = ob_amd64_WGPeerIO, ob_flags = ob_amd64_flags \<rparr>"

definition ob_arm64_Ifgroupreq :: fields where
  "ob_arm64_Ifgroupreq =
     [(''Name'', Arr 16 Byte), (''Len'', Num 4), (''Pad1'', Arr 4 Byte), (''Groups'', Ptr),
      (''Pad2'', Arr 8 Byte)]"

definition ob_arm64_Ifgreq :: fields where
  "ob_arm64_Ifgreq =
     [(''Ifgrqu'', Arr 16 Byte)]"

definition ob_arm64_Timespec :: fields where
  "ob_arm64_Timespec =
     [(''Sec'', Num 8), (''Nsec'', Num 8)]"

definition ob_arm64_WGAIPIO :: fields where
  "ob_arm64_WGAIPIO =
     [(''Af'', Byte), (''Cidr'', Num 4), (''Addr'', Arr 16 Byte)]"

definition ob_arm64_WGDataIO :: fields where
  "ob_arm64_WGDataIO =
     [(''Name'', Arr 16 Byte), (''Size'', Num 8), (''Interface'', Ptr)]"

definition ob_arm64_WGInterfaceIO :: fields where
  "ob_arm64_WGInterfaceIO =
     [(''Flags'', Byte), (''Port'', Num 2), (''Rtable'', Num 4), (''Public'', Arr 32 Byte),
      (''Private'', Arr 32 Byte), (''Peers_count'', Num 8)]"

definition ob_arm64_WGPeerIO :: fields where
  "ob_arm64_WGPeerIO =
     [(''Flags'', Num 4), (''Protocol_version'', Num 4), (''Public'', Arr 32 Byte),
      (''Psk'', Arr 32 Byte), (''Pka'', Num 2), (''Pad_cgo_0'', Arr 2 Byte), (''Endpoint'', Arr 28 Byte),
      (''Txbytes'', Num 8), (''Rxbytes'', Num 8), (''Last_handshake'', struct_of ob_arm64_Timespec),
      (''Aips_count'', Num 8)]"

definition ob_arm64_flags :: "(string \<times> nat) list" where
  "ob_arm64_flags =
     [(''WG_INTERFACE_HAS_PUBLIC'', 0x1), (''WG_INTERFACE_HAS_PRIVATE'', 0x2),
      (''WG_INTERFACE_HAS_PORT'', 0x4), (''WG_INTERFACE_HAS_RTABLE'', 0x8),
      (''WG_INTERFACE_REPLACE_PEERS'', 0x10), (''WG_PEER_HAS_PUBLIC'', 0x1), (''WG_PEER_HAS_PSK'', 0x2),
      (''WG_PEER_HAS_PKA'', 0x4), (''WG_PEER_HAS_ENDPOINT'', 0x8)]"

definition openbsd_arm64 :: openbsd_wgh where
  "openbsd_arm64 =
     \<lparr> ob_SizeofIfgreq = 0x10, ob_SIOCGWG = 0xc02069d3, ob_SizeofWGAIPIO = 0x18,
       ob_SizeofWGInterfaceIO = 0x50, ob_SizeofWGPeerIO = 0x90, ob_Ifgroupreq = ob_arm64_Ifgroupreq,
       ob_Ifgreq = ob_arm64_Ifgreq, ob_Timespec = ob_arm64_Timespec, ob_WGAIPIO = ob_arm64_WGAIPIO,
       ob_WGDataIO = ob_arm64_WGDataIO, ob_WGInterfaceIO = ob_arm64_WGInterfaceIO,
       ob_WGPeerIO = ob_arm64_WGPeerIO, ob_flags = ob_arm64_flags \<rparr>"

definition ob_386_Ifgroupreq :: fields where
  "ob_386_Ifgroupreq =
     [(''Name'', Arr 16 Byte), (''Len'', Num 4), (''Pad1'', Arr 0 Byte), (''Groups'', Ptr),
      (''Pad2'', Arr 12 Byte)]"

definition ob_386_Ifgreq :: fields where
  "ob_386_Ifgreq =
     [(''Ifgrqu'', Arr 16 Byte)]"

definition ob_386_Timespec :: fields where
  "ob_386_Timespec =
     [(''Sec'', Num 8), (''Nsec'', Num 4)]"

definition ob_386_WGAIPIO :: fields where
  "ob_386_WGAIPIO =
     [(''Af'', Byte), (''Cidr'', Num 4), (''Addr'', Arr 16 Byte)]"

definition ob_386_WGDataIO :: fields where
  "ob_386_WGDataIO =
     [(''Name'', Arr 16 Byte), (''Size'', Num 4), (''Interface'', Ptr)]"

definition ob_386_WGInterfaceIO :: fields where
  "ob_386_WGInterfaceIO =
     [(''Flags'', Byte), (''Port'', Num 2), (''Rtable'', Num 4), (''Public'', Arr 32 Byte),
      (''Private'', Arr 32 Byte), (''Peers_count'', Num 4)]"

definition ob_386_WGPeerIO :: fields where
  "ob_386_WGPeerIO =
     [(''Flags'', Num 4), (''Protocol_version'', Num 4), (''Public'', Arr 32 Byte),
      (''Psk'', Arr 32 Byte), (''Pka'', Num 2), (''Pad_cgo_0'', Arr 2 Byte), (''Endpoint'', Arr 28 Byte),
      (''Txbytes'', Num 8), (''Rxbytes'', Num 8), (''Last_handshake'', struct_of ob_386_Timespec),
      (''Aips_count'', Num 4)]"

definition ob_386_flags :: "(string \<times> nat) list" where
  "ob_386_flags =
     [(''WG_INTERFACE_HAS_PUBLIC'', 0x1), (''WG_INTERFACE_HAS_PRIVATE'', 0x2),
      (''WG_INTERFACE_HAS_PORT'', 0x4), (''WG_INTERFACE_HAS_RTABLE'', 0x8),
      (''WG_INTERFACE_REPLACE_PEERS'', 0x10), (''WG_PEER_HAS_PUBLIC'', 0x1), (''WG_PEER_HAS_PSK'', 0x2),
      (''WG_PEER_HAS_PKA'', 0x4), (''WG_PEER_HAS_ENDPOINT'', 0x8)]"

definition openbsd_386 :: openbsd_wgh where
  "openbsd_386 =
     \<lparr> ob_SizeofIfgreq = 0x10, ob_SIOCGWG = 0xc01869d3, ob_SizeofWGAIPIO = 0x18,
       ob_SizeofWGInterfaceIO = 0x4c, ob_SizeofWGPeerIO = 0x88, ob_Ifgroupreq = ob_386_Ifgroupreq,
       ob_Ifgreq = ob_386_Ifgreq, ob_Timespec = ob_386_Timespec, ob_WGAIPIO = ob_386_WGAIPIO,
       ob_WGDataIO = ob_386_WGDataIO, ob_WGInterfaceIO = ob_386_WGInterfaceIO,
       ob_WGPeerIO = ob_386_WGPeerIO, ob_flags = ob_386_flags \<rparr>"

definition ob_arm_Ifgroupreq :: fields where
  "ob_arm_Ifgroupreq =
     [(''Name'', Arr 16 Byte), (''Len'', Num 4), (''Pad1'', Arr 0 Byte), (''Groups'', Ptr),
      (''Pad2'', Arr 12 Byte)]"

definition ob_arm_Ifgreq :: fields where
  "ob_arm_Ifgreq =
     [(''Ifgrqu'', Arr 16 Byte)]"

definition ob_arm_Timespec :: fields where
  "ob_arm_Timespec =
     [(''Sec'', Num 8), (''Nsec'', Num 4), (''Pad_cgo_0'', Arr 4 Byte)]"

definition ob_arm_WGAIPIO :: fields where
  "ob_arm_WGAIPIO =
     [(''Af'', Byte), (''Cidr'', Num 4), (''Addr'', Arr 16 Byte)]"

definition ob_arm_WGDataIO :: fields where
  "ob_arm_WGDataIO =
     [(''Name'', Arr 16 Byte), (''Size'', Num 4), (''Interface'', Ptr)]"

definition ob_arm_WGInterfaceIO :: fields where
  "ob_arm_WGInterfaceIO =
     [(''Flags'', Byte), (''Port'', Num 2), (''Rtable'', Num 4), (''Public'', Arr 32 Byte),
      (''Private'', Arr 32 Byte), (''Peers_count'', Num 4), (''Pad_cgo_0'', Arr 4 Byte)]"

definition ob_arm_WGPeerIO :: fields where
  "ob_arm_WGPeerIO =
     [(''Flags'', Num 4), (''Protocol_version'', Num 4), (''Public'', Arr 32 Byte),
      (''Psk'', Arr 32 Byte), (''Pka'', Num 2), (''Pad_cgo_0'', Arr 2 Byte), (''Endpoint'', Arr 28 Byte),
      (''Txbytes'', Num 8), (''Rxbytes'', Num 8), (''Last_handshake'', struct_of ob_arm_Timespec),
      (''Aips_count'', Num 4), (''Aips'', Arr 0 (struct_of ob_arm_WGAIPIO)),
      (''Pad_cgo_1'', Arr 4 Byte)]"

definition ob_arm_flags :: "(string \<times> nat) list" where
  "ob_arm_flags =
     [(''WG_INTERFACE_HAS_PUBLIC'', 0x1), (''WG_INTERFACE_HAS_PRIVATE'', 0x2),
      (''WG_INTERFACE_HAS_PORT'', 0x4), (''WG_INTERFACE_HAS_RTABLE'', 0x8),
      (''WG_INTERFACE_REPLACE_PEERS'', 0x10), (''WG_PEER_HAS_PUBLIC'', 0x1), (''WG_PEER_HAS_PSK'', 0x2),
      (''WG_PEER_HAS_PKA'', 0x4), (''WG_PEER_HAS_ENDPOINT'', 0x8)]"

definition openbsd_arm :: openbsd_wgh where
  "openbsd_arm =
     \<lparr> ob_SizeofIfgreq = 0x10, ob_SIOCGWG = 0xc01869d3, ob_SizeofWGAIPIO = 0x18,
       ob_SizeofWGInterfaceIO = 0x50, ob_SizeofWGPeerIO = 0x90, ob_Ifgroupreq = ob_arm_Ifgroupreq,
       ob_Ifgreq = ob_arm_Ifgreq, ob_Timespec = ob_arm_Timespec, ob_WGAIPIO = ob_arm_WGAIPIO,
       ob_WGDataIO = ob_arm_WGDataIO, ob_WGInterfaceIO = ob_arm_WGInterfaceIO,
       ob_WGPeerIO = ob_arm_WGPeerIO, ob_flags = ob_arm_flags \<rparr>"

text \<open>The file that the build chooses.\<close>

fun wgh_openbsd :: "goarch \<Rightarrow> openbsd_wgh" where
  "wgh_openbsd AMD64 = openbsd_amd64"
| "wgh_openbsd ARM64 = openbsd_arm64"
| "wgh_openbsd I386 = openbsd_386"
| "wgh_openbsd ARM = openbsd_arm"

lemma openbsd_files [simp]:
  "ob_SizeofIfgreq openbsd_amd64 = 0x10"
  "ob_SIOCGWG openbsd_amd64 = 0xc02069d3"
  "ob_SizeofWGAIPIO openbsd_amd64 = 0x18"
  "ob_SizeofWGInterfaceIO openbsd_amd64 = 0x50"
  "ob_SizeofWGPeerIO openbsd_amd64 = 0x90"
  "ob_Ifgroupreq openbsd_amd64 = ob_amd64_Ifgroupreq"
  "ob_Ifgreq openbsd_amd64 = ob_amd64_Ifgreq"
  "ob_Timespec openbsd_amd64 = ob_amd64_Timespec"
  "ob_WGAIPIO openbsd_amd64 = ob_amd64_WGAIPIO"
  "ob_WGDataIO openbsd_amd64 = ob_amd64_WGDataIO"
  "ob_WGInterfaceIO openbsd_amd64 = ob_amd64_WGInterfaceIO"
  "ob_WGPeerIO openbsd_amd64 = ob_amd64_WGPeerIO"
  "ob_flags openbsd_amd64 = ob_amd64_flags"
  "ob_SizeofIfgreq openbsd_arm64 = 0x10"
  "ob_SIOCGWG openbsd_arm64 = 0xc02069d3"
  "ob_SizeofWGAIPIO openbsd_arm64 = 0x18"
  "ob_SizeofWGInterfaceIO openbsd_arm64 = 0x50"
  "ob_SizeofWGPeerIO openbsd_arm64 = 0x90"
  "ob_Ifgroupreq openbsd_arm64 = ob_arm64_Ifgroupreq"
  "ob_Ifgreq openbsd_arm64 = ob_arm64_Ifgreq"
  "ob_Timespec openbsd_arm64 = ob_arm64_Timespec"
  "ob_WGAIPIO openbsd_arm64 = ob_arm64_WGAIPIO"
  "ob_WGDataIO openbsd_arm64 = ob_arm64_WGDataIO"
  "ob_WGInterfaceIO openbsd_arm64 = ob_arm64_WGInterfaceIO"
  "ob_WGPeerIO openbsd_arm64 = ob_arm64_WGPeerIO"
  "ob_flags openbsd_arm64 = ob_arm64_flags"
  "ob_SizeofIfgreq openbsd_386 = 0x10"
  "ob_SIOCGWG openbsd_386 = 0xc01869d3"
  "ob_SizeofWGAIPIO openbsd_386 = 0x18"
  "ob_SizeofWGInterfaceIO openbsd_386 = 0x4c"
  "ob_SizeofWGPeerIO openbsd_386 = 0x88"
  "ob_Ifgroupreq openbsd_386 = ob_386_Ifgroupreq"
  "ob_Ifgreq openbsd_386 = ob_386_Ifgreq"
  "ob_Timespec openbsd_386 = ob_386_Timespec"
  "ob_WGAIPIO openbsd_386 = ob_386_WGAIPIO"
  "ob_WGDataIO openbsd_386 = ob_386_WGDataIO"
  "ob_WGInterfaceIO openbsd_386 = ob_386_WGInterfaceIO"
  "ob_WGPeerIO openbsd_386 = ob_386_WGPeerIO"
  "ob_flags openbsd_386 = ob_386_flags"
  "ob_SizeofIfgreq openbsd_arm = 0x10"
  "ob_SIOCGWG openbsd_arm = 0xc01869d3"
  "ob_SizeofWGAIPIO openbsd_arm = 0x18"
  "ob_SizeofWGInterfaceIO openbsd_arm = 0x50"
  "ob_SizeofWGPeerIO openbsd_arm = 0x90"
  "ob_Ifgroupreq openbsd_arm = ob_arm_Ifgroupreq"
  "ob_Ifgreq openbsd_arm = ob_arm_Ifgreq"
  "ob_Timespec openbsd_arm = ob_arm_Timespec"
  "ob_WGAIPIO openbsd_arm = ob_arm_WGAIPIO"
  "ob_WGDataIO openbsd_arm = ob_arm_WGDataIO"
  "ob_WGInterfaceIO openbsd_arm = ob_arm_WGInterfaceIO"
  "ob_WGPeerIO openbsd_arm = ob_arm_WGPeerIO"
  "ob_flags openbsd_arm = ob_arm_flags"
  by (simp_all add: openbsd_amd64_def openbsd_arm64_def openbsd_386_def openbsd_arm_def)

lemmas openbsd_structs = ob_amd64_Ifgroupreq_def ob_arm64_Ifgroupreq_def ob_386_Ifgroupreq_def
  ob_arm_Ifgroupreq_def ob_amd64_Ifgreq_def ob_arm64_Ifgreq_def ob_386_Ifgreq_def ob_arm_Ifgreq_def
  ob_amd64_Timespec_def ob_arm64_Timespec_def ob_386_Timespec_def ob_arm_Timespec_def ob_amd64_WGAIPIO_def
  ob_arm64_WGAIPIO_def ob_386_WGAIPIO_def ob_arm_WGAIPIO_def ob_amd64_WGDataIO_def ob_arm64_WGDataIO_def
  ob_386_WGDataIO_def ob_arm_WGDataIO_def ob_amd64_WGInterfaceIO_def ob_arm64_WGInterfaceIO_def
  ob_386_WGInterfaceIO_def ob_arm_WGInterfaceIO_def ob_amd64_WGPeerIO_def ob_arm64_WGPeerIO_def
  ob_386_WGPeerIO_def ob_arm_WGPeerIO_def

section \<open>FreeBSD\<close>

record freebsd_wgh =
  fb_SizeofIfgreq :: nat
  fb_SIOCGWG :: nat
  fb_SIOCSWG :: nat
  fb_Ifgroupreq :: fields
  fb_Ifgreq :: fields
  fb_WGDataIO :: fields

definition fb_amd64_Ifgroupreq :: fields where
  "fb_amd64_Ifgroupreq =
     [(''Name'', Arr 16 Byte), (''Len'', Num 4), (''Pad1'', Arr 4 Byte), (''Groups'', Ptr),
      (''Pad2'', Arr 8 Byte)]"

definition fb_amd64_Ifgreq :: fields where
  "fb_amd64_Ifgreq =
     [(''Ifgrqu'', Arr 16 Byte)]"

definition fb_amd64_WGDataIO :: fields where
  "fb_amd64_WGDataIO =
     [(''Name'', Arr 16 Byte), (''Data'', Ptr), (''Size'', Num 8)]"

definition freebsd_amd64 :: freebsd_wgh where
  "freebsd_amd64 =
     \<lparr> fb_SizeofIfgreq = 0x10, fb_SIOCGWG = 0xc02069d3, fb_SIOCSWG = 0xc02069d2,
       fb_Ifgroupreq = fb_amd64_Ifgroupreq, fb_Ifgreq = fb_amd64_Ifgreq, fb_WGDataIO = fb_amd64_WGDataIO \<rparr>"

definition fb_arm64_Ifgroupreq :: fields where
  "fb_arm64_Ifgroupreq =
     [(''Name'', Arr 16 Byte), (''Len'', Num 4), (''Pad1'', Arr 4 Byte), (''Groups'', Ptr),
      (''Pad2'', Arr 8 Byte)]"

definition fb_arm64_Ifgreq :: fields where
  "fb_arm64_Ifgreq =
     [(''Ifgrqu'', Arr 16 Byte)]"

definition fb_arm64_WGDataIO :: fields where
  "fb_arm64_WGDataIO =
     [(''Name'', Arr 16 Byte), (''Data'', Ptr), (''Size'', Num 8)]"

definition freebsd_arm64 :: freebsd_wgh where
  "freebsd_arm64 =
     \<lparr> fb_SizeofIfgreq = 0x10, fb_SIOCGWG = 0xc02069d3, fb_SIOCSWG = 0xc02069d2,
       fb_Ifgroupreq = fb_arm64_Ifgroupreq, fb_Ifgreq = fb_arm64_Ifgreq, fb_WGDataIO = fb_arm64_WGDataIO \<rparr>"

definition fb_386_Ifgroupreq :: fields where
  "fb_386_Ifgroupreq =
     [(''Name'', Arr 16 Byte), (''Len'', Num 4), (''Pad1'', Arr 0 Byte), (''Groups'', Ptr),
      (''Pad2'', Arr 12 Byte)]"

definition fb_386_Ifgreq :: fields where
  "fb_386_Ifgreq =
     [(''Ifgrqu'', Arr 16 Byte)]"

definition fb_386_WGDataIO :: fields where
  "fb_386_WGDataIO =
     [(''Name'', Arr 16 Byte), (''Data'', Ptr), (''Size'', Num 4)]"

definition freebsd_386 :: freebsd_wgh where
  "freebsd_386 =
     \<lparr> fb_SizeofIfgreq = 0x10, fb_SIOCGWG = 0xc01869d3, fb_SIOCSWG = 0xc01869d2,
       fb_Ifgroupreq = fb_386_Ifgroupreq, fb_Ifgreq = fb_386_Ifgreq, fb_WGDataIO = fb_386_WGDataIO \<rparr>"

definition fb_arm_Ifgroupreq :: fields where
  "fb_arm_Ifgroupreq =
     [(''Name'', Arr 16 Byte), (''Len'', Num 4), (''Pad1'', Arr 0 Byte), (''Groups'', Ptr),
      (''Pad2'', Arr 12 Byte)]"

definition fb_arm_Ifgreq :: fields where
  "fb_arm_Ifgreq =
     [(''Ifgrqu'', Arr 16 Byte)]"

definition fb_arm_WGDataIO :: fields where
  "fb_arm_WGDataIO =
     [(''Name'', Arr 16 Byte), (''Data'', Ptr), (''Size'', Num 8)]"

definition freebsd_arm :: freebsd_wgh where
  "freebsd_arm =
     \<lparr> fb_SizeofIfgreq = 0x10, fb_SIOCGWG = 0xc01c69d3, fb_SIOCSWG = 0xc01c69d2,
       fb_Ifgroupreq = fb_arm_Ifgroupreq, fb_Ifgreq = fb_arm_Ifgreq, fb_WGDataIO = fb_arm_WGDataIO \<rparr>"

text \<open>The file that the build chooses.\<close>

fun wgh_freebsd :: "goarch \<Rightarrow> freebsd_wgh" where
  "wgh_freebsd AMD64 = freebsd_amd64"
| "wgh_freebsd ARM64 = freebsd_arm64"
| "wgh_freebsd I386 = freebsd_386"
| "wgh_freebsd ARM = freebsd_arm"

lemma freebsd_files [simp]:
  "fb_SizeofIfgreq freebsd_amd64 = 0x10"
  "fb_SIOCGWG freebsd_amd64 = 0xc02069d3"
  "fb_SIOCSWG freebsd_amd64 = 0xc02069d2"
  "fb_Ifgroupreq freebsd_amd64 = fb_amd64_Ifgroupreq"
  "fb_Ifgreq freebsd_amd64 = fb_amd64_Ifgreq"
  "fb_WGDataIO freebsd_amd64 = fb_amd64_WGDataIO"
  "fb_SizeofIfgreq freebsd_arm64 = 0x10"
  "fb_SIOCGWG freebsd_arm64 = 0xc02069d3"
  "fb_SIOCSWG freebsd_arm64 = 0xc02069d2"
  "fb_Ifgroupreq freebsd_arm64 = fb_arm64_Ifgroupreq"
  "fb_Ifgreq freebsd_arm64 = fb_arm64_Ifgreq"
  "fb_WGDataIO freebsd_arm64 = fb_arm64_WGDataIO"
  "fb_SizeofIfgreq freebsd_386 = 0x10"
  "fb_SIOCGWG freebsd_386 = 0xc01869d3"
  "fb_SIOCSWG freebsd_386 = 0xc01869d2"
  "fb_Ifgroupreq freebsd_386 = fb_386_Ifgroupreq"
  "fb_Ifgreq freebsd_386 = fb_386_Ifgreq"
  "fb_WGDataIO freebsd_386 = fb_386_WGDataIO"
  "fb_SizeofIfgreq freebsd_arm = 0x10"
  "fb_SIOCGWG freebsd_arm = 0xc01c69d3"
  "fb_SIOCSWG freebsd_arm = 0xc01c69d2"
  "fb_Ifgroupreq freebsd_arm = fb_arm_Ifgroupreq"
  "fb_Ifgreq freebsd_arm = fb_arm_Ifgreq"
  "fb_WGDataIO freebsd_arm = fb_arm_WGDataIO"
  by (simp_all add: freebsd_amd64_def freebsd_arm64_def freebsd_386_def freebsd_arm_def)

lemmas freebsd_structs = fb_amd64_Ifgroupreq_def fb_arm64_Ifgroupreq_def fb_386_Ifgroupreq_def
  fb_arm_Ifgroupreq_def fb_amd64_Ifgreq_def fb_arm64_Ifgreq_def fb_386_Ifgreq_def fb_arm_Ifgreq_def
  fb_amd64_WGDataIO_def fb_arm64_WGDataIO_def fb_386_WGDataIO_def fb_arm_WGDataIO_def

section \<open>The structures in C\<close>

text \<open>From the comments of \<open>defs.go\<close>: \<open>go_ifgroupreq\<close>, whose paddings depend on the size of a pointer, and \<open>wg_data_io\<close>.\<close>

definition go_ifgroupreq :: "goarch \<Rightarrow> fields" where
  "go_ifgroupreq a =
     [(''ifgr_name'', Arr 16 Byte), (''ifgr_len'', Num 4), (''ifgr_pad1'', Arr (ptr_size a - 4) Byte),
      (''ifgr_groups'', Ptr), (''ifgr_pad2'', Arr (16 - ptr_size a) Byte)]"

definition wg_data_io :: "goarch \<Rightarrow> fields" where
  "wg_data_io a = [(''wgd_name'', Arr 16 Byte), (''wgd_data'', Ptr), (''wgd_size'', Num (ptr_size a))]"

text \<open>The layouts, computed once.\<close>

lemma ob_amd64_layouts:
  "layout GoABI AMD64 ob_amd64_Ifgroupreq =
     [(''Name'', 0), (''Len'', 16), (''Pad1'', 20), (''Groups'', 24), (''Pad2'', 32)]"
  "struct_size GoABI AMD64 ob_amd64_Ifgroupreq = 40"
  "layout GoABI AMD64 ob_amd64_Ifgreq =
     [(''Ifgrqu'', 0)]"
  "struct_size GoABI AMD64 ob_amd64_Ifgreq = 16"
  "layout GoABI AMD64 ob_amd64_Timespec =
     [(''Sec'', 0), (''Nsec'', 8)]"
  "struct_size GoABI AMD64 ob_amd64_Timespec = 16"
  "layout GoABI AMD64 ob_amd64_WGAIPIO =
     [(''Af'', 0), (''Cidr'', 4), (''Addr'', 8)]"
  "struct_size GoABI AMD64 ob_amd64_WGAIPIO = 24"
  "layout GoABI AMD64 ob_amd64_WGDataIO =
     [(''Name'', 0), (''Size'', 16), (''Interface'', 24)]"
  "struct_size GoABI AMD64 ob_amd64_WGDataIO = 32"
  "layout GoABI AMD64 ob_amd64_WGInterfaceIO =
     [(''Flags'', 0), (''Port'', 2), (''Rtable'', 4), (''Public'', 8), (''Private'', 40),
      (''Peers_count'', 72)]"
  "struct_size GoABI AMD64 ob_amd64_WGInterfaceIO = 80"
  "layout GoABI AMD64 ob_amd64_WGPeerIO =
     [(''Flags'', 0), (''Protocol_version'', 4), (''Public'', 8), (''Psk'', 40), (''Pka'', 72),
      (''Pad_cgo_0'', 74), (''Endpoint'', 76), (''Txbytes'', 104), (''Rxbytes'', 112),
      (''Last_handshake'', 120), (''Aips_count'', 136)]"
  "struct_size GoABI AMD64 ob_amd64_WGPeerIO = 144"
  by (simp_all add: openbsd_structs layout_defs)

lemma ob_arm64_layouts:
  "layout GoABI ARM64 ob_arm64_Ifgroupreq =
     [(''Name'', 0), (''Len'', 16), (''Pad1'', 20), (''Groups'', 24), (''Pad2'', 32)]"
  "struct_size GoABI ARM64 ob_arm64_Ifgroupreq = 40"
  "layout GoABI ARM64 ob_arm64_Ifgreq =
     [(''Ifgrqu'', 0)]"
  "struct_size GoABI ARM64 ob_arm64_Ifgreq = 16"
  "layout GoABI ARM64 ob_arm64_Timespec =
     [(''Sec'', 0), (''Nsec'', 8)]"
  "struct_size GoABI ARM64 ob_arm64_Timespec = 16"
  "layout GoABI ARM64 ob_arm64_WGAIPIO =
     [(''Af'', 0), (''Cidr'', 4), (''Addr'', 8)]"
  "struct_size GoABI ARM64 ob_arm64_WGAIPIO = 24"
  "layout GoABI ARM64 ob_arm64_WGDataIO =
     [(''Name'', 0), (''Size'', 16), (''Interface'', 24)]"
  "struct_size GoABI ARM64 ob_arm64_WGDataIO = 32"
  "layout GoABI ARM64 ob_arm64_WGInterfaceIO =
     [(''Flags'', 0), (''Port'', 2), (''Rtable'', 4), (''Public'', 8), (''Private'', 40),
      (''Peers_count'', 72)]"
  "struct_size GoABI ARM64 ob_arm64_WGInterfaceIO = 80"
  "layout GoABI ARM64 ob_arm64_WGPeerIO =
     [(''Flags'', 0), (''Protocol_version'', 4), (''Public'', 8), (''Psk'', 40), (''Pka'', 72),
      (''Pad_cgo_0'', 74), (''Endpoint'', 76), (''Txbytes'', 104), (''Rxbytes'', 112),
      (''Last_handshake'', 120), (''Aips_count'', 136)]"
  "struct_size GoABI ARM64 ob_arm64_WGPeerIO = 144"
  by (simp_all add: openbsd_structs layout_defs)

lemma ob_386_layouts:
  "layout GoABI I386 ob_386_Ifgroupreq =
     [(''Name'', 0), (''Len'', 16), (''Pad1'', 20), (''Groups'', 20), (''Pad2'', 24)]"
  "struct_size GoABI I386 ob_386_Ifgroupreq = 36"
  "layout GoABI I386 ob_386_Ifgreq =
     [(''Ifgrqu'', 0)]"
  "struct_size GoABI I386 ob_386_Ifgreq = 16"
  "layout GoABI I386 ob_386_Timespec =
     [(''Sec'', 0), (''Nsec'', 8)]"
  "struct_size GoABI I386 ob_386_Timespec = 12"
  "layout GoABI I386 ob_386_WGAIPIO =
     [(''Af'', 0), (''Cidr'', 4), (''Addr'', 8)]"
  "struct_size GoABI I386 ob_386_WGAIPIO = 24"
  "layout GoABI I386 ob_386_WGDataIO =
     [(''Name'', 0), (''Size'', 16), (''Interface'', 20)]"
  "struct_size GoABI I386 ob_386_WGDataIO = 24"
  "layout GoABI I386 ob_386_WGInterfaceIO =
     [(''Flags'', 0), (''Port'', 2), (''Rtable'', 4), (''Public'', 8), (''Private'', 40),
      (''Peers_count'', 72)]"
  "struct_size GoABI I386 ob_386_WGInterfaceIO = 76"
  "layout GoABI I386 ob_386_WGPeerIO =
     [(''Flags'', 0), (''Protocol_version'', 4), (''Public'', 8), (''Psk'', 40), (''Pka'', 72),
      (''Pad_cgo_0'', 74), (''Endpoint'', 76), (''Txbytes'', 104), (''Rxbytes'', 112),
      (''Last_handshake'', 120), (''Aips_count'', 132)]"
  "struct_size GoABI I386 ob_386_WGPeerIO = 136"
  by (simp_all add: openbsd_structs layout_defs)

lemma ob_arm_layouts:
  "layout GoABI ARM ob_arm_Ifgroupreq =
     [(''Name'', 0), (''Len'', 16), (''Pad1'', 20), (''Groups'', 20), (''Pad2'', 24)]"
  "struct_size GoABI ARM ob_arm_Ifgroupreq = 36"
  "layout GoABI ARM ob_arm_Ifgreq =
     [(''Ifgrqu'', 0)]"
  "struct_size GoABI ARM ob_arm_Ifgreq = 16"
  "layout GoABI ARM ob_arm_Timespec =
     [(''Sec'', 0), (''Nsec'', 8), (''Pad_cgo_0'', 12)]"
  "struct_size GoABI ARM ob_arm_Timespec = 16"
  "layout GoABI ARM ob_arm_WGAIPIO =
     [(''Af'', 0), (''Cidr'', 4), (''Addr'', 8)]"
  "struct_size GoABI ARM ob_arm_WGAIPIO = 24"
  "layout GoABI ARM ob_arm_WGDataIO =
     [(''Name'', 0), (''Size'', 16), (''Interface'', 20)]"
  "struct_size GoABI ARM ob_arm_WGDataIO = 24"
  "layout GoABI ARM ob_arm_WGInterfaceIO =
     [(''Flags'', 0), (''Port'', 2), (''Rtable'', 4), (''Public'', 8), (''Private'', 40),
      (''Peers_count'', 72), (''Pad_cgo_0'', 76)]"
  "struct_size GoABI ARM ob_arm_WGInterfaceIO = 80"
  "layout GoABI ARM ob_arm_WGPeerIO =
     [(''Flags'', 0), (''Protocol_version'', 4), (''Public'', 8), (''Psk'', 40), (''Pka'', 72),
      (''Pad_cgo_0'', 74), (''Endpoint'', 76), (''Txbytes'', 104), (''Rxbytes'', 112),
      (''Last_handshake'', 120), (''Aips_count'', 136), (''Aips'', 140), (''Pad_cgo_1'', 140)]"
  "struct_size GoABI ARM ob_arm_WGPeerIO = 144"
  by (simp_all add: openbsd_structs layout_defs)

lemma fb_amd64_layouts:
  "layout GoABI AMD64 fb_amd64_Ifgroupreq =
     [(''Name'', 0), (''Len'', 16), (''Pad1'', 20), (''Groups'', 24), (''Pad2'', 32)]"
  "struct_size GoABI AMD64 fb_amd64_Ifgroupreq = 40"
  "layout GoABI AMD64 fb_amd64_Ifgreq =
     [(''Ifgrqu'', 0)]"
  "struct_size GoABI AMD64 fb_amd64_Ifgreq = 16"
  "layout GoABI AMD64 fb_amd64_WGDataIO =
     [(''Name'', 0), (''Data'', 16), (''Size'', 24)]"
  "struct_size GoABI AMD64 fb_amd64_WGDataIO = 32"
  by (simp_all add: freebsd_structs layout_defs)

lemma fb_arm64_layouts:
  "layout GoABI ARM64 fb_arm64_Ifgroupreq =
     [(''Name'', 0), (''Len'', 16), (''Pad1'', 20), (''Groups'', 24), (''Pad2'', 32)]"
  "struct_size GoABI ARM64 fb_arm64_Ifgroupreq = 40"
  "layout GoABI ARM64 fb_arm64_Ifgreq =
     [(''Ifgrqu'', 0)]"
  "struct_size GoABI ARM64 fb_arm64_Ifgreq = 16"
  "layout GoABI ARM64 fb_arm64_WGDataIO =
     [(''Name'', 0), (''Data'', 16), (''Size'', 24)]"
  "struct_size GoABI ARM64 fb_arm64_WGDataIO = 32"
  by (simp_all add: freebsd_structs layout_defs)

lemma fb_386_layouts:
  "layout GoABI I386 fb_386_Ifgroupreq =
     [(''Name'', 0), (''Len'', 16), (''Pad1'', 20), (''Groups'', 20), (''Pad2'', 24)]"
  "struct_size GoABI I386 fb_386_Ifgroupreq = 36"
  "layout GoABI I386 fb_386_Ifgreq =
     [(''Ifgrqu'', 0)]"
  "struct_size GoABI I386 fb_386_Ifgreq = 16"
  "layout GoABI I386 fb_386_WGDataIO =
     [(''Name'', 0), (''Data'', 16), (''Size'', 20)]"
  "struct_size GoABI I386 fb_386_WGDataIO = 24"
  by (simp_all add: freebsd_structs layout_defs)

lemma fb_arm_layouts:
  "layout GoABI ARM fb_arm_Ifgroupreq =
     [(''Name'', 0), (''Len'', 16), (''Pad1'', 20), (''Groups'', 20), (''Pad2'', 24)]"
  "struct_size GoABI ARM fb_arm_Ifgroupreq = 36"
  "layout GoABI ARM fb_arm_Ifgreq =
     [(''Ifgrqu'', 0)]"
  "struct_size GoABI ARM fb_arm_Ifgreq = 16"
  "layout GoABI ARM fb_arm_WGDataIO =
     [(''Name'', 0), (''Data'', 16), (''Size'', 20)]"
  "struct_size GoABI ARM fb_arm_WGDataIO = 28"
  by (simp_all add: freebsd_structs layout_defs)

lemmas openbsd_layouts = ob_amd64_layouts ob_arm64_layouts ob_386_layouts ob_arm_layouts

lemmas freebsd_layouts = fb_amd64_layouts fb_arm64_layouts fb_386_layouts fb_arm_layouts

end
