(* ===== verification/OpenBSD.thy ===== *)
theory OpenBSD
  imports Ioctl Wgh
begin

text \<open>
  \<open>internal/wgopenbsd/client_openbsd.go\<close>: the kernel's data is a \<open>WGInterfaceIO\<close> followed by the peers,
  each a \<open>WGPeerIO\<close> followed by its allowed IPs, which the code walks with pointers. The structures are
  those of the architecture \<open>a\<close>, with their fields where the Go compiler puts them. A structure is read as
  a whole. The backend only reads.
\<close>

section \<open>Structures\<close>

definition WG_INTERFACE_HAS_PUBLIC :: byte where "WG_INTERFACE_HAS_PUBLIC = 1"
definition WG_INTERFACE_HAS_PRIVATE :: byte where "WG_INTERFACE_HAS_PRIVATE = 2"
definition WG_INTERFACE_HAS_PORT :: byte where "WG_INTERFACE_HAS_PORT = 4"
definition WG_INTERFACE_HAS_RTABLE :: byte where "WG_INTERFACE_HAS_RTABLE = 8"
definition WG_PEER_HAS_PUBLIC :: "32 word" where "WG_PEER_HAS_PUBLIC = 1"
definition WG_PEER_HAS_PSK :: "32 word" where "WG_PEER_HAS_PSK = 2"
definition WG_PEER_HAS_PKA :: "32 word" where "WG_PEER_HAS_PKA = 4"
definition WG_PEER_HAS_ENDPOINT :: "32 word" where "WG_PEER_HAS_ENDPOINT = 8"

definition SizeofWGAIPIO :: "goarch \<Rightarrow> nat" where
  "SizeofWGAIPIO a = ob_SizeofWGAIPIO (wgh_openbsd a)"

definition SizeofWGInterfaceIO :: "goarch \<Rightarrow> nat" where
  "SizeofWGInterfaceIO a = ob_SizeofWGInterfaceIO (wgh_openbsd a)"

definition SizeofWGPeerIO :: "goarch \<Rightarrow> nat" where
  "SizeofWGPeerIO a = ob_SizeofWGPeerIO (wgh_openbsd a)"

lemmas openbsd_flags = WG_INTERFACE_HAS_PUBLIC_def WG_INTERFACE_HAS_PRIVATE_def WG_INTERFACE_HAS_PORT_def
  WG_INTERFACE_HAS_RTABLE_def WG_PEER_HAS_PUBLIC_def WG_PEER_HAS_PSK_def WG_PEER_HAS_PKA_def
  WG_PEER_HAS_ENDPOINT_def

lemma openbsd_sizes:
  "SizeofWGAIPIO a = 24" "SizeofWGInterfaceIO a = (if a = I386 then 76 else 80)"
  "SizeofWGPeerIO a = (if a = I386 then 136 else 144)"
  by (cases a; simp add: SizeofWGAIPIO_def SizeofWGInterfaceIO_def SizeofWGPeerIO_def)+

text \<open>Where the fields of the structures are. Counts are of C's type \<open>size_t\<close>.\<close>

definition io_at :: "goarch \<Rightarrow> string \<Rightarrow> nat" where
  "io_at a f = field_at a (ob_WGInterfaceIO (wgh_openbsd a)) f"

definition pio_at :: "goarch \<Rightarrow> string \<Rightarrow> nat" where
  "pio_at a f = field_at a (ob_WGPeerIO (wgh_openbsd a)) f"

definition aip_at :: "goarch \<Rightarrow> string \<Rightarrow> nat" where
  "aip_at a f = field_at a (ob_WGAIPIO (wgh_openbsd a)) f"

definition ts_at :: "goarch \<Rightarrow> string \<Rightarrow> nat" where
  "ts_at a f = field_at a (ob_Timespec (wgh_openbsd a)) f"

definition io_count_size :: "goarch \<Rightarrow> nat" where
  "io_count_size a = field_size a (ob_WGInterfaceIO (wgh_openbsd a)) ''Peers_count''"

definition pio_count_size :: "goarch \<Rightarrow> nat" where
  "pio_count_size a = field_size a (ob_WGPeerIO (wgh_openbsd a)) ''Aips_count''"

definition nsec_size :: "goarch \<Rightarrow> nat" where
  "nsec_size a = field_size a (ob_Timespec (wgh_openbsd a)) ''Nsec''"

lemma io_at_simps:
  "io_at a ''Flags'' = 0" "io_at a ''Port'' = 2" "io_at a ''Rtable'' = 4" "io_at a ''Public'' = 8"
  "io_at a ''Private'' = 40" "io_at a ''Peers_count'' = 72"
  by (cases a; simp add: io_at_def field_at_def openbsd_layouts)+

lemma pio_at_simps:
  "pio_at a ''Flags'' = 0" "pio_at a ''Protocol_version'' = 4" "pio_at a ''Public'' = 8" "pio_at a ''Psk'' = 40"
  "pio_at a ''Pka'' = 72" "pio_at a ''Endpoint'' = 76" "pio_at a ''Txbytes'' = 104" "pio_at a ''Rxbytes'' = 112"
  "pio_at a ''Last_handshake'' = 120" "pio_at a ''Aips_count'' = (if a = I386 then 132 else 136)"
  by (cases a; simp add: pio_at_def field_at_def openbsd_layouts)+

lemma aip_at_simps:
  "aip_at a ''Af'' = 0" "aip_at a ''Cidr'' = 4" "aip_at a ''Addr'' = 8"
  by (cases a; simp add: aip_at_def field_at_def openbsd_layouts)+

lemma ts_at_simps:
  "ts_at a ''Sec'' = 0" "ts_at a ''Nsec'' = 8"
  by (cases a; simp add: ts_at_def field_at_def openbsd_layouts)+

lemma count_sizes:
  "io_count_size a = ptr_size a" "pio_count_size a = ptr_size a" "nsec_size a = ptr_size a"
  by (cases a; simp add: io_count_size_def pio_count_size_def nsec_size_def field_size_def openbsd_structs)+

lemmas openbsd_layout = io_at_simps pio_at_simps aip_at_simps ts_at_simps count_sizes openbsd_sizes

record WGInterfaceIO =
  io_Flags :: byte
  io_Port :: u16
  io_Rtable :: "32 word"
  io_Public :: Key
  io_Private :: Key
  io_Peers_count :: "64 word"

record WGPeerIO =
  pio_Flags :: "32 word"
  pio_Protocol_version :: "32 word"
  pio_Public :: Key
  pio_Psk :: Key
  pio_Pka :: u16
  pio_Endpoint :: bytes
  pio_Txbytes :: "64 word"
  pio_Rxbytes :: "64 word"
  pio_Sec :: "64 word"
  pio_Nsec :: "64 word"
  pio_Aips_count :: "64 word"

record WGAIPIO =
  aip_Af :: byte
  aip_Cidr :: "32 word"
  aip_Addr :: bytes

definition get_interface :: "goarch \<Rightarrow> bytes \<Rightarrow> nat \<Rightarrow> crash + WGInterfaceIO" where
  "get_interface a m off =
     res_bind (mem_int m (off + io_at a ''Flags'') 1) (\<lambda>flags.
     res_bind (mem_int m (off + io_at a ''Port'') 2) (\<lambda>port.
     res_bind (mem_int m (off + io_at a ''Rtable'') 4) (\<lambda>rtable.
     res_bind (mem_read m (off + io_at a ''Public'') 32) (\<lambda>public.
     res_bind (mem_read m (off + io_at a ''Private'') 32) (\<lambda>private.
     res_bind (mem_int m (off + io_at a ''Peers_count'') (io_count_size a)) (\<lambda>count.
       Inr \<lparr> io_Flags = of_nat flags, io_Port = of_nat port, io_Rtable = of_nat rtable,
             io_Public = public, io_Private = private, io_Peers_count = of_nat count \<rparr>))))))"

definition put_interface :: "goarch \<Rightarrow> WGInterfaceIO \<Rightarrow> bytes" where
  "put_interface a x =
     le 1 (unat (io_Flags x)) @ pad 1 @ le 2 (unat (io_Port x)) @ le 4 (unat (io_Rtable x)) @
     io_Public x @ io_Private x @ le (ptr_size a) (unat (io_Peers_count x)) @
     pad (SizeofWGInterfaceIO a - 72 - ptr_size a)"

definition size_t_ok :: "goarch \<Rightarrow> 64 word \<Rightarrow> bool" where
  "size_t_ok a n \<longleftrightarrow> unat n < 256 ^ ptr_size a"

definition interface_wf :: "goarch \<Rightarrow> WGInterfaceIO \<Rightarrow> bool" where
  "interface_wf a x \<longleftrightarrow> key_ok (io_Public x) \<and> key_ok (io_Private x) \<and> size_t_ok a (io_Peers_count x)"

text \<open>A signed integer of \<open>n\<close> bytes as an \<open>int64\<close>.\<close>

definition sign_ext :: "nat \<Rightarrow> nat \<Rightarrow> 64 word" where
  "sign_ext n v = of_int (signed_take_bit (8 * n - 1) (int v))"

definition get_peer :: "goarch \<Rightarrow> bytes \<Rightarrow> nat \<Rightarrow> crash + WGPeerIO" where
  "get_peer a m off =
     res_bind (mem_int m (off + pio_at a ''Flags'') 4) (\<lambda>flags.
     res_bind (mem_int m (off + pio_at a ''Protocol_version'') 4) (\<lambda>version.
     res_bind (mem_read m (off + pio_at a ''Public'') 32) (\<lambda>public.
     res_bind (mem_read m (off + pio_at a ''Psk'') 32) (\<lambda>psk.
     res_bind (mem_int m (off + pio_at a ''Pka'') 2) (\<lambda>pka.
     res_bind (mem_read m (off + pio_at a ''Endpoint'') 28) (\<lambda>endpoint.
     res_bind (mem_int m (off + pio_at a ''Txbytes'') 8) (\<lambda>tx.
     res_bind (mem_int m (off + pio_at a ''Rxbytes'') 8) (\<lambda>rx.
     res_bind (mem_int m (off + (pio_at a ''Last_handshake'' + ts_at a ''Sec'')) 8) (\<lambda>sec.
     res_bind (mem_int m (off + (pio_at a ''Last_handshake'' + ts_at a ''Nsec'')) (nsec_size a)) (\<lambda>nsec.
     res_bind (mem_int m (off + pio_at a ''Aips_count'') (pio_count_size a)) (\<lambda>count.
       Inr \<lparr> pio_Flags = of_nat flags, pio_Protocol_version = of_nat version, pio_Public = public,
             pio_Psk = psk, pio_Pka = of_nat pka, pio_Endpoint = endpoint, pio_Txbytes = of_nat tx,
             pio_Rxbytes = of_nat rx, pio_Sec = of_nat sec, pio_Nsec = sign_ext (nsec_size a) nsec,
             pio_Aips_count = of_nat count \<rparr>)))))))))))"

definition put_peer :: "goarch \<Rightarrow> WGPeerIO \<Rightarrow> bytes" where
  "put_peer a x =
     le 4 (unat (pio_Flags x)) @ le 4 (unat (pio_Protocol_version x)) @ pio_Public x @ pio_Psk x @
     le 2 (unat (pio_Pka x)) @ pad 2 @ pio_Endpoint x @ le 8 (unat (pio_Txbytes x)) @
     le 8 (unat (pio_Rxbytes x)) @ le 8 (unat (pio_Sec x)) @ le (ptr_size a) (unat (pio_Nsec x)) @
     pad (if a = ARM then 4 else 0) @ le (ptr_size a) (unat (pio_Aips_count x)) @ pad (if a = ARM then 4 else 0)"

definition peer_wf :: "goarch \<Rightarrow> WGPeerIO \<Rightarrow> bool" where
  "peer_wf a x \<longleftrightarrow> key_ok (pio_Public x) \<and> key_ok (pio_Psk x) \<and> length (pio_Endpoint x) = 28 \<and>
     size_t_ok a (pio_Aips_count x) \<and> sign_ext (ptr_size a) (unat (pio_Nsec x) mod 256 ^ ptr_size a) = pio_Nsec x"

definition get_aip :: "goarch \<Rightarrow> bytes \<Rightarrow> nat \<Rightarrow> crash + WGAIPIO" where
  "get_aip a m off =
     res_bind (mem_int m (off + aip_at a ''Af'') 1) (\<lambda>af.
     res_bind (mem_int m (off + aip_at a ''Cidr'') 4) (\<lambda>cidr.
     res_bind (mem_read m (off + aip_at a ''Addr'') 16) (\<lambda>addr.
       Inr \<lparr> aip_Af = of_nat af, aip_Cidr = of_nat cidr, aip_Addr = addr \<rparr>)))"

definition put_aip :: "WGAIPIO \<Rightarrow> bytes" where
  "put_aip x = le 1 (unat (aip_Af x)) @ pad 3 @ le 4 (unat (aip_Cidr x)) @ aip_Addr x"

definition aip_wf :: "WGAIPIO \<Rightarrow> bool" where
  "aip_wf x \<longleftrightarrow> length (aip_Addr x) = 16"

lemma size_t_read: "size_t_ok a n \<Longrightarrow> of_nat (unat n mod 256 ^ ptr_size a) = n"
  by (simp add: size_t_ok_def)

lemma size_t_ok_of_nat: "n < max_int a \<Longrightarrow> size_t_ok a (of_nat n)"
proof -
  assume n: "n < max_int a"
  then have "unat (of_nat n :: 64 word) = n" by (rule unat_of_nat_int)
  moreover have "max_int a \<le> 256 ^ ptr_size a" using ptr_size_bounds [of a] by (auto simp: max_int_def)
  ultimately show ?thesis using n by (simp add: size_t_ok_def)
qed

interpretation ob_interface: c_struct "put_interface a" "get_interface a" "SizeofWGInterfaceIO a" "interface_wf a" for a
proof unfold_locales
  have p: "ptr_size a = (if a = I386 \<or> a = ARM then 4 else 8)" by (cases a) simp_all
  show "length (put_interface a x) = SizeofWGInterfaceIO a" if "interface_wf a x" for x
    using that by (auto simp: put_interface_def interface_wf_def key_ok_def KeyLen_def openbsd_sizes p)
  show "get_interface a (put_interface a x @ post) 0 = Inr x" if "interface_wf a x" for x post
    using that size_t_read [of a "io_Peers_count x"]
    by (auto simp: put_interface_def get_interface_def interface_wf_def key_ok_def KeyLen_def openbsd_layout mem_simps)
  show "get_interface a (pre @ m) (length pre + off) = get_interface a m off" for pre m off
    by (simp add: get_interface_def mem_int_skip mem_read_skip add.assoc)
qed

interpretation ob_peer: c_struct "put_peer a" "get_peer a" "SizeofWGPeerIO a" "peer_wf a" for a
proof unfold_locales
  have p: "ptr_size a = (if a = I386 \<or> a = ARM then 4 else 8)" by (cases a) simp_all
  show "length (put_peer a x) = SizeofWGPeerIO a" if "peer_wf a x" for x
    using that by (auto simp: put_peer_def peer_wf_def key_ok_def KeyLen_def openbsd_sizes p)
  show "get_peer a (put_peer a x @ post) 0 = Inr x" if "peer_wf a x" for x post
    using that size_t_read [of a "pio_Aips_count x"]
    by (cases a) (auto simp: put_peer_def get_peer_def peer_wf_def key_ok_def KeyLen_def openbsd_layout mem_simps)
  show "get_peer a (pre @ m) (length pre + off) = get_peer a m off" for pre m off
    by (simp add: get_peer_def mem_int_skip mem_read_skip add.assoc)
qed

interpretation ob_aip: c_struct put_aip "get_aip a" "SizeofWGAIPIO a" aip_wf for a
  by unfold_locales
    (auto simp: put_aip_def get_aip_def aip_wf_def openbsd_layout mem_simps mem_int_skip mem_read_skip add.assoc)

section \<open>Parsing\<close>

definition ENOTTY :: nat where "ENOTTY = 25"
definition openbsd_AF_INET6 :: nat where "openbsd_AF_INET6 = 24"

definition openbsd_deviceName :: "string \<Rightarrow> go_error + bytes" where
  "openbsd_deviceName name = ioctl_name ''wgopenbsd'' name"

definition openbsd_parseEndpoint :: "bytes \<Rightarrow> crash + udpaddr option" where
  "openbsd_parseEndpoint ep = parse_sockaddr openbsd_AF_INET6 ep"

definition openbsd_parseAllowedIP :: "WGAIPIO \<Rightarrow> crash + ipnet" where
  "openbsd_parseAllowedIP aip =
     (if aip_Af aip = 2
      then Inr \<lparr> in_IP = take 4 (aip_Addr aip), in_Mask = CIDRMask (sint (aip_Cidr aip)) 32 \<rparr>
      else if aip_Af aip = of_nat openbsd_AF_INET6
      then Inr \<lparr> in_IP = aip_Addr aip, in_Mask = CIDRMask (sint (aip_Cidr aip)) 128 \<rparr>
      else Inl (Panic ''wgopenbsd: invalid address family for allowed IP''))"

definition openbsd_parsePeer :: "WGPeerIO \<Rightarrow> crash + Peer" where
  "openbsd_parsePeer pio =
     (let p = zeroPeer\<lparr>
            peer_ReceiveBytes := sint (pio_Rxbytes pio),
            peer_TransmitBytes := sint (pio_Txbytes pio),
            peer_ProtocolVersion := sint (pio_Protocol_version pio) \<rparr>;
          p = (if 0 < sint (pio_Sec pio) \<and> 0 < sint (pio_Nsec pio)
               then p\<lparr> peer_LastHandshakeTime := time_Unix (sint (pio_Sec pio)) (sint (pio_Nsec pio)) \<rparr>
               else p);
          p = (if pio_Flags pio AND WG_PEER_HAS_PUBLIC \<noteq> 0
               then p\<lparr> peer_PublicKey := pio_Public pio \<rparr> else p);
          p = (if pio_Flags pio AND WG_PEER_HAS_PSK \<noteq> 0
               then p\<lparr> peer_PresharedKey := pio_Psk pio \<rparr> else p);
          p = (if pio_Flags pio AND WG_PEER_HAS_PKA \<noteq> 0
               then p\<lparr> peer_PersistentKeepaliveInterval := uint (pio_Pka pio) * second \<rparr> else p)
      in if pio_Flags pio AND WG_PEER_HAS_ENDPOINT \<noteq> 0
         then res_bind (openbsd_parseEndpoint (pio_Endpoint pio)) (\<lambda>e. Inr (p\<lparr> peer_Endpoint := e \<rparr>))
         else Inr p)"

text \<open>\<open>make\<close> with a capacity: a count that is no \<open>int\<close> panics.\<close>

definition make_cap :: "goarch \<Rightarrow> 64 word \<Rightarrow> crash + unit" where
  "make_cap a n = (if max_int a \<le> unat n then Inl (Panic ''makeslice: cap out of range'') else Inr ())"

text \<open>One turn of the loop over peers, before its inner loop.\<close>

definition openbsd_peer :: "goarch \<Rightarrow> WGPeerIO \<Rightarrow> crash + WGPeerIO \<times> Peer" where
  "openbsd_peer a pio =
     res_bind (openbsd_parsePeer pio) (\<lambda>p. res_bind (make_cap a (pio_Aips_count pio)) (\<lambda>_. Inr (pio, p)))"

definition openbsd_parseDevice :: "goarch \<Rightarrow> string \<Rightarrow> bytes \<Rightarrow> crash + Device" where
  "openbsd_parseDevice a name m =
     res_bind (get_interface a m 0) (\<lambda>ifio.
       let d = zeroDevice\<lparr> dev_Name := name, dev_Type := OpenBSDKernel \<rparr>;
           d = (if io_Flags ifio AND WG_INTERFACE_HAS_PRIVATE \<noteq> 0
                then d\<lparr> dev_PrivateKey := io_Private ifio \<rparr> else d);
           d = (if io_Flags ifio AND WG_INTERFACE_HAS_PUBLIC \<noteq> 0
                then d\<lparr> dev_PublicKey := io_Public ifio \<rparr> else d);
           d = (if io_Flags ifio AND WG_INTERFACE_HAS_PORT \<noteq> 0
                then d\<lparr> dev_ListenPort := uint (io_Port ifio) \<rparr> else d);
           d = (if io_Flags ifio AND WG_INTERFACE_HAS_RTABLE \<noteq> 0
                then d\<lparr> dev_FirewallMark := sint (io_Rtable ifio) \<rparr> else d)
       in res_bind (make_cap a (io_Peers_count ifio)) (\<lambda>_.
          res_bind
            (read_nested (\<lambda>off. res_bind (get_peer a m off) (openbsd_peer a)) (SizeofWGPeerIO a)
               (\<lambda>(pio, p). unat (pio_Aips_count pio))
               (\<lambda>off. res_bind (get_aip a m off) openbsd_parseAllowedIP) (SizeofWGAIPIO a)
               (unat (io_Peers_count ifio)) (SizeofWGInterfaceIO a))
            (\<lambda>ps. Inr (d\<lparr> dev_Peers := map (\<lambda>((pio, p), ips). p\<lparr> peer_AllowedIPs := ips \<rparr>) ps \<rparr>))))"

section \<open>The client\<close>

text \<open>The hook \<open>ioctlWGDataIO\<close> with the name in the request.\<close>

definition openbsd_check :: "goarch \<Rightarrow> 64 word \<Rightarrow> go_error option" where
  "openbsd_check a sz =
     (if sz < of_nat (SizeofWGInterfaceIO a)
      then Some (ErrText ''wgopenbsd: kernel returned unexpected number of bytes for WGInterfaceIO'')
      else None)"

definition openbsd_Device ::
    "goarch \<Rightarrow> (bytes \<Rightarrow> 's ioctl_get) \<Rightarrow> string \<Rightarrow> 's \<Rightarrow> ((failure + Device) \<times> 's) option" where
  "openbsd_Device a get name s =
     (case openbsd_deviceName name of
        Inl e \<Rightarrow> Some (Inl (Fail e), s)
      | Inr dname \<Rightarrow>
          (case grow_loop a (get dname) [ENXIO, ENOTTY] (openbsd_check a) 0 [] s of
             None \<Rightarrow> None
           | Some (Inl e, s) \<Rightarrow> Some (Inl e, s)
           | Some (Inr mem, s) \<Rightarrow> Some (crashing (openbsd_parseDevice a name mem), s)))"

definition openbsd_Devices ::
    "goarch \<Rightarrow> (bytes \<Rightarrow> 's ioctl_get) \<Rightarrow> 's ioctl_group \<Rightarrow> ('s \<Rightarrow> go_error option) \<Rightarrow> 's \<Rightarrow>
     ((failure + Device list) \<times> 's) option" where
  "openbsd_Devices a get groupreq ctxErr = bsd_Devices groupreq (openbsd_Device a get) ctxErr"

definition openbsd_ConfigureDevice ::
    "goarch \<Rightarrow> (bytes \<Rightarrow> 's ioctl_get) \<Rightarrow> string \<Rightarrow> Config \<Rightarrow> 's \<Rightarrow> (failure option \<times> 's) option" where
  "openbsd_ConfigureDevice a get name cfg s =
     map_option (\<lambda>(r, s). (case r of Inl e \<Rightarrow> Some e | Inr d \<Rightarrow> Some (Fail ErrReadOnly), s))
       (openbsd_Device a get name s)"

section \<open>What a kernel writes for a device\<close>

definition ob_aip_of :: "ipnet \<Rightarrow> WGAIPIO" where
  "ob_aip_of n =
     \<lparr> aip_Af = (if length (in_IP n) = 4 then 2 else of_nat openbsd_AF_INET6),
       aip_Cidr = of_int (fst (mask_Size (in_Mask n))),
       aip_Addr = in_IP n @ pad (16 - length (in_IP n)) \<rparr>"

definition ob_endpoint :: "udpaddr option \<Rightarrow> bytes" where
  "ob_endpoint e =
     (case e of None \<Rightarrow> pad 28
      | Some a \<Rightarrow> (let b = put_sockaddr openbsd_AF_INET6 a in b @ pad (28 - length b)))"

definition ob_peer_of :: "Peer \<Rightarrow> WGPeerIO" where
  "ob_peer_of q =
     \<lparr> pio_Flags = (if peer_PublicKey q \<noteq> zeroKey then WG_PEER_HAS_PUBLIC else 0) OR
         (if peer_PresharedKey q \<noteq> zeroKey then WG_PEER_HAS_PSK else 0) OR
         (if peer_PersistentKeepaliveInterval q \<noteq> 0 then WG_PEER_HAS_PKA else 0) OR
         (if peer_Endpoint q \<noteq> None then WG_PEER_HAS_ENDPOINT else 0),
       pio_Protocol_version = of_int (peer_ProtocolVersion q), pio_Public = peer_PublicKey q,
       pio_Psk = peer_PresharedKey q, pio_Pka = of_int (secs (peer_PersistentKeepaliveInterval q)),
       pio_Endpoint = ob_endpoint (peer_Endpoint q),
       pio_Txbytes = of_int (peer_TransmitBytes q), pio_Rxbytes = of_int (peer_ReceiveBytes q),
       pio_Sec = (case peer_LastHandshakeTime q of ZeroTime \<Rightarrow> 0 | UnixTime t n \<Rightarrow> of_int t),
       pio_Nsec = (case peer_LastHandshakeTime q of ZeroTime \<Rightarrow> 0 | UnixTime t n \<Rightarrow> of_int n),
       pio_Aips_count = of_nat (length (peer_AllowedIPs q)) \<rparr>"

definition ob_interface_of :: "Device \<Rightarrow> WGInterfaceIO" where
  "ob_interface_of d =
     \<lparr> io_Flags = (if dev_PublicKey d \<noteq> zeroKey then WG_INTERFACE_HAS_PUBLIC else 0) OR
         (if dev_PrivateKey d \<noteq> zeroKey then WG_INTERFACE_HAS_PRIVATE else 0) OR
         (if dev_ListenPort d \<noteq> 0 then WG_INTERFACE_HAS_PORT else 0) OR
         (if dev_FirewallMark d \<noteq> 0 then WG_INTERFACE_HAS_RTABLE else 0),
       io_Port = of_int (dev_ListenPort d), io_Rtable = of_int (dev_FirewallMark d),
       io_Public = dev_PublicKey d, io_Private = dev_PrivateKey d,
       io_Peers_count = of_nat (length (dev_Peers d)) \<rparr>"

definition ob_image :: "goarch \<Rightarrow> Device \<Rightarrow> bytes" where
  "ob_image a d = put_interface a (ob_interface_of d) @
     put_nested (put_peer a) put_aip
       (map (\<lambda>q. (ob_peer_of q, map ob_aip_of (peer_AllowedIPs q))) (dev_Peers d))"

text \<open>
  The devices such a kernel can have: what the structures can hold. The time of the last handshake is
  not a whole second, and the fields that other systems have are unset.
\<close>

definition handshake_ok :: "gotime \<Rightarrow> bool" where
  "handshake_ok t \<longleftrightarrow> (case t of ZeroTime \<Rightarrow> True | UnixTime s n \<Rightarrow> 0 < s \<and> s < 2 ^ 63 \<and> 0 < n \<and> n < second)"

definition whole_seconds :: "int \<Rightarrow> bool" where
  "whole_seconds i \<longleftrightarrow> i = secs i * second \<and> 0 \<le> secs i \<and> secs i \<le> 65535"

definition raw_endpoint_ok :: "udpaddr \<Rightarrow> bool" where
  "raw_endpoint_ok e \<longleftrightarrow> addr_ok (ua_IP e) \<and> 0 \<le> ua_Port e \<and> ua_Port e \<le> 65535 \<and> ua_Zone e = []"

definition signed_ok :: "nat \<Rightarrow> int \<Rightarrow> bool" where
  "signed_ok n i \<longleftrightarrow> - (2 ^ (n - 1)) \<le> i \<and> i < 2 ^ (n - 1)"

definition ob_peer_ok :: "goarch \<Rightarrow> Peer \<Rightarrow> bool" where
  "ob_peer_ok a q \<longleftrightarrow> key_ok (peer_PublicKey q) \<and> key_ok (peer_PresharedKey q) \<and>
     pred_option raw_endpoint_ok (peer_Endpoint q) \<and>
     whole_seconds (peer_PersistentKeepaliveInterval q) \<and>
     handshake_ok (peer_LastHandshakeTime q) \<and>
     signed_ok 64 (peer_ReceiveBytes q) \<and> signed_ok 64 (peer_TransmitBytes q) \<and>
     signed_ok 32 (peer_ProtocolVersion q) \<and>
     list_all ipnet_ok (peer_AllowedIPs q) \<and> length (peer_AllowedIPs q) < max_int a \<and>
     \<not> peer_AdvancedSecurity q \<and> \<not> peer_AWGPeerFlagsKnown q \<and> \<not> peer_FixedHeaders q \<and> \<not> peer_NoS4 q"

definition ob_device_ok :: "goarch \<Rightarrow> Device \<Rightarrow> bool" where
  "ob_device_ok a d \<longleftrightarrow> key_ok (dev_PublicKey d) \<and> key_ok (dev_PrivateKey d) \<and>
     0 \<le> dev_ListenPort d \<and> dev_ListenPort d \<le> 65535 \<and> signed_ok 32 (dev_FirewallMark d) \<and>
     list_all (ob_peer_ok a) (dev_Peers d) \<and> length (dev_Peers d) < max_int a \<and>
     d = zeroDevice\<lparr> dev_Name := dev_Name d, dev_Type := OpenBSDKernel, dev_PublicKey := dev_PublicKey d,
       dev_PrivateKey := dev_PrivateKey d, dev_ListenPort := dev_ListenPort d,
       dev_FirewallMark := dev_FirewallMark d, dev_Peers := dev_Peers d \<rparr>"

section \<open>Reading it back\<close>

lemma sint_of_int_64: "signed_ok 64 i \<Longrightarrow> sint (of_int i :: 64 word) = i"
  by (simp add: signed_ok_def signed_of_int signed_take_bit_int_eq_self)

lemma sint_of_int_32: "signed_ok 32 i \<Longrightarrow> sint (of_int i :: 32 word) = i"
  by (simp add: signed_ok_def signed_of_int signed_take_bit_int_eq_self)

lemma uint_of_int_16: "0 \<le> i \<Longrightarrow> i \<le> 65535 \<Longrightarrow> uint (of_int i :: u16) = i"
  by (simp add: unsigned_of_int take_bit_int_eq_self)

lemma read_aip:
  assumes "ipnet_ok n"
  shows "aip_wf (ob_aip_of n) \<and> openbsd_parseAllowedIP (ob_aip_of n) = Inr n"
  using assms
proof (rule ipnet_okE)
  fix l
  assume l: "simpleMaskLength (in_Mask n) = Some l" "l \<le> 8 * length (in_IP n)"
    and m: "in_Mask n = CIDRMask (int l) (8 * int (length (in_IP n)))" and ok: "addr_ok (in_IP n)"
  have len: "length (in_IP n) = 4 \<or> length (in_IP n) = 16" using ok by (auto simp: addr_ok_def)
  have "fst (mask_Size (in_Mask n)) = int l" using l(1) by (simp add: mask_Size_def)
  moreover have "sint (of_int (int l) :: 32 word) = int l"
    by (rule sint_of_int_32) (use l(2) len in \<open>auto simp: signed_ok_def\<close>)
  ultimately show ?thesis
    using len m by (cases n) (auto simp: aip_wf_def ob_aip_of_def openbsd_parseAllowedIP_def
        openbsd_AF_INET6_def pad_def)
qed

lemma put_sockaddr_length:
  "To16 (ua_IP a) \<noteq> None \<Longrightarrow> length (put_sockaddr af6 a) \<le> 28"
  by (auto simp: put_sockaddr_def dest: To4_length To16_length split: option.split)

lemma addr_ok_To16: "addr_ok ip \<Longrightarrow> To16 ip \<noteq> None"
  by (auto simp: addr_ok_def To16_def)

lemma endpoint_raw_self: "raw_endpoint_ok a \<Longrightarrow> endpoint_raw a = a"
  by (cases a) (auto simp: raw_endpoint_ok_def endpoint_raw_def addr_ok_def)

text \<open>What follows a socket address is not read.\<close>

lemma mem_read_append: "mem_read m off n = Inr x \<Longrightarrow> mem_read (m @ post) off n = Inr x"
  by (auto simp: mem_read_def split: if_splits)

lemma mem_int_append: "mem_int m off n = Inr x \<Longrightarrow> mem_int (m @ post) off n = Inr x"
  by (auto simp: mem_int_def res_bind_Inr mem_read_append)

lemma res_bind_mono:
  "res_bind a f = Inr y \<Longrightarrow> (\<And>x. a = Inr x \<Longrightarrow> a' = Inr x) \<Longrightarrow> (\<And>x. f x = Inr y \<Longrightarrow> f' x = Inr y) \<Longrightarrow>
   res_bind a' f' = Inr y"
  by (cases a) auto

lemma parse_sockaddr_append:
  "parse_sockaddr af6 m = Inr e \<Longrightarrow> parse_sockaddr af6 (m @ post) = Inr e"
  unfolding parse_sockaddr_def
  by (erule res_bind_mono, erule mem_int_append)
    (auto split: if_splits elim!: res_bind_mono intro: mem_int_append mem_read_append)

lemma ob_read_endpoint:
  assumes "raw_endpoint_ok a"
  shows "length (ob_endpoint (Some a)) = 28" "openbsd_parseEndpoint (ob_endpoint (Some a)) = Inr (Some a)"
proof -
  have a: "To16 (ua_IP a) \<noteq> None" "0 \<le> ua_Port a" "ua_Port a \<le> 65535"
    using assms addr_ok_To16 by (auto simp: raw_endpoint_ok_def)
  show "length (ob_endpoint (Some a)) = 28"
    using put_sockaddr_length [OF a(1), of openbsd_AF_INET6] by (simp add: ob_endpoint_def Let_def)
  have "parse_sockaddr openbsd_AF_INET6 (put_sockaddr openbsd_AF_INET6 a) = Inr (Some (endpoint_raw a))"
    by (rule parse_put_sockaddr) (use a in \<open>simp_all add: openbsd_AF_INET6_def\<close>)
  from parse_sockaddr_append [OF this] show "openbsd_parseEndpoint (ob_endpoint (Some a)) = Inr (Some a)"
    by (simp add: openbsd_parseEndpoint_def ob_endpoint_def Let_def endpoint_raw_self [OF assms])
qed

lemma peer_flag_bits:
  "pio_Flags (ob_peer_of q) AND WG_PEER_HAS_PUBLIC \<noteq> 0 \<longleftrightarrow> peer_PublicKey q \<noteq> zeroKey"
  "pio_Flags (ob_peer_of q) AND WG_PEER_HAS_PSK \<noteq> 0 \<longleftrightarrow> peer_PresharedKey q \<noteq> zeroKey"
  "pio_Flags (ob_peer_of q) AND WG_PEER_HAS_PKA \<noteq> 0 \<longleftrightarrow> peer_PersistentKeepaliveInterval q \<noteq> 0"
  "pio_Flags (ob_peer_of q) AND WG_PEER_HAS_ENDPOINT \<noteq> 0 \<longleftrightarrow> peer_Endpoint q \<noteq> None"
  by (simp_all add: ob_peer_of_def openbsd_flags)

lemma device_flag_bits:
  "io_Flags (ob_interface_of d) AND WG_INTERFACE_HAS_PUBLIC \<noteq> 0 \<longleftrightarrow> dev_PublicKey d \<noteq> zeroKey"
  "io_Flags (ob_interface_of d) AND WG_INTERFACE_HAS_PRIVATE \<noteq> 0 \<longleftrightarrow> dev_PrivateKey d \<noteq> zeroKey"
  "io_Flags (ob_interface_of d) AND WG_INTERFACE_HAS_PORT \<noteq> 0 \<longleftrightarrow> dev_ListenPort d \<noteq> 0"
  "io_Flags (ob_interface_of d) AND WG_INTERFACE_HAS_RTABLE \<noteq> 0 \<longleftrightarrow> dev_FirewallMark d \<noteq> 0"
  by (simp_all add: ob_interface_of_def openbsd_flags)

lemma handshake_read:
  assumes "handshake_ok (peer_LastHandshakeTime q)"
  shows "(if 0 < sint (pio_Sec (ob_peer_of q)) \<and> 0 < sint (pio_Nsec (ob_peer_of q))
      then time_Unix (sint (pio_Sec (ob_peer_of q))) (sint (pio_Nsec (ob_peer_of q))) else ZeroTime) =
    peer_LastHandshakeTime q"
proof (cases "peer_LastHandshakeTime q")
  case (UnixTime s n)
  with assms have "signed_ok 64 s" "signed_ok 64 n" "0 < s" "0 < n" "n < second"
    by (auto simp: handshake_ok_def signed_ok_def second_def)
  then show ?thesis
    by (simp add: UnixTime ob_peer_of_def sint_of_int_64 time_Unix_def)
qed (simp add: ob_peer_of_def)

lemma if_peer:
  "(if b then p\<lparr> peer_PublicKey := k \<rparr> else p) = p\<lparr> peer_PublicKey := (if b then k else peer_PublicKey p) \<rparr>"
  "(if b then p\<lparr> peer_PresharedKey := k \<rparr> else p) =
     p\<lparr> peer_PresharedKey := (if b then k else peer_PresharedKey p) \<rparr>"
  "(if b then p\<lparr> peer_PersistentKeepaliveInterval := i \<rparr> else p) =
     p\<lparr> peer_PersistentKeepaliveInterval := (if b then i else peer_PersistentKeepaliveInterval p) \<rparr>"
  "(if b then p\<lparr> peer_LastHandshakeTime := t \<rparr> else p) =
     p\<lparr> peer_LastHandshakeTime := (if b then t else peer_LastHandshakeTime p) \<rparr>"
  by simp_all

lemma if_same: "(if x \<noteq> y then x else y) = x" "(if x = y then y else x) = x"
  by simp_all

lemma sign_ext_small:
  assumes "0 \<le> i" and "i < 2 ^ 31"
  shows "sign_ext (ptr_size a) (unat (of_int i :: 64 word) mod 256 ^ ptr_size a) = of_int i"
proof -
  have "uint (of_int i :: 64 word) = i" using assms by (simp add: unsigned_of_int take_bit_int_eq_self)
  then have u: "unat (of_int i :: 64 word) = nat i" by (simp flip: nat_uint_eq)
  have n: "nat i < 2 ^ 31" using assms by (simp add: nat_less_iff)
  from ptr_size_bounds [of a] show ?thesis
  proof
    assume p: "ptr_size a = 4"
    have "nat i mod 256 ^ 4 = nat i" using n by simp
    then show ?thesis using assms by (simp add: p u sign_ext_def signed_take_bit_int_eq_self)
  next
    assume p: "ptr_size a = 8"
    have "nat i mod 256 ^ 8 = nat i" using n by simp
    then show ?thesis using assms by (simp add: p u sign_ext_def signed_take_bit_int_eq_self)
  qed
qed

lemma nsec_fits:
  "handshake_ok (peer_LastHandshakeTime q) \<Longrightarrow>
   sign_ext (ptr_size a) (unat (pio_Nsec (ob_peer_of q)) mod 256 ^ ptr_size a) = pio_Nsec (ob_peer_of q)"
  using sign_ext_small [of 0 a] sign_ext_small [of _ a]
  by (auto simp: ob_peer_of_def handshake_ok_def second_def split: gotime.splits)

lemma ob_read_peer:
  assumes "ob_peer_ok a q"
  shows "peer_wf a (ob_peer_of q) \<and> openbsd_peer a (ob_peer_of q) = Inr (ob_peer_of q, q\<lparr> peer_AllowedIPs := [] \<rparr>)"
proof
  note ok = assms [unfolded ob_peer_ok_def]
  have t: "handshake_ok (peer_LastHandshakeTime q)" using ok by blast
  have "length (pio_Endpoint (ob_peer_of q)) = 28"
    using ok ob_read_endpoint(1) by (cases "peer_Endpoint q") (auto simp: ob_peer_of_def ob_endpoint_def)
  moreover have "size_t_ok a (pio_Aips_count (ob_peer_of q))"
    using ok size_t_ok_of_nat by (simp add: ob_peer_of_def)
  ultimately show "peer_wf a (ob_peer_of q)"
    using ok nsec_fits [OF t] by (simp add: peer_wf_def) (simp add: ob_peer_of_def)
  note t = handshake_read [OF t]
  have n: "sint (pio_Rxbytes (ob_peer_of q)) = peer_ReceiveBytes q"
    "sint (pio_Txbytes (ob_peer_of q)) = peer_TransmitBytes q"
    "sint (pio_Protocol_version (ob_peer_of q)) = peer_ProtocolVersion q"
    "uint (pio_Pka (ob_peer_of q)) * second = peer_PersistentKeepaliveInterval q"
    "unat (pio_Aips_count (ob_peer_of q)) = length (peer_AllowedIPs q)"
    "pio_Public (ob_peer_of q) = peer_PublicKey q" "pio_Psk (ob_peer_of q) = peer_PresharedKey q"
    using ok by (simp_all add: ob_peer_of_def sint_of_int_64 sint_of_int_32 uint_of_int_16
        whole_seconds_def unat_of_nat_int [where a = a])
  have e: "peer_Endpoint q \<noteq> None \<Longrightarrow>
      openbsd_parseEndpoint (pio_Endpoint (ob_peer_of q)) = Inr (peer_Endpoint q)"
    using ok ob_read_endpoint(2) by (auto simp: ob_peer_of_def)
  have "openbsd_parsePeer (ob_peer_of q) = Inr (q\<lparr> peer_AllowedIPs := [] \<rparr>)"
  proof -
    let ?p = "zeroPeer\<lparr> peer_ReceiveBytes := peer_ReceiveBytes q, peer_TransmitBytes := peer_TransmitBytes q,
        peer_ProtocolVersion := peer_ProtocolVersion q, peer_LastHandshakeTime := peer_LastHandshakeTime q,
        peer_PublicKey := peer_PublicKey q, peer_PresharedKey := peer_PresharedKey q,
        peer_PersistentKeepaliveInterval := peer_PersistentKeepaliveInterval q \<rparr>"
    have "?p\<lparr> peer_Endpoint := peer_Endpoint q \<rparr> = q\<lparr> peer_AllowedIPs := [] \<rparr>"
      by (rule Peer.equality) (use ok in \<open>simp_all add: zeroPeer_def\<close>)
    moreover have "openbsd_parsePeer (ob_peer_of q) =
        (if peer_Endpoint q \<noteq> None
         then res_bind (openbsd_parseEndpoint (pio_Endpoint (ob_peer_of q))) (\<lambda>e. Inr (?p\<lparr> peer_Endpoint := e \<rparr>))
         else Inr ?p)"
      unfolding openbsd_parsePeer_def Let_def peer_flag_bits n if_peer
      by (simp add: zeroPeer_def t if_same cong: if_cong split del: if_split)
    moreover have "?p = ?p\<lparr> peer_Endpoint := None \<rparr>" by (simp add: zeroPeer_def)
    ultimately show ?thesis using e by (cases "peer_Endpoint q") auto
  qed
  then show "openbsd_peer a (ob_peer_of q) = Inr (ob_peer_of q, q\<lparr> peer_AllowedIPs := [] \<rparr>)"
    using ok by (simp add: openbsd_peer_def make_cap_def n(5))
qed

lemma list_all2_map_map: "list_all2 P (map f xs) (map g xs) \<longleftrightarrow> (\<forall>x \<in> set xs. P (f x) (g x))"
  by (induction xs) auto

lemma read_aips:
  "list_all ipnet_ok ips \<Longrightarrow> list_all aip_wf (map ob_aip_of ips) \<and>
    list_all2 (\<lambda>a b. openbsd_parseAllowedIP a = Inr b) (map ob_aip_of ips) ips"
  by (induction ips) (simp_all add: read_aip)

lemma aips_count: "ob_peer_ok a q \<Longrightarrow> unat (pio_Aips_count (ob_peer_of q)) = length (peer_AllowedIPs q)"
  by (simp add: ob_peer_ok_def ob_peer_of_def unat_of_nat_int [where a = a])

lemma read_peers:
  assumes "list_all (ob_peer_ok a) qs" and "length pre = SizeofWGInterfaceIO a"
  shows "read_nested
      (\<lambda>off. res_bind (get_peer a (pre @ put_nested (put_peer a) put_aip
           (map (\<lambda>q. (ob_peer_of q, map ob_aip_of (peer_AllowedIPs q))) qs) @ post) off) (openbsd_peer a))
      (SizeofWGPeerIO a) (\<lambda>(pio, p). unat (pio_Aips_count pio))
      (\<lambda>off. res_bind (get_aip a (pre @ put_nested (put_peer a) put_aip
           (map (\<lambda>q. (ob_peer_of q, map ob_aip_of (peer_AllowedIPs q))) qs) @ post) off) openbsd_parseAllowedIP)
      (SizeofWGAIPIO a) (length qs) (SizeofWGInterfaceIO a) =
    Inr (map (\<lambda>q. ((ob_peer_of q, q\<lparr> peer_AllowedIPs := [] \<rparr>), peer_AllowedIPs q)) qs)"
proof -
  let ?xs = "map (\<lambda>q. (ob_peer_of q, map ob_aip_of (peer_AllowedIPs q))) qs"
  let ?m = "pre @ put_nested (put_peer a) put_aip ?xs @ post" and ?count = "\<lambda>p. unat (pio_Aips_count p)"
  have ok: "\<And>q. q \<in> set qs \<Longrightarrow> ob_peer_ok a q" using assms(1) by (simp add: list_all_iff)
  have ips: "\<And>q. q \<in> set qs \<Longrightarrow> list_all ipnet_ok (peer_AllowedIPs q)" using ok by (simp add: ob_peer_ok_def)
  have "list_all (\<lambda>(p, as). peer_wf a p \<and> list_all aip_wf as \<and> ?count p = length as) ?xs"
    using ob_read_peer [OF ok] read_aips [OF ips] aips_count [OF ok] by (simp add: list_all_iff)
  from read_nested_put [OF ob_peer.c_struct_axioms [of a] ob_aip.c_struct_axioms [of a] this, of pre post]
  have "read_nested (get_peer a ?m) (SizeofWGPeerIO a) ?count (get_aip a ?m) (SizeofWGAIPIO a) (length qs)
      (SizeofWGInterfaceIO a) = Inr ?xs"
    using assms(2) by simp
  then show ?thesis
    by (rule read_nested_conv)
      (use ob_read_peer [OF ok] read_aips [OF ips] in \<open>simp add: list_all2_map_map\<close>)
qed

lemma if_device:
  "(if b then d\<lparr> dev_PrivateKey := k \<rparr> else d) = d\<lparr> dev_PrivateKey := (if b then k else dev_PrivateKey d) \<rparr>"
  "(if b then d\<lparr> dev_PublicKey := k \<rparr> else d) = d\<lparr> dev_PublicKey := (if b then k else dev_PublicKey d) \<rparr>"
  "(if b then d\<lparr> dev_ListenPort := i \<rparr> else d) = d\<lparr> dev_ListenPort := (if b then i else dev_ListenPort d) \<rparr>"
  "(if b then d\<lparr> dev_FirewallMark := i \<rparr> else d) = d\<lparr> dev_FirewallMark := (if b then i else dev_FirewallMark d) \<rparr>"
  by simp_all

lemma read_ob_image:
  assumes "ob_device_ok a d" and "dev_Name d = name"
  shows "openbsd_parseDevice a name (ob_image a d @ post) = Inr d"
proof -
  note ok = assms(1) [unfolded ob_device_ok_def]
  let ?i = "ob_interface_of d"
  have wf: "interface_wf a ?i" using ok size_t_ok_of_nat by (simp add: interface_wf_def ob_interface_of_def)
  have get: "get_interface a (ob_image a d @ post) 0 = Inr ?i"
    using ob_interface.get_put [OF wf] by (simp add: ob_image_def)
  have n: "io_Private ?i = dev_PrivateKey d" "io_Public ?i = dev_PublicKey d"
    "uint (io_Port ?i) = dev_ListenPort d" "sint (io_Rtable ?i) = dev_FirewallMark d"
    "unat (io_Peers_count ?i) = length (dev_Peers d)"
    using ok by (simp_all add: ob_interface_of_def uint_of_int_16 sint_of_int_32 unat_of_nat_int [where a = a])
  have few: "\<not> max_int a \<le> length (dev_Peers d)" using ok by simp
  have peers: "list_all (ob_peer_ok a) (dev_Peers d)" using ok by blast
  note ps = read_peers [OF peers ob_interface.put_length [OF wf], of post]
  let ?d = "zeroDevice\<lparr> dev_Name := name, dev_Type := OpenBSDKernel, dev_PrivateKey := dev_PrivateKey d,
      dev_PublicKey := dev_PublicKey d, dev_ListenPort := dev_ListenPort d,
      dev_FirewallMark := dev_FirewallMark d \<rparr>"
  have "openbsd_parseDevice a name (ob_image a d @ post) = Inr (?d\<lparr> dev_Peers := dev_Peers d \<rparr>)"
    unfolding openbsd_parseDevice_def get res_bind.simps Let_def device_flag_bits n if_device make_cap_def
    using ps few by (simp add: ob_image_def comp_def zeroDevice_def if_same cong: if_cong split del: if_split)
  also have "?d\<lparr> dev_Peers := dev_Peers d \<rparr> = d"
  proof -
    have "d = zeroDevice\<lparr> dev_Name := dev_Name d, dev_Type := OpenBSDKernel, dev_PublicKey := dev_PublicKey d,
        dev_PrivateKey := dev_PrivateKey d, dev_ListenPort := dev_ListenPort d,
        dev_FirewallMark := dev_FirewallMark d, dev_Peers := dev_Peers d \<rparr>"
      using ok by blast
    also have "\<dots> = ?d\<lparr> dev_Peers := dev_Peers d \<rparr>" by (simp add: zeroDevice_def assms(2))
    finally show ?thesis by (rule sym)
  qed
  finally show ?thesis .
qed

section \<open>The client against such a kernel\<close>

lemma ob_image_length: "ob_device_ok a d \<Longrightarrow> SizeofWGInterfaceIO a \<le> length (ob_image a d)"
proof -
  assume "ob_device_ok a d"
  then have "interface_wf a (ob_interface_of d)"
    using size_t_ok_of_nat by (simp add: ob_device_ok_def interface_wf_def ob_interface_of_def)
  from ob_interface.put_length [OF this] show ?thesis by (simp add: ob_image_def)
qed

lemma openbsd_check_image:
  assumes "ob_device_ok a d" and "length (ob_image a d) < max_int a"
  shows "openbsd_check a (of_nat (length (ob_image a d))) = None"
  using ob_image_length [OF assms(1)] assms(2)
  by (simp add: openbsd_check_def word_less_nat_alt unat_of_nat_int [where a = a] openbsd_sizes)

lemma openbsd_Device_serves:
  assumes "length name \<le> bsd_IFNAMSIZ" and "\<forall>s. ob_device_ok a (dev s) \<and> dev_Name (dev s) = name"
    and "\<forall>s. length (ob_image a (dev s)) \<le> B" and "B < max_int a"
    and "get (string_bytes name @ replicate (bsd_IFNAMSIZ - length name) 0) = serve (\<lambda>s. ob_image a (dev s)) nxt"
  shows "\<exists>s'. openbsd_Device a get name s = Some (Inr (dev s'), nxt s')"
proof -
  have "\<forall>s. openbsd_check a (of_nat (length (ob_image a (dev s)))) = None"
    using assms(2-4) openbsd_check_image by (meson le_less_trans)
  from grow_loop_serves [OF assms(3,4) this, of nxt "[ENXIO, ENOTTY]" 0 "[]" s]
  obtain s' post where "grow_loop a (serve (\<lambda>s. ob_image a (dev s)) nxt) [ENXIO, ENOTTY] (openbsd_check a) 0 [] s =
      Some (Inr (ob_image a (dev s') @ post), nxt s')"
    by blast
  then have "openbsd_Device a get name s = Some (Inr (dev s'), nxt s')"
    using assms(1,2,5) by (simp add: openbsd_Device_def openbsd_deviceName_def ioctl_name_def read_ob_image)
  then show ?thesis ..
qed

lemma openbsd_Device_fails:
  assumes "length name \<le> bsd_IFNAMSIZ"
    and "get (string_bytes name @ replicate (bsd_IFNAMSIZ - length name) 0) 0 [] s = (Inl e, s')"
  shows "openbsd_Device a get name s = Some (Inl (conform [ENXIO, ENOTTY] e), s')"
  using assms by (simp add: openbsd_Device_def openbsd_deviceName_def ioctl_name_def grow_loop.simps)

text \<open>The test \<open>Sec > 0 && Nsec > 0\<close> takes a handshake at a whole second for none.\<close>

lemma openbsd_whole_second:
  assumes "openbsd_parsePeer pio = Inr p" and "pio_Nsec pio = 0"
  shows "peer_LastHandshakeTime p = ZeroTime"
proof -
  have "\<not> 0 < sint (pio_Nsec pio)" using assms(2) by simp
  with assms(1) show ?thesis
    by (auto simp: openbsd_parsePeer_def Let_def res_bind_Inr zeroPeer_def simp del: if_cancel split: if_splits)
qed

end
