(* ===== verification/NvList.thy ===== *)
theory NvList
  imports Layout "HOL-Library.AList" "HOL-Library.Multiset"
begin

text \<open>
  \<open>internal/wgfreebsd/internal/nv\<close>: Go maps to and from name-value lists. An \<open>nv.List\<close> is an
  association list with distinct keys; \<^const>\<open>map_of\<close> looks a key up and \<^const>\<open>AList.update\<close> sets
  one. The order in which Go iterates over a map is not specified: a parameter that permutes the
  entries. \<open>libnv\<close> is C: a pair of functions, with the law that a list is unpacked as it was packed,
  interpreted on a byte format.
\<close>

section \<open>Values\<close>

datatype nvval =
    NvNil
  | NvBool bool
  | NvNumber "64 word"
  | NvBinary bytes
  | NvLists "(string \<times> nvval) list list"

type_synonym nvlist = "(string \<times> nvval) list"

text \<open>The values inside a C list. There are more types than the code handles.\<close>

datatype cval =
    CBool bool
  | CNumber "64 word"
  | CBinary bytes
  | CLists "(string \<times> cval) list list"
  | COther

type_synonym clist = "(string \<times> cval) list"

record libnv =
  nv_pack :: "clist \<Rightarrow> bytes"
  nv_unpack :: "bytes \<Rightarrow> crash + clist"

section \<open>Marshalling\<close>

text \<open>A value that no case of the type switch covers is not added.\<close>

fun keep :: "(string \<times> cval option) list \<Rightarrow> clist" where
  "keep [] = []"
| "keep ((k, None) # es) = keep es"
| "keep ((k, Some c) # es) = (k, c) # keep es"

text \<open>\<open>C.ulong(value)\<close>: a C \<open>unsigned long\<close> is as wide as a pointer on these systems.\<close>

definition C_ulong :: "goarch \<Rightarrow> 64 word \<Rightarrow> 64 word" where
  "C_ulong a n = take_bit (8 * ptr_size a) n"

lemma C_ulong_64: "ptr_size a = 8 \<Longrightarrow> C_ulong a n = n"
  by (simp add: C_ulong_def take_bit_word_eq_self)

primrec marshal_value :: "goarch \<Rightarrow> (clist \<Rightarrow> clist) \<Rightarrow> nvval \<Rightarrow> cval option" where
  "marshal_value a shuf NvNil = None"
| "marshal_value a shuf (NvBool b) = Some (CBool b)"
| "marshal_value a shuf (NvNumber n) = Some (CNumber (C_ulong a n))"
| "marshal_value a shuf (NvBinary b) = Some (CBinary b)"
| "marshal_value a shuf (NvLists ls) =
     Some (CLists (map (\<lambda>es. shuf (keep es)) (map (map (map_prod id (marshal_value a shuf))) ls)))"

definition marshal :: "goarch \<Rightarrow> (clist \<Rightarrow> clist) \<Rightarrow> nvlist \<Rightarrow> clist" where
  "marshal a shuf m = shuf (keep (map (map_prod id (marshal_value a shuf)) m))"

text \<open>\<open>Marshal\<close>; its error is always nil. The size is that of the bytes.\<close>

definition nv_Marshal :: "goarch \<Rightarrow> libnv \<Rightarrow> (clist \<Rightarrow> clist) \<Rightarrow> nvlist \<Rightarrow> bytes" where
  "nv_Marshal a nv shuf m = nv_pack nv (marshal a shuf m)"

section \<open>Unmarshalling\<close>

definition set_all :: "(string \<times> nvval) list \<Rightarrow> nvlist \<Rightarrow> nvlist" where
  "set_all es out = foldl (\<lambda>m (k, v). AList.update k v m) out es"

text \<open>\<open>C.GoBytes\<close> takes the size of a binary as an \<open>int\<close> of C: binaries have less than 2 to the 31 bytes.\<close>

primrec unmarshal_value :: "cval \<Rightarrow> nvval" where
  "unmarshal_value (CBool b) = NvBool b"
| "unmarshal_value (CNumber n) = NvNumber n"
| "unmarshal_value (CBinary b) = NvBinary b"
| "unmarshal_value (CLists ls) =
     NvLists (map (\<lambda>es. set_all es []) (map (map (map_prod id unmarshal_value)) ls))"
| "unmarshal_value COther = NvNil"

definition unmarshal :: "clist \<Rightarrow> nvlist \<Rightarrow> nvlist" where
  "unmarshal es out = set_all (map (map_prod id unmarshal_value) es) out"

text \<open>\<open>&d[0]\<close> panics for an empty slice.\<close>

definition nv_Unmarshal :: "libnv \<Rightarrow> bytes \<Rightarrow> nvlist \<Rightarrow> crash + nvlist" where
  "nv_Unmarshal nv d out =
     (if d = [] then Inl (Panic ''index out of range'')
      else res_bind (nv_unpack nv d) (\<lambda>es. Inr (unmarshal es out)))"

section \<open>The library\<close>

text \<open>Lists that can be packed: \<open>libnv\<close> refuses empty binaries and arrays.\<close>

primrec packable_value :: "cval \<Rightarrow> bool" where
  "packable_value (CBool b) = True"
| "packable_value (CNumber n) = True"
| "packable_value (CBinary b) = (b \<noteq> [])"
| "packable_value (CLists ls) =
     (ls \<noteq> [] \<and> list_all (list_all snd) (map (map (map_prod id packable_value)) ls))"
| "packable_value COther = False"

definition packable :: "clist \<Rightarrow> bool" where
  "packable es \<longleftrightarrow> list_all (packable_value \<circ> snd) es"

locale libnv_lib =
  fixes nv :: libnv
  assumes unpack_pack: "packable es \<Longrightarrow> nv_unpack nv (nv_pack nv es) = Inr es"
    and pack_nonempty: "nv_pack nv es \<noteq> []"

section \<open>Round trip\<close>

definition shuffles :: "(clist \<Rightarrow> clist) \<Rightarrow> bool" where
  "shuffles shuf \<longleftrightarrow> (\<forall>es. mset (shuf es) = mset es)"

text \<open>A value after both conversions: nested lists come back with their entries in another order.\<close>

fun reread :: "goarch \<Rightarrow> (clist \<Rightarrow> clist) \<Rightarrow> nvval \<Rightarrow> nvval" where
  "reread a shuf (NvLists ls) = NvLists (map (\<lambda>m. unmarshal (marshal a shuf m) []) ls)"
| "reread a shuf (NvNumber n) = NvNumber (C_ulong a n)"
| "reread a shuf v = v"

lemma unmarshal_marshal_value:
  "v \<noteq> NvNil \<Longrightarrow> \<exists>c. marshal_value a shuf v = Some c \<and> unmarshal_value c = reread a shuf v"
  by (cases v) (simp_all add: unmarshal_def marshal_def comp_def)

lemma map_of_set_all:
  "distinct (map fst es) \<Longrightarrow> map_of (set_all es out) k =
     (case map_of es k of None \<Rightarrow> map_of out k | Some v \<Rightarrow> Some v)"
proof (induction es arbitrary: out)
  case (Cons e es)
  obtain k' v where e: "e = (k', v)" by force
  with Cons.prems have "k' \<notin> set (map fst es)" by simp
  then have "map_of es k' = None" by (simp add: map_of_eq_None_iff)
  with Cons e show ?case by (auto simp: set_all_def update_conv' split: option.split)
qed (simp add: set_all_def)

lemma keep_map:
  "(\<And>v. v \<in> snd ` set m \<Longrightarrow> f v = Some (g v)) \<Longrightarrow> keep (map (map_prod id f) m) = map (map_prod id g) m"
  by (induction m) auto

definition no_nil :: "nvlist \<Rightarrow> bool" where
  "no_nil m \<longleftrightarrow> NvNil \<notin> snd ` set m"

lemma map_of_prod: "map_of (map (map_prod id f) es) k = map_option f (map_of es k)"
  by (induction es) auto

lemma unmarshal_marshal:
  assumes "shuffles shuf" and "distinct (map fst m)" and "no_nil m"
  shows "map_of (unmarshal (marshal a shuf m) []) k = map_option (reread a shuf) (map_of m k)"
proof -
  let ?g = "\<lambda>v. the (marshal_value a shuf v)"
  have g: "marshal_value a shuf v = Some (?g v)" "unmarshal_value (?g v) = reread a shuf v"
    if "v \<in> snd ` set m" for v
  proof -
    have "v \<noteq> NvNil" using that assms(3) unfolding no_nil_def by metis
    from unmarshal_marshal_value [OF this, of a shuf]
    show "marshal_value a shuf v = Some (?g v)" "unmarshal_value (?g v) = reread a shuf v" by auto
  qed
  let ?es = "map (map_prod id ?g) m"
  have "keep (map (map_prod id (marshal_value a shuf)) m) = ?es" by (rule keep_map) (rule g(1))
  then have es: "marshal a shuf m = shuf ?es" by (simp only: marshal_def)
  have ms: "mset (shuf ?es) = mset ?es" using assms(1) by (simp add: shuffles_def)
  have "mset (map fst (shuf ?es)) = mset (map fst m)" by (simp add: ms multiset.map_comp comp_def)
  then have d: "distinct (map fst (shuf ?es))" using assms(2) mset_eq_imp_distinct_iff by blast
  then have "map_of (unmarshal (shuf ?es) []) k = map_of (map (map_prod id unmarshal_value) (shuf ?es)) k"
    unfolding unmarshal_def by (subst map_of_set_all) (simp_all add: comp_def split: option.split)
  also have "\<dots> = map_option unmarshal_value (map_of (shuf ?es) k)" by (rule map_of_prod)
  also have "map_of (shuf ?es) = map_of ?es"
  proof -
    have "distinct (map fst ?es)" using assms(2) by (simp add: comp_def)
    then show ?thesis using map_of_inject_set [OF d] mset_eq_setD [OF ms] by blast
  qed
  also have "map_option unmarshal_value (map_of ?es k) = map_option (reread a shuf) (map_of m k)"
    using g(2) by (induction m) auto
  finally show ?thesis by (simp only: es)
qed

text \<open>What is made of values that are not empty can be packed.\<close>

primrec nv_ok :: "nvval \<Rightarrow> bool" where
  "nv_ok NvNil = True"
| "nv_ok (NvBool b) = True"
| "nv_ok (NvNumber n) = True"
| "nv_ok (NvBinary b) = (b \<noteq> [])"
| "nv_ok (NvLists ls) = (ls \<noteq> [] \<and> list_all (list_all snd) (map (map (map_prod id nv_ok)) ls))"

lemma set_keep: "set (keep es) = {(k, c). (k, Some c) \<in> set es}"
  by (induction es rule: keep.induct) auto

lemma set_shuf: "shuffles shuf \<Longrightarrow> set (shuf es) = set es"
  unfolding shuffles_def by (metis mset_eq_setD)

lemma marshal_value_packable:
  assumes "shuffles shuf"
  shows "nv_ok v \<Longrightarrow> marshal_value a shuf v = Some c \<Longrightarrow> packable_value c"
proof (induction v arbitrary: c)
  case (NvLists ls)
  have "packable_value d" if "m \<in> set ls" "(k, v) \<in> set m" "marshal_value a shuf v = Some d" for m k v d
    using NvLists.IH [OF that(1,2), of v d] that NvLists.prems(1) by (force simp: list_all_iff)
  then show ?case
    using NvLists.prems by (force simp: list_all_iff set_shuf [OF assms] set_keep)
qed auto

lemma marshal_packable:
  assumes "shuffles shuf" and "list_all (nv_ok \<circ> snd) m"
  shows "packable (marshal a shuf m)"
  using assms(2) marshal_value_packable [OF assms(1)]
  by (force simp: packable_def marshal_def list_all_iff set_shuf [OF assms(1)] set_keep)

context libnv_lib
begin

lemma unmarshal_of_marshal:
  "shuffles shuf \<Longrightarrow> list_all (nv_ok \<circ> snd) m \<Longrightarrow>
   nv_Unmarshal nv (nv_Marshal a nv shuf m) [] = Inr (unmarshal (marshal a shuf m) [])"
  by (simp add: nv_Unmarshal_def nv_Marshal_def pack_nonempty unpack_pack marshal_packable)

end

section \<open>A byte format\<close>

text \<open>
  An instance of the library. A sequence is written as its elements, each after a byte 1, and a final
  0; a value after a byte that gives its type.
\<close>

definition seq_put :: "bytes list \<Rightarrow> bytes" where
  "seq_put xs = concat (map (\<lambda>b. 1 # b) xs) @ [0]"

fun seq_get :: "nat \<Rightarrow> (bytes \<Rightarrow> ('a \<times> bytes) option) \<Rightarrow> bytes \<Rightarrow> ('a list \<times> bytes) option" where
  "seq_get (Suc n) get (b # bs) =
     (if b = 0 then Some ([], bs)
      else case get bs of None \<Rightarrow> None
        | Some (x, r) \<Rightarrow> map_option (\<lambda>(xs, r). (x # xs, r)) (seq_get n get r))"
| "seq_get n get bs = None"

fun byte_get :: "bytes \<Rightarrow> (byte \<times> bytes) option" where
  "byte_get [] = None"
| "byte_get (b # bs) = Some (b, bs)"

definition name_put :: "string \<Rightarrow> bytes" where
  "name_put s = seq_put (map (\<lambda>b. [b]) (string_bytes s))"

primrec value_put :: "cval \<Rightarrow> bytes" where
  "value_put (CBool b) = [0, if b then 1 else 0]"
| "value_put (CNumber n) = 1 # le 8 (unat n)"
| "value_put (CBinary b) = 2 # seq_put (map (\<lambda>x. [x]) b)"
| "value_put (CLists ls) =
     3 # seq_put (map (\<lambda>es. seq_put (map (\<lambda>(k, b). name_put k @ b) es)) (map (map (map_prod id value_put)) ls))"
| "value_put COther = [4]"

definition entry_get :: "nat \<Rightarrow> (bytes \<Rightarrow> (cval \<times> bytes) option) \<Rightarrow> bytes \<Rightarrow> ((string \<times> cval) \<times> bytes) option" where
  "entry_get n get bs =
     (case seq_get n byte_get bs of None \<Rightarrow> None
      | Some (k, r) \<Rightarrow> map_option (\<lambda>(v, r). ((bytes_string k, v), r)) (get r))"

fun value_get :: "nat \<Rightarrow> bytes \<Rightarrow> (cval \<times> bytes) option" where
  "value_get (Suc n) (t # bs) =
     (if t = 0 then map_option (\<lambda>(b, r). (CBool (b \<noteq> 0), r)) (byte_get bs)
      else if t = 1 then Some (CNumber (of_nat (host_get False (take 8 bs))), drop 8 bs)
      else if t = 2 then map_option (\<lambda>(b, r). (CBinary b, r)) (seq_get n byte_get bs)
      else if t = 3 then map_option (\<lambda>(ls, r). (CLists ls, r))
        (seq_get n (seq_get n (entry_get n (value_get n))) bs)
      else Some (COther, bs))"
| "value_get n bs = None"

definition list_put :: "clist \<Rightarrow> bytes" where
  "list_put es = seq_put (map (\<lambda>(k, v). name_put k @ value_put v) es)"

definition byte_libnv :: libnv where
  "byte_libnv = \<lparr> nv_pack = list_put,
     nv_unpack = (\<lambda>b. let n = length b in
       case seq_get n (entry_get n (value_get n)) b of Some (es, []) \<Rightarrow> Inr es | _ \<Rightarrow> Inl BadRead) \<rparr>"

lemma seq_put_Cons: "seq_put (x # xs) = 1 # x @ seq_put xs"
  by (simp add: seq_put_def)

lemma seq_put_Nil: "seq_put [] = [0]"
  by (simp add: seq_put_def)

lemma seq_get_put:
  assumes "\<And>x post. x \<in> set xs \<Longrightarrow> length (e x) < n \<Longrightarrow> get (e x @ post) = Some (x, post)"
    and "length (seq_put (map e xs)) \<le> k" and "k \<le> n"
  shows "seq_get k get (seq_put (map e xs) @ post) = Some (xs, post)"
  using assms
proof (induction xs arbitrary: k)
  case Nil
  then show ?case by (cases k) (simp_all add: seq_put_Nil)
next
  case (Cons x xs)
  from Cons.prems(2) obtain j where k: "k = Suc j" by (cases k) (simp_all add: seq_put_Cons)
  have "get (e x @ seq_put (map e xs) @ post) = Some (x, seq_put (map e xs) @ post)"
    using Cons.prems k by (intro Cons.prems(1)) (auto simp: seq_put_Cons)
  moreover have "seq_get j get (seq_put (map e xs) @ post) = Some (xs, post)"
    using Cons.prems k by (intro Cons.IH) (auto simp: seq_put_Cons)
  ultimately show ?case by (simp add: k seq_put_Cons)
qed

lemma bytes_get_put:
  "length (seq_put (map (\<lambda>x. [x]) b)) \<le> n \<Longrightarrow>
   seq_get n byte_get (seq_put (map (\<lambda>x. [x]) b) @ post) = Some (b, post)"
  by (rule seq_get_put [where n = n]) simp_all

lemma entry_get_put:
  assumes "\<And>post. length (value_put v) < n \<Longrightarrow> get (value_put v @ post) = Some (v, post)"
    and "length (name_put k @ value_put v) \<le> n"
  shows "entry_get n get ((name_put k @ value_put v) @ post) = Some ((k, v), post)"
proof -
  have "length (value_put v) < n" using assms(2) by (simp add: name_put_def seq_put_def)
  moreover have "seq_get n byte_get (name_put k @ value_put v @ post) = Some (string_bytes k, value_put v @ post)"
    unfolding name_put_def by (rule bytes_get_put) (use assms(2) in \<open>simp add: name_put_def\<close>)
  ultimately show ?thesis using assms(1) by (simp add: entry_get_def bytes_string_bytes)
qed

lemma seq_put_elem: "x \<in> set xs \<Longrightarrow> length (e x) < length (seq_put (map e xs))"
  by (induction xs) (auto simp: seq_put_Cons seq_put_Nil)

lemma value_get_put: "length (value_put v) \<le> n \<Longrightarrow> value_get n (value_put v @ post) = Some (v, post)"
proof (induction v arbitrary: n post)
  case (CLists ls)
  let ?entry = "\<lambda>(k, v). name_put k @ value_put v" and ?list = "\<lambda>es. list_put es"
  have put: "value_put (CLists ls) = 3 # seq_put (map list_put ls)"
    by (simp add: list_put_def [abs_def] comp_def split_def)
  with CLists.prems obtain j where n: "n = Suc j" and j: "length (seq_put (map list_put ls)) \<le> j"
    by (cases n) auto
  have "seq_get j (entry_get j (value_get j)) (list_put es @ post) = Some (es, post)"
    if es: "es \<in> set ls" for es post
  proof -
    have len: "length (list_put es) < j" using seq_put_elem [OF es, of list_put] j by simp
    have "entry_get j (value_get j) (?entry x @ post) = Some (x, post)" if x: "x \<in> set es" for x post
    proof -
      obtain k v where kv: "x = (k, v)" by force
      have "length (?entry x) < j" using seq_put_elem [OF x, of ?entry] len by (simp add: list_put_def)
      then have l: "length (name_put k @ value_put v) \<le> j" using kv by simp
      have "entry_get j (value_get j) ((name_put k @ value_put v) @ post) = Some ((k, v), post)"
        by (rule entry_get_put [OF _ l]) (use CLists.IH [OF es, of x v] x kv in auto)
      then show ?thesis by (simp add: kv)
    qed
    then show ?thesis using len unfolding list_put_def by (intro seq_get_put [where n = j]) auto
  qed
  then have "seq_get j (seq_get j (entry_get j (value_get j))) (seq_put (map list_put ls) @ post) = Some (ls, post)"
    using j by (intro seq_get_put [where n = j]) auto
  then show ?case by (simp add: put n del: value_put.simps)
next
  case (CBinary b)
  then obtain j where "n = Suc j" by (cases n) auto
  with CBinary show ?case by (simp add: bytes_get_put)
next
  case (CNumber x)
  then obtain j where "n = Suc j" by (cases n) auto
  then show ?case by (simp add: host_get_le)
next
  case (CBool b)
  then obtain j where "n = Suc j" by (cases n) auto
  then show ?case by simp
next
  case COther
  then obtain j where "n = Suc j" by (cases n) auto
  then show ?case by simp
qed

lemma list_get_put:
  assumes "length (list_put es) \<le> n"
  shows "seq_get n (entry_get n (value_get n)) (list_put es @ post) = Some (es, post)"
  unfolding list_put_def
proof (rule seq_get_put [where n = n])
  fix x post
  assume "x \<in> set es" and l: "length (case x of (k, v) \<Rightarrow> name_put k @ value_put v) < n"
  show "entry_get n (value_get n) ((case x of (k, v) \<Rightarrow> name_put k @ value_put v) @ post) = Some (x, post)"
    using l by (cases x) (auto intro!: entry_get_put value_get_put simp del: append_assoc)
qed (use assms in \<open>simp_all add: list_put_def\<close>)

interpretation byte_nv: libnv_lib byte_libnv
proof
  fix es
  show "nv_unpack byte_libnv (nv_pack byte_libnv es) = Inr es"
    using list_get_put [of es "length (list_put es)" "[]"] by (simp add: byte_libnv_def Let_def)
  show "nv_pack byte_libnv es \<noteq> []"
    by (simp add: byte_libnv_def list_put_def seq_put_def)
qed

end
