(* ===== verification/FreeBSD.thy ===== *)
theory FreeBSD
  imports Ioctl NvList Wgh
begin

text \<open>
  \<open>internal/wgfreebsd/client_freebsd.go\<close>: a device and a configuration are name-value lists, whose keys
  and value types the code gives and expects; a type assertion on another value panics. The backend
  has no AmneziaWG fields and leaves them out. Two places test a slice for nil: \<open>nil_peers\<close> and
  \<open>nil_ips\<close>, by the index of the peer, say which empty slices are nil. On 386 the file does not compile:
  \<open>ConfigureDevice\<close> assigns a \<open>uint64\<close> to a field that is a \<open>uint32\<close> there.
\<close>

section \<open>Reading a list\<close>

text \<open>Type assertions; a missing key is a nil interface.\<close>

definition as_number :: "nvval option \<Rightarrow> crash + 64 word" where
  "as_number v = (case v of Some (NvNumber n) \<Rightarrow> Inr n | _ \<Rightarrow> Inl (Panic ''interface conversion''))"

definition as_binary :: "nvval option \<Rightarrow> crash + bytes" where
  "as_binary v = (case v of Some (NvBinary b) \<Rightarrow> Inr b | _ \<Rightarrow> Inl (Panic ''interface conversion''))"

definition as_lists :: "nvval option \<Rightarrow> crash + nvlist list" where
  "as_lists v = (case v of Some (NvLists ls) \<Rightarrow> Inr ls | _ \<Rightarrow> Inl (Panic ''interface conversion''))"

text \<open>\<open>*(*wgtypes.Key)(b)\<close>: the slice must hold at least an array.\<close>

definition as_key :: "nvval option \<Rightarrow> crash + Key" where
  "as_key v = res_bind (as_binary v) (\<lambda>b.
     if length b < KeyLen then Inl (Panic ''cannot convert slice to array pointer'') else Inr (take KeyLen b))"

text \<open>\<open>if v, ok := m[key]; ok { ... }\<close>\<close>

definition nv_field ::
    "nvlist \<Rightarrow> string \<Rightarrow> (nvval option \<Rightarrow> crash + 'a) \<Rightarrow> ('a \<Rightarrow> 'd \<Rightarrow> 'd) \<Rightarrow> 'd \<Rightarrow> crash + 'd" where
  "nv_field m key conv upd d =
     (case map_of m key of None \<Rightarrow> Inr d | Some v \<Rightarrow> res_bind (conv (Some v)) (\<lambda>x. Inr (upd x d)))"

fun each :: "('a \<Rightarrow> 'e + 'b) \<Rightarrow> 'a list \<Rightarrow> 'e + 'b list" where
  "each f [] = Inr []"
| "each f (x # xs) = res_bind (f x) (\<lambda>y. res_bind (each f xs) (\<lambda>ys. Inr (y # ys)))"

definition freebsd_AF_INET6 :: nat where "freebsd_AF_INET6 = 28"

definition freebsd_parseEndpoint :: "bytes \<Rightarrow> crash + udpaddr option" where
  "freebsd_parseEndpoint ep =
     (if ep = [] then Inl (Panic ''index out of range'') else parse_sockaddr freebsd_AF_INET6 ep)"

definition freebsd_parseAllowedIP :: "goarch \<Rightarrow> nvlist \<Rightarrow> crash + ipnet" where
  "freebsd_parseAllowedIP a aip =
     res_bind (as_number (map_of aip ''cidr'')) (\<lambda>c.
       let cidr = go_int a c in
       if map_of aip ''ipv4'' \<noteq> None
       then res_bind (as_binary (map_of aip ''ipv4'')) (\<lambda>ip. Inr \<lparr> in_IP = ip, in_Mask = CIDRMask cidr 32 \<rparr>)
       else if map_of aip ''ipv6'' \<noteq> None
       then res_bind (as_binary (map_of aip ''ipv6'')) (\<lambda>ip. Inr \<lparr> in_IP = ip, in_Mask = CIDRMask cidr 128 \<rparr>)
       else Inl (Panic ''wgfreebsd: invalid address family for allowed IP''))"

text \<open>\<open>binary.Read\<close> of an \<open>int64\<close> leaves the variable at 0 when the bytes do not suffice.\<close>

definition read_i64 :: "bytes \<Rightarrow> nat \<Rightarrow> int" where
  "read_i64 b off =
     (if off + 8 \<le> length b then sint (of_nat (host_get False (take 8 (drop off b))) :: 64 word) else 0)"

definition parseTimestamp :: "bytes \<Rightarrow> gotime" where
  "parseTimestamp b =
     (let sec = read_i64 b 0; nsec = read_i64 b 8
      in if sec = 0 \<and> nsec = 0 then ZeroTime else time_Unix sec nsec)"

definition freebsd_parsePeer :: "goarch \<Rightarrow> nvlist \<Rightarrow> crash + Peer" where
  "freebsd_parsePeer a v =
     res_bind (nv_field v ''public-key'' as_key (\<lambda>k. peer_PublicKey_update (\<lambda>_. k))
       (zeroPeer\<lparr> peer_ProtocolVersion := 1 \<rparr>)) (\<lambda>p.
     res_bind (nv_field v ''preshared-key'' as_key (\<lambda>k. peer_PresharedKey_update (\<lambda>_. k)) p) (\<lambda>p.
     res_bind (nv_field v ''last-handshake-time'' as_binary
       (\<lambda>b. peer_LastHandshakeTime_update (\<lambda>_. parseTimestamp b)) p) (\<lambda>p.
     res_bind (nv_field v ''endpoint'' (\<lambda>x. res_bind (as_binary x) freebsd_parseEndpoint)
       (\<lambda>e. peer_Endpoint_update (\<lambda>_. e)) p) (\<lambda>p.
     res_bind (nv_field v ''persistent-keepalive-interval'' as_number
       (\<lambda>n. peer_PersistentKeepaliveInterval_update (\<lambda>_. i64 (second * sint n))) p) (\<lambda>p.
     res_bind (nv_field v ''rx-bytes'' as_number (\<lambda>n. peer_ReceiveBytes_update (\<lambda>_. sint n)) p) (\<lambda>p.
     res_bind (nv_field v ''tx-bytes'' as_number (\<lambda>n. peer_TransmitBytes_update (\<lambda>_. sint n)) p) (\<lambda>p.
     nv_field v ''allowed-ips'' (\<lambda>x. res_bind (as_lists x) (each (freebsd_parseAllowedIP a)))
       (\<lambda>ips. peer_AllowedIPs_update (\<lambda>xs. xs @ ips)) p)))))))"

definition freebsd_parseDevice :: "goarch \<Rightarrow> libnv \<Rightarrow> bytes \<Rightarrow> crash + Device" where
  "freebsd_parseDevice a nv data =
     res_bind (nv_Unmarshal nv data []) (\<lambda>m.
     res_bind (nv_field m ''public-key'' as_key (\<lambda>k. dev_PublicKey_update (\<lambda>_. k))
       (zeroDevice\<lparr> dev_Type := FreeBSDKernel \<rparr>)) (\<lambda>d.
     res_bind (nv_field m ''private-key'' as_key (\<lambda>k. dev_PrivateKey_update (\<lambda>_. k)) d) (\<lambda>d.
     res_bind (nv_field m ''user-cookie'' as_number (\<lambda>n. dev_FirewallMark_update (\<lambda>_. go_int a n)) d) (\<lambda>d.
     res_bind (nv_field m ''listen-port'' as_number (\<lambda>n. dev_ListenPort_update (\<lambda>_. go_int a n)) d) (\<lambda>d.
     nv_field m ''peers'' (\<lambda>x. res_bind (as_lists x) (each (freebsd_parsePeer a)))
       (\<lambda>ps. dev_Peers_update (\<lambda>xs. xs @ ps)) d)))))"

section \<open>Writing a list\<close>

definition freebsd_unparseEndpoint :: "udpaddr \<Rightarrow> bytes" where
  "freebsd_unparseEndpoint ep = put_sockaddr freebsd_AF_INET6 ep"

definition freebsd_unparseAllowedIP :: "ipnet \<Rightarrow> nvlist" where
  "freebsd_unparseAllowedIP aip =
     (let m = AList.update ''cidr'' (NvNumber (of_int (fst (mask_Size (in_Mask aip))))) []
      in case To4 (in_IP aip) of
           Some v4 \<Rightarrow> AList.update ''ipv4'' (NvBinary v4) m
         | None \<Rightarrow> (case To16 (in_IP aip) of
               Some v6 \<Rightarrow> AList.update ''ipv6'' (NvBinary v6) m
             | None \<Rightarrow> m))"

text \<open>\<open>if v := ...; v != nil { m[key] = ... }\<close>\<close>

definition nv_opt :: "string \<Rightarrow> ('a \<Rightarrow> nvval) \<Rightarrow> 'a option \<Rightarrow> nvlist \<Rightarrow> nvlist" where
  "nv_opt key f v m = (case v of None \<Rightarrow> m | Some x \<Rightarrow> AList.update key (f x) m)"

definition freebsd_unparsePeerConfig :: "bool \<Rightarrow> PeerConfig \<Rightarrow> nvlist" where
  "freebsd_unparsePeerConfig ips_nil cfg =
     (let m = AList.update ''public-key'' (NvBinary (pc_PublicKey cfg)) [];
          m = nv_opt ''preshared-key'' NvBinary (pc_PresharedKey cfg) m;
          m = nv_opt ''persistent-keepalive-interval'' (\<lambda>v. NvNumber (of_int (secs v)))
                (pc_PersistentKeepaliveInterval cfg) m;
          m = nv_opt ''endpoint'' (\<lambda>v. NvBinary (freebsd_unparseEndpoint v)) (pc_Endpoint cfg) m;
          m = (if pc_ReplaceAllowedIPs cfg then AList.update ''replace-allowedips'' (NvBool True) m else m);
          m = (if pc_Remove cfg then AList.update ''remove'' (NvBool True) m else m)
      in if pc_AllowedIPs cfg \<noteq> [] \<or> \<not> ips_nil
         then AList.update ''allowed-ips'' (NvLists (map freebsd_unparseAllowedIP (pc_AllowedIPs cfg))) m
         else m)"

definition freebsd_unparseConfig :: "bool \<Rightarrow> (nat \<Rightarrow> bool) \<Rightarrow> Config \<Rightarrow> nvlist" where
  "freebsd_unparseConfig nil_peers nil_ips cfg =
     (let m = nv_opt ''private-key'' NvBinary (cfg_PrivateKey cfg) [];
          m = nv_opt ''listen-port'' (\<lambda>v. NvNumber (of_int v)) (cfg_ListenPort cfg) m;
          m = nv_opt ''user-cookie'' (\<lambda>v. NvNumber (of_int v)) (cfg_FirewallMark cfg) m;
          m = (if cfg_ReplacePeers cfg then AList.update ''replace-peers'' (NvBool True) m else m)
      in if cfg_Peers cfg \<noteq> [] \<or> \<not> nil_peers
         then AList.update ''peers''
           (NvLists (map (\<lambda>(i, p). freebsd_unparsePeerConfig (nil_ips i) p) (enumerate 0 (cfg_Peers cfg)))) m
         else m)"

section \<open>The client\<close>

definition EINVAL :: nat where "EINVAL = 22"

definition SIOCGWG :: "goarch \<Rightarrow> nat" where
  "SIOCGWG a = fb_SIOCGWG (wgh_freebsd a)"

definition SIOCSWG :: "goarch \<Rightarrow> nat" where
  "SIOCSWG a = fb_SIOCSWG (wgh_freebsd a)"

text \<open>The hook \<open>ioctlWGDataIO\<close>: request, name, size, data.\<close>

type_synonym 's ioctl_data = "nat \<Rightarrow> bytes \<Rightarrow> 's ioctl_get"

definition freebsd_deviceName :: "string \<Rightarrow> go_error + bytes" where
  "freebsd_deviceName name = ioctl_name ''wgfreebsd'' name"

definition freebsd_Device ::
    "goarch \<Rightarrow> libnv \<Rightarrow> 's ioctl_data \<Rightarrow> string \<Rightarrow> 's \<Rightarrow> ((failure + Device) \<times> 's) option" where
  "freebsd_Device a nv io name s =
     (case freebsd_deviceName name of
        Inl e \<Rightarrow> Some (Inl (Fail e), s)
      | Inr dname \<Rightarrow>
          (case grow_loop a (io (SIOCGWG a) dname) [ENXIO, EINVAL] (\<lambda>_. None) 0 [] s of
             None \<Rightarrow> None
           | Some (Inl e, s) \<Rightarrow> Some (Inl e, s)
           | Some (Inr mem, s) \<Rightarrow>
               Some (crashing (res_bind (freebsd_parseDevice a nv mem) (\<lambda>d. Inr (d\<lparr> dev_Name := name \<rparr>))), s)))"

definition freebsd_Devices ::
    "goarch \<Rightarrow> libnv \<Rightarrow> 's ioctl_data \<Rightarrow> 's ioctl_group \<Rightarrow> ('s \<Rightarrow> go_error option) \<Rightarrow> 's \<Rightarrow>
     ((failure + Device list) \<times> 's) option" where
  "freebsd_Devices a nv io groupreq ctxErr = bsd_Devices groupreq (freebsd_Device a nv io) ctxErr"

text \<open>
  The loop over the peers of a configuration: for one with \<open>UpdateOnly\<close> the device is looked up, and
  anything but \<open>os.ErrNotExist\<close>, an error too, is answered by \<open>ErrUpdateOnlyNotSupported\<close>.
\<close>

fun update_only_loop ::
    "('s \<Rightarrow> ((failure + Device) \<times> 's) option) \<Rightarrow> PeerConfig list \<Rightarrow> 's \<Rightarrow> (failure option \<times> 's) option" where
  "update_only_loop device [] s = Some (None, s)"
| "update_only_loop device (p # ps) s =
     (if pc_UpdateOnly p
      then (case device s of
              None \<Rightarrow> None
            | Some (Inl (Crash c), s) \<Rightarrow> Some (Some (Crash c), s)
            | Some (Inl (Fail e), s) \<Rightarrow>
                if e = ErrNotExist then update_only_loop device ps s
                else Some (Some (Fail ErrUpdateOnlyNotSupported), s)
            | Some (Inr d, s) \<Rightarrow> Some (Some (Fail ErrUpdateOnlyNotSupported), s))
      else update_only_loop device ps s)"

text \<open>
  \<open>ConfigureDevice\<close>. \<open>Size: uint64(sz)\<close> type-checks where the field has 64 bits, which is what \<open>builds\<close> says
  and is not so on 386: there the definition stands for no program.
\<close>

definition builds :: "goarch \<Rightarrow> bool" where
  "builds a \<longleftrightarrow> map_of (fb_WGDataIO (wgh_freebsd a)) ''Size'' = Some (Num 8)"

lemma builds_iff: "builds a \<longleftrightarrow> a \<noteq> I386"
  by (cases a) (simp_all add: builds_def fb_amd64_WGDataIO_def fb_arm64_WGDataIO_def fb_386_WGDataIO_def
      fb_arm_WGDataIO_def freebsd_amd64_def freebsd_arm64_def freebsd_386_def freebsd_arm_def)

lemma builds_64: "ptr_size a = 8 \<Longrightarrow> builds a"
  by (cases a) (simp_all add: builds_iff)

definition freebsd_ConfigureDevice ::
    "goarch \<Rightarrow> libnv \<Rightarrow> (clist \<Rightarrow> clist) \<Rightarrow> bool \<Rightarrow> (nat \<Rightarrow> bool) \<Rightarrow> 's ioctl_data \<Rightarrow> ('s \<Rightarrow> go_error option) \<Rightarrow>
     string \<Rightarrow> Config \<Rightarrow> 's \<Rightarrow> (failure option \<times> 's) option" where
  "freebsd_ConfigureDevice a nv shuf nil_peers nil_ips io ctxErr name cfg s =
     (case ctxErr s of
        Some e \<Rightarrow> Some (Some (Fail e), s)
      | None \<Rightarrow>
          (case update_only_loop (freebsd_Device a nv io name) (cfg_Peers cfg) s of
             None \<Rightarrow> None
           | Some (Some e, s) \<Rightarrow> Some (Some e, s)
           | Some (None, s) \<Rightarrow>
               let mem = nv_Marshal a nv shuf (freebsd_unparseConfig nil_peers nil_ips cfg) in
               (case freebsd_deviceName name of
                  Inl e \<Rightarrow> Some (Some (Fail e), s)
                | Inr dname \<Rightarrow>
                    (case io (SIOCSWG a) dname (of_nat (length mem)) mem s of
                       (Inl e, s) \<Rightarrow> Some (Some (conform [ENXIO, EINVAL] e), s)
                     | (Inr _, s) \<Rightarrow> Some (None, s)))))"

section \<open>What comes back\<close>

text \<open>A configuration read as a device: no AmneziaWG fields, endpoints without zone.\<close>

definition freebsd_echo_peer :: "PeerConfig \<Rightarrow> Peer" where
  "freebsd_echo_peer p = (echo_peer p)\<lparr>
     peer_Endpoint := map_option endpoint_raw (pc_Endpoint p), peer_ProtocolVersion := 1 \<rparr>"

definition freebsd_echo :: "string \<Rightarrow> Config \<Rightarrow> Device" where
  "freebsd_echo name c = zeroDevice\<lparr> dev_Name := name, dev_Type := FreeBSDKernel,
     dev_PrivateKey := (case cfg_PrivateKey c of None \<Rightarrow> zeroKey | Some k \<Rightarrow> k),
     dev_ListenPort := num (cfg_ListenPort c), dev_FirewallMark := num (cfg_FirewallMark c),
     dev_Peers := map freebsd_echo_peer (cfg_Peers c) \<rparr>"

text \<open>What a peer of a configuration must be like for that.\<close>

definition fb_peer_ok :: "PeerConfig \<Rightarrow> bool" where
  "fb_peer_ok p \<longleftrightarrow> pc_wf p \<and> valid_peer p \<and> list_all ipnet_ok (pc_AllowedIPs p) \<and>
     pred_option (\<lambda>a. To16 (ua_IP a) \<noteq> None) (pc_Endpoint p)"

section \<open>Lists that are written\<close>

declare AList.update.simps [simp del]

definition nv_good :: "nvval \<Rightarrow> bool" where
  "nv_good v \<longleftrightarrow> nv_ok v \<and> v \<noteq> NvNil"

definition nvlist_ok :: "nvlist \<Rightarrow> bool" where
  "nvlist_ok m \<longleftrightarrow> distinct (map fst m) \<and> list_all (nv_good \<circ> snd) m"

lemma nvlist_ok_Nil [simp]: "nvlist_ok []"
  by (simp add: nvlist_ok_def)

lemma good_update: "list_all (nv_good \<circ> snd) m \<Longrightarrow> nv_good v \<Longrightarrow> list_all (nv_good \<circ> snd) (AList.update k v m)"
  by (induction m) (auto simp: AList.update.simps)

lemma nvlist_ok_update [intro]: "nvlist_ok m \<Longrightarrow> nv_good v \<Longrightarrow> nvlist_ok (AList.update k v m)"
  by (simp add: nvlist_ok_def good_update distinct_update)

lemma nvlist_ok_opt [intro]: "nvlist_ok m \<Longrightarrow> pred_option (\<lambda>x. nv_good (f x)) v \<Longrightarrow> nvlist_ok (nv_opt k f v m)"
  by (cases v) (auto simp: nv_opt_def)

lemma nvlist_ok_if:
  "(b \<Longrightarrow> nvlist_ok m) \<Longrightarrow> (\<not> b \<Longrightarrow> nvlist_ok m') \<Longrightarrow> nvlist_ok (if b then m else m')"
  by simp

lemma nv_good_simps [simp]:
  "nv_good (NvBool b)" "nv_good (NvNumber n)" "nv_good (NvBinary d) \<longleftrightarrow> d \<noteq> []"
  by (simp_all add: nv_good_def)

lemma nv_good_lists [intro]: "ls \<noteq> [] \<Longrightarrow> list_all nvlist_ok ls \<Longrightarrow> nv_good (NvLists ls)"
  by (force simp: nv_good_def nvlist_ok_def list_all_iff)

lemma nvlist_ok_reread:
  "shuffles shuf \<Longrightarrow> nvlist_ok m \<Longrightarrow>
   map_of (unmarshal (marshal a shuf m) []) k = map_option (reread a shuf) (map_of m k)"
  by (rule unmarshal_marshal) (auto simp: nvlist_ok_def no_nil_def nv_good_def list_all_iff)

lemma map_of_opt: "map_of (nv_opt k f v m) = (case v of None \<Rightarrow> map_of m | Some x \<Rightarrow> (map_of m)(k \<mapsto> f x))"
  by (simp add: nv_opt_def update_conv' split: option.split)

section \<open>Allowed IPs\<close>

lemma aip_list_ok: "ipnet_ok n \<Longrightarrow> nvlist_ok (freebsd_unparseAllowedIP n)"
  unfolding freebsd_unparseAllowedIP_def Let_def
  by (auto dest!: To4_length To16_length intro!: nvlist_ok_update split: option.split)

lemma freebsd_read_aip:
  assumes "shuffles shuf" and "ipnet_ok n" and "ptr_size a = 8"
  shows "freebsd_parseAllowedIP a (unmarshal (marshal a shuf (freebsd_unparseAllowedIP n)) []) = Inr n"
  using assms(2)
proof (rule ipnet_okE)
  fix l
  assume l: "simpleMaskLength (in_Mask n) = Some l" "l \<le> 8 * length (in_IP n)"
    and m: "in_Mask n = CIDRMask (int l) (8 * int (length (in_IP n)))" and ok: "addr_ok (in_IP n)"
  have len: "length (in_IP n) = 4 \<or> length (in_IP n) = 16 \<and> To4 (in_IP n) = None"
    using ok by (auto simp: addr_ok_def)
  have "fst (mask_Size (in_Mask n)) = int l" using l(1) by (simp add: mask_Size_def)
  moreover have "go_int a (of_nat l) = int l"
    by (rule go_int_of_nat) (use l(2) len ptr_size_bounds [of a] in \<open>auto simp: max_int_def\<close>)
  moreover have "map_of (unmarshal (marshal a shuf (freebsd_unparseAllowedIP n)) []) k =
      (if k = ''cidr'' then Some (NvNumber (of_int (fst (mask_Size (in_Mask n)))))
       else if k = ''ipv4'' \<and> length (in_IP n) = 4 \<or> k = ''ipv6'' \<and> length (in_IP n) = 16
       then Some (NvBinary (in_IP n)) else None)" for k
    unfolding nvlist_ok_reread [OF assms(1) aip_list_ok [OF assms(2)]]
    using len by (auto simp: freebsd_unparseAllowedIP_def update_conv' Let_def C_ulong_64 [OF assms(3)])
  ultimately show ?thesis
    using len m by (cases n) (auto simp: freebsd_parseAllowedIP_def as_number_def as_binary_def Let_def)
qed

lemma each_map: "(\<And>x. x \<in> set xs \<Longrightarrow> f (g x) = Inr (h x)) \<Longrightarrow> each f (map g xs) = Inr (map h xs)"
  by (induction xs) auto

lemma freebsd_read_aips:
  assumes "shuffles shuf" and "list_all ipnet_ok ips" and "ptr_size a = 8"
  shows "each (freebsd_parseAllowedIP a)
    (map (\<lambda>m. unmarshal (marshal a shuf m) []) (map freebsd_unparseAllowedIP ips)) = Inr ips"
proof -
  have "each (freebsd_parseAllowedIP a) (map (\<lambda>n. unmarshal (marshal a shuf (freebsd_unparseAllowedIP n)) []) ips) =
      Inr (map (\<lambda>n. n) ips)"
    by (rule each_map) (use assms in \<open>simp add: list_all_iff freebsd_read_aip\<close>)
  then show ?thesis by (simp add: comp_def)
qed

section \<open>Peers\<close>

lemma put_sockaddr_nonempty: "To16 (ua_IP a) \<noteq> None \<Longrightarrow> put_sockaddr af6 a \<noteq> []"
  by (auto simp: put_sockaddr_def split: option.split)

lemma key_nonempty: "key_ok k \<Longrightarrow> k \<noteq> []"
  by (auto simp: key_ok_def KeyLen_def)

lemma peer_list_ok:
  assumes "fb_peer_ok p" and "pc_AllowedIPs p = [] \<longrightarrow> ips_nil"
  shows "nvlist_ok (freebsd_unparsePeerConfig ips_nil p)"
proof -
  have ips: "list_all nvlist_ok (map freebsd_unparseAllowedIP (pc_AllowedIPs p))"
    using assms(1) aip_list_ok by (auto simp: fb_peer_ok_def list_all_iff)
  have "pred_option (\<lambda>k. nv_good (NvBinary k)) (pc_PresharedKey p)"
    "pred_option (\<lambda>a. nv_good (NvBinary (freebsd_unparseEndpoint a))) (pc_Endpoint p)"
    "nv_good (NvBinary (pc_PublicKey p))"
    using assms(1) by (auto simp: fb_peer_ok_def pc_wf_def key_nonempty freebsd_unparseEndpoint_def
        put_sockaddr_nonempty option.pred_set)
  then show ?thesis
    using assms(2) ips unfolding freebsd_unparsePeerConfig_def Let_def
    by (intro nvlist_ok_if nvlist_ok_update nvlist_ok_opt nv_good_lists nvlist_ok_Nil)
      (auto simp: option.pred_True)
qed

lemma as_key_read: "key_ok k \<Longrightarrow> as_key (Some (NvBinary k)) = Inr k"
  by (simp add: as_key_def as_binary_def key_ok_def)

lemma freebsd_read_endpoint:
  assumes "To16 (ua_IP a) \<noteq> None" and "0 \<le> ua_Port a" and "ua_Port a \<le> 65535"
  shows "freebsd_parseEndpoint (freebsd_unparseEndpoint a) = Inr (Some (endpoint_raw a))"
  using parse_put_sockaddr [OF assms, of freebsd_AF_INET6]
  by (simp add: freebsd_parseEndpoint_def freebsd_unparseEndpoint_def put_sockaddr_nonempty assms(1)
      freebsd_AF_INET6_def)

lemma freebsd_read_keepalive:
  assumes "0 \<le> i" and "i \<le> 65535"
  shows "i64 (second * sint (of_int i :: 64 word)) = i * second"
proof -
  have "sint (of_int i :: 64 word) = i"
    using assms by (simp add: signed_of_int signed_take_bit_int_eq_self)
  moreover have "i64 (second * i) = second * i"
    by (rule i64_id) (use assms in \<open>simp_all add: second_def\<close>)
  ultimately show ?thesis by simp
qed

lemma nv_field_opt:
  "map_of m k = map_option f v \<Longrightarrow> (\<And>x. v = Some x \<Longrightarrow> conv (Some (f x)) = Inr (g x)) \<Longrightarrow>
   nv_field m k conv upd d = Inr (case v of None \<Rightarrow> d | Some x \<Rightarrow> upd (g x) d)"
  by (cases v) (simp_all add: nv_field_def)

lemma nv_field_None: "map_of m k = None \<Longrightarrow> nv_field m k conv upd d = Inr d"
  by (simp add: nv_field_def)

lemma nv_field_Some: "map_of m k = Some v \<Longrightarrow> conv (Some v) = Inr x \<Longrightarrow> nv_field m k conv upd d = Inr (upd x d)"
  by (simp add: nv_field_def)

lemma freebsd_read_peer:
  assumes "shuffles shuf" and "fb_peer_ok p" and "pc_AllowedIPs p = [] \<longrightarrow> ips_nil" and "ptr_size a = 8"
  shows "freebsd_parsePeer a (unmarshal (marshal a shuf (freebsd_unparsePeerConfig ips_nil p)) []) =
    Inr (freebsd_echo_peer p)"
proof -
  let ?m = "unmarshal (marshal a shuf (freebsd_unparsePeerConfig ips_nil p)) []"
  note lookup = nvlist_ok_reread [OF assms(1) peer_list_ok [OF assms(2,3)]]
  note unp = freebsd_unparsePeerConfig_def Let_def map_of_opt update_conv'
  have lk: "map_of ?m ''public-key'' = Some (NvBinary (pc_PublicKey p))"
    "map_of ?m ''preshared-key'' = map_option NvBinary (pc_PresharedKey p)"
    "map_of ?m ''last-handshake-time'' = None" "map_of ?m ''rx-bytes'' = None" "map_of ?m ''tx-bytes'' = None"
    "map_of ?m ''endpoint'' = map_option (\<lambda>a. NvBinary (freebsd_unparseEndpoint a)) (pc_Endpoint p)"
    "map_of ?m ''persistent-keepalive-interval'' =
       map_option (\<lambda>v. NvNumber (of_int (secs v))) (pc_PersistentKeepaliveInterval p)"
    "map_of ?m ''allowed-ips'' = (if pc_AllowedIPs p = [] then None
       else Some (NvLists (map (\<lambda>m. unmarshal (marshal a shuf m) []) (map freebsd_unparseAllowedIP (pc_AllowedIPs p)))))"
    unfolding lookup using assms(3) by (auto simp: unp C_ulong_64 [OF assms(4)] split: option.split)
  have ok: "key_ok (pc_PublicKey p)" "pred_option key_ok (pc_PresharedKey p)"
    "list_all ipnet_ok (pc_AllowedIPs p)" "valid_peer p"
    "pred_option (\<lambda>a. To16 (ua_IP a) \<noteq> None) (pc_Endpoint p)"
    using assms(2) by (auto simp: fb_peer_ok_def pc_wf_def)
  have f1: "nv_field ?m ''public-key'' as_key upd d = Inr (upd (pc_PublicKey p) d)" for upd and d :: Peer
    by (rule nv_field_Some [OF lk(1)]) (simp add: as_key_read ok(1))
  have f2: "nv_field ?m ''preshared-key'' as_key upd d =
      Inr (case pc_PresharedKey p of None \<Rightarrow> d | Some k \<Rightarrow> upd k d)" for upd and d :: Peer
    by (rule nv_field_opt [OF lk(2)]) (use ok(2) in \<open>simp add: as_key_read\<close>)
  have f3: "nv_field ?m ''endpoint'' (\<lambda>x. res_bind (as_binary x) freebsd_parseEndpoint) upd d =
      Inr (case pc_Endpoint p of None \<Rightarrow> d | Some a \<Rightarrow> upd (Some (endpoint_raw a)) d)" for upd and d :: Peer
    by (rule nv_field_opt [OF lk(6)]) (use ok(4,5) in \<open>simp add: as_binary_def freebsd_read_endpoint valid_peer_def\<close>)
  have f4: "nv_field ?m ''persistent-keepalive-interval'' as_number upd d =
      Inr (case pc_PersistentKeepaliveInterval p of None \<Rightarrow> d | Some v \<Rightarrow> upd (of_int (secs v)) d)"
    for upd and d :: Peer
    by (rule nv_field_opt [OF lk(7)]) (simp add: as_number_def)
  have ka: "i64 (second * sint (of_int (secs v) :: 64 word)) = secs v * second"
    if "pc_PersistentKeepaliveInterval p = Some v" for v
  proof -
    have "keepalive_ok v" using ok(4) that by (simp add: valid_peer_def keepalive_ok_def)
    from freebsd_read_keepalive [OF secs_bounds [OF this, THEN conjunct1] secs_bounds [OF this, THEN conjunct2]]
    show ?thesis .
  qed
  have f5: "nv_field ?m ''allowed-ips'' (\<lambda>x. res_bind (as_lists x) (each (freebsd_parseAllowedIP a)))
      (\<lambda>ips. peer_AllowedIPs_update (\<lambda>xs. xs @ ips)) d =
      Inr (peer_AllowedIPs_update (\<lambda>xs. xs @ pc_AllowedIPs p) d)" for d :: Peer
    using freebsd_read_aips [OF assms(1) ok(3) assms(4)]
    by (cases "pc_AllowedIPs p = []") (simp_all add: nv_field_def lk(8) as_lists_def del: list.map_comp map_map)
  show ?thesis
    unfolding freebsd_parsePeer_def f1 f2 f3 f4 f5 nv_field_None [OF lk(3)] nv_field_None [OF lk(4)]
      nv_field_None [OF lk(5)] res_bind.simps
    using ka by (auto simp: freebsd_echo_peer_def echo_peer_def zeroPeer_def split: option.split)
qed

section \<open>Devices\<close>

lemma config_list_ok:
  assumes "list_all fb_peer_ok (cfg_Peers c)" and "pred_option key_ok (cfg_PrivateKey c)"
    and "cfg_Peers c = [] \<longrightarrow> nil_peers" and "\<forall>i < length (cfg_Peers c). pc_AllowedIPs (cfg_Peers c ! i) = [] \<longrightarrow> nil_ips i"
  shows "nvlist_ok (freebsd_unparseConfig nil_peers nil_ips c)"
proof -
  have "list_all nvlist_ok (map (\<lambda>(i, p). freebsd_unparsePeerConfig (nil_ips i) p) (enumerate 0 (cfg_Peers c)))"
    using assms(1,4) by (auto simp: list_all_length nth_enumerate_eq intro!: peer_list_ok)
  moreover have "pred_option (\<lambda>k. nv_good (NvBinary k)) (cfg_PrivateKey c)"
    using assms(2) by (auto simp: key_nonempty option.pred_set)
  ultimately show ?thesis
    using assms(3) unfolding freebsd_unparseConfig_def Let_def
    by (intro nvlist_ok_if nvlist_ok_update nvlist_ok_opt nv_good_lists nvlist_ok_Nil)
      (auto simp: option.pred_True enumerate_eq_zip)
qed

context libnv_lib
begin

lemma freebsd_read_config:
  assumes "shuffles shuf" and "list_all fb_peer_ok (cfg_Peers c)" and "pred_option key_ok (cfg_PrivateKey c)"
    and "in_upto 65535 (cfg_ListenPort c)" and "in_upto (int (max_int a) - 1) (cfg_FirewallMark c)"
    and "cfg_Peers c = [] \<longrightarrow> nil_peers" and "\<forall>i < length (cfg_Peers c). pc_AllowedIPs (cfg_Peers c ! i) = [] \<longrightarrow> nil_ips i"
    and "ptr_size a = 8"
  shows "\<exists>d. freebsd_parseDevice a nv (nv_Marshal a nv shuf (freebsd_unparseConfig nil_peers nil_ips c)) = Inr d \<and>
    d\<lparr> dev_Name := name \<rparr> = freebsd_echo name c"
proof -
  let ?l = "freebsd_unparseConfig nil_peers nil_ips c"
  let ?m = "unmarshal (marshal a shuf ?l) []"
  note ok = config_list_ok [OF assms(2,3,6,7)]
  note lookup = nvlist_ok_reread [OF assms(1) ok]
  note unp = freebsd_unparseConfig_def Let_def map_of_opt update_conv'
  let ?ps = "map (\<lambda>(i, p). freebsd_unparsePeerConfig (nil_ips i) p) (enumerate 0 (cfg_Peers c))"
  have lk: "map_of ?m ''public-key'' = None"
    "map_of ?m ''private-key'' = map_option NvBinary (cfg_PrivateKey c)"
    "map_of ?m ''user-cookie'' = map_option (\<lambda>v. NvNumber (of_int v)) (cfg_FirewallMark c)"
    "map_of ?m ''listen-port'' = map_option (\<lambda>v. NvNumber (of_int v)) (cfg_ListenPort c)"
    "map_of ?m ''peers'' = (if cfg_Peers c = [] then None
       else Some (NvLists (map (\<lambda>m. unmarshal (marshal a shuf m) []) ?ps)))"
    unfolding lookup using assms(6) by (auto simp: unp C_ulong_64 [OF assms(8)] split: option.split)
  have un: "nv_Unmarshal nv (nv_Marshal a nv shuf ?l) [] = Inr ?m"
    by (rule unmarshal_of_marshal [OF assms(1)]) (use ok in \<open>auto simp: nvlist_ok_def nv_good_def list_all_iff\<close>)
  have f1: "nv_field ?m ''private-key'' as_key upd d =
      Inr (case cfg_PrivateKey c of None \<Rightarrow> d | Some k \<Rightarrow> upd k d)" for upd and d :: Device
    by (rule nv_field_opt [OF lk(2)]) (use assms(3) in \<open>simp add: as_key_read\<close>)
  have f2: "nv_field ?m ''user-cookie'' as_number upd d =
      Inr (case cfg_FirewallMark c of None \<Rightarrow> d | Some v \<Rightarrow> upd (of_int v) d)" for upd and d :: Device
    by (rule nv_field_opt [OF lk(3)]) (simp add: as_number_def)
  have f3: "nv_field ?m ''listen-port'' as_number upd d =
      Inr (case cfg_ListenPort c of None \<Rightarrow> d | Some v \<Rightarrow> upd (of_int v) d)" for upd and d :: Device
    by (rule nv_field_opt [OF lk(4)]) (simp add: as_number_def)
  have peers: "each (freebsd_parsePeer a) (map (\<lambda>m. unmarshal (marshal a shuf m) []) ?ps) =
      Inr (map freebsd_echo_peer (cfg_Peers c))"
  proof -
    have "each (freebsd_parsePeer a) (map (\<lambda>(i, p). unmarshal (marshal a shuf (freebsd_unparsePeerConfig (nil_ips i) p)) [])
        (enumerate 0 (cfg_Peers c))) = Inr (map (\<lambda>(i, p). freebsd_echo_peer p) (enumerate 0 (cfg_Peers c)))"
      using assms(2,7) by (intro each_map) (auto simp: in_set_enumerate_eq list_all_length intro!: freebsd_read_peer assms(1,8))
    moreover have "map (\<lambda>(i, p). freebsd_echo_peer p) (enumerate 0 (cfg_Peers c)) = map freebsd_echo_peer (cfg_Peers c)"
      by (rule nth_equalityI) (simp_all add: nth_enumerate_eq)
    ultimately show ?thesis by (simp add: comp_def split_def)
  qed
  have f4: "nv_field ?m ''peers'' (\<lambda>x. res_bind (as_lists x) (each (freebsd_parsePeer a)))
      (\<lambda>ps. dev_Peers_update (\<lambda>xs. xs @ ps)) d =
      Inr (dev_Peers_update (\<lambda>xs. xs @ map freebsd_echo_peer (cfg_Peers c)) d)" for d :: Device
    using peers by (cases "cfg_Peers c = []") (simp_all add: nv_field_def lk(5) as_lists_def del: list.map_comp map_map)
  have "go_int a (of_int v) = v" if "cfg_FirewallMark c = Some v \<or> cfg_ListenPort c = Some v" for v
  proof -
    have "65535 < max_int a" using ptr_size_bounds [of a] by (auto simp: max_int_def)
    then have "0 \<le> v" "nat v < max_int a" using that assms(4,5) by (auto simp: in_upto_def)
    then show ?thesis using go_int_of_nat [of "nat v" a] by (simp add: of_nat_nat)
  qed
  then show ?thesis
    unfolding freebsd_parseDevice_def un f1 f2 f3 f4 nv_field_None [OF lk(1)] res_bind.simps
    by (auto simp: freebsd_echo_def zeroDevice_def num_def split: option.split)
qed

end

section \<open>The client against a kernel that answers with what it was given\<close>

text \<open>Its state is the packed list.\<close>

definition echo_io :: "goarch \<Rightarrow> bytes ioctl_data" where
  "echo_io a req dname sz mem s =
     (if req = SIOCSWG a then (Inr (sz, mem), mem) else serve (\<lambda>s. s) id sz mem s)"

lemma update_only_none: "list_all (\<lambda>p. \<not> pc_UpdateOnly p) ps \<Longrightarrow> update_only_loop device ps s = Some (None, s)"
  by (induction ps) auto

lemma update_only_refused:
  assumes "list_ex pc_UpdateOnly ps" and "device s = Some (Inr d, s)"
  shows "update_only_loop device ps s = Some (Some (Fail ErrUpdateOnlyNotSupported), s)"
  using assms by (induction ps) auto

lemma freebsd_Device_still:
  assumes "length name \<le> bsd_IFNAMSIZ" and "length s < max_int a"
    and "freebsd_parseDevice a nv s = Inr d" and "d\<lparr> dev_Name := name \<rparr> = d'"
  shows "freebsd_Device a nv (echo_io a) name s = Some (Inr d', s)"
proof -
  have get: "echo_io a (SIOCGWG a) n = serve (\<lambda>s. s) id" for n
    by (cases a) (simp_all add: fun_eq_iff echo_io_def SIOCGWG_def SIOCSWG_def)
  show ?thesis
    using assms grow_loop_still [of "\<lambda>s. s" s a "\<lambda>_. None" "[ENXIO, EINVAL]"]
    by (simp add: freebsd_Device_def freebsd_deviceName_def ioctl_name_def get)
qed

lemma freebsd_ConfigureDevice_sends:
  assumes "ctxErr s = None" and "length name \<le> bsd_IFNAMSIZ" and "list_all (\<lambda>p. \<not> pc_UpdateOnly p) (cfg_Peers c)"
  shows "freebsd_ConfigureDevice a nv shuf nil_peers nil_ips (echo_io a) ctxErr name c s =
    Some (None, nv_Marshal a nv shuf (freebsd_unparseConfig nil_peers nil_ips c))"
  using assms
  by (simp add: freebsd_ConfigureDevice_def update_only_none Let_def freebsd_deviceName_def ioctl_name_def echo_io_def)

lemma freebsd_Device_fails:
  assumes "length name \<le> bsd_IFNAMSIZ"
    and "io (SIOCGWG a) (string_bytes name @ replicate (bsd_IFNAMSIZ - length name) 0) 0 [] s = (Inl e, s')"
  shows "freebsd_Device a nv io name s = Some (Inl (conform [ENXIO, EINVAL] e), s')"
  using assms by (simp add: freebsd_Device_def freebsd_deviceName_def ioctl_name_def grow_loop.simps)

end
