(* ===== verification/Windows.thy ===== *)
theory Windows
  imports Ioctl "HOL-Library.AList"
begin

text \<open>
  \<open>internal/wgwindows\<close>: the client of WireGuardNT. The structures of \<open>configuration_windows.go\<close> and
  \<open>winipcfg_windows.go\<close> with their layout, which is the same on every architecture, the buffer that \<open>ConfigureDevice\<close> builds and
  \<open>Device\<close> walks, and the handle and the cache of interfaces. The Windows API is a record of functions
  over the state of the outside world. The backend has no AmneziaWG fields and no firewall mark and
  leaves them out.
\<close>

section \<open>Structures\<close>

definition InterfaceHasPublicKey :: "32 word" where "InterfaceHasPublicKey = 1"
definition InterfaceHasPrivateKey :: "32 word" where "InterfaceHasPrivateKey = 2"
definition InterfaceHasListenPort :: "32 word" where "InterfaceHasListenPort = 4"
definition InterfaceReplacePeers :: "32 word" where "InterfaceReplacePeers = 8"
definition PeerHasPublicKey :: "32 word" where "PeerHasPublicKey = 1"
definition PeerHasPresharedKey :: "32 word" where "PeerHasPresharedKey = 2"
definition PeerHasPersistentKeepalive :: "32 word" where "PeerHasPersistentKeepalive = 4"
definition PeerHasEndpoint :: "32 word" where "PeerHasEndpoint = 8"
definition PeerHasProtocolVersion :: "32 word" where "PeerHasProtocolVersion = 16"
definition PeerReplaceAllowedIPs :: "32 word" where "PeerReplaceAllowedIPs = 32"
definition PeerRemove :: "32 word" where "PeerRemove = 64"
definition PeerUpdateOnly :: "32 word" where "PeerUpdateOnly = 128"

lemmas windows_flags = InterfaceHasPublicKey_def InterfaceHasPrivateKey_def InterfaceHasListenPort_def
  InterfaceReplacePeers_def PeerHasPublicKey_def PeerHasPresharedKey_def PeerHasPersistentKeepalive_def
  PeerHasEndpoint_def PeerHasProtocolVersion_def PeerReplaceAllowedIPs_def PeerRemove_def PeerUpdateOnly_def

definition windows_AF_INET :: u16 where "windows_AF_INET = 2"
definition windows_AF_INET6 :: u16 where "windows_AF_INET6 = 23"

record Interface =
  wi_Flags :: "32 word"
  wi_ListenPort :: u16
  wi_PrivateKey :: Key
  wi_PublicKey :: Key
  wi_PeerCount :: "32 word"

record win_Peer =
  wp_Flags :: "32 word"
  wp_ProtocolVersion :: "32 word"
  wp_PublicKey :: Key
  wp_PresharedKey :: Key
  wp_PersistentKeepalive :: u16
  wp_Endpoint :: bytes
  wp_TxBytes :: "64 word"
  wp_RxBytes :: "64 word"
  wp_LastHandshake :: "64 word"
  wp_AllowedIPsCount :: "32 word"

record AllowedIP =
  wa_Address :: bytes
  wa_AddressFamily :: u16
  wa_Cidr :: byte

definition sizeof_Interface :: nat where "sizeof_Interface = 80"
definition sizeof_Peer :: nat where "sizeof_Peer = 136"
definition sizeof_AllowedIP :: nat where "sizeof_AllowedIP = 24"
definition sizeof_RawSockaddrInet :: nat where "sizeof_RawSockaddrInet = 28"

lemmas windows_sizes = sizeof_Interface_def sizeof_Peer_def sizeof_AllowedIP_def sizeof_RawSockaddrInet_def

text \<open>
  The structures as the code declares them. The offsets and sizes that the readers and writers below use
  are those that Go gives the declarations, on every architecture.
\<close>

definition nt_RawSockaddrInet :: fields where
  "nt_RawSockaddrInet = [(''Family'', Num 2), (''data'', Arr 26 Byte)]"

definition nt_AllowedIP :: fields where
  "nt_AllowedIP = [(''Address'', Arr 16 Byte), (''AddressFamily'', Num 2), (''Cidr'', Byte), (''_'', Arr 4 Byte)]"

definition nt_Peer :: fields where
  "nt_Peer =
     [(''Flags'', Num 4), (''ProtocolVersion'', Num 4), (''PublicKey'', Arr 32 Byte),
      (''PresharedKey'', Arr 32 Byte), (''PersistentKeepalive'', Num 2), (''_'', Num 2),
      (''Endpoint'', struct_of nt_RawSockaddrInet), (''TxBytes'', Num 8), (''RxBytes'', Num 8),
      (''LastHandshake'', Num 8), (''AllowedIPsCount'', Num 4), (''_'', Arr 4 Byte)]"

definition nt_Interface :: fields where
  "nt_Interface =
     [(''Flags'', Num 4), (''ListenPort'', Num 2), (''PrivateKey'', Arr 32 Byte), (''PublicKey'', Arr 32 Byte),
      (''PeerCount'', Num 4), (''_'', Arr 4 Byte)]"

lemma nt_sizes:
  "struct_size GoABI a nt_Interface = sizeof_Interface" "struct_size GoABI a nt_Peer = sizeof_Peer"
  "struct_size GoABI a nt_AllowedIP = sizeof_AllowedIP" "struct_size GoABI a nt_RawSockaddrInet = sizeof_RawSockaddrInet"
  by (cases a; simp add: nt_Interface_def nt_Peer_def nt_AllowedIP_def nt_RawSockaddrInet_def windows_sizes
      layout_defs flip: numeral_2_eq_2)+

lemma nt_offsets:
  "layout GoABI a nt_Interface = [(''Flags'', 0), (''ListenPort'', 4), (''PrivateKey'', 6), (''PublicKey'', 38),
     (''PeerCount'', 72), (''_'', 76)]"
  "layout GoABI a nt_Peer = [(''Flags'', 0), (''ProtocolVersion'', 4), (''PublicKey'', 8), (''PresharedKey'', 40),
     (''PersistentKeepalive'', 72), (''_'', 74), (''Endpoint'', 76), (''TxBytes'', 104), (''RxBytes'', 112),
     (''LastHandshake'', 120), (''AllowedIPsCount'', 128), (''_'', 132)]"
  "layout GoABI a nt_AllowedIP = [(''Address'', 0), (''AddressFamily'', 16), (''Cidr'', 18), (''_'', 19)]"
  by (cases a; simp add: nt_Interface_def nt_Peer_def nt_AllowedIP_def nt_RawSockaddrInet_def layout_defs
      flip: numeral_2_eq_2)+

text \<open>\<open>Interface{}\<close>, \<open>Peer{}\<close>\<close>

definition zeroInterface :: Interface where
  "zeroInterface = \<lparr> wi_Flags = 0, wi_ListenPort = 0, wi_PrivateKey = zeroKey, wi_PublicKey = zeroKey,
     wi_PeerCount = 0 \<rparr>"

definition zero_win_Peer :: win_Peer where
  "zero_win_Peer = \<lparr> wp_Flags = 0, wp_ProtocolVersion = 0, wp_PublicKey = zeroKey, wp_PresharedKey = zeroKey,
     wp_PersistentKeepalive = 0, wp_Endpoint = pad sizeof_RawSockaddrInet, wp_TxBytes = 0, wp_RxBytes = 0,
     wp_LastHandshake = 0, wp_AllowedIPsCount = 0 \<rparr>"

definition get_Interface :: "bytes \<Rightarrow> nat \<Rightarrow> crash + Interface" where
  "get_Interface m off =
     res_bind (mem_int m off 4) (\<lambda>flags.
     res_bind (mem_int m (off + 4) 2) (\<lambda>port.
     res_bind (mem_read m (off + 6) 32) (\<lambda>private.
     res_bind (mem_read m (off + 38) 32) (\<lambda>public.
     res_bind (mem_int m (off + 72) 4) (\<lambda>count.
       Inr \<lparr> wi_Flags = of_nat flags, wi_ListenPort = of_nat port, wi_PrivateKey = private,
             wi_PublicKey = public, wi_PeerCount = of_nat count \<rparr>)))))"

definition put_Interface :: "Interface \<Rightarrow> bytes" where
  "put_Interface x = le 4 (unat (wi_Flags x)) @ le 2 (unat (wi_ListenPort x)) @ wi_PrivateKey x @
     wi_PublicKey x @ pad 2 @ le 4 (unat (wi_PeerCount x)) @ pad 4"

definition Interface_wf :: "Interface \<Rightarrow> bool" where
  "Interface_wf x \<longleftrightarrow> key_ok (wi_PrivateKey x) \<and> key_ok (wi_PublicKey x)"

definition get_Peer :: "bytes \<Rightarrow> nat \<Rightarrow> crash + win_Peer" where
  "get_Peer m off =
     res_bind (mem_int m off 4) (\<lambda>flags.
     res_bind (mem_int m (off + 4) 4) (\<lambda>version.
     res_bind (mem_read m (off + 8) 32) (\<lambda>public.
     res_bind (mem_read m (off + 40) 32) (\<lambda>psk.
     res_bind (mem_int m (off + 72) 2) (\<lambda>keepalive.
     res_bind (mem_read m (off + 76) 28) (\<lambda>endpoint.
     res_bind (mem_int m (off + 104) 8) (\<lambda>tx.
     res_bind (mem_int m (off + 112) 8) (\<lambda>rx.
     res_bind (mem_int m (off + 120) 8) (\<lambda>handshake.
     res_bind (mem_int m (off + 128) 4) (\<lambda>count.
       Inr \<lparr> wp_Flags = of_nat flags, wp_ProtocolVersion = of_nat version, wp_PublicKey = public,
             wp_PresharedKey = psk, wp_PersistentKeepalive = of_nat keepalive, wp_Endpoint = endpoint,
             wp_TxBytes = of_nat tx, wp_RxBytes = of_nat rx, wp_LastHandshake = of_nat handshake,
             wp_AllowedIPsCount = of_nat count \<rparr>))))))))))"

definition put_Peer :: "win_Peer \<Rightarrow> bytes" where
  "put_Peer x = le 4 (unat (wp_Flags x)) @ le 4 (unat (wp_ProtocolVersion x)) @ wp_PublicKey x @
     wp_PresharedKey x @ le 2 (unat (wp_PersistentKeepalive x)) @ pad 2 @ wp_Endpoint x @
     le 8 (unat (wp_TxBytes x)) @ le 8 (unat (wp_RxBytes x)) @ le 8 (unat (wp_LastHandshake x)) @
     le 4 (unat (wp_AllowedIPsCount x)) @ pad 4"

definition win_Peer_wf :: "win_Peer \<Rightarrow> bool" where
  "win_Peer_wf x \<longleftrightarrow> key_ok (wp_PublicKey x) \<and> key_ok (wp_PresharedKey x) \<and> length (wp_Endpoint x) = 28"

definition get_AllowedIP :: "bytes \<Rightarrow> nat \<Rightarrow> crash + AllowedIP" where
  "get_AllowedIP m off =
     res_bind (mem_read m off 16) (\<lambda>address.
     res_bind (mem_int m (off + 16) 2) (\<lambda>family.
     res_bind (mem_int m (off + 18) 1) (\<lambda>cidr.
       Inr \<lparr> wa_Address = address, wa_AddressFamily = of_nat family, wa_Cidr = of_nat cidr \<rparr>)))"

definition put_AllowedIP :: "AllowedIP \<Rightarrow> bytes" where
  "put_AllowedIP x = wa_Address x @ le 2 (unat (wa_AddressFamily x)) @ le 1 (unat (wa_Cidr x)) @ pad 5"

definition AllowedIP_wf :: "AllowedIP \<Rightarrow> bool" where
  "AllowedIP_wf x \<longleftrightarrow> length (wa_Address x) = 16"

interpretation win_interface: c_struct put_Interface get_Interface sizeof_Interface Interface_wf
  by unfold_locales
    (auto simp: put_Interface_def get_Interface_def Interface_wf_def key_ok_def KeyLen_def windows_sizes
      mem_simps mem_int_skip mem_read_skip add.assoc)

interpretation win_peer: c_struct put_Peer get_Peer sizeof_Peer win_Peer_wf
  by unfold_locales
    (auto simp: put_Peer_def get_Peer_def win_Peer_wf_def key_ok_def KeyLen_def windows_sizes
      mem_simps mem_int_skip mem_read_skip add.assoc)

interpretation win_aip: c_struct put_AllowedIP get_AllowedIP sizeof_AllowedIP AllowedIP_wf
  by unfold_locales
    (auto simp: put_AllowedIP_def get_AllowedIP_def AllowedIP_wf_def windows_sizes
      mem_simps mem_int_skip mem_read_skip add.assoc)

section \<open>Socket addresses\<close>

text \<open>
  \<open>SetIP\<close> writes through a pointer to a \<open>RawSockaddrInet4\<close> or \<open>RawSockaddrInet6\<close>; what lies behind
  the smaller of them stays. The other result is the error.
\<close>

definition SetIP :: "bytes \<Rightarrow> bytes \<Rightarrow> u16 \<Rightarrow> bytes \<times> go_error option" where
  "SetIP addr ip port =
     (case To4 ip of
        Some v4 \<Rightarrow> (le 2 (unat windows_AF_INET) @ le 2 (unat (htons (uint port))) @ v4 @ pad 8 @ drop 16 addr, None)
      | None \<Rightarrow> (case To16 ip of
            Some v6 \<Rightarrow> (le 2 (unat windows_AF_INET6) @ le 2 (unat (htons (uint port))) @ pad 4 @ v6 @ pad 4, None)
          | None \<Rightarrow> (addr, Some (Errno 87))))"

definition sockaddr_family :: "bytes \<Rightarrow> u16" where
  "sockaddr_family addr = of_nat (host_get False (take 2 addr))"

definition sockaddr_IP :: "bytes \<Rightarrow> bytes" where
  "sockaddr_IP addr =
     (if sockaddr_family addr = windows_AF_INET then take 4 (drop 4 addr)
      else if sockaddr_family addr = windows_AF_INET6 then take 16 (drop 8 addr)
      else [])"

definition sockaddr_Port :: "bytes \<Rightarrow> int" where
  "sockaddr_Port addr =
     (if sockaddr_family addr = windows_AF_INET \<or> sockaddr_family addr = windows_AF_INET6
      then ntohs (of_nat (host_get False (take 2 (drop 2 addr))))
      else 0)"

lemma SetIP_length: "length addr = 28 \<Longrightarrow> length (fst (SetIP addr ip port)) = 28"
  by (auto simp: SetIP_def dest!: To4_length To16_length split: option.split)

lemma port_loaded: "ntohs (of_nat (host_get False (le 2 (unat (htons (uint (port :: u16))))))) = uint port"
proof -
  have "host_get False (le 2 (unat w)) = unat w" for w :: u16
    using unat_u16_bound [of w] by (simp add: host_get_le)
  then have "ntohs (of_nat (host_get False (le 2 (unat (htons (uint port)))))) = ntohs (htons (uint port))"
    by simp
  also have "\<dots> = uint port"
    by (rule ntohs_htons) (use uint_bounded [of port] in simp_all)
  finally show ?thesis .
qed

lemma family_loaded:
  "sockaddr_family (le 2 (unat windows_AF_INET) @ post) = windows_AF_INET"
  "sockaddr_family (le 2 (unat windows_AF_INET6) @ post) = windows_AF_INET6"
  by (simp_all add: sockaddr_family_def host_get_le windows_AF_INET_def windows_AF_INET6_def)

lemma SetIP_read:
  assumes "To16 ip \<noteq> None"
  shows "sockaddr_IP (fst (SetIP addr ip port)) = (case To4 ip of Some v \<Rightarrow> v | None \<Rightarrow> ip)"
    and "sockaddr_Port (fst (SetIP addr ip port)) = uint port"
proof -
  have "sockaddr_IP (fst (SetIP addr ip port)) = (case To4 ip of Some v \<Rightarrow> v | None \<Rightarrow> ip) \<and>
      sockaddr_Port (fst (SetIP addr ip port)) = uint port"
  proof (cases "To4 ip")
    case (Some v)
    then show ?thesis using To4_length [OF Some]
      by (simp add: SetIP_def sockaddr_IP_def sockaddr_Port_def family_loaded port_loaded)
  next
    case None
    with assms obtain v where v: "To16 ip = Some v" by blast
    have "v = ip" using None v by (auto simp: To16_def To4_def split: if_splits)
    moreover have "windows_AF_INET6 \<noteq> windows_AF_INET" by (simp add: windows_AF_INET_def windows_AF_INET6_def)
    ultimately show ?thesis using None v To16_length [OF v]
      by (simp add: SetIP_def sockaddr_IP_def sockaddr_Port_def family_loaded port_loaded)
  qed
  then show "sockaddr_IP (fst (SetIP addr ip port)) = (case To4 ip of Some v \<Rightarrow> v | None \<Rightarrow> ip)"
    and "sockaddr_Port (fst (SetIP addr ip port)) = uint port" by blast+
qed

section \<open>The buffer of a configuration\<close>

text \<open>
  \<open>ConfigBuilder\<close>: the buffer, which is nil at first, and its capacity as far as Go promises one:
  \<open>append\<close> makes it as large as the contents at least, and allocates the buffer anew only then.
\<close>

record ConfigBuilder =
  cb_buffer :: "bytes option"
  cb_capacity :: nat

definition zeroBuilder :: ConfigBuilder where
  "zeroBuilder = \<lparr> cb_buffer = None, cb_capacity = 0 \<rparr>"

definition Preallocate :: "32 word \<Rightarrow> ConfigBuilder \<Rightarrow> ConfigBuilder" where
  "Preallocate sz builder =
     (if cb_buffer builder = None then builder\<lparr> cb_buffer := Some [], cb_capacity := unat sz \<rparr> else builder)"

definition contents :: "ConfigBuilder \<Rightarrow> bytes" where
  "contents builder = (case cb_buffer builder of None \<Rightarrow> [] | Some b \<Rightarrow> b)"

definition append_bytes :: "bytes \<Rightarrow> ConfigBuilder \<Rightarrow> ConfigBuilder" where
  "append_bytes newBytes builder =
     (let b = contents builder @ newBytes
      in builder\<lparr> cb_buffer := Some b, cb_capacity := max (cb_capacity builder) (length b) \<rparr>)"

definition AppendInterface :: "Interface \<Rightarrow> ConfigBuilder \<Rightarrow> ConfigBuilder" where
  "AppendInterface i = append_bytes (put_Interface i)"

definition AppendPeer :: "win_Peer \<Rightarrow> ConfigBuilder \<Rightarrow> ConfigBuilder" where
  "AppendPeer p = append_bytes (put_Peer p)"

definition AppendAllowedIP :: "AllowedIP \<Rightarrow> ConfigBuilder \<Rightarrow> ConfigBuilder" where
  "AppendAllowedIP a = append_bytes (put_AllowedIP a)"

text \<open>The method \<open>Interface\<close>: the buffer and its length; \<open>&buffer[0]\<close> panics for an empty one.\<close>

definition builder_Interface :: "ConfigBuilder \<Rightarrow> crash + bytes option \<times> 32 word" where
  "builder_Interface builder =
     (case cb_buffer builder of
        None \<Rightarrow> Inr (None, 0)
      | Some [] \<Rightarrow> Inl (Panic ''index out of range'')
      | Some b \<Rightarrow> Inr (Some b, of_nat (length b)))"

text \<open>The structures that \<open>ConfigureDevice\<close> fills in. A duration is divided by a second, towards zero.\<close>

definition config_interface :: "Config \<Rightarrow> Interface" where
  "config_interface cfg =
     (let i = zeroInterface\<lparr> wi_PeerCount := of_nat (length (cfg_Peers cfg)) \<rparr>;
          i = (if cfg_ReplacePeers cfg then i\<lparr> wi_Flags := wi_Flags i OR InterfaceReplacePeers \<rparr> else i);
          i = (case cfg_PrivateKey cfg of None \<Rightarrow> i
               | Some k \<Rightarrow> i\<lparr> wi_PrivateKey := k, wi_Flags := wi_Flags i OR InterfaceHasPrivateKey \<rparr>)
      in case cfg_ListenPort cfg of None \<Rightarrow> i
         | Some v \<Rightarrow> i\<lparr> wi_ListenPort := of_int v, wi_Flags := wi_Flags i OR InterfaceHasListenPort \<rparr>)"

definition config_peer :: "PeerConfig \<Rightarrow> win_Peer" where
  "config_peer cfg =
     (let p = zero_win_Peer\<lparr> wp_Flags := PeerHasPublicKey, wp_PublicKey := pc_PublicKey cfg,
            wp_AllowedIPsCount := of_nat (length (pc_AllowedIPs cfg)) \<rparr>;
          p = (if pc_ReplaceAllowedIPs cfg then p\<lparr> wp_Flags := wp_Flags p OR PeerReplaceAllowedIPs \<rparr> else p);
          p = (if pc_UpdateOnly cfg then p\<lparr> wp_Flags := wp_Flags p OR PeerUpdateOnly \<rparr> else p);
          p = (if pc_Remove cfg then p\<lparr> wp_Flags := wp_Flags p OR PeerRemove \<rparr> else p);
          p = (case pc_PresharedKey cfg of None \<Rightarrow> p
               | Some k \<Rightarrow> p\<lparr> wp_Flags := wp_Flags p OR PeerHasPresharedKey, wp_PresharedKey := k \<rparr>);
          p = (case pc_Endpoint cfg of None \<Rightarrow> p
               | Some e \<Rightarrow> p\<lparr> wp_Flags := wp_Flags p OR PeerHasEndpoint,
                   wp_Endpoint := fst (SetIP (wp_Endpoint p) (ua_IP e) (of_int (ua_Port e))) \<rparr>)
      in case pc_PersistentKeepaliveInterval cfg of None \<Rightarrow> p
         | Some v \<Rightarrow> p\<lparr> wp_Flags := wp_Flags p OR PeerHasPersistentKeepalive,
             wp_PersistentKeepalive := of_int (secs v) \<rparr>)"

text \<open>\<open>copy(a.Address[:], ip)\<close> copies sixteen bytes at most.\<close>

definition config_AllowedIP :: "ipnet \<Rightarrow> AllowedIP" where
  "config_AllowedIP n =
     (let (family, ip) =
        (case To4 (in_IP n) of Some v4 \<Rightarrow> (windows_AF_INET, v4)
         | None \<Rightarrow> (case To16 (in_IP n) of Some v6 \<Rightarrow> (windows_AF_INET6, v6) | None \<Rightarrow> (0, in_IP n)))
      in \<lparr> wa_Address = take 16 (ip @ pad 16), wa_AddressFamily = family,
           wa_Cidr = of_int (fst (mask_Size (in_Mask n))) \<rparr>)"

definition append_peer :: "PeerConfig \<Rightarrow> ConfigBuilder \<Rightarrow> ConfigBuilder" where
  "append_peer p builder =
     fold (\<lambda>n. AppendAllowedIP (config_AllowedIP n)) (pc_AllowedIPs p) (AppendPeer (config_peer p) builder)"

text \<open>What \<open>ConfigureDevice\<close> has the builder allocate before, as a 32-bit number.\<close>

definition preallocation :: "Config \<Rightarrow> 32 word" where
  "preallocation cfg =
     of_nat (sizeof_Interface + length (cfg_Peers cfg) * sizeof_Peer +
       sum_list (map (\<lambda>p. length (pc_AllowedIPs p) * sizeof_AllowedIP) (cfg_Peers cfg)))"

definition config_builder :: "Config \<Rightarrow> ConfigBuilder" where
  "config_builder cfg =
     fold append_peer (cfg_Peers cfg)
       (AppendInterface (config_interface cfg) (Preallocate (preallocation cfg) zeroBuilder))"

definition config_buffer :: "Config \<Rightarrow> bytes" where
  "config_buffer cfg = contents (config_builder cfg)"

section \<open>Reading a device\<close>

definition windows_parsePeer :: "win_Peer \<Rightarrow> Peer" where
  "windows_parsePeer p =
     (let peer = zeroPeer;
          peer = (if wp_Flags p AND PeerHasPublicKey \<noteq> 0
                  then peer\<lparr> peer_PublicKey := wp_PublicKey p \<rparr> else peer);
          peer = (if wp_Flags p AND PeerHasPresharedKey \<noteq> 0
                  then peer\<lparr> peer_PresharedKey := wp_PresharedKey p \<rparr> else peer);
          peer = (if wp_Flags p AND PeerHasEndpoint \<noteq> 0
                  then peer\<lparr> peer_Endpoint := Some \<lparr> ua_IP = sockaddr_IP (wp_Endpoint p),
                         ua_Port = sockaddr_Port (wp_Endpoint p), ua_Zone = [] \<rparr> \<rparr> else peer);
          peer = (if wp_Flags p AND PeerHasPersistentKeepalive \<noteq> 0
                  then peer\<lparr> peer_PersistentKeepaliveInterval := uint (wp_PersistentKeepalive p) * second \<rparr>
                  else peer);
          peer = (if wp_Flags p AND PeerHasProtocolVersion \<noteq> 0
                  then peer\<lparr> peer_ProtocolVersion := uint (wp_ProtocolVersion p) \<rparr> else peer);
          peer = peer\<lparr> peer_TransmitBytes := sint (wp_TxBytes p), peer_ReceiveBytes := sint (wp_RxBytes p) \<rparr>
      in if wp_LastHandshake p \<noteq> 0
         then peer\<lparr> peer_LastHandshakeTime :=
                time_Unix 0 (sint ((wp_LastHandshake p - 116444736000000000) * 100)) \<rparr>
         else peer)"

definition windows_parseAllowedIP :: "AllowedIP \<Rightarrow> ipnet" where
  "windows_parseAllowedIP a =
     (let (ip, bits) =
        (if wa_AddressFamily a = windows_AF_INET then (take 4 (wa_Address a), 32)
         else if wa_AddressFamily a = windows_AF_INET6 then (wa_Address a, 128)
         else ([], 0))
      in \<lparr> in_IP = ip, in_Mask = CIDRMask (uint (wa_Cidr a)) bits \<rparr>)"

text \<open>
  The walk over the buffer: \<open>FirstPeer\<close> is behind the interface, \<open>NextPeer\<close> behind the allowed IPs of
  a peer, \<open>FirstAllowedIP\<close> behind the peer and \<open>NextAllowedIP\<close> behind an allowed IP.
\<close>

definition windows_parseDevice :: "string \<Rightarrow> bytes \<Rightarrow> crash + Device" where
  "windows_parseDevice name buf =
     res_bind (get_Interface buf 0) (\<lambda>interfaze.
       let device = zeroDevice\<lparr> dev_Type := WindowsKernel, dev_Name := name \<rparr>;
           device = (if wi_Flags interfaze AND InterfaceHasPrivateKey \<noteq> 0
                     then device\<lparr> dev_PrivateKey := wi_PrivateKey interfaze \<rparr> else device);
           device = (if wi_Flags interfaze AND InterfaceHasPublicKey \<noteq> 0
                     then device\<lparr> dev_PublicKey := wi_PublicKey interfaze \<rparr> else device);
           device = (if wi_Flags interfaze AND InterfaceHasListenPort \<noteq> 0
                     then device\<lparr> dev_ListenPort := uint (wi_ListenPort interfaze) \<rparr> else device)
       in res_bind
            (read_nested (get_Peer buf) sizeof_Peer (\<lambda>p. unat (wp_AllowedIPsCount p))
               (get_AllowedIP buf) sizeof_AllowedIP (unat (wi_PeerCount interfaze)) sizeof_Interface)
            (\<lambda>ps. Inr (device\<lparr> dev_Peers :=
               map (\<lambda>(p, as). (windows_parsePeer p)\<lparr> peer_AllowedIPs := map windows_parseAllowedIP as \<rparr>) ps \<rparr>)))"

section \<open>A configuration read as a device\<close>

definition windows_echo_peer :: "PeerConfig \<Rightarrow> Peer" where
  "windows_echo_peer p = (echo_peer p)\<lparr> peer_Endpoint := map_option endpoint_raw (pc_Endpoint p) \<rparr>"

definition windows_echo :: "string \<Rightarrow> Config \<Rightarrow> Device" where
  "windows_echo name c = zeroDevice\<lparr> dev_Name := name, dev_Type := WindowsKernel,
     dev_PrivateKey := (case cfg_PrivateKey c of None \<Rightarrow> zeroKey | Some k \<Rightarrow> k),
     dev_ListenPort := num (cfg_ListenPort c), dev_Peers := map windows_echo_peer (cfg_Peers c) \<rparr>"

definition short_lists :: "Config \<Rightarrow> bool" where
  "short_lists c \<longleftrightarrow> length (cfg_Peers c) < 2 ^ 32 \<and> list_all (\<lambda>p. length (pc_AllowedIPs p) < 2 ^ 32) (cfg_Peers c)"

lemma append_bytes_simps [simp]:
  "contents (append_bytes bs builder) = contents builder @ bs"
  "cb_buffer (append_bytes bs builder) = Some (contents builder @ bs)"
  "cb_capacity (append_bytes bs builder) = max (cb_capacity builder) (length (contents builder @ bs))"
  by (simp_all add: append_bytes_def contents_def Let_def)

lemma append_bytes_twice: "append_bytes bs' (append_bytes bs builder) = append_bytes (bs @ bs') builder"
  by (simp add: append_bytes_def contents_def Let_def max.assoc)

lemma config_builder_image:
  "config_builder cfg = append_bytes (put_Interface (config_interface cfg) @
     put_nested put_Peer put_AllowedIP (map (\<lambda>p. (config_peer p, map config_AllowedIP (pc_AllowedIPs p))) (cfg_Peers cfg)))
     (Preallocate (preallocation cfg) zeroBuilder)"
proof -
  have ips: "fold (\<lambda>n. AppendAllowedIP (config_AllowedIP n)) ns (append_bytes b c) =
      append_bytes (b @ concat (map put_AllowedIP (map config_AllowedIP ns))) c" for ns b c
    by (induction ns arbitrary: b) (simp_all add: AppendAllowedIP_def append_bytes_twice)
  have "fold append_peer ps (append_bytes b c) = append_bytes (b @ put_nested put_Peer put_AllowedIP
      (map (\<lambda>p. (config_peer p, map config_AllowedIP (pc_AllowedIPs p))) ps)) c" for ps b c
    by (induction ps arbitrary: b) (simp_all add: append_peer_def ips AppendPeer_def put_nested_def append_bytes_twice)
  then show ?thesis by (simp add: config_builder_def AppendInterface_def)
qed

lemma config_buffer_image:
  "config_buffer cfg = put_Interface (config_interface cfg) @
     put_nested put_Peer put_AllowedIP (map (\<lambda>p. (config_peer p, map config_AllowedIP (pc_AllowedIPs p))) (cfg_Peers cfg))"
  by (simp add: config_buffer_def config_builder_image) (simp add: contents_def Preallocate_def zeroBuilder_def)

lemma config_builder_Interface:
  assumes "0 < length (config_buffer cfg)"
  shows "builder_Interface (config_builder cfg) = Inr (Some (config_buffer cfg), of_nat (length (config_buffer cfg)))"
proof -
  have "cb_buffer (config_builder cfg) = Some (config_buffer cfg)"
    by (simp add: config_buffer_def config_builder_image)
  with assms show ?thesis by (cases "config_buffer cfg") (simp_all add: builder_Interface_def)
qed

lemma config_builder_capacity:
  "cb_capacity (config_builder cfg) = max (unat (preallocation cfg)) (length (config_buffer cfg))"
  by (simp add: config_builder_image config_buffer_image) (simp add: contents_def Preallocate_def zeroBuilder_def)

lemma windows_read_aip:
  assumes "ipnet_ok n"
  shows "AllowedIP_wf (config_AllowedIP n) \<and> windows_parseAllowedIP (config_AllowedIP n) = n"
  using assms
proof (rule ipnet_okE)
  fix l
  assume l: "simpleMaskLength (in_Mask n) = Some l" "l \<le> 8 * length (in_IP n)"
    and m: "in_Mask n = CIDRMask (int l) (8 * int (length (in_IP n)))" and ok: "addr_ok (in_IP n)"
  have len: "length (in_IP n) = 4 \<or> length (in_IP n) = 16 \<and> To4 (in_IP n) = None"
    using ok by (auto simp: addr_ok_def)
  have "fst (mask_Size (in_Mask n)) = int l" using l(1) by (simp add: mask_Size_def)
  moreover have "uint (of_nat l :: byte) = int l"
    using l(2) len by (auto simp: uint_nat unat_of_nat_byte)
  moreover have "windows_AF_INET6 \<noteq> windows_AF_INET" by (simp add: windows_AF_INET_def windows_AF_INET6_def)
  ultimately show ?thesis
    using len m
    by (cases n) (auto simp: AllowedIP_wf_def config_AllowedIP_def windows_parseAllowedIP_def Let_def)
qed

lemma config_peer_flags:
  "wp_Flags (config_peer p) AND PeerHasPublicKey \<noteq> 0"
  "wp_Flags (config_peer p) AND PeerHasPresharedKey \<noteq> 0 \<longleftrightarrow> pc_PresharedKey p \<noteq> None"
  "wp_Flags (config_peer p) AND PeerHasEndpoint \<noteq> 0 \<longleftrightarrow> pc_Endpoint p \<noteq> None"
  "wp_Flags (config_peer p) AND PeerHasPersistentKeepalive \<noteq> 0 \<longleftrightarrow> pc_PersistentKeepaliveInterval p \<noteq> None"
  "wp_Flags (config_peer p) AND PeerHasProtocolVersion = 0"
  by (cases "pc_PresharedKey p"; cases "pc_Endpoint p"; cases "pc_PersistentKeepaliveInterval p";
      simp add: config_peer_def Let_def windows_flags zero_win_Peer_def)+

lemma config_peer_fields:
  "wp_PublicKey (config_peer p) = pc_PublicKey p"
  "wp_PresharedKey (config_peer p) = (case pc_PresharedKey p of None \<Rightarrow> zeroKey | Some k \<Rightarrow> k)"
  "wp_Endpoint (config_peer p) = (case pc_Endpoint p of None \<Rightarrow> pad sizeof_RawSockaddrInet
     | Some e \<Rightarrow> fst (SetIP (pad sizeof_RawSockaddrInet) (ua_IP e) (of_int (ua_Port e))))"
  "wp_PersistentKeepalive (config_peer p) =
     (case pc_PersistentKeepaliveInterval p of None \<Rightarrow> 0 | Some v \<Rightarrow> of_int (secs v))"
  "wp_AllowedIPsCount (config_peer p) = of_nat (length (pc_AllowedIPs p))"
  "wp_TxBytes (config_peer p) = 0" "wp_RxBytes (config_peer p) = 0" "wp_LastHandshake (config_peer p) = 0"
  by (simp_all add: config_peer_def Let_def zero_win_Peer_def split: option.split)

text \<open>What a peer of a configuration must be like to be held by the structures.\<close>

definition win_peer_ok :: "PeerConfig \<Rightarrow> bool" where
  "win_peer_ok p \<longleftrightarrow> pc_wf p \<and> valid_peer p \<and> list_all ipnet_ok (pc_AllowedIPs p) \<and>
     pred_option (\<lambda>a. To16 (ua_IP a) \<noteq> None) (pc_Endpoint p) \<and> length (pc_AllowedIPs p) < 2 ^ 32"

lemma config_peer_wf: "win_peer_ok p \<Longrightarrow> win_Peer_wf (config_peer p)"
  by (auto simp: win_peer_ok_def pc_wf_def win_Peer_wf_def config_peer_fields SetIP_length
      sizeof_RawSockaddrInet_def split: option.split)

lemma windows_read_peer:
  assumes "win_peer_ok p"
  shows "(windows_parsePeer (config_peer p))\<lparr> peer_AllowedIPs := pc_AllowedIPs p \<rparr> = windows_echo_peer p"
proof -
  have ep: "sockaddr_IP (fst (SetIP addr (ua_IP a) (of_int (ua_Port a)))) =
      (case To4 (ua_IP a) of None \<Rightarrow> ua_IP a | Some v \<Rightarrow> v) \<and>
      sockaddr_Port (fst (SetIP addr (ua_IP a) (of_int (ua_Port a)))) = ua_Port a"
    if "pc_Endpoint p = Some a" for addr a
    using that assms SetIP_read [of "ua_IP a" addr "of_int (ua_Port a)"]
    by (auto simp: win_peer_ok_def valid_peer_def unsigned_of_int take_bit_int_eq_self)
  have ka: "uint (of_int (secs v) :: u16) = secs v" if "pc_PersistentKeepaliveInterval p = Some v" for v
  proof -
    have "keepalive_ok v" using assms that by (simp add: win_peer_ok_def valid_peer_def keepalive_ok_def)
    from secs_bounds [OF this] show ?thesis by (simp add: unsigned_of_int take_bit_int_eq_self)
  qed
  show ?thesis
    unfolding windows_parsePeer_def Let_def config_peer_fields
    using ep ka config_peer_flags [of p]
    by (auto simp: windows_echo_peer_def echo_peer_def zeroPeer_def endpoint_raw_def split: option.split)
qed

lemma config_interface_flags:
  "wi_Flags (config_interface c) AND InterfaceHasPrivateKey \<noteq> 0 \<longleftrightarrow> cfg_PrivateKey c \<noteq> None"
  "wi_Flags (config_interface c) AND InterfaceHasPublicKey = 0"
  "wi_Flags (config_interface c) AND InterfaceHasListenPort \<noteq> 0 \<longleftrightarrow> cfg_ListenPort c \<noteq> None"
  by (cases "cfg_PrivateKey c"; cases "cfg_ListenPort c";
      simp add: config_interface_def Let_def windows_flags zeroInterface_def)+

lemma config_interface_fields:
  "wi_PrivateKey (config_interface c) = (case cfg_PrivateKey c of None \<Rightarrow> zeroKey | Some k \<Rightarrow> k)"
  "wi_PublicKey (config_interface c) = zeroKey"
  "wi_ListenPort (config_interface c) = (case cfg_ListenPort c of None \<Rightarrow> 0 | Some v \<Rightarrow> of_int v)"
  "wi_PeerCount (config_interface c) = of_nat (length (cfg_Peers c))"
  by (simp_all add: config_interface_def Let_def zeroInterface_def split: option.split)

lemma windows_read_peers:
  assumes "list_all win_peer_ok ps" and "length pre = sizeof_Interface"
  shows "read_nested
      (get_Peer (pre @ put_nested put_Peer put_AllowedIP
        (map (\<lambda>p. (config_peer p, map config_AllowedIP (pc_AllowedIPs p))) ps) @ post))
      sizeof_Peer (\<lambda>p. unat (wp_AllowedIPsCount p))
      (get_AllowedIP (pre @ put_nested put_Peer put_AllowedIP
        (map (\<lambda>p. (config_peer p, map config_AllowedIP (pc_AllowedIPs p))) ps) @ post))
      sizeof_AllowedIP (length ps) sizeof_Interface =
    Inr (map (\<lambda>p. (config_peer p, map config_AllowedIP (pc_AllowedIPs p))) ps)"
proof -
  let ?xs = "map (\<lambda>p. (config_peer p, map config_AllowedIP (pc_AllowedIPs p))) ps"
  have "list_all (\<lambda>(p, as). win_Peer_wf p \<and> list_all AllowedIP_wf as \<and> unat (wp_AllowedIPsCount p) = length as) ?xs"
    using assms(1) config_peer_wf windows_read_aip
    by (auto simp: list_all_iff win_peer_ok_def config_peer_fields unat_of_nat_32)
  from read_nested_put [OF win_peer.c_struct_axioms win_aip.c_struct_axioms this, of pre post] assms(2)
  show ?thesis by simp
qed

lemma windows_read_config:
  assumes "list_all win_peer_ok (cfg_Peers c)" and "pred_option key_ok (cfg_PrivateKey c)"
    and "in_upto 65535 (cfg_ListenPort c)" and "length (cfg_Peers c) < 2 ^ 32"
  shows "windows_parseDevice name (config_buffer c @ post) = Inr (windows_echo name c)"
proof -
  let ?i = "config_interface c"
  have wf: "Interface_wf ?i"
    using assms(2) by (auto simp: Interface_wf_def config_interface_fields split: option.split)
  have get: "get_Interface (config_buffer c @ post) 0 = Inr ?i"
    using win_interface.get_put [OF wf] by (simp add: config_buffer_image)
  have "map (\<lambda>p. (windows_parsePeer (config_peer p))\<lparr> peer_AllowedIPs :=
      map windows_parseAllowedIP (map config_AllowedIP (pc_AllowedIPs p)) \<rparr>) (cfg_Peers c) =
      map windows_echo_peer (cfg_Peers c)"
  proof (rule map_cong [OF refl])
    fix p assume "p \<in> set (cfg_Peers c)"
    then have ok: "win_peer_ok p" using assms(1) by (simp add: list_all_iff)
    have "map (\<lambda>n. windows_parseAllowedIP (config_AllowedIP n)) (pc_AllowedIPs p) = map (\<lambda>n. n) (pc_AllowedIPs p)"
      by (rule map_cong [OF refl]) (use ok windows_read_aip in \<open>auto simp: win_peer_ok_def list_all_iff\<close>)
    then show "(windows_parsePeer (config_peer p))\<lparr> peer_AllowedIPs :=
        map windows_parseAllowedIP (map config_AllowedIP (pc_AllowedIPs p)) \<rparr> = windows_echo_peer p"
      using windows_read_peer [OF ok] by (simp add: comp_def)
  qed
  moreover have "uint (of_int v :: u16) = v" if "cfg_ListenPort c = Some v" for v
    using assms(3) that by (simp add: in_upto_def unsigned_of_int take_bit_int_eq_self)
  moreover have "unat (wi_PeerCount ?i) = length (cfg_Peers c)"
    using assms(4) by (simp add: config_interface_fields unat_of_nat_32)
  ultimately show ?thesis
    unfolding windows_parseDevice_def get res_bind.simps Let_def
    using config_interface_flags [of c] windows_read_peers [OF assms(1) win_interface.put_length [OF wf], of post]
    by (auto simp: config_buffer_image config_interface_fields windows_echo_def zeroDevice_def num_def comp_def
        split: option.split)
qed

text \<open>The buffer has the size that was computed for it, so that appending never allocates it again.\<close>

lemma config_buffer_length:
  assumes "list_all win_peer_ok (cfg_Peers c)" and "pred_option key_ok (cfg_PrivateKey c)"
  shows "length (config_buffer c) = sizeof_Interface + length (cfg_Peers c) * sizeof_Peer +
    sum_list (map (\<lambda>p. length (pc_AllowedIPs p) * sizeof_AllowedIP) (cfg_Peers c))"
proof -
  have wf: "Interface_wf (config_interface c)"
    using assms(2) by (auto simp: Interface_wf_def config_interface_fields split: option.split)
  have ips: "length (concat (map put_AllowedIP (map config_AllowedIP ns))) = length ns * sizeof_AllowedIP"
    if "list_all ipnet_ok ns" for ns
    using that windows_read_aip by (induction ns) (simp_all add: win_aip.put_length)
  have "length (put_nested put_Peer put_AllowedIP (map (\<lambda>p. (config_peer p, map config_AllowedIP (pc_AllowedIPs p))) ps)) =
      length ps * sizeof_Peer + sum_list (map (\<lambda>p. length (pc_AllowedIPs p) * sizeof_AllowedIP) ps)"
    if "list_all win_peer_ok ps" for ps
    using that
  proof (induction ps)
    case (Cons p ps)
    then have "length (put_Peer (config_peer p)) = sizeof_Peer" and "list_all ipnet_ok (pc_AllowedIPs p)"
      using win_peer.put_length [OF config_peer_wf] by (simp_all add: win_peer_ok_def)
    with Cons ips show ?case by (simp add: put_nested_def)
  qed (simp add: put_nested_def)
  with assms(1) win_interface.put_length [OF wf] show ?thesis by (simp add: config_buffer_image)
qed

lemma config_builder_exact:
  assumes "list_all win_peer_ok (cfg_Peers c)" and "pred_option key_ok (cfg_PrivateKey c)"
    and "length (config_buffer c) < 2 ^ 32"
  shows "unat (preallocation c) = length (config_buffer c)"
    and "cb_capacity (config_builder c) = length (config_buffer c)"
proof -
  show "unat (preallocation c) = length (config_buffer c)"
    using unat_of_nat_32 [OF assms(3)] by (simp add: preallocation_def config_buffer_length [OF assms(1,2)])
  then show "cb_capacity (config_builder c) = length (config_buffer c)"
    by (simp add: config_builder_capacity)
qed

section \<open>The outside world\<close>

text \<open>
  The Windows API as the client calls it: device information sets and their elements are numbered, file
  names are strings. \<open>we_Property\<close> gives \<^const>\<open>None\<close> for a property that is not a string.
\<close>

record 's win_env =
  we_NtVersion :: "nat \<times> nat"
  we_GetClassDevs :: "string \<Rightarrow> 's \<Rightarrow> (go_error + nat) \<times> 's"
  we_Destroy :: "nat \<Rightarrow> 's \<Rightarrow> 's"
  we_EnumDeviceInfo :: "nat \<Rightarrow> nat \<Rightarrow> 's \<Rightarrow> (go_error + nat) \<times> 's"
  we_Property :: "nat \<Rightarrow> nat \<Rightarrow> 's \<Rightarrow> (go_error + string option) \<times> 's"
  we_Status :: "nat \<Rightarrow> 's \<Rightarrow> (go_error + 32 word) \<times> 's"
  we_InstanceId :: "nat \<Rightarrow> nat \<Rightarrow> 's \<Rightarrow> (go_error + string) \<times> 's"
  we_Interfaces :: "string \<Rightarrow> 's \<Rightarrow> (go_error + string list) \<times> 's"
  we_UTF16 :: "string \<Rightarrow> go_error + string"
  we_CreateFile :: "string \<Rightarrow> 's \<Rightarrow> (go_error + nat) \<times> 's"
  we_CloseHandle :: "nat \<Rightarrow> 's \<Rightarrow> 's"
  we_Get :: "nat \<Rightarrow> 32 word \<Rightarrow> 's \<Rightarrow> (go_error option \<times> 32 word \<times> bytes) \<times> 's"
  we_Set :: "nat \<Rightarrow> bytes option \<Rightarrow> 's \<Rightarrow> go_error option \<times> 's"
  we_ctxErr :: "'s \<Rightarrow> go_error option"

text \<open>The fields \<open>cachedInterfaces\<close> and \<open>lastLenGuess\<close> of the client beside the state of the world.\<close>

record 's win_state =
  ws_cache :: "(string \<times> string) list"
  ws_guess :: "32 word"
  ws_world :: 's

definition ERROR_FILE_NOT_FOUND :: go_error where "ERROR_FILE_NOT_FOUND = Errno 2"
definition ERROR_MORE_DATA :: go_error where "ERROR_MORE_DATA = Errno 234"
definition ERROR_NO_MORE_ITEMS :: go_error where "ERROR_NO_MORE_ITEMS = Errno 259"

section \<open>The cache of interfaces\<close>

text \<open>The variable \<open>enumerator\<close>, which \<open>init\<close> changes on Windows 7 and before.\<close>

definition enumerator :: "nat \<times> nat \<Rightarrow> string" where
  "enumerator v =
     (case v of (maj, minor) \<Rightarrow>
        if maj = 6 \<and> minor \<le> 1 \<or> maj < 6 then ''ROOT'' @ [CHR 92] @ ''WIREGUARD''
        else ''SWD'' @ [CHR 92] @ ''WireGuard'')"

text \<open>One turn of the loop, for an enumerated device: its name and file, unless it is skipped.\<close>

definition device_interface ::
    "'s win_env \<Rightarrow> nat \<Rightarrow> nat \<Rightarrow> 's \<Rightarrow> (crash + (string \<times> string) option) \<times> 's" where
  "device_interface env devInfo data s =
     (case we_Property env devInfo data s of
        (Inl e, s) \<Rightarrow> (Inr None, s)
      | (Inr None, s) \<Rightarrow> (Inr None, s)
      | (Inr (Some adapterName), s) \<Rightarrow>
          (case we_Status env data s of
             (Inl e, s) \<Rightarrow> (Inr None, s)
           | (Inr status, s) \<Rightarrow>
               if status AND (2 OR 8) \<noteq> 2 OR 8 then (Inr None, s)
               else (case we_InstanceId env devInfo data s of
                   (Inl e, s) \<Rightarrow> (Inr None, s)
                 | (Inr instanceId, s) \<Rightarrow>
                     (case we_Interfaces env instanceId s of
                        (Inl e, s) \<Rightarrow> (Inr None, s)
                      | (Inr [], s) \<Rightarrow> (Inl (Panic ''index out of range''), s)
                      | (Inr (interface # _), s) \<Rightarrow>
                          (case we_UTF16 env interface of
                             Inl e \<Rightarrow> (Inr None, s)
                           | Inr file \<Rightarrow> (Inr (Some (adapterName, file)), s))))))"

text \<open>The loop ends at \<open>ERROR_NO_MORE_ITEMS\<close>; any other error of the enumeration is skipped.\<close>

partial_function (option) enum_loop ::
    "'s win_env \<Rightarrow> nat \<Rightarrow> nat \<Rightarrow> (string \<times> string) list \<Rightarrow> 's \<Rightarrow>
     ((crash + (string \<times> string) list) \<times> 's) option" where
  "enum_loop env devInfo i cache s =
     (case we_EnumDeviceInfo env devInfo i s of
        (Inl e, s) \<Rightarrow>
          if e = ERROR_NO_MORE_ITEMS then Some (Inr cache, s) else enum_loop env devInfo (Suc i) cache s
      | (Inr data, s) \<Rightarrow>
          (case device_interface env devInfo data s of
             (Inl c, s) \<Rightarrow> Some (Inl c, s)
           | (Inr None, s) \<Rightarrow> enum_loop env devInfo (Suc i) cache s
           | (Inr (Some (name, file)), s) \<Rightarrow> enum_loop env devInfo (Suc i) (AList.update name file cache) s))"

definition refreshInterfaceCache ::
    "'s win_env \<Rightarrow> 's win_state \<Rightarrow> (failure option \<times> 's win_state) option" where
  "refreshInterfaceCache env st =
     (case we_GetClassDevs env (enumerator (we_NtVersion env)) (ws_world st) of
        (Inl e, s) \<Rightarrow> Some (Some (Fail e), st\<lparr> ws_world := s \<rparr>)
      | (Inr devInfo, s) \<Rightarrow>
          (case enum_loop env devInfo 0 [] s of
             None \<Rightarrow> None
           | Some (Inl c, s) \<Rightarrow> Some (Some (Crash c), st\<lparr> ws_world := we_Destroy env devInfo s \<rparr>)
           | Some (Inr cache, s) \<Rightarrow>
               Some (None, st\<lparr> ws_cache := cache, ws_world := we_Destroy env devInfo s \<rparr>)))"

text \<open>
  \<open>interfaceHandle\<close>. After a refresh the loop has its last turn; while the name is in the cache, only
  success and \<open>ERROR_FILE_NOT_FOUND\<close> end it.
\<close>

partial_function (option) interfaceHandle ::
    "'s win_env \<Rightarrow> string \<Rightarrow> 's win_state \<Rightarrow> ((failure + nat) \<times> 's win_state) option" where
  "interfaceHandle env name st =
     (case map_of (ws_cache st) name of
        Some fileName \<Rightarrow>
          (case we_CreateFile env fileName (ws_world st) of
             (Inr handle, s) \<Rightarrow> Some (Inr handle, st\<lparr> ws_world := s \<rparr>)
           | (Inl e, s) \<Rightarrow>
               if e = ERROR_FILE_NOT_FOUND then Some (Inl (Fail e), st\<lparr> ws_world := s \<rparr>)
               else interfaceHandle env name (st\<lparr> ws_world := s \<rparr>))
      | None \<Rightarrow>
          (case refreshInterfaceCache env st of
             None \<Rightarrow> None
           | Some (Some e, st) \<Rightarrow> Some (Inl e, st)
           | Some (None, st) \<Rightarrow>
               (case map_of (ws_cache st) name of
                  None \<Rightarrow> Some (Inl (Fail ErrNotExist), st)
                | Some fileName \<Rightarrow>
                    (case we_CreateFile env fileName (ws_world st) of
                       (Inr handle, s) \<Rightarrow> Some (Inr handle, st\<lparr> ws_world := s \<rparr>)
                     | (Inl e, s) \<Rightarrow> Some (Inl (Fail e), st\<lparr> ws_world := s \<rparr>)))))"

section \<open>The operations\<close>

text \<open>
  The loop of \<open>Device\<close>: \<open>DeviceIoControl\<close> leaves in \<open>size\<close> what it wrote or, with \<open>ERROR_MORE_DATA\<close>,
  what it needs; \<open>&buf[0]\<close> panics for an empty buffer.
\<close>

partial_function (option) get_loop ::
    "'s win_env \<Rightarrow> nat \<Rightarrow> 32 word \<Rightarrow> 's \<Rightarrow> ((failure + 32 word \<times> bytes) \<times> 's) option" where
  "get_loop env handle sz s =
     (if sz = 0 then Some (Inl (Crash (Panic ''index out of range'')), s)
      else case we_Get env handle sz s of
          ((None, sz', buf), s) \<Rightarrow> Some (Inr (sz', buf), s)
        | ((Some e, sz', buf), s) \<Rightarrow>
            if e = ERROR_MORE_DATA then get_loop env handle sz' s else Some (Inl (Fail e), s))"

definition windows_Device ::
    "'s win_env \<Rightarrow> string \<Rightarrow> 's win_state \<Rightarrow> ((failure + Device) \<times> 's win_state) option" where
  "windows_Device env name st =
     (case we_ctxErr env (ws_world st) of
        Some e \<Rightarrow> Some (Inl (Fail e), st)
      | None \<Rightarrow>
          (case interfaceHandle env name st of
             None \<Rightarrow> None
           | Some (Inl e, st) \<Rightarrow> Some (Inl e, st)
           | Some (Inr handle, st) \<Rightarrow>
               let close = (\<lambda>st. st\<lparr> ws_world := we_CloseHandle env handle (ws_world st) \<rparr>) in
               (case get_loop env handle (if ws_guess st = 0 then 512 else ws_guess st) (ws_world st) of
                  None \<Rightarrow> None
                | Some (Inl e, s) \<Rightarrow> Some (Inl e, close (st\<lparr> ws_world := s \<rparr>))
                | Some (Inr (sz, buf), s) \<Rightarrow>
                    Some (crashing (windows_parseDevice name buf), close (st\<lparr> ws_guess := sz, ws_world := s \<rparr>)))))"

text \<open>\<open>Devices\<close>: \<open>range\<close> over the cache has no order, hence the parameter \<open>order\<close>.\<close>

fun windows_each ::
    "'s win_env \<Rightarrow> string list \<Rightarrow> 's win_state \<Rightarrow> ((failure + Device list) \<times> 's win_state) option" where
  "windows_each env [] st = Some (Inr [], st)"
| "windows_each env (name # names) st =
     (case windows_Device env name st of
        None \<Rightarrow> None
      | Some (Inl e, st) \<Rightarrow> Some (Inl e, st)
      | Some (Inr d, st) \<Rightarrow>
          map_option (\<lambda>(r, st). (map_sum id ((#) d) r, st)) (windows_each env names st))"

definition windows_Devices ::
    "'s win_env \<Rightarrow> (string list \<Rightarrow> string list) \<Rightarrow> 's win_state \<Rightarrow>
     ((failure + Device list) \<times> 's win_state) option" where
  "windows_Devices env order st =
     (case we_ctxErr env (ws_world st) of
        Some e \<Rightarrow> Some (Inl (Fail e), st)
      | None \<Rightarrow>
          (case refreshInterfaceCache env st of
             None \<Rightarrow> None
           | Some (Some e, st) \<Rightarrow> Some (Inl e, st)
           | Some (None, st) \<Rightarrow> windows_each env (order (map fst (ws_cache st))) st))"

definition windows_ConfigureDevice ::
    "'s win_env \<Rightarrow> string \<Rightarrow> Config \<Rightarrow> 's win_state \<Rightarrow> (failure option \<times> 's win_state) option" where
  "windows_ConfigureDevice env name cfg st =
     (case we_ctxErr env (ws_world st) of
        Some e \<Rightarrow> Some (Some (Fail e), st)
      | None \<Rightarrow>
          (case interfaceHandle env name st of
             None \<Rightarrow> None
           | Some (Inl e, st) \<Rightarrow> Some (Some e, st)
           | Some (Inr handle, st) \<Rightarrow>
               (case builder_Interface (config_builder cfg) of
                  Inl c \<Rightarrow> Some (Some (Crash c), st\<lparr> ws_world := we_CloseHandle env handle (ws_world st) \<rparr>)
                | Inr (interfaze, sz) \<Rightarrow>
                    (case we_Set env handle (map_option (take (unat sz)) interfaze) (ws_world st) of
                       (r, s) \<Rightarrow> Some (map_option Fail r, st\<lparr> ws_world := we_CloseHandle env handle s \<rparr>)))))"

section \<open>The loops\<close>

text \<open>A cached name whose file cannot be opened for a reason other than \<open>ERROR_FILE_NOT_FOUND\<close>.\<close>

definition stuck :: "'s win_env \<Rightarrow> string \<Rightarrow> bool" where
  "stuck env path \<longleftrightarrow> (\<forall>s. \<exists>e s'. we_CreateFile env path s = (Inl e, s') \<and> e \<noteq> ERROR_FILE_NOT_FOUND)"

lemma interfaceHandle_stuck:
  assumes "interfaceHandle env name st = Some r"
  shows "map_of (ws_cache st) name = Some path \<longrightarrow> \<not> stuck env path"
proof (rule interfaceHandle.raw_induct
    [of "\<lambda>env name st r. map_of (ws_cache st) name = Some path \<longrightarrow> \<not> stuck env path", OF _ assms], goal_cases)
  case (1 handle env name st r)
  show ?case
  proof (intro impI notI)
    assume c: "map_of (ws_cache st) name = Some path" and st: "stuck env path"
    then obtain e s' where "we_CreateFile env path (ws_world st) = (Inl e, s')" "e \<noteq> ERROR_FILE_NOT_FOUND"
      unfolding stuck_def by blast
    with 1(2) c have "handle env name (st\<lparr> ws_world := s' \<rparr>) = Some r" by simp
    from 1(1) [OF this] c st show False by simp
  qed
qed

text \<open>The enumeration ends when there are no more items.\<close>

lemma enum_loop_returns:
  assumes "\<forall>i \<ge> n. \<forall>s. \<exists>s'. we_EnumDeviceInfo env devInfo i s = (Inl ERROR_NO_MORE_ITEMS, s')"
  shows "enum_loop env devInfo i cache s \<noteq> None"
proof (induction "n - i" arbitrary: i cache s rule: less_induct)
  case less
  note step = enum_loop.simps [of env devInfo i cache s]
  show ?case
  proof (cases "n \<le> i")
    case True
    with assms obtain s' where "we_EnumDeviceInfo env devInfo i s = (Inl ERROR_NO_MORE_ITEMS, s')" by blast
    then show ?thesis by (simp add: step)
  next
    case False
    then have "enum_loop env devInfo (Suc i) cache' s' \<noteq> None" for cache' s'
      by (intro less) simp
    then show ?thesis
      unfolding step by (auto split: prod.split sum.split option.split)
  qed
qed

lemma interfaceHandle_uncached:
  assumes "\<forall>devInfo. \<forall>i \<ge> n. \<forall>s. \<exists>s'. we_EnumDeviceInfo env devInfo i s = (Inl ERROR_NO_MORE_ITEMS, s')"
    and "map_of (ws_cache st) name = None"
  shows "interfaceHandle env name st \<noteq> None"
proof -
  have "enum_loop env devInfo 0 [] s \<noteq> None" for devInfo s
    by (rule enum_loop_returns [of n]) (use assms(1) in blast)
  then have enum: "\<exists>r s'. enum_loop env devInfo 0 [] s = Some (r, s')" for devInfo s by fastforce
  have "refreshInterfaceCache env st \<noteq> None"
  proof (cases "we_GetClassDevs env (enumerator (we_NtVersion env)) (ws_world st)")
    case (Pair g s)
    then show ?thesis
    proof (cases g)
      case (Inr d)
      obtain r s' where "enum_loop env d 0 [] s = Some (r, s')" using enum by blast
      with Pair Inr show ?thesis by (cases r) (simp_all add: refreshInterfaceCache_def)
    qed (simp add: refreshInterfaceCache_def)
  qed
  then show ?thesis
    using assms(2) by (auto simp: interfaceHandle.simps [of env name st] split: prod.split sum.split option.split)
qed

text \<open>
  A driver with the data \<open>img s\<close>, which does not change between the calls: at most two of them.
\<close>

definition serve_get :: "('s \<Rightarrow> bytes) \<Rightarrow> 32 word \<Rightarrow> 's \<Rightarrow> (go_error option \<times> 32 word \<times> bytes) \<times> 's" where
  "serve_get img sz s =
     (let n = length (img s) in
      if unat sz < n then ((Some ERROR_MORE_DATA, of_nat n, pad (unat sz)), s)
      else ((None, of_nat n, img s @ pad (unat sz - n)), s))"

lemma get_loop_serves:
  assumes "\<And>sz s. we_Get env h sz s = serve_get img sz s" and "0 < length (img s)" and "length (img s) < 2 ^ 32"
    and "sz \<noteq> 0"
  shows "\<exists>post. get_loop env h sz s = Some (Inr (of_nat (length (img s)), img s @ post), s)"
proof (cases "unat sz < length (img s)")
  case False
  then show ?thesis using assms by (simp add: get_loop.simps [of env h sz] serve_get_def Let_def)
next
  case True
  let ?n = "of_nat (length (img s)) :: 32 word"
  have n: "unat ?n = length (img s)" using assms(3) by (rule unat_of_nat_32)
  then have "?n \<noteq> 0" using assms(2) by (metis less_not_refl unat_0)
  then have "get_loop env h ?n s = Some (Inr (?n, img s @ []), s)"
    using n by (simp add: get_loop.simps [of env h ?n] assms(1) serve_get_def Let_def pad_def)
  moreover have "get_loop env h sz s = get_loop env h ?n s"
    using True assms(1,4) by (simp add: get_loop.simps [of env h sz] serve_get_def Let_def)
  ultimately show ?thesis by (intro exI [of _ "[]"]) simp
qed

section \<open>A system with one interface\<close>

text \<open>Its state is the data of the interface: what was set is what is read.\<close>

definition one_interface :: "string \<Rightarrow> bytes win_env" where
  "one_interface name =
     \<lparr> we_NtVersion = (10, 0), we_GetClassDevs = (\<lambda>e s. (Inr 0, s)), we_Destroy = (\<lambda>h s. s),
       we_EnumDeviceInfo = (\<lambda>h i s. (if i = 0 then Inr 0 else Inl ERROR_NO_MORE_ITEMS, s)),
       we_Property = (\<lambda>h d s. (Inr (Some name), s)), we_Status = (\<lambda>d s. (Inr 10, s)),
       we_InstanceId = (\<lambda>h d s. (Inr ''id'', s)), we_Interfaces = (\<lambda>i s. (Inr [''file''], s)),
       we_UTF16 = Inr, we_CreateFile = (\<lambda>f s. (Inr 1, s)), we_CloseHandle = (\<lambda>h s. s),
       we_Get = (\<lambda>h. serve_get (\<lambda>s. s)), we_Set = (\<lambda>h b s. (None, case b of None \<Rightarrow> [] | Some b \<Rightarrow> b)), we_ctxErr = (\<lambda>s. None) \<rparr>"

text \<open>\<open>New()\<close>\<close>

definition windows_New :: "'s \<Rightarrow> 's win_state" where
  "windows_New s = \<lparr> ws_cache = [], ws_guess = 0, ws_world = s \<rparr>"

lemma one_interface_refresh:
  "refreshInterfaceCache (one_interface name) st = Some (None, st\<lparr> ws_cache := [(name, ''file'')] \<rparr>)"
proof -
  let ?env = "one_interface name"
  have enum: "we_EnumDeviceInfo ?env h i s = (if i = 0 then Inr 0 else Inl ERROR_NO_MORE_ITEMS, s)"
    "we_GetClassDevs ?env e s = (Inr 0, s)" "we_Destroy ?env h s = s" for h i s e
    by (simp_all add: one_interface_def)
  have dev: "device_interface ?env 0 0 s = (Inr (Some (name, ''file'')), s)" for s
    by (simp add: one_interface_def device_interface_def)
  have "enum_loop ?env 0 (Suc 0) cache s = Some (Inr cache, s)" for cache s
    by (simp add: enum_loop.simps [of ?env 0 "Suc 0"] enum)
  then have "enum_loop ?env 0 0 [] s = Some (Inr [(name, ''file'')], s)" for s
    by (simp add: enum_loop.simps [of ?env 0 0] enum dev)
  then show ?thesis by (simp add: refreshInterfaceCache_def enum)
qed

lemma one_interface_handle:
  assumes "map_of (ws_cache st) name \<in> {None, Some ''file''}"
  obtains st' where "interfaceHandle (one_interface name) name st = Some (Inr 1, st')"
    and "ws_world st' = ws_world st" and "ws_guess st' = ws_guess st" and "map_of (ws_cache st') name = Some ''file''"
proof (cases "map_of (ws_cache st) name")
  case None
  let ?st = "st\<lparr> ws_cache := [(name, ''file'')] \<rparr>"
  have "interfaceHandle (one_interface name) name st = Some (Inr 1, ?st)"
    using None by (simp add: interfaceHandle.simps [of _ name st] one_interface_refresh) (simp add: one_interface_def)
  then show ?thesis by (rule that) simp_all
next
  case (Some f)
  then have "interfaceHandle (one_interface name) name st = Some (Inr 1, st)"
    by (simp add: interfaceHandle.simps [of _ name st]) (simp add: one_interface_def)
  then show ?thesis by (rule that) (use Some assms in simp_all)
qed

lemma windows_configure_reads:
  assumes "0 < length (config_buffer c)" and "length (config_buffer c) < 2 ^ 32"
    and "\<And>post. windows_parseDevice name (config_buffer c @ post) = Inr d"
  shows "\<exists>st' st''. windows_ConfigureDevice (one_interface name) name c (windows_New s) = Some (None, st') \<and>
    windows_Device (one_interface name) name st' = Some (Inr d, st'')"
proof -
  let ?env = "one_interface name"
  obtain st where st: "interfaceHandle ?env name (windows_New s) = Some (Inr 1, st)"
    "ws_guess st = 0" "map_of (ws_cache st) name = Some ''file''"
    by (rule one_interface_handle [of "windows_New s" name]) (simp_all add: windows_New_def)
  let ?st = "st\<lparr> ws_world := config_buffer c \<rparr>"
  have conf: "windows_ConfigureDevice ?env name c (windows_New s) = Some (None, ?st)"
    using st(1) unat_of_nat_32 [OF assms(2)]
    unfolding windows_ConfigureDevice_def config_builder_Interface [OF assms(1)]
    by simp (simp add: one_interface_def)
  obtain st2 where st2: "interfaceHandle ?env name ?st = Some (Inr 1, st2)"
    "ws_world st2 = config_buffer c" "ws_guess st2 = 0"
    by (rule one_interface_handle [of ?st name]) (use st in simp_all)
  obtain post where "get_loop ?env 1 512 (config_buffer c) =
      Some (Inr (of_nat (length (config_buffer c)), config_buffer c @ post), config_buffer c)"
    using get_loop_serves [of ?env 1 "\<lambda>s. s" "config_buffer c" 512] assms(1,2)
    by (auto simp: one_interface_def)
  then have "\<exists>st''. windows_Device ?env name ?st = Some (Inr d, st'')"
    using st2 assms(3) by (simp add: windows_Device_def Let_def) (simp add: one_interface_def)
  with conf show ?thesis by blast
qed

end
