(* ===== verification/KernelSpec.thy ===== *)
theory KernelSpec
  imports OpenBSD FreeBSD Windows Instances
begin

text \<open>
  Properties of the backends for the kernels of FreeBSD, OpenBSD and Windows, and of the files generated
  from their headers.
\<close>

section \<open>Configurations read back\<close>

lemma valid_fb_peers:
  assumes "Validate c = None" and "wire_ok c" and "endpoints_valid c"
  shows "list_all fb_peer_ok (cfg_Peers c)" "pred_option key_ok (cfg_PrivateKey c)"
    "in_upto 65535 (cfg_ListenPort c)"
  using assms
  by (auto simp: Validate_None_iff valid_config_def wire_ok_def endpoints_valid_def cfg_wf_def list_all_iff fb_peer_ok_def)



lemma demo_endpoints_valid: "endpoints_valid demo_config"
  by (simp add: endpoints_valid_def demo_config_def demo_peer_def To16_def)

lemma demo_wire: "wire_ok demo_config"
  using demo_ipnet_ok
  by (simp add: wire_ok_def demo_config_def cfg_wf_def pc_wf_def demo_peer_def zeroConfig_def
      zeroPeerConfig_def key_ok_def KeyLen_def)




lemma demo_buffer_length: "length (config_buffer demo_config) = 240"
proof -
  have "list_all win_peer_ok (cfg_Peers demo_config)"
    using valid_fb_peers [OF demo_config_valid demo_wire demo_endpoints_valid]
    by (simp add: demo_config_def fb_peer_ok_def win_peer_ok_def demo_peer_def)
  from config_buffer_length [OF this] valid_fb_peers [OF demo_config_valid demo_wire demo_endpoints_valid]
  show ?thesis by (simp add: windows_sizes) (simp add: demo_config_def demo_peer_def)
qed


text \<open>
  C23. The builder of the Windows configuration: the size that \<open>ConfigureDevice\<close> computes before it
  fills the buffer is the size of the buffer in the end, so it is allocated once, and the size that the
  driver is given is that of the whole buffer.
\<close>

theorem windows_buffer_exact:
  assumes "Validate c = None" and "wire_ok c" and "endpoints_valid c" and "short_lists c"
    and "length (config_buffer c) < 2 ^ 32"
  shows "cb_capacity (config_builder c) = unat (preallocation c) \<and>
    builder_Interface (config_builder c) = Inr (Some (config_buffer c), preallocation c) \<and>
    unat (preallocation c) = length (config_buffer c)"
proof -
  note ok = valid_fb_peers [OF assms(1-3)]
  have peers: "list_all win_peer_ok (cfg_Peers c)"
    using ok(1) assms(4) by (auto simp: list_all_iff fb_peer_ok_def win_peer_ok_def short_lists_def)
  note exact = config_builder_exact [OF peers ok(2) assms(5)]
  have cap: "cb_capacity (config_builder c) = unat (preallocation c)" and n: "unat (preallocation c) = length (config_buffer c)"
    using exact by simp_all
  have "0 < length (config_buffer c)"
    using config_buffer_length [OF peers ok(2)] by (simp add: sizeof_Interface_def)
  then have "builder_Interface (config_builder c) = Inr (Some (config_buffer c), preallocation c)"
    unfolding config_builder_Interface [OF \<open>0 < length (config_buffer c)\<close>] n [symmetric] by simp
  with cap n show ?thesis by blast
qed

theorem windows_buffer_exact_witness:
  "unat (preallocation demo_config) = 240 \<and> cb_capacity (config_builder demo_config) = 240"
  using windows_buffer_exact [OF demo_config_valid demo_wire demo_endpoints_valid] demo_buffer_length
  by (simp add: short_lists_def) (simp add: demo_config_def demo_peer_def)

section \<open>OpenBSD\<close>

text \<open>
  C6. On OpenBSD, on each of its architectures, \<open>Device\<close> returns a device that the kernel has: for every history of the device, changing
  between the calls, in which its data stays below some size, the loop that grows the buffer ends and
  the walk over the structures gives the device as it was when the kernel wrote it.
\<close>

theorem openbsd_device_read:
  assumes "\<forall>s. ob_device_ok a (dev s) \<and> dev_Name (dev s) = name" and "\<forall>s. length (ob_image a (dev s)) \<le> B"
    and "B < max_int a" and "length name \<le> 16"
    and "get (string_bytes name @ replicate (16 - length name) 0) = serve (\<lambda>s. ob_image a (dev s)) nxt"
  shows "\<exists>s'. openbsd_Device a get name s = Some (Inr (dev s'), nxt s')"
  using openbsd_Device_serves [of name a dev B get nxt s] assms by (simp add: bsd_IFNAMSIZ_def)

text \<open>A device that gets a peer between two calls.\<close>

definition ob_demo_peer :: Peer where
  "ob_demo_peer = zeroPeer\<lparr> peer_PublicKey := replicate 32 7,
     peer_Endpoint := Some \<lparr> ua_IP = [192, 0, 2, 1], ua_Port = 51820, ua_Zone = [] \<rparr>,
     peer_PersistentKeepaliveInterval := 25 * second, peer_LastHandshakeTime := UnixTime 1700000000 5,
     peer_ReceiveBytes := 10, peer_TransmitBytes := 20, peer_ProtocolVersion := 1,
     peer_AllowedIPs := [\<lparr> in_IP = [10, 0, 0, 0], in_Mask = [255, 0, 0, 0] \<rparr>] \<rparr>"

definition ob_demo :: "nat \<Rightarrow> Device" where
  "ob_demo n = zeroDevice\<lparr> dev_Name := ''wg0'', dev_Type := OpenBSDKernel, dev_ListenPort := 51820,
     dev_Peers := (if n = 0 then [] else [ob_demo_peer]) \<rparr>"

lemma ob_demo_peer_ok: "ob_peer_ok ARM ob_demo_peer"
  using demo_ipnet_ok
  by (simp add: ob_peer_ok_def ob_demo_peer_def zeroPeer_def raw_endpoint_ok_def addr_ok_def whole_seconds_def
      go_simps handshake_ok_def second_def signed_ok_def key_ok_def KeyLen_def secs_def zeroKey_def max_int_def)

lemma ob_demo_ok: "ob_device_ok ARM (ob_demo n)"
  using ob_demo_peer_ok by (simp add: ob_device_ok_def ob_demo_def zeroDevice_def signed_ok_def max_int_def)

lemma ob_demo_length: "length (ob_image ARM (ob_demo n)) \<le> 248"
proof -
  have i: "interface_wf ARM (ob_interface_of (ob_demo n))"
    by (simp add: interface_wf_def ob_interface_of_def ob_demo_def zeroDevice_def size_t_ok_def)
  have p: "peer_wf ARM (ob_peer_of ob_demo_peer)" using ob_read_peer [OF ob_demo_peer_ok] by blast
  have a: "aip_wf (ob_aip_of \<lparr> in_IP = [10, 0, 0, 0], in_Mask = [255, 0, 0, 0] \<rparr>)"
    using read_aip [OF demo_ipnet_ok] by blast
  have ps: "dev_Peers (ob_demo n) = (if n = 0 then [] else [ob_demo_peer])" by (simp add: ob_demo_def)
  have ips: "peer_AllowedIPs ob_demo_peer = [\<lparr> in_IP = [10, 0, 0, 0], in_Mask = [255, 0, 0, 0] \<rparr>]"
    by (simp add: ob_demo_peer_def)
  show ?thesis
    using ob_interface.put_length [OF i] ob_peer.put_length [OF p] ob_aip.put_length [OF a]
    by (simp add: ob_image_def put_nested_def openbsd_sizes ps ips)
qed

theorem openbsd_device_read_witness:
  "\<exists>n. openbsd_Device ARM (\<lambda>_. serve (\<lambda>n. ob_image ARM (ob_demo n)) Suc) ''wg0'' 0 = Some (Inr (ob_demo n), Suc n)"
  by (rule openbsd_device_read [where B = 248])
    (use ob_demo_ok ob_demo_length in \<open>simp_all add: ob_demo_def max_int_def\<close>)

text \<open>
  C22. The error of a kernel that has no such device is \<open>os.ErrNotExist\<close>, so that the client asks the next
  backend; any other error number reaches the caller unchanged. On OpenBSD, configuring is refused as
  read-only exactly for devices of the kernel.
\<close>

theorem kernel_errors_conform:
  assumes "length name \<le> 16" and "dname = string_bytes name @ replicate (16 - length name) 0"
    and "io (SIOCGWG a) dname 0 [] s = (Inl (SyscallError ''ioctl'' (Errno n)), s')"
    and "get dname 0 [] s = (Inl (SyscallError ''ioctl'' (Errno n)), s')"
  shows "freebsd_Device a nv io name s =
      Some (Inl (Fail (if n = 6 \<or> n = 22 then ErrNotExist else SyscallError ''ioctl'' (Errno n))), s') \<and>
    openbsd_Device a get name s =
      Some (Inl (Fail (if n = 6 \<or> n = 25 then ErrNotExist else SyscallError ''ioctl'' (Errno n))), s') \<and>
    openbsd_ConfigureDevice a get name cfg s =
      Some (Some (Fail (if n = 6 \<or> n = 25 then ErrNotExist else SyscallError ''ioctl'' (Errno n))), s')"
  using freebsd_Device_fails [of name io a s "SyscallError ''ioctl'' (Errno n)" s' nv]
    openbsd_Device_fails [of name get s "SyscallError ''ioctl'' (Errno n)" s'] assms
  by (auto simp: bsd_IFNAMSIZ_def conform_def ENXIO_def EINVAL_def ENOTTY_def openbsd_ConfigureDevice_def)

theorem kernel_errors_conform_witness:
  "let none = (\<lambda>sz mem s. (Inl (SyscallError ''ioctl'' (Errno 6)), s)) in
   \<forall>s::nat. freebsd_Device AMD64 byte_libnv (\<lambda>_ _. none) ''eth0'' s = Some (Inl (Fail ErrNotExist), s) \<and>
     openbsd_Device AMD64 (\<lambda>_. none) ''eth0'' s = Some (Inl (Fail ErrNotExist), s) \<and>
     openbsd_ConfigureDevice AMD64 (\<lambda>_. none) ''eth0'' demo_config s = Some (Some (Fail ErrNotExist), s)"
  unfolding Let_def
  using kernel_errors_conform [where name = "''eth0''" and n = 6 and nv = byte_libnv and cfg = demo_config
    and io = "\<lambda>_ _ sz mem s. (Inl (SyscallError ''ioctl'' (Errno 6)), s :: nat)"
    and get = "\<lambda>_ sz mem s. (Inl (SyscallError ''ioctl'' (Errno 6)), s :: nat)", OF _ refl refl refl]
  by simp

text \<open>
  \<open>Devices\<close> of the BSD backends lists each member of the interface group, in order, under its name
  without the padding; with no member it panics.
\<close>

theorem group_members_listed:
  assumes "ctxErr s = None" and "length names < 2 ^ 28" and "list_all (\<lambda>n. CHR 0x00 \<notin> set n \<and> length n \<le> 16) names"
    and "\<forall>n \<in> set names. \<forall>s. device n s = Some (Inr (dev n), s)"
  shows "bsd_Devices (serve_group (map (\<lambda>n. string_bytes n @ replicate (16 - length n) 0) names)) device ctxErr s =
    (if names = [] then Some (Inl (Crash (Panic ''index out of range'')), s) else Some (Inr (map dev names), s))"
proof -
  let ?pad = "\<lambda>n. string_bytes n @ replicate (16 - length n) 0"
  have "trimmed_name (?pad n) = n" if "n \<in> set names" for n
    using that assms(3) by (intro trimmed_ioctl_name [of "[]"]) (auto simp: ioctl_name_def bsd_IFNAMSIZ_def list_all_iff)
  then have "device_each device (map ?pad names) s = Some (Inr (map dev names), s)"
    using device_each_all [of "map ?pad names" device dev s] assms(4) by (simp add: comp_def cong: map_cong)
  then show ?thesis
    using bsd_Devices_members [of ctxErr s "map ?pad names" device] assms(1,2) by simp
qed

theorem group_members_listed_witness:
  "bsd_Devices (serve_group [string_bytes ''wg0'' @ replicate 13 0, string_bytes ''wg1'' @ replicate 13 0])
     (\<lambda>n s. Some (Inr (zeroDevice\<lparr> dev_Name := n \<rparr>), s)) (\<lambda>_. None) (0::nat) =
   Some (Inr [zeroDevice\<lparr> dev_Name := ''wg0'' \<rparr>, zeroDevice\<lparr> dev_Name := ''wg1'' \<rparr>], 0)"
  using group_members_listed [of "\<lambda>_. None" 0 "[''wg0'', ''wg1'']" "\<lambda>n s. Some (Inr (zeroDevice\<lparr> dev_Name := n \<rparr>), s)"
    "\<lambda>n. zeroDevice\<lparr> dev_Name := n \<rparr>"] by simp

section \<open>The handle of a Windows interface\<close>

text \<open>
  C30. A name in the cache whose file cannot be opened, for a reason other than that it does not exist,
  keeps \<open>interfaceHandle\<close> in its loop for ever, and with it \<open>Device\<close> and \<open>ConfigureDevice\<close>; a context
  that is done later does not end it.
\<close>

theorem cached_name_spins:
  assumes "map_of (ws_cache st) name = Some path" and "stuck env path" and "we_ctxErr env (ws_world st) = None"
  shows "interfaceHandle env name st = None \<and> windows_Device env name st = None \<and>
    windows_ConfigureDevice env name cfg st = None"
proof -
  have "interfaceHandle env name st = None"
    using interfaceHandle_stuck [of env name st, where path = path] assms(1,2) by (metis not_Some_eq)
  then show ?thesis using assms(3) by (simp add: windows_Device_def windows_ConfigureDevice_def)
qed

theorem cached_name_spins_witness:
  "let env = (one_interface ''wg0'')\<lparr> we_CreateFile := (\<lambda>f s. (Inl (Errno 32), s)) \<rparr>;
       st = \<lparr> ws_cache = [(''wg0'', ''file'')], ws_guess = 0, ws_world = [] \<rparr>
   in interfaceHandle env ''wg0'' st = None \<and> windows_Device env ''wg0'' st = None \<and>
      windows_ConfigureDevice env ''wg0'' demo_config st = None"
  unfolding Let_def
  by (rule cached_name_spins [where path = "''file''"])
    (simp_all add: stuck_def ERROR_FILE_NOT_FOUND_def one_interface_def)

text \<open>
  C31. For a name that is not in the cache, \<open>interfaceHandle\<close> returns whenever the enumeration of devices
  comes to an end: one refresh, one attempt.
\<close>

theorem uncached_name_returns:
  assumes "\<forall>devInfo. \<forall>i \<ge> n. \<forall>s. \<exists>s'. we_EnumDeviceInfo env devInfo i s = (Inl ERROR_NO_MORE_ITEMS, s')"
    and "map_of (ws_cache st) name = None"
  shows "\<exists>r st'. interfaceHandle env name st = Some (r, st')"
  using interfaceHandle_uncached [OF assms] by auto

theorem uncached_name_returns_witness:
  "\<exists>r st'. interfaceHandle (one_interface ''wg0'') ''other'' (windows_New []) = Some (r, st')"
  by (rule uncached_name_returns [of 1]) (simp_all add: one_interface_def windows_New_def)

section \<open>Structures shared with the kernels\<close>

lemma ifgroupreq_C:
  "map snd (layout CABI a (go_ifgroupreq a)) =
     (if ptr_size a = 8 then [0, 16, 20, 24, 32] else [0, 16, 20, 20, 24])"
  by (cases a) (simp_all add: go_ifgroupreq_def layout_defs)

lemma wg_data_io_C:
  "map snd (layout CABI a (wg_data_io a)) = [0, 16, 16 + ptr_size a]"
  "struct_size CABI a (wg_data_io a) = 16 + 2 * ptr_size a"
  by (cases a; simp add: wg_data_io_def layout_defs)+

text \<open>
  The constants of the generated files of OpenBSD: on every architecture the sizes by which the backend
  walks over the structures are those of the structures it declares, the request number carries the size
  of its argument, and the flags that it tests are those of every file. \<open>Ifgroupreq\<close> has the layout of the C
  structure \<open>go_ifgroupreq\<close>.
\<close>

lemma openbsd_sizes_flags:
  "SizeofWGAIPIO a = struct_size GoABI a (ob_WGAIPIO (wgh_openbsd a))"
  "SizeofWGInterfaceIO a = struct_size GoABI a (ob_WGInterfaceIO (wgh_openbsd a))"
  "SizeofWGPeerIO a = struct_size GoABI a (ob_WGPeerIO (wgh_openbsd a))"
  "ob_SizeofIfgreq (wgh_openbsd a) = struct_size GoABI a (ob_Ifgreq (wgh_openbsd a))"
  "ob_SIOCGWG (wgh_openbsd a) = iowr CHR ''i'' 211 (struct_size GoABI a (ob_WGDataIO (wgh_openbsd a)))"
  "map snd (filter (\<lambda>f. fst f \<noteq> ''WG_INTERFACE_REPLACE_PEERS'') (ob_flags (wgh_openbsd a))) =
     map unat [WG_INTERFACE_HAS_PUBLIC, WG_INTERFACE_HAS_PRIVATE, WG_INTERFACE_HAS_PORT, WG_INTERFACE_HAS_RTABLE] @
     map unat [WG_PEER_HAS_PUBLIC, WG_PEER_HAS_PSK, WG_PEER_HAS_PKA, WG_PEER_HAS_ENDPOINT]"
  "map snd (layout GoABI a (ob_Ifgroupreq (wgh_openbsd a))) = map snd (layout CABI a (go_ifgroupreq a))"
  by (cases a; simp add: openbsd_layouts openbsd_sizes iowr_def ifgroupreq_C openbsd_flags
      ob_amd64_flags_def ob_arm64_flags_def ob_386_flags_def ob_arm_flags_def)+

text \<open>
  C25. The generated files of FreeBSD against the C structures of \<open>defs.go\<close>: \<open>Ifgroupreq\<close> has the layout of
  \<open>go_ifgroupreq\<close> and \<open>WGDataIO\<close> that of \<open>wg_data_io\<close>, with its size and the two requests that carry it. On
  the ARM they do not: the file declares its size, a \<open>size_t\<close> in C, with 64 bits, so that neither the structure has
  the size of the C structure nor are the two requests the kernel's.
\<close>

theorem freebsd_requests:
  "map snd (layout GoABI a (fb_Ifgroupreq (wgh_freebsd a))) = map snd (layout CABI a (go_ifgroupreq a)) \<and>
   map snd (layout GoABI a (fb_WGDataIO (wgh_freebsd a))) = map snd (layout CABI a (wg_data_io a)) \<and>
   (struct_size GoABI a (fb_WGDataIO (wgh_freebsd a)) = struct_size CABI a (wg_data_io a) \<longleftrightarrow> a \<noteq> ARM) \<and>
   (SIOCGWG a = iowr CHR ''i'' 211 (struct_size CABI a (wg_data_io a)) \<longleftrightarrow> a \<noteq> ARM) \<and>
   (SIOCSWG a = iowr CHR ''i'' 210 (struct_size CABI a (wg_data_io a)) \<longleftrightarrow> a \<noteq> ARM)"
  by (cases a) (simp_all add: freebsd_layouts ifgroupreq_C wg_data_io_C SIOCGWG_def SIOCSWG_def iowr_def)

end
