(* ===== verification/KeyText.thy ===== *)
theory KeyText
  imports GoStrconv WgTypes
begin

text \<open>
  The text of keys: \<open>Key.String\<close> and \<open>ParseKey\<close> of \<open>wgtypes/types.go\<close> over \<open>encoding/base64\<close>, and
  \<open>wgtypes/redact.go\<close>, which hides keys in formatted text.
\<close>

section \<open>Base64\<close>

definition b64_table :: string where
  "b64_table = ''ABCDEFGHIJKLMNOPQRSTUVWXYZabcdefghijklmnopqrstuvwxyz0123456789+/''"

definition b64_char :: "nat \<Rightarrow> char" where
  "b64_char d = b64_table ! d"

definition b64_val :: "char \<Rightarrow> nat option" where
  "b64_val c = (if c \<in> set b64_table then Some (length (takeWhile (\<lambda>x. x \<noteq> c) b64_table)) else None)"

definition six :: "nat \<Rightarrow> nat \<Rightarrow> nat \<Rightarrow> nat list" where
  "six x y z = [x div 4, 16 * (x mod 4) + y div 16, 4 * (y mod 16) + z div 64, z mod 64]"

definition eight :: "nat \<Rightarrow> nat \<Rightarrow> nat \<Rightarrow> nat \<Rightarrow> nat list" where
  "eight a b c d = [4 * a + b div 16, 16 * (b mod 16) + c div 4, 64 * (c mod 4) + d]"

text \<open>\<open>StdEncoding.EncodeToString\<close>: three bytes are four digits; a rest is padded with equals signs.\<close>

fun b64_encode :: "bytes \<Rightarrow> string" where
  "b64_encode [] = []"
| "b64_encode [x] = map b64_char (take 2 (six (unat x) 0 0)) @ ''==''"
| "b64_encode [x, y] = map b64_char (take 3 (six (unat x) (unat y) 0)) @ ''=''"
| "b64_encode (x # y # z # bs) = map b64_char (six (unat x) (unat y) (unat z)) @ b64_encode bs"

text \<open>
  \<open>StdEncoding.DecodeString\<close> skips line breaks anywhere; groups of four digits follow, of which the
  last may end in one or two equals signs. Bits of a padded group past its bytes are ignored.
\<close>

definition b64_group :: "char \<Rightarrow> char \<Rightarrow> char \<Rightarrow> char \<Rightarrow> bytes option" where
  "b64_group a b c d =
     (case (b64_val a, b64_val b, b64_val c, b64_val d) of
        (Some p, Some q, Some r, Some s) \<Rightarrow> Some (map of_nat (eight p q r s))
      | _ \<Rightarrow> None)"

definition b64_last :: "char \<Rightarrow> char \<Rightarrow> char \<Rightarrow> char \<Rightarrow> bytes option" where
  "b64_last a b c d =
     (if d \<noteq> CHR ''='' then b64_group a b c d
      else if c = CHR ''='' then map_option (take 1) (b64_group a b CHR ''A'' CHR ''A'')
      else map_option (take 2) (b64_group a b c CHR ''A''))"

fun b64_groups :: "string \<Rightarrow> bytes option" where
  "b64_groups [] = Some []"
| "b64_groups [a, b, c, d] = b64_last a b c d"
| "b64_groups (a # b # c # d # e # s) =
     (case b64_group a b c d of None \<Rightarrow> None | Some x \<Rightarrow> map_option (\<lambda>y. x @ y) (b64_groups (e # s)))"
| "b64_groups s = None"

definition b64_decode :: "string \<Rightarrow> bytes option" where
  "b64_decode s = b64_groups (filter (\<lambda>c. c \<noteq> CHR 0x0A \<and> c \<noteq> CHR 0x0D) s)"

lemma b64_val_table: "list_all (\<lambda>d. b64_val (b64_char d) = Some d) [0..<64]"
  by code_simp

lemma b64_val_char: "d < 64 \<Longrightarrow> b64_val (b64_char d) = Some d"
  using b64_val_table by (simp add: list_all_iff)

lemma b64_char_digit: "d < 64 \<Longrightarrow> b64_char d \<in> set b64_table"
  using b64_val_char [of d] by (auto simp: b64_val_def split: if_splits)

lemma eight_six: "(x::nat) < 256 \<Longrightarrow> y < 256 \<Longrightarrow> z < 256 \<Longrightarrow>
    eight (x div 4) (16 * (x mod 4) + y div 16) (4 * (y mod 16) + z div 64) (z mod 64) = [x, y, z]"
  by (simp add: eight_def)

lemma six_bound: "(x::nat) < 256 \<Longrightarrow> y < 256 \<Longrightarrow> z < 256 \<Longrightarrow>
    x div 4 < 64 \<and> 16 * (x mod 4) + y div 16 < 64 \<and> 4 * (y mod 16) + z div 64 < 64 \<and> z mod 64 < 64"
proof -
  assume "x < 256" "y < 256" "z < 256"
  then have "x div 4 < 64" "y div 16 < 16" "z div 64 < 4"
    by (simp_all add: div_less_iff_less_mult)
  moreover have "x mod 4 < 4" "y mod 16 < 16" by simp_all
  ultimately show ?thesis by auto
qed

lemma b64_group_six:
  "b64_group (b64_char (unat x div 4)) (b64_char (16 * (unat x mod 4) + unat y div 16))
     (b64_char (4 * (unat y mod 16) + unat z div 64)) (b64_char (unat z mod 64)) = Some [x, y, z :: byte]"
  using six_bound [OF unat_byte unat_byte unat_byte, of x y z] eight_six [OF unat_byte unat_byte unat_byte, of x y z]
  by (simp add: b64_group_def b64_val_char)

lemma b64_A: "CHR ''A'' = b64_char 0"
  by code_simp

lemma b64_not_pad: "CHR ''='' \<notin> set b64_table" "CHR 0x0A \<notin> set b64_table" "CHR 0x0D \<notin> set b64_table"
  by code_simp+

lemma b64_char_not_pad: "d < 64 \<Longrightarrow> b64_char d \<noteq> CHR ''=''"
  using b64_char_digit b64_not_pad by metis

lemma b64_encode_chars: "c \<in> set (b64_encode bs) \<Longrightarrow> c \<in> set b64_table \<or> c = CHR ''=''"
proof (induction bs rule: b64_encode.induct)
  case (2 x)
  then show ?case
    using six_bound [OF unat_byte unat_byte unat_byte, of x 0 0] b64_char_digit by (auto simp: six_def)
next
  case (3 x y)
  then show ?case
    using six_bound [OF unat_byte unat_byte unat_byte, of x y 0] b64_char_digit
    by (auto simp: six_def)
next
  case (4 x y z bs)
  then show ?case
    using six_bound [OF unat_byte unat_byte unat_byte, of x y z] b64_char_digit by (auto simp: six_def)
qed simp

lemma b64_groups_encode: "b64_groups (b64_encode bs) = Some bs"
proof (induction bs rule: b64_encode.induct)
  case (2 x)
  then show ?case
    using b64_group_six [of x 0 0] by (simp add: six_def b64_last_def b64_A)
next
  case (3 x y)
  then show ?case
    using b64_group_six [of x y 0] six_bound [OF unat_byte unat_byte unat_byte, of x y 0]
    by (simp add: six_def b64_last_def b64_A b64_char_not_pad)
next
  case (4 x y z bs)
  show ?case
  proof (cases "b64_encode bs")
    case Nil
    with "4" show ?thesis
      using b64_group_six [of x y z] six_bound [OF unat_byte unat_byte unat_byte, of x y z]
      by (simp add: six_def b64_last_def b64_char_not_pad)
  next
    case (Cons e s)
    with "4" show ?thesis using b64_group_six [of x y z] by (simp add: six_def)
  qed
qed simp

lemma b64_decode_encode: "b64_decode (b64_encode bs) = Some bs"
proof -
  have "filter (\<lambda>c. c \<noteq> CHR 0x0A \<and> c \<noteq> CHR 0x0D) (b64_encode bs) = b64_encode bs"
    by (rule filter_True) (use b64_encode_chars b64_not_pad in \<open>fastforce\<close>)
  then show ?thesis by (simp add: b64_decode_def b64_groups_encode)
qed

section \<open>Keys\<close>

definition Key_String :: "Key \<Rightarrow> string" where
  "Key_String k = b64_encode k"

definition ParseKey :: "string \<Rightarrow> go_error + Key" where
  "ParseKey s =
     (case b64_decode s of
        None \<Rightarrow> Inl (Wrapped ''wgtypes: failed to parse base64-encoded key'' (ErrText ''illegal base64 data''))
      | Some b \<Rightarrow> NewKey b)"

text \<open>\<open>PublicKey\<close>; \<open>curve25519.ScalarBaseMult\<close> is the parameter, a function of 32 bytes to 32 bytes.\<close>

definition PublicKey :: "(bytes \<Rightarrow> bytes) \<Rightarrow> Key \<Rightarrow> Key" where
  "PublicKey scalarBaseMult k = (let priv = take KeyLen k in scalarBaseMult priv)"

lemma ParseKey_String: "key_ok k \<Longrightarrow> ParseKey (Key_String k) = Inr k"
  by (simp add: ParseKey_def Key_String_def b64_decode_encode NewKey_Inr)

section \<open>Replacing text\<close>

text \<open>
  \<open>strings.ReplaceAll(s, old, new)\<close> for a non-empty \<open>old\<close>: from the left, each occurrence is replaced
  and skipped.
\<close>

function ReplaceAll :: "string \<Rightarrow> string \<Rightarrow> string \<Rightarrow> string" where
  "ReplaceAll s old new =
     (if old = [] \<or> s = [] then s
      else if prefix old s then new @ ReplaceAll (drop (length old) s) old new
      else hd s # ReplaceAll (tl s) old new)"
  by pat_completeness auto
termination
  by (relation "measure (\<lambda>(s, old, new). length s)") auto

declare ReplaceAll.simps [simp del]

lemma ReplaceAll_Nil [simp]: "ReplaceAll [] old new = []"
  by (simp add: ReplaceAll.simps)

text \<open>
  The text between the replacements. A pattern without the characters of \<open>new\<close> that occurs in the
  result occurs in the source.
\<close>

lemma sublist_ConsE: "sublist p (c # s) \<Longrightarrow> \<not> prefix p (c # s) \<Longrightarrow> sublist p s"
  by (simp add: sublist_Cons_right)

lemma sublist_drop: "sublist p (drop n s) \<Longrightarrow> sublist p s"
  by (meson sublist_drop sublist_order.order.trans)

text \<open>
  A pattern is apart from \<open>new\<close> if \<open>new\<close> starts with a character that it does not have and no
  occurrence of the pattern uses a part of \<open>new\<close>.
\<close>

definition apart :: "string \<Rightarrow> string \<Rightarrow> bool" where
  "apart p new \<longleftrightarrow> new \<noteq> [] \<and> hd new \<notin> set p \<and> (\<forall>s. sublist p (new @ s) \<longrightarrow> sublist p s)"

lemma sublist_split:
  assumes "sublist p (xs @ c # ys)" and "c \<notin> set p"
  shows "sublist p xs \<or> sublist p ys"
  using assms(1)
proof (induction xs)
  case Nil
  then show ?case
    using assms(2) by (cases p) (auto simp: sublist_Cons_right)
next
  case (Cons x xs)
  show ?case
  proof (cases "prefix p (x # xs @ c # ys)")
    case True
    then obtain t where "p @ t = (x # xs) @ c # ys" by (auto simp: prefix_def)
    then have "prefix p (x # xs)" using assms(2) by (auto simp: append_eq_append_conv2 append_eq_Cons_conv)
    then show ?thesis using prefix_imp_sublist by blast
  next
    case False
    with Cons show ?thesis by (auto simp: sublist_Cons_right)
  qed
qed

text \<open>A prefix of the result in characters that \<open>new\<close> does not have is a prefix of the source.\<close>

lemma ReplaceAll_prefix:
  assumes "prefix p (ReplaceAll s old new)" and "hd new \<notin> set p" and "new \<noteq> []"
  shows "prefix p s"
  using assms
proof (induction s old new arbitrary: p rule: ReplaceAll.induct)
  case (1 s old new)
  show ?case
  proof (cases "old = [] \<or> s = []")
    case True
    with "1.prems" show ?thesis by (simp add: ReplaceAll.simps [of s])
  next
    case False
    show ?thesis
    proof (cases "prefix old s")
      case True
      with False "1.prems" have "prefix p (new @ ReplaceAll (drop (length old) s) old new)"
        by (simp add: ReplaceAll.simps [of s])
      with "1.prems"(2,3) have "p = []" by (cases p; cases new) auto
      then show ?thesis by simp
    next
      case np: False
      obtain c t where s: "s = c # t" using False by (cases s) auto
      have "prefix p (c # ReplaceAll t old new)"
        using "1.prems"(1) False np by (simp add: ReplaceAll.simps [of s]) (simp add: s)
      then show ?thesis
        using "1.IH"(2) [OF False np, of "tl p"] "1.prems"(2,3) s
        by (cases p) auto
    qed
  qed
qed

lemma ReplaceAll_sublist:
  assumes "sublist p (ReplaceAll s old new)" and "apart p new"
  shows "sublist p s"
  using assms
proof (induction s old new rule: ReplaceAll.induct)
  case (1 s old new)
  consider "old = [] \<or> s = []" | "old \<noteq> []" "s \<noteq> []" "prefix old s" | "old \<noteq> []" "s \<noteq> []" "\<not> prefix old s" by blast
  then show ?case
  proof cases
    case 1
    with "1.prems" show ?thesis by (simp add: ReplaceAll.simps [of s])
  next
    case 2
    then have "sublist p (ReplaceAll (drop (length old) s) old new)"
      using "1.prems" by (simp add: apart_def) (simp add: ReplaceAll.simps [of s])
    with 2 "1.IH"(1) "1.prems" show ?thesis using sublist_drop by blast
  next
    case 3
    obtain c t where s: "s = c # t" using 3 by (cases s) auto
    have r: "ReplaceAll s old new = c # ReplaceAll t old new"
      using 3 by (simp add: ReplaceAll.simps [of s]) (simp add: s)
    show ?thesis
    proof (cases "prefix p (ReplaceAll s old new)")
      case True
      with "1.prems"(2) have "prefix p s" unfolding apart_def using ReplaceAll_prefix by blast
      then show ?thesis by (rule prefix_imp_sublist)
    next
      case False
      with r "1.prems"(1) have "sublist p (ReplaceAll t old new)" using sublist_ConsE by metis
      with 3 s "1.IH"(2) "1.prems" show ?thesis by (simp add: sublist_Cons_right)
    qed
  qed
qed

text \<open>The pattern itself is gone.\<close>

lemma ReplaceAll_gone:
  assumes "apart old new" and "old \<noteq> []"
  shows "\<not> sublist old (ReplaceAll s old new)"
  using assms
proof (induction s old new rule: ReplaceAll.induct)
  case (1 s old new)
  consider "s = []" | "s \<noteq> []" "prefix old s" | "s \<noteq> []" "\<not> prefix old s" by blast
  then show ?case
  proof cases
    case 1
    with "1.prems" show ?thesis by simp
  next
    case 2
    then have "\<not> sublist old (ReplaceAll (drop (length old) s) old new)"
      using "1.IH"(1) "1.prems" by blast
    with 2 "1.prems" show ?thesis by (auto simp: ReplaceAll.simps [of s] apart_def)
  next
    case 3
    obtain c t where s: "s = c # t" using 3 by (cases s) auto
    have r: "ReplaceAll s old new = c # ReplaceAll t old new"
      using 3 "1.prems"(2) by (simp add: ReplaceAll.simps [of s]) (simp add: s)
    have "\<not> sublist old (ReplaceAll t old new)" using "1.IH"(2) 3 "1.prems" s by auto
    moreover have "\<not> prefix old (ReplaceAll s old new)"
      using 3(2) ReplaceAll_prefix [of old s old new] "1.prems"(1) by (auto simp: apart_def)
    ultimately show ?thesis unfolding r using sublist_ConsE by metis
  qed
qed

section \<open>Redaction\<close>

definition hiddenKey :: string where
  "hiddenKey = ''(hidden)''"

text \<open>
  \<open>%#v\<close> of the unnamed type \<open>[32]byte\<close>: the type and the elements in hexadecimal without leading zeros, as in
  \<open>[32]uint8{0x0, 0xff, ...}\<close>.
\<close>

definition hex_literal :: "byte \<Rightarrow> string" where
  "hex_literal b = ''0x'' @ (if unat b < 16 then [hex_char (unat b)]
     else [hex_char (unat b div 16), hex_char (unat b mod 16)])"

fun join_comma :: "string list \<Rightarrow> string" where
  "join_comma [] = []"
| "join_comma [x] = x"
| "join_comma (x # xs) = x @ '', '' @ join_comma xs"

definition go_syntax :: "Key \<Rightarrow> string" where
  "go_syntax k = ''[32]uint8{'' @ join_comma (map hex_literal k) @ ''}''"

text \<open>\<open>hide(s, keys...)\<close>: a nil pointer is \<^const>\<open>None\<close>.\<close>

fun hide :: "string \<Rightarrow> Key option list \<Rightarrow> string" where
  "hide s [] = s"
| "hide s (k # ks) =
     (case k of
        None \<Rightarrow> hide s ks
      | Some key \<Rightarrow>
          if key = zeroKey then hide s ks
          else hide (ReplaceAll (ReplaceAll s (go_syntax key) hiddenKey) (Key_String key) hiddenKey) ks)"

text \<open>
  The text of the four types, for a formatter \<open>fmt\<close> that is given the value: each method hides the key
  that its value holds.
\<close>

definition Device_text :: "(Device \<Rightarrow> string) \<Rightarrow> Device \<Rightarrow> string" where
  "Device_text fmt d = hide (fmt d) [Some (dev_PrivateKey d)]"

definition Peer_text :: "(Peer \<Rightarrow> string) \<Rightarrow> Peer \<Rightarrow> string" where
  "Peer_text fmt p = hide (fmt p) [Some (peer_PresharedKey p)]"

definition Config_text :: "(Config \<Rightarrow> string) \<Rightarrow> Config \<Rightarrow> string" where
  "Config_text fmt c = hide (fmt c) [cfg_PrivateKey c]"

definition PeerConfig_text :: "(PeerConfig \<Rightarrow> string) \<Rightarrow> PeerConfig \<Rightarrow> string" where
  "PeerConfig_text fmt p = hide (fmt p) [pc_PresharedKey p]"

text \<open>Neither form of a key has a parenthesis, and both are longer than the word between them.\<close>

lemma apart_hidden:
  assumes "CHR ''('' \<notin> set p" and "CHR '')'' \<notin> set p" and "6 < length p"
  shows "apart p hiddenKey"
proof -
  have "sublist p s" if "sublist p (hiddenKey @ s)" for s
  proof -
    have "sublist p ([] @ CHR ''('' # (''hidden'' @ CHR '')'' # s))" using that by (simp add: hiddenKey_def)
    from sublist_split [OF this assms(1)] assms(3) have "sublist p (''hidden'' @ CHR '')'' # s)" by auto
    from sublist_split [OF this assms(2)] show ?thesis
      using sublist_length_le [of p "''hidden''"] assms(3) by auto
  qed
  with assms(1) show ?thesis by (simp add: apart_def) (simp add: hiddenKey_def)
qed

lemma Key_String_chars: "CHR ''('' \<notin> set (Key_String k)" "CHR '')'' \<notin> set (Key_String k)"
proof -
  have "CHR ''('' \<notin> set b64_table" "CHR '')'' \<notin> set b64_table" by code_simp+
  then show "CHR ''('' \<notin> set (Key_String k)" "CHR '')'' \<notin> set (Key_String k)"
    using b64_encode_chars [of _ k] by (auto simp: Key_String_def)
qed

lemma join_comma_set: "set (join_comma xs) \<subseteq> \<Union> (set ` set xs) \<union> set '', ''"
  by (induction xs rule: join_comma.induct) auto

lemma hex_literals_set: "c \<in> set (join_comma (map hex_literal k)) \<Longrightarrow> is_hex_char c \<or> c \<in> set ''x, ''"
proof -
  have zero: "hex_val CHR ''0'' \<noteq> None" by code_simp
  have "c \<in> set (hex_literal b) \<Longrightarrow> is_hex_char c \<or> c = CHR ''x''" for c b
    using unat_byte [of b] hex_val_char zero
    by (auto simp: hex_literal_def is_hex_char_def div_less_iff_less_mult split: if_splits)
  then show "c \<in> set (join_comma (map hex_literal k)) \<Longrightarrow> is_hex_char c \<or> c \<in> set ''x, ''"
    using join_comma_set [of "map hex_literal k"] by fastforce
qed

lemma go_syntax_chars: "CHR ''('' \<notin> set (go_syntax k)" "CHR '')'' \<notin> set (go_syntax k)"
proof -
  have "\<not> is_hex_char CHR ''(''" "\<not> is_hex_char CHR '')''" by code_simp+
  then show "CHR ''('' \<notin> set (go_syntax k)" "CHR '')'' \<notin> set (go_syntax k)"
    using hex_literals_set by (auto simp: go_syntax_def)
qed

lemma length_b64_encode: "length bs \<le> length (b64_encode bs)"
  by (induction bs rule: b64_encode.induct) (auto simp: six_def)

lemma hide_hides:
  assumes "key_ok k" and "k \<noteq> zeroKey"
  shows "\<not> sublist (Key_String k) (hide s [Some k]) \<and> \<not> sublist (go_syntax k) (hide s [Some k])"
proof -
  let ?g = "ReplaceAll s (go_syntax k) hiddenKey"
  have "6 < length (Key_String k)"
    using length_b64_encode [of k] assms(1) by (simp add: Key_String_def key_ok_def KeyLen_def)
  then have a: "apart (Key_String k) hiddenKey" by (rule apart_hidden [OF Key_String_chars])
  have g: "apart (go_syntax k) hiddenKey"
    by (rule apart_hidden [OF go_syntax_chars]) (simp add: go_syntax_def)
  have "go_syntax k \<noteq> []" by (simp add: go_syntax_def)
  then have "\<not> sublist (go_syntax k) ?g" using g by (rule ReplaceAll_gone [rotated])
  then have "\<not> sublist (go_syntax k) (ReplaceAll ?g (Key_String k) hiddenKey)"
    using ReplaceAll_sublist g by blast
  moreover have "Key_String k \<noteq> []" using \<open>6 < length (Key_String k)\<close> by auto
  then have "\<not> sublist (Key_String k) (ReplaceAll ?g (Key_String k) hiddenKey)"
    using a by (rule ReplaceAll_gone [rotated])
  ultimately show ?thesis using assms(2) by simp
qed

text \<open>Hiding one key does not bring another to light.\<close>

lemma Key_String_apart:
  assumes "key_ok k"
  shows "apart (Key_String k) hiddenKey"
proof -
  have "6 < length (Key_String k)"
    using length_b64_encode [of k] assms by (simp add: Key_String_def key_ok_def KeyLen_def)
  then show ?thesis by (rule apart_hidden [OF Key_String_chars])
qed

lemma hide_keeps_hidden:
  assumes "key_ok k"
  shows "\<not> sublist (Key_String k) s \<Longrightarrow> \<not> sublist (Key_String k) (hide s ks)"
proof (induction s ks rule: hide.induct)
  case (2 s k' ks)
  then show ?case
    using ReplaceAll_sublist [OF _ Key_String_apart [OF assms]] by (cases k') (simp_all, blast)
qed simp

text \<open>
  What \<open>%+v\<close> prints for a slice: its elements between brackets with spaces between them, each by its own
  \<open>String\<close> if it has one.
\<close>

fun join_space :: "string list \<Rightarrow> string" where
  "join_space [] = []"
| "join_space [x] = x"
| "join_space (x # xs) = x @ '' '' @ join_space xs"

definition slice_text :: "string list \<Rightarrow> string" where
  "slice_text ts = ''['' @ join_space ts @ '']''"

lemma Key_String_separators: "c \<in> set ''[] '' \<Longrightarrow> c \<notin> set (Key_String k)"
proof -
  have "\<forall>c \<in> set ''[] ''. c \<notin> set b64_table" by code_simp
  then show "c \<in> set ''[] '' \<Longrightarrow> c \<notin> set (Key_String k)"
    using b64_encode_chars [of c k] by (auto simp: Key_String_def)
qed

lemma join_space_sublist:
  "CHR '' '' \<notin> set p \<Longrightarrow> p \<noteq> [] \<Longrightarrow> sublist p (join_space ts) \<Longrightarrow> \<exists>t \<in> set ts. sublist p t"
proof (induction ts rule: join_space.induct)
  case (3 x y ys)
  from sublist_split [of p x "CHR '' ''" "join_space (y # ys)"] 3 show ?case by auto
qed auto

lemma slice_text_hides:
  assumes "key_ok k" and "\<not> sublist (Key_String k) before" and "\<not> sublist (Key_String k) after"
    and "\<forall>t \<in> set ts. \<not> sublist (Key_String k) t"
  shows "\<not> sublist (Key_String k) (before @ slice_text ts @ after)"
proof
  let ?p = "Key_String k"
  assume "sublist ?p (before @ slice_text ts @ after)"
  then have "sublist ?p (before @ CHR ''['' # (join_space ts @ CHR '']'' # after))" by (simp add: slice_text_def)
  from sublist_split [OF this] Key_String_separators assms(2)
  have "sublist ?p (join_space ts @ CHR '']'' # after)" by simp
  from sublist_split [OF this] Key_String_separators assms(3) have "sublist ?p (join_space ts)" by simp
  moreover have "?p \<noteq> []"
    using length_b64_encode [of k] assms(1) by (auto simp: Key_String_def key_ok_def KeyLen_def)
  ultimately show False using join_space_sublist [of ?p ts] Key_String_separators assms(4) by auto
qed

section \<open>What is not hidden\<close>


text \<open>
  \<open>%#v\<close> of a \<^typ>\<open>Key\<close>, which is a named type: the elements are those of the array, but the type is
  printed by its name.
\<close>

definition key_go_syntax :: "Key \<Rightarrow> string" where
  "key_go_syntax k = ''wgtypes.Key{'' @ join_comma (map hex_literal k) @ ''}''"

text \<open>
  A text with which no occurrence of the pattern overlaps survives the replacement: an occurrence that
  starts before the text ends before it, and none starts inside it.
\<close>

definition clear_of :: "string \<Rightarrow> string \<Rightarrow> bool" where
  "clear_of old t \<longleftrightarrow> (\<forall>a b. prefix old (a @ t @ b) \<longrightarrow> length old \<le> length a) \<and>
     (\<forall>u v b. t = u @ v \<and> v \<noteq> [] \<longrightarrow> \<not> prefix old (v @ b))"

lemma clear_of_before: "clear_of old t \<Longrightarrow> prefix old (a @ t @ b) \<Longrightarrow> length old \<le> length a"
  by (auto simp: clear_of_def)

lemma ReplaceAll_past:
  assumes "clear_of old t" and "t = u @ v"
  shows "\<exists>b'. ReplaceAll (v @ b) old new = v @ b'"
  using assms(2)
proof (induction v arbitrary: u)
  case (Cons c v)
  then obtain b' where "ReplaceAll (v @ b) old new = v @ b'" by (metis append.assoc append_Cons append_Nil)
  moreover have "\<not> prefix old (c # v @ b)"
    using assms(1) Cons.prems unfolding clear_of_def by (metis append_Cons list.distinct(1))
  ultimately show ?case by (auto simp: ReplaceAll.simps [of "c # v @ b"])
qed simp

lemma ReplaceAll_keeps:
  assumes "clear_of old t" and "sublist t s"
  shows "sublist t (ReplaceAll s old new)"
proof -
  have "\<exists>a' b'. ReplaceAll (a @ t @ b) old new = a' @ t @ b'" for a b
  proof (induction a rule: length_induct)
    case (1 a)
    show ?case
    proof (cases a)
      case Nil
      then show ?thesis using ReplaceAll_past [OF assms(1), of "[]" t] by (metis append_Nil)
    next
      case (Cons c a2)
      consider "old = []" | "old \<noteq> []" "prefix old (a @ t @ b)" | "\<not> prefix old (a @ t @ b)" by blast
      then show ?thesis
      proof cases
        case 1
        then show ?thesis by (auto simp: ReplaceAll.simps [of "a @ t @ b"])
      next
        case 2
        then have "length old \<le> length a" using assms(1) clear_of_before by blast
        then have d: "drop (length old) (a @ t @ b) = drop (length old) a @ t @ b" by simp
        have "length (drop (length old) a) < length a" using 2 Cons by simp
        with "1.IH" obtain a' b' where "ReplaceAll (drop (length old) a @ t @ b) old new = a' @ t @ b'" by blast
        moreover have "ReplaceAll (a @ t @ b) old new = new @ ReplaceAll (drop (length old) (a @ t @ b)) old new"
          using 2 Cons by (subst ReplaceAll.simps) simp
        ultimately have "ReplaceAll (a @ t @ b) old new = (new @ a') @ t @ b'" by (simp only: d append_assoc)
        then show ?thesis by blast
      next
        case 3
        obtain a' b' where "ReplaceAll (a2 @ t @ b) old new = a' @ t @ b'" using "1.IH" Cons by auto
        then have "ReplaceAll (a @ t @ b) old new = (c # a') @ t @ b'"
          using 3 Cons by (cases "old = []") (auto simp: ReplaceAll.simps [of "c # a2 @ t @ b"])
        then show ?thesis by blast
      qed
    qed
  qed
  with assms(2) show ?thesis unfolding sublist_def by metis
qed

lemma prefix_before: "prefix old (m @ x # r) \<Longrightarrow> x \<notin> set old \<Longrightarrow> prefix old m"
  by (auto simp: prefix_append prefix_Cons)

lemma prefix_last: "prefix old (a @ m) \<Longrightarrow> length a < length old \<Longrightarrow> last old \<in> set m"
proof -
  assume "prefix old (a @ m)" and len: "length a < length old"
  then obtain us where us: "old = a @ us" "prefix us m" by (auto simp: prefix_append dest: prefix_length_le)
  then have "last old = last us" "us \<noteq> []" using len by auto
  then show "last old \<in> set m" using us(2) set_mono_prefix by (metis last_in_set subsetD)
qed

lemma starts_before:
  assumes "prefix old (a @ (l @ x # r) @ b)" and "x \<notin> set old" and "last old \<notin> set l"
  shows "length old \<le> length a"
proof -
  have "prefix old ((a @ l) @ x # r @ b)" using assms(1) by simp
  from prefix_before [OF this assms(2)] show ?thesis
    using prefix_last [of old a l] assms(3) by (meson not_le)
qed

definition key_fields :: "Key \<Rightarrow> string" where
  "key_fields k = ''Key{'' @ join_comma (map hex_literal k) @ ''}''"

lemma key_go_syntax_split: "key_go_syntax k = ''wgtypes'' @ CHR ''.'' # key_fields k"
  by (simp add: key_go_syntax_def key_fields_def)

lemma key_go_syntax_free: "CHR ''['' \<notin> set (key_go_syntax k)" "CHR ''='' \<notin> set (key_go_syntax k)"
proof -
  have "\<not> is_hex_char CHR ''[''" "\<not> is_hex_char CHR ''=''" by code_simp+
  then show "CHR ''['' \<notin> set (key_go_syntax k)" "CHR ''='' \<notin> set (key_go_syntax k)"
    using hex_literals_set by (auto simp: key_go_syntax_def)
qed

lemma go_syntax_clear: "clear_of (go_syntax k) (key_go_syntax k)"
proof -
  have "\<not> is_hex_char CHR ''.''" by code_simp
  then have dot: "CHR ''.'' \<notin> set (go_syntax k)" using hex_literals_set by (auto simp: go_syntax_def)
  have "last (go_syntax k) \<notin> set ''wgtypes''" by (simp add: go_syntax_def)
  moreover have "\<not> prefix (go_syntax k) (v @ b)" if "key_go_syntax k = u @ v" "v \<noteq> []" for u v b
  proof -
    have "hd v \<noteq> CHR ''[''" using key_go_syntax_free(1) [of k] that by (cases v) auto
    then show ?thesis using that(2) by (cases v) (auto simp: go_syntax_def)
  qed
  ultimately show ?thesis
    unfolding clear_of_def using starts_before [OF _ dot] by (metis key_go_syntax_split)
qed

lemma last_b64_encode: "length bs mod 3 \<noteq> 0 \<Longrightarrow> last (b64_encode bs) = CHR ''=''"
proof (induction bs rule: b64_encode.induct)
  case (4 x y z bs)
  then have l: "length bs mod 3 \<noteq> 0" by (simp add: Suc3_eq_add_3)
  then have "b64_encode bs \<noteq> []" using length_b64_encode [of bs] by auto
  with "4" l show ?case by simp
qed auto

lemma Key_String_clear:
  assumes "key_ok k"
  shows "clear_of (Key_String k) (key_go_syntax k)"
proof -
  let ?s = "Key_String k"
  have last: "last ?s = CHR ''=''"
    using last_b64_encode [of k] assms by (simp add: Key_String_def key_ok_def KeyLen_def)
  have ne: "?s \<noteq> []" using length_b64_encode [of k] assms by (auto simp: Key_String_def key_ok_def KeyLen_def)
  have "CHR ''.'' \<notin> set b64_table" "CHR ''}'' \<notin> set b64_table" by code_simp+
  then have dot: "CHR ''.'' \<notin> set ?s" and brace: "CHR ''}'' \<notin> set ?s"
    using b64_encode_chars by (auto simp: Key_String_def)
  have "\<not> prefix ?s (v @ b)" if t: "key_go_syntax k = u @ v" "v \<noteq> []" for u v b
  proof
    assume p: "prefix ?s (v @ b)"
    have "last v = CHR ''}''" using arg_cong [OF t(1), of last] t(2) by (simp add: key_go_syntax_def)
    then have "v @ b = butlast v @ CHR ''}'' # b" using t(2) by (metis append_butlast_last_id append.assoc append_Cons append_Nil)
    then have "prefix ?s (butlast v)" using p prefix_before brace by metis
    then have "CHR ''='' \<in> set v" using ne last by (metis in_set_butlastD last_in_set set_mono_prefix subsetD)
    then show False using key_go_syntax_free(2) [of k] t(1) by simp
  qed
  moreover have "last ?s \<notin> set ''wgtypes''" by (simp add: last)
  ultimately show ?thesis
    unfolding clear_of_def using starts_before [OF _ dot] by (metis key_go_syntax_split)
qed

lemma hide_leaks:
  assumes "key_ok k" and "sublist (key_go_syntax k) s"
  shows "sublist (key_go_syntax k) (hide s [Some k])"
  using ReplaceAll_keeps [OF go_syntax_clear assms(2), of hiddenKey] assms(2)
    ReplaceAll_keeps [OF Key_String_clear [OF assms(1)]] by (cases "k = zeroKey") simp_all

end
