(* ===== verification/Platform.thy ===== *)
theory Platform
  imports Client LinuxClient KeyText
begin

text \<open>
  What differs between operating systems above the kernel backends, and the command line tool: the choice
  of backends (\<open>os_*.go\<close> and \<open>New\<close> in \<open>client.go\<close>), named pipes (\<open>internal/wguser/conn_windows.go\<close>)
  and \<open>cmd/wgctrl/main.go\<close>. Constructors, the Windows API, the format of a time and the output are
  parameters over the state of the outside world.
\<close>

section \<open>Backends of an operating system\<close>

text \<open>A kernel backend, \<^const>\<open>None\<close> if it is not available, then the userspace backend: Linux, FreeBSD, OpenBSD.\<close>

definition newClients_kernel ::
    "('s \<Rightarrow> (go_error + 'b option) \<times> 's) \<Rightarrow> ('s \<Rightarrow> (go_error + 'b) \<times> 's) \<Rightarrow> 's \<Rightarrow> (go_error + 'b list) \<times> 's" where
  "newClients_kernel kernel_New user_New s =
     (case kernel_New s of
        (Inl e, s) \<Rightarrow> (Inl e, s)
      | (Inr kc, s) \<Rightarrow>
          (let clients = (case kc of Some c \<Rightarrow> [c] | None \<Rightarrow> [])
           in case user_New s of
                (Inl e, s) \<Rightarrow> (Inl e, s)
              | (Inr uc, s) \<Rightarrow> (Inr (clients @ [uc]), s)))"

definition newClients_linux ::
    "('s \<Rightarrow> (go_error + 'b option) \<times> 's) \<Rightarrow> ('s \<Rightarrow> (go_error + 'b) \<times> 's) \<Rightarrow> 's \<Rightarrow> (go_error + 'b list) \<times> 's" where
  "newClients_linux wglinux_New wguser_New = newClients_kernel wglinux_New wguser_New"

definition newClients_freebsd ::
    "('s \<Rightarrow> (go_error + 'b option) \<times> 's) \<Rightarrow> ('s \<Rightarrow> (go_error + 'b) \<times> 's) \<Rightarrow> 's \<Rightarrow> (go_error + 'b list) \<times> 's" where
  "newClients_freebsd wgfreebsd_New wguser_New = newClients_kernel wgfreebsd_New wguser_New"

definition newClients_openbsd ::
    "('s \<Rightarrow> (go_error + 'b option) \<times> 's) \<Rightarrow> ('s \<Rightarrow> (go_error + 'b) \<times> 's) \<Rightarrow> 's \<Rightarrow> (go_error + 'b list) \<times> 's" where
  "newClients_openbsd wgopenbsd_New wguser_New = newClients_kernel wgopenbsd_New wguser_New"

definition newClients_windows ::
    "'b \<Rightarrow> ('s \<Rightarrow> (go_error + 'b) \<times> 's) \<Rightarrow> 's \<Rightarrow> (go_error + 'b list) \<times> 's" where
  "newClients_windows wgwindows_New wguser_New s =
     (case wguser_New s of (Inl e, s) \<Rightarrow> (Inl e, s) | (Inr uc, s) \<Rightarrow> (Inr [wgwindows_New, uc], s))"

definition newClients_userspace ::
    "('s \<Rightarrow> (go_error + 'b) \<times> 's) \<Rightarrow> 's \<Rightarrow> (go_error + 'b list) \<times> 's" where
  "newClients_userspace wguser_New s =
     (case wguser_New s of (Inl e, s) \<Rightarrow> (Inl e, s) | (Inr c, s) \<Rightarrow> (Inr [c], s))"

text \<open>The socket of the ioctl backends: \<open>New\<close> of \<open>wgfreebsd\<close> and \<open>wgopenbsd\<close>.\<close>

definition ioctl_New :: "('s \<Rightarrow> (go_error + nat) \<times> 's) \<Rightarrow> (nat \<Rightarrow> 'b) \<Rightarrow> 's \<Rightarrow> (go_error + 'b option) \<times> 's" where
  "ioctl_New socket client s =
     (case socket s of (Inl e, s) \<Rightarrow> (Inl e, s) | (Inr fd, s) \<Rightarrow> (Inr (Some (client fd)), s))"

text \<open>
  The constructor of the Linux backend: options of the socket are set as far as the kernel has them. Its
  methods as a backend.
\<close>

definition linux_backend :: "'s linux_env \<Rightarrow> 's linux_client \<Rightarrow> 's backend" where
  "linux_backend env c =
     \<lparr> bk_Close = le_CloseConn env, bk_Devices = linux_Devices env c, bk_Device = linux_Device env c,
       bk_ConfigureDevice = linux_ConfigureDevice env c \<rparr>"

definition linux_New ::
    "('s \<Rightarrow> go_error option \<times> 's) \<Rightarrow> (string \<Rightarrow> 's \<Rightarrow> 's) \<Rightarrow> 's linux_env \<Rightarrow> 's \<Rightarrow> (go_error + 's backend option) \<times> 's" where
  "linux_New dial setopt env s =
     (case dial s of
        (Some e, s) \<Rightarrow> (Inl e, s)
      | (None, s) \<Rightarrow>
          (case initClient env (setopt ''GetStrictCheck'' (setopt ''ExtendedAcknowledge'' s)) of
             (r, s) \<Rightarrow> (map_sum id (map_option (linux_backend env)) r, s)))"

text \<open>\<open>New\<close> of \<open>client.go\<close> on Linux; the constructor of the userspace backend cannot fail.\<close>

definition wgctrl_New_linux ::
    "('s \<Rightarrow> go_error option \<times> 's) \<Rightarrow> (string \<Rightarrow> 's \<Rightarrow> 's) \<Rightarrow> 's linux_env \<Rightarrow> ('c, 's) user_env \<Rightarrow> 's \<Rightarrow>
     (go_error + 's backend list) \<times> 's" where
  "wgctrl_New_linux dial setopt env uenv s =
     newClients_linux (linux_New dial setopt env) (\<lambda>s. (Inr (user_backend uenv), s)) s"

text \<open>The userspace backend is always last, and is the only one without a kernel backend.\<close>

lemma newClients_kernel_last:
  "newClients_kernel kernel_New user_New s = (Inr cs, s') \<Longrightarrow>
   \<exists>kc s1 uc. kernel_New s = (Inr kc, s1) \<and> user_New s1 = (Inr uc, s') \<and>
     cs = (case kc of Some c \<Rightarrow> [c, uc] | None \<Rightarrow> [uc])"
  by (auto simp: newClients_kernel_def Let_def split: prod.splits sum.splits option.splits)

section \<open>Named pipes\<close>

definition pipePrefix :: string where "pipePrefix = [CHR 92, CHR 92, CHR ''.'', CHR 92] @ ''pipe'' @ [CHR 92]"

definition wgPrefix :: string where
  "wgPrefix = ''ProtectedPrefix'' @ [CHR 92] @ ''Administrators'' @ [CHR 92] @ ''WireGuard'' @ [CHR 92]"

definition ERROR_NO_MORE_FILES :: go_error where "ERROR_NO_MORE_FILES = Errno 18"

text \<open>The search: the first file comes with the handle, the following ones from \<open>FindNextFile\<close>.\<close>

partial_function (option) pipe_loop ::
    "(nat \<Rightarrow> 's \<Rightarrow> (go_error + string) \<times> 's) \<Rightarrow> string \<Rightarrow> nat \<Rightarrow> string list \<Rightarrow> string \<Rightarrow> 's \<Rightarrow>
     ((go_error + string list) \<times> 's) option" where
  "pipe_loop next_file search h pipes name s =
     (let pipes' = (if prefix search name then pipes @ [pipePrefix @ name] else pipes)
      in case next_file h s of
           (Inl e, s) \<Rightarrow> Some (if e = ERROR_NO_MORE_FILES then Inr pipes' else Inl e, s)
         | (Inr name', s) \<Rightarrow> pipe_loop next_file search h pipes' name' s)"

definition findNamedPipes ::
    "(string \<Rightarrow> 's \<Rightarrow> (go_error + nat \<times> string) \<times> 's) \<Rightarrow> (nat \<Rightarrow> 's \<Rightarrow> (go_error + string) \<times> 's) \<Rightarrow>
     (nat \<Rightarrow> 's \<Rightarrow> 's) \<Rightarrow> string \<Rightarrow> 's \<Rightarrow> ((go_error + string list) \<times> 's) option" where
  "findNamedPipes first_file next_file close search s =
     (case first_file (pipePrefix @ ''*'') s of
        (Inl e, s) \<Rightarrow> Some (Inl e, s)
      | (Inr (h, name), s) \<Rightarrow> map_option (\<lambda>(r, s). (r, close h s)) (pipe_loop next_file search h [] name s))"

definition windows_find ::
    "(string \<Rightarrow> 's \<Rightarrow> (go_error + nat \<times> string) \<times> 's) \<Rightarrow> (nat \<Rightarrow> 's \<Rightarrow> (go_error + string) \<times> 's) \<Rightarrow>
     (nat \<Rightarrow> 's \<Rightarrow> 's) \<Rightarrow> 's \<Rightarrow> ((go_error + string list) \<times> 's) option" where
  "windows_find first_file next_file close = findNamedPipes first_file next_file close wgPrefix"

definition windows_isStaleSocket :: "go_error \<Rightarrow> bool" where
  "windows_isStaleSocket e = False"

text \<open>
  \<open>dial\<close>: \<open>left\<close> is the time until the deadline of the context, if it has one, and a timeout of 0 is none.
  The result is \<^term>\<open>Inr None\<close> where the code returns a nil connection with a nil error.
\<close>

definition windows_dial ::
    "('s \<Rightarrow> (go_error + 'sid) \<times> 's) \<Rightarrow> ('sid \<Rightarrow> string \<Rightarrow> int \<Rightarrow> 's \<Rightarrow> (go_error + 'c) \<times> 's) \<Rightarrow>
     ('s \<Rightarrow> int option) \<Rightarrow> ('s \<Rightarrow> go_error option) \<Rightarrow> string \<Rightarrow> 's \<Rightarrow> (go_error + 'c option) \<times> 's" where
  "windows_dial well_known_sid dial_timeout left ctxErr device s =
     (case well_known_sid s of
        (Inl e, s) \<Rightarrow> (Inl e, s)
      | (Inr sid, s) \<Rightarrow>
          (let dial = (\<lambda>timeout. case dial_timeout sid device timeout s of
                 (Inl e, s) \<Rightarrow> (Inl e, s) | (Inr c, s) \<Rightarrow> (Inr (Some c), s))
           in case left s of
                None \<Rightarrow> dial 0
              | Some timeout \<Rightarrow>
                  if timeout \<le> 0
                  then ((case ctxErr s of Some e \<Rightarrow> Inl e | None \<Rightarrow> Inr None), s)
                  else dial timeout))"

text \<open>A directory that lists \<open>names\<close>: the handle is the number of names, the state how many are left.\<close>

lemma pipe_loop_lists:
  assumes "\<And>k. k < length names \<Longrightarrow> next_file h (Suc k) = (Inr (names ! (length names - Suc k)), k)"
    and "next_file h 0 = (Inl ERROR_NO_MORE_FILES, 0)" and "k \<le> length names"
  shows "pipe_loop next_file search h pipes name k =
    Some (Inr (pipes @ map ((@) pipePrefix) (filter (prefix search) (name # drop (length names - k) names))), 0)"
  using assms(3)
proof (induction k arbitrary: pipes name)
  case 0
  show ?case by (simp add: pipe_loop.simps [of next_file search h pipes name 0] assms(2))
next
  case (Suc k)
  then have k: "k < length names" by simp
  let ?pipes = "if prefix search name then pipes @ [pipePrefix @ name] else pipes"
  have "drop (length names - Suc k) names = names ! (length names - Suc k) # drop (length names - k) names"
    using k Cons_nth_drop_Suc [of "length names - Suc k" names] by (simp add: Suc_diff_Suc)
  moreover have "pipe_loop next_file search h pipes name (Suc k) =
      pipe_loop next_file search h ?pipes (names ! (length names - Suc k)) k"
    by (simp add: pipe_loop.simps [of next_file search h pipes name "Suc k"] assms(1) [OF k] Let_def)
  ultimately show ?case using Suc by simp
qed

section \<open>The command line tool\<close>

fun join_with :: "string \<Rightarrow> string list \<Rightarrow> string" where
  "join_with sep [] = []"
| "join_with sep [x] = x"
| "join_with sep (x # xs) = x @ sep @ join_with sep xs"

definition ipsString :: "ipnet list \<Rightarrow> string" where
  "ipsString ipns = join_with '', '' (map IPNet_String ipns)"

definition nl :: string where "nl = [CHR 0x0A]"

definition printDevice :: "Device \<Rightarrow> string" where
  "printDevice d =
     ''interface: '' @ dev_Name d @ '' ('' @ DeviceType_String (dev_Type d) @ '')'' @ nl @
     ''  public key: '' @ Key_String (dev_PublicKey d) @ nl @
     ''  private key: (hidden)'' @ nl @
     ''  listening port: '' @ itoa (dev_ListenPort d) @ nl @ nl"

text \<open>\<open>String\<close> of a nil \<open>*net.UDPAddr\<close> is \<open><nil>\<close>; the format of a time is the parameter \<open>time\<close>.\<close>

definition printPeer :: "(gotime \<Rightarrow> string) \<Rightarrow> Peer \<Rightarrow> string" where
  "printPeer time p =
     ''peer: '' @ Key_String (peer_PublicKey p) @ nl @
     ''  endpoint: '' @ (case peer_Endpoint p of None \<Rightarrow> ''<nil>'' | Some a \<Rightarrow> UDPAddr_String a) @ nl @
     ''  allowed ips: '' @ ipsString (peer_AllowedIPs p) @ nl @
     ''  latest handshake: '' @ time (peer_LastHandshakeTime p) @ nl @
     ''  transfer: '' @ itoa (peer_ReceiveBytes p) @ '' B received, '' @ itoa (peer_TransmitBytes p) @ '' B sent'' @
     nl @ nl"

text \<open>
  \<open>main\<close> after \<open>New\<close>: the text on the standard output, or the error of \<open>log.Fatalf\<close>; with devices, an
  error is only logged. \<open>os.Exit\<close> skips the deferred \<open>Close\<close>.
\<close>

definition wgctrl_main ::
    "(gotime \<Rightarrow> string) \<Rightarrow> ('s \<Rightarrow> go_error option) \<Rightarrow> 's backend list \<Rightarrow> string \<Rightarrow> 's \<Rightarrow> (go_error + string) \<times> 's" where
  "wgctrl_main time ctxErr cs device s =
     (let show_all = (\<lambda>ds. concat (map (\<lambda>d. printDevice d @ concat (map (printPeer time) (dev_Peers d))) ds))
      in if device \<noteq> []
         then (case client_Device cs device s of
                 (Inl e, s) \<Rightarrow> (Inl e, s)
               | (Inr d, s) \<Rightarrow> (Inr (show_all [d]), snd (client_Close cs s)))
         else (case client_Devices ctxErr cs s of
                 ((devices, err), s) \<Rightarrow>
                   (case err of
                      Some e \<Rightarrow> if devices = [] then (Inl e, s) else (Inr (show_all devices), snd (client_Close cs s))
                    | None \<Rightarrow> (Inr (show_all devices), snd (client_Close cs s)))))"

section \<open>What the tool shows of a device\<close>

text \<open>A device without its secrets, and backends that differ in nothing else.\<close>

definition public_peer :: "Peer \<Rightarrow> Peer" where
  "public_peer p = p\<lparr> peer_PresharedKey := zeroKey \<rparr>"

definition public_part :: "Device \<Rightarrow> Device" where
  "public_part d = d\<lparr> dev_PrivateKey := zeroKey, dev_Peers := map public_peer (dev_Peers d) \<rparr>"

definition same_public :: "'s backend \<Rightarrow> 's backend \<Rightarrow> bool" where
  "same_public b b' \<longleftrightarrow>
     (\<forall>s. bk_Close b s = bk_Close b' s \<and>
        map_prod (map_sum id (map public_part)) id (bk_Devices b s) =
        map_prod (map_sum id (map public_part)) id (bk_Devices b' s) \<and>
        (\<forall>name. map_prod (map_sum id public_part) id (bk_Device b name s) =
                map_prod (map_sum id public_part) id (bk_Device b' name s)))"

lemma public_part_simps [simp]:
  "dev_Name (public_part d) = dev_Name d" "dev_Peers (public_part d) = map public_peer (dev_Peers d)"
  "printDevice (public_part d) = printDevice d" "printPeer time (public_peer p) = printPeer time p"
  by (simp_all add: public_part_def public_peer_def printDevice_def printPeer_def)

definition show_devices :: "(gotime \<Rightarrow> string) \<Rightarrow> Device list \<Rightarrow> string" where
  "show_devices time ds = concat (map (\<lambda>d. printDevice d @ concat (map (printPeer time) (dev_Peers d))) ds)"

lemma show_devices_public: "show_devices time (map public_part ds) = show_devices time ds"
  by (simp add: show_devices_def comp_def)

text \<open>Two results that agree in their public part, and the cases they come in.\<close>

lemma same_result:
  assumes "map_prod (map_sum id f) id x = map_prod (map_sum id f) id y"
  obtains (err) e s where "x = (Inl e, s)" and "y = (Inl e, s)"
    | (ok) v w s where "x = (Inr v, s)" and "y = (Inr w, s)" and "f v = f w"
  using assms by (cases x; cases y; cases "fst x"; cases "fst y") auto

lemma client_Device_public:
  assumes "list_all2 same_public cs cs'"
  shows "map_prod (map_sum id public_part) id (client_Device cs name s) =
    map_prod (map_sum id public_part) id (client_Device cs' name s)"
  using assms
proof (induction arbitrary: s rule: list_all2_induct)
  case (Cons b bs b' bs')
  then have "map_prod (map_sum id public_part) id (bk_Device b name s) =
      map_prod (map_sum id public_part) id (bk_Device b' name s)"
    by (simp add: same_public_def)
  then show ?case by (rule same_result) (use Cons.IH in simp_all)
qed simp

lemma add_devices_public:
  assumes "map public_part ds = map public_part ds'" and "map public_part out = map public_part out'"
  shows "map_prod id (map public_part) (add_devices seen out ds) = map_prod id (map public_part) (add_devices seen out' ds')"
  using assms
proof (induction ds arbitrary: ds' seen out out')
  case (Cons d ds)
  then obtain e es where ds': "ds' = e # es" "public_part d = public_part e" "map public_part ds = map public_part es"
    by auto
  then have "dev_Name d = dev_Name e" by (metis public_part_simps(1))
  with Cons.IH [of es] Cons.prems(2) ds' show ?case by simp
qed simp

lemma devices_loop_public:
  assumes "list_all2 same_public cs cs'" and "map public_part out = map public_part out'"
  shows "map_prod (map_prod (map public_part) id) id (devices_loop ctxErr cs seen out errs s) =
    map_prod (map_prod (map public_part) id) id (devices_loop ctxErr cs' seen out' errs s)"
  using assms
proof (induction arbitrary: seen out out' errs s rule: list_all2_induct)
  case (Cons b bs b' bs')
  then have "map_prod (map_sum id (map public_part)) id (bk_Devices b s) =
      map_prod (map_sum id (map public_part)) id (bk_Devices b' s)"
    by (simp add: same_public_def)
  then show ?case
  proof (rule same_result)
    fix v w t assume r: "bk_Devices b s = (Inr v, t)" "bk_Devices b' s = (Inr w, t)"
      "map public_part v = map public_part w"
    obtain sn o1 where a: "add_devices seen out v = (sn, o1)" by (rule prod.exhaust)
    moreover from a obtain o2 where "add_devices seen out' w = (sn, o2)" "map public_part o1 = map public_part o2"
      using add_devices_public [OF r(3) Cons.prems, of seen] by (cases "add_devices seen out' w") auto
    ultimately show ?thesis using r Cons.IH by simp
  qed (use Cons.IH Cons.prems in simp)
qed simp

lemma client_Close_public:
  assumes "list_all2 same_public cs cs'"
  shows "client_Close cs s = client_Close cs' s"
proof -
  have "close_loop cs s = close_loop cs' s"
    using assms
    by (induction arbitrary: s rule: list_all2_induct) (auto simp: same_public_def split: prod.split option.split)
  then show ?thesis by (simp add: client_Close_def)
qed

lemma wgctrl_main_public:
  assumes "list_all2 same_public cs cs'"
  shows "wgctrl_main time ctxErr cs device s = wgctrl_main time ctxErr cs' device s"
proof -
  have main: "wgctrl_main time ctxErr cs device s =
      (if device \<noteq> []
       then (case client_Device cs device s of
               (Inl e, s) \<Rightarrow> (Inl e, s)
             | (Inr d, s) \<Rightarrow> (Inr (show_devices time [d]), snd (client_Close cs s)))
       else (case client_Devices ctxErr cs s of
               ((devices, err), s) \<Rightarrow>
                 if err \<noteq> None \<and> devices = [] then (Inl (the err), s)
                 else (Inr (show_devices time devices), snd (client_Close cs s))))" for cs
    by (auto simp: wgctrl_main_def show_devices_def Let_def split: prod.split sum.split option.split)
  note close = client_Close_public [OF assms]
  show ?thesis
  proof (cases "device = []")
    case False
    show ?thesis
      using client_Device_public [OF assms, of device s]
    proof (rule same_result)
      fix v w t assume "client_Device cs device s = (Inr v, t)" "client_Device cs' device s = (Inr w, t)"
        "public_part v = public_part w"
      moreover from this have "show_devices time [v] = show_devices time [w]"
        using show_devices_public [of time "[v]"] show_devices_public [of time "[w]"] by simp
      ultimately show ?thesis using False close by (simp add: main)
    qed (use False in \<open>simp add: main\<close>)
  next
    case True
    obtain ds err t where c: "client_Devices ctxErr cs s = ((ds, err), t)" by (metis prod.exhaust)
    moreover obtain ds' where c': "client_Devices ctxErr cs' s = ((ds', err), t)"
      and ds: "map public_part ds = map public_part ds'"
      using devices_loop_public [OF assms refl, of ctxErr "[]" "[]" "[]" s] c
      by (cases "client_Devices ctxErr cs' s") (auto simp: client_Devices_def)
    moreover have "show_devices time ds = show_devices time ds'"
      using ds show_devices_public by metis
    moreover have "ds = [] \<longleftrightarrow> ds' = []" using ds by auto
    ultimately show ?thesis unfolding main using True close by simp
  qed
qed

end
