(* ===== verification/BsdSystem.thy ===== *)
theory BsdSystem
  imports OpenBSD FreeBSD Platform
begin

text \<open>
  The BSD clients on the system calls: \<open>New\<close>, \<open>Close\<close> and the functions \<open>ioctlIfgroupreq\<close> and
  \<open>ioctlWGDataIO\<close> of \<open>client_freebsd.go\<close> and \<open>client_openbsd.go\<close>, which make the calls that the theories
  FreeBSD and OpenBSD have as parameters. The system calls are a record of functions; an \<open>ioctl\<close> is given
  a file descriptor, the number of the request and the fields of the structure that it reads and writes.
\<close>

record 's unix_sys =
  us_SIOCGIFGMEMB :: nat
  us_Socket :: "'s \<Rightarrow> (go_error + nat) \<times> 's"
  us_Close :: "nat \<Rightarrow> 's \<Rightarrow> go_error option \<times> 's"
  us_ioctl_group :: "nat \<Rightarrow> nat \<Rightarrow> bytes \<times> 32 word \<times> bytes list \<Rightarrow> 's \<Rightarrow> (nat \<times> bytes \<times> 32 word \<times> bytes list) \<times> 's"
  us_ioctl_data :: "nat \<Rightarrow> nat \<Rightarrow> bytes \<times> 64 word \<times> bytes \<Rightarrow> 's \<Rightarrow> (nat \<times> bytes \<times> 64 word \<times> bytes) \<times> 's"

text \<open>What a call leaves in the structure, without the name that was put there.\<close>

definition hook :: "(go_error + bytes \<times> 'a) \<times> 's \<Rightarrow> (go_error + 'a) \<times> 's" where
  "hook = map_prod (map_sum id snd) id"

section \<open>FreeBSD\<close>

record 's freebsd_client =
  fc_close :: "'s \<Rightarrow> go_error option \<times> 's"
  fc_ioctlIfgroupreq :: "'s ioctl_group"
  fc_ioctlWGDataIO :: "'s ioctl_data"

definition freebsd_ioctlIfgroupreq :: "'s unix_sys \<Rightarrow> nat \<Rightarrow> 's ioctl_group" where
  "freebsd_ioctlIfgroupreq sys fd name len groups s =
     hook (ioctl (us_ioctl_group sys fd) (us_SIOCGIFGMEMB sys) (name, len, groups) s)"

definition freebsd_ioctlWGDataIO :: "'s unix_sys \<Rightarrow> nat \<Rightarrow> 's ioctl_data" where
  "freebsd_ioctlWGDataIO sys fd req name sz mem s = hook (ioctl (us_ioctl_data sys fd) req (name, sz, mem) s)"

definition freebsd_New :: "'s unix_sys \<Rightarrow> 's \<Rightarrow> (go_error + 's freebsd_client option) \<times> 's" where
  "freebsd_New sys =
     ioctl_New (us_Socket sys) (\<lambda>fd.
       \<lparr> fc_close = us_Close sys fd, fc_ioctlIfgroupreq = freebsd_ioctlIfgroupreq sys fd,
         fc_ioctlWGDataIO = freebsd_ioctlWGDataIO sys fd \<rparr>)"

definition freebsd_Close :: "'s freebsd_client \<Rightarrow> 's \<Rightarrow> go_error option \<times> 's" where
  "freebsd_Close c = fc_close c"

section \<open>OpenBSD\<close>

record 's openbsd_client =
  oc_close :: "'s \<Rightarrow> go_error option \<times> 's"
  oc_ioctlIfgroupreq :: "'s ioctl_group"
  oc_ioctlWGDataIO :: "bytes \<Rightarrow> 's ioctl_get"

definition openbsd_ioctlIfgroupreq :: "'s unix_sys \<Rightarrow> nat \<Rightarrow> 's ioctl_group" where
  "openbsd_ioctlIfgroupreq sys fd name len groups s =
     hook (ioctl (us_ioctl_group sys fd) (us_SIOCGIFGMEMB sys) (name, len, groups) s)"

definition openbsd_ioctlWGDataIO :: "goarch \<Rightarrow> 's unix_sys \<Rightarrow> nat \<Rightarrow> bytes \<Rightarrow> 's ioctl_get" where
  "openbsd_ioctlWGDataIO a sys fd name sz mem s =
     hook (ioctl (us_ioctl_data sys fd) (ob_SIOCGWG (wgh_openbsd a)) (name, sz, mem) s)"

definition openbsd_New :: "goarch \<Rightarrow> 's unix_sys \<Rightarrow> 's \<Rightarrow> (go_error + 's openbsd_client option) \<times> 's" where
  "openbsd_New a sys =
     ioctl_New (us_Socket sys) (\<lambda>fd.
       \<lparr> oc_close = us_Close sys fd, oc_ioctlIfgroupreq = openbsd_ioctlIfgroupreq sys fd,
         oc_ioctlWGDataIO = openbsd_ioctlWGDataIO a sys fd \<rparr>)"

definition openbsd_Close :: "'s openbsd_client \<Rightarrow> 's \<Rightarrow> go_error option \<times> 's" where
  "openbsd_Close c = oc_close c"

section \<open>The errors of a client that \<open>New\<close> made\<close>

text \<open>
  The methods assert that an error is a \<open>*os.SyscallError\<close>. With the functions of \<open>New\<close> it is, so
  \<^const>\<open>conform\<close> does not panic; it panics only for functions that a test puts in their place.
\<close>

definition syscall_error :: "go_error \<Rightarrow> bool" where
  "syscall_error e \<longleftrightarrow> (\<exists>n. n \<noteq> 0 \<and> e = SyscallError ''ioctl'' (Errno n))"

lemma conform_syscall_error: "syscall_error e \<Longrightarrow> \<exists>e'. conform gone e = Fail e'"
  by (auto simp: syscall_error_def conform_def)

lemma hook_ioctl_error: "hook (ioctl sc req arg s) = (Inl e, s') \<Longrightarrow> syscall_error e"
  by (auto simp: hook_def ioctl_def syscall_error_def split: prod.splits if_splits)

lemma freebsd_New_errors:
  assumes "freebsd_New sys s = (Inr oc, s')"
  shows "\<exists>c fd. oc = Some c \<and> freebsd_Close c = us_Close sys fd \<and>
    (\<forall>req name sz mem t e t'. fc_ioctlWGDataIO c req name sz mem t = (Inl e, t') \<longrightarrow> syscall_error e) \<and>
    (\<forall>name len gs t e t'. fc_ioctlIfgroupreq c name len gs t = (Inl e, t') \<longrightarrow> syscall_error e)"
  using assms
  by (auto simp: freebsd_New_def ioctl_New_def freebsd_Close_def freebsd_ioctlWGDataIO_def
      freebsd_ioctlIfgroupreq_def dest: hook_ioctl_error split: prod.splits sum.splits)

lemma openbsd_New_errors:
  assumes "openbsd_New a sys s = (Inr oc, s')"
  shows "\<exists>c fd. oc = Some c \<and> openbsd_Close c = us_Close sys fd \<and>
    (\<forall>name sz mem t e t'. oc_ioctlWGDataIO c name sz mem t = (Inl e, t') \<longrightarrow> syscall_error e) \<and>
    (\<forall>name len gs t e t'. oc_ioctlIfgroupreq c name len gs t = (Inl e, t') \<longrightarrow> syscall_error e)"
  using assms
  by (auto simp: openbsd_New_def ioctl_New_def openbsd_Close_def openbsd_ioctlWGDataIO_def
      openbsd_ioctlIfgroupreq_def dest: hook_ioctl_error split: prod.splits sum.splits)

end
