(* ===== verification/TestHelpers.thy ===== *)
theory TestHelpers
  imports UserProtocol Memory KeyText
begin

text \<open>
  \<open>internal/wgtest/wgtest.go\<close>: the helpers with which tests write keys, networks and endpoints down. Each
  parses its argument or draws a key, and panics if that fails. The text that \<open>%v\<close> prints for an error
  is the parameter \<open>msg\<close>; the random source, the resolver and \<open>curve25519\<close> are parameters as elsewhere. The
  lemmas show that a helper gives the value whose text it is given, and that what it gives is well formed.
\<close>

type_synonym error_text = "go_error \<Rightarrow> string"

text \<open>All formats end in the verb for the error.\<close>

definition panicf :: "string \<Rightarrow> string \<Rightarrow> crash + 'a" where
  "panicf fmt a = Inl (Panic (fmt @ a))"

definition MustCIDR :: "error_text \<Rightarrow> string \<Rightarrow> crash + ipnet" where
  "MustCIDR msg s =
     (case read_cidr s of
        Inl err \<Rightarrow> panicf ''wgtest: failed to parse CIDR: '' (msg err)
      | Inr cidr \<Rightarrow> Inr cidr)"

definition MustHexKey :: "error_text \<Rightarrow> string \<Rightarrow> crash + Key" where
  "MustHexKey msg s =
     (case hexDecode s of
        None \<Rightarrow> panicf ''wgtest: failed to decode hex key: '' (msg (ErrText ''encoding/hex''))
      | Some b \<Rightarrow>
          (case NewKey b of
             Inl err \<Rightarrow> panicf ''wgtest: failed to create key: '' (msg err)
           | Inr k \<Rightarrow> Inr k))"

definition MustPresharedKey ::
    "error_text \<Rightarrow> ('s \<Rightarrow> nat \<Rightarrow> (go_error + bytes) \<times> 's) \<Rightarrow> 's \<Rightarrow> (crash + Key) \<times> 's" where
  "MustPresharedKey msg crand s =
     (case GenerateKey crand s of
        (Inl err, s) \<Rightarrow> (panicf ''wgtest: failed to generate preshared key: '' (msg err), s)
      | (Inr k, s) \<Rightarrow> (Inr k, s))"

definition MustPrivateKey ::
    "error_text \<Rightarrow> ('s \<Rightarrow> nat \<Rightarrow> (go_error + bytes) \<times> 's) \<Rightarrow> 's \<Rightarrow> (crash + Key) \<times> 's" where
  "MustPrivateKey msg crand s =
     (case GeneratePrivateKey crand s of
        (Inl err, s) \<Rightarrow> (panicf ''wgtest: failed to generate private key: '' (msg err), s)
      | (Inr k, s) \<Rightarrow> (Inr k, s))"

definition MustPublicKey ::
    "error_text \<Rightarrow> (bytes \<Rightarrow> bytes) \<Rightarrow> ('s \<Rightarrow> nat \<Rightarrow> (go_error + bytes) \<times> 's) \<Rightarrow> 's \<Rightarrow> (crash + Key) \<times> 's" where
  "MustPublicKey msg scalarBaseMult crand s =
     (case MustPrivateKey msg crand s of
        (Inl c, s) \<Rightarrow> (Inl c, s)
      | (Inr k, s) \<Rightarrow> (Inr (PublicKey scalarBaseMult k), s))"

definition MustUDPAddr :: "error_text \<Rightarrow> resolver \<Rightarrow> string \<Rightarrow> crash + udpaddr" where
  "MustUDPAddr msg resolver s =
     (case ResolveUDPAddr resolver s of
        Inl err \<Rightarrow> panicf ''wgtest: failed to resolve UDP address: '' (msg err)
      | Inr a \<Rightarrow> Inr a)"

section \<open>What the helpers give\<close>

lemma MustHexKey_hex: "key_ok k \<Longrightarrow> MustHexKey msg (hexKey k) = Inr k"
  by (simp add: MustHexKey_def hexKey_def hexDecode_hexEncode NewKey_def key_ok_def)

text \<open>Only sixty-four hexadecimal digits are a key; the helper and the parser of the userspace backend agree.\<close>

lemma MustHexKey_Inr: "MustHexKey msg s = Inr k \<longleftrightarrow> read_key s = Inr k"
  by (auto simp: MustHexKey_def read_key_def panicf_def split: option.splits sum.splits)

lemma MustHexKey_length: "MustHexKey msg s = Inr k \<Longrightarrow> key_ok k \<and> length s = 64"
  using hexDecode_length by (auto simp: MustHexKey_Inr read_key_def NewKey_Inr key_ok_def KeyLen_def split: option.splits)

lemma MustCIDR_text: "ipnet_ok n \<Longrightarrow> MustCIDR msg (IPNet_String n) = Inr n"
  by (simp add: MustCIDR_def read_cidr_def ParseCIDR_String)

lemma MustUDPAddr_text: "endpoint_ok a \<Longrightarrow> MustUDPAddr msg resolver (UDPAddr_String a) = Inr (endpoint_16 a)"
  by (simp add: MustUDPAddr_def ResolveUDPAddr_String)

lemma MustPrivateKey_clamped: "fst (MustPrivateKey msg crand s) = Inr k \<Longrightarrow> clamped k"
  by (auto simp: MustPrivateKey_def GeneratePrivateKey_def GenerateKey_def panicf_def NewKey_Inr
      clamp_clamped split: prod.splits sum.splits)

lemma MustPublicKey_of_clamped:
  assumes "fst (MustPublicKey msg scalarBaseMult crand s) = Inr k"
  shows "\<exists>priv. clamped priv \<and> k = scalarBaseMult priv"
proof -
  from assms obtain priv where priv: "fst (MustPrivateKey msg crand s) = Inr priv" "k = PublicKey scalarBaseMult priv"
    by (auto simp: MustPublicKey_def split: prod.splits sum.splits)
  from MustPrivateKey_clamped [OF priv(1)] priv(2) show ?thesis
    by (auto simp: PublicKey_def clamped_def key_ok_def)
qed

end
