(* ===== verification/LinuxBackend.thy ===== *)
theory LinuxBackend
  imports LinuxRead Platform
begin

text \<open>
  The Linux backend as one of several: on a system with any set of links, it keeps the contract of the
  locale \<open>wg_backend\<close>, with the links of its two kinds as its devices. The system is concrete: rtnetlink
  describes the links, generic netlink has both families, and the kernel keeps for each device what it is
  sent. Two systems side by side are a system for the backends of both.
\<close>

section \<open>Errors that are not taken for a missing device\<close>

named_theorems plain_intros \<open>introduction rules for the predicate below\<close>

definition fails_plain :: "go_error + 'a \<Rightarrow> bool" where
  "fails_plain r \<longleftrightarrow> (\<forall>e. r = Inl e \<longrightarrow> plain e)"

lemma fails_plain_simps [simp]: "fails_plain (Inr x)" "fails_plain (Inl e) \<longleftrightarrow> plain e"
  by (simp_all add: fails_plain_def)

lemma plain_simps [simp]:
  "plain (ErrText s)" "plain (IncorrectKeySize n)" "plain (Wrapped s ErrAWGNotSupported)"
  by (simp_all add: plain_def)

lemma fails_plain_bind [plain_intros]:
  "fails_plain m \<Longrightarrow> (\<And>x. fails_plain (f x)) \<Longrightarrow> fails_plain (res_bind m f)"
  by (cases m) simp_all

lemma fails_plain_Inr [plain_intros]: "fails_plain (Inr x)"
  by simp

lemma fails_plain_if [plain_intros]: "fails_plain x \<Longrightarrow> fails_plain y \<Longrightarrow> fails_plain (if c then x else y)"
  by simp

lemma fails_plain_map [simp]: "fails_plain (map_sum id f m) = fails_plain m"
  by (cases m) simp_all

lemma fails_plain_fold [plain_intros]: "(\<And>x s. fails_plain (f x s)) \<Longrightarrow> fails_plain (fold_res f xs s)"
  by (induction xs arbitrary: s) (simp_all add: fails_plain_bind)

lemma fails_plain_array [plain_intros]: "(\<And>x. fails_plain (f x)) \<Longrightarrow> fails_plain (parse_array f xs)"
  by (induction xs) (simp_all add: fails_plain_bind)

text \<open>
  A netlink library whose own errors are not \<open>os.ErrNotExist\<close>, and with it the encoder and the parser of
  the backend.
\<close>

locale netlink_errors =
  fixes lib :: netlink
  assumes encode_plain: "fails_plain (nl_encode lib as)"
    and decode_plain: "fails_plain (nl_decode lib b)"
    and decoder_plain: "nl_decode lib b = Inr (ds, err) \<Longrightarrow> pred_option plain err"
    and read_plain: "fails_plain (rd_u8 lib b)" "fails_plain (rd_u16 lib b)" "fails_plain (rd_u32 lib b)"
      "fails_plain (rd_u64 lib b)"
begin

lemmas library_plain [simp] = encode_plain decode_plain read_plain

lemma fails_plain_decoder:
  assumes "\<And>as. fails_plain (g as :: go_error + 'b)"
  shows "fails_plain (res_bind (nl_decode lib b) (\<lambda>(as, err). res_bind (g as) (decoder_result err)))"
proof (cases "nl_decode lib b")
  case (Inl e)
  then show ?thesis using decode_plain [of b] by simp
next
  case (Inr r)
  obtain as err where r: "r = (as, err)" by (rule prod.exhaust)
  have "fails_plain (decoder_result err x)" for x :: 'b
    using decoder_plain [of b as err] Inr r by (cases err) (simp_all add: decoder_result_def)
  then show ?thesis using assms by (simp add: Inr r fails_plain_bind)
qed

lemma with_attrs_plain: "(\<And>x s. fails_plain (f x s)) \<Longrightarrow> fails_plain (with_attrs lib f b s)"
  unfolding with_attrs_def by (rule fails_plain_decoder) (auto intro: plain_intros)

lemma array_of_plain: "(\<And>x. fails_plain (f x)) \<Longrightarrow> fails_plain (array_of lib f b)"
  unfolding array_of_def by (rule fails_plain_decoder) (auto intro: plain_intros)

lemma allowed_ips_plain: "fails_plain (parseAllowedIPs lib b)"
proof -
  have "fails_plain (allowed_attr lib x s)" for x s
    by (cases x; cases s) (auto simp: allowed_attr_def parseAddr_def intro!: plain_intros)
  then show ?thesis
    unfolding parseAllowedIPs_def parseAllowedIP_def
    by (intro array_of_plain plain_intros with_attrs_plain) (auto split: prod.split)
qed

lemma NewKey_plain: "fails_plain (NewKey b)"
  by (simp add: NewKey_def)

lemma parsePeer_plain: "fails_plain (parsePeer lib b)"
proof -
  have "fails_plain (peer_attr lib x s)" for x s
    unfolding peer_attr_def parseSockaddr_def parseTimespec_def Let_def case_prod_beta
    by (intro plain_intros NewKey_plain allowed_ips_plain) simp_all
  then show ?thesis unfolding parsePeer_def by (rule with_attrs_plain)
qed

lemma parseDeviceLoop_plain: "fails_plain (parseDeviceLoop lib b)"
proof -
  have "fails_plain (device_attr lib x s)" for x s
    unfolding device_attr_def int16_attr_def case_prod_beta
    by (intro plain_intros NewKey_plain array_of_plain parsePeer_plain) simp_all
  then show ?thesis unfolding parseDeviceLoop_def by (rule with_attrs_plain)
qed

lemma parseDevice_plain: "fails_plain (linux_parseDevice lib ms)"
proof -
  have "fails_plain (merge_messages lib ms st)" for ms st
  proof (induction ms arbitrary: st)
    case (Cons m ms)
    show ?case unfolding merge_messages.simps by (rule fails_plain_bind [OF parseDeviceLoop_plain Cons.IH])
  qed simp
  then show ?thesis
    by (auto simp: linux_parseDevice_def split: list.split intro!: plain_intros parseDeviceLoop_plain)
qed

lemma array_attrs_plain: "(\<And>x. fails_plain (f x)) \<Longrightarrow> fails_plain (array_attrs lib f i xs)"
  by (induction xs arbitrary: i) (auto intro!: plain_intros)

lemma configAttrs_plain: "fails_plain (configAttrs lib name c)"
proof -
  have "fails_plain (encodeAllowedIP lib n)" for n
    by (simp add: encodeAllowedIP_def Let_def)
  moreover have "fails_plain (encodeSockaddr lib e)" for e
    by (simp add: encodeSockaddr_def)
  ultimately have "fails_plain (encodePeer lib p)" for p
    unfolding encodePeer_def encodeAllowedIPs_def
    by (auto split: option.split intro!: plain_intros array_attrs_plain)
  then show ?thesis
    unfolding configAttrs_def by (auto intro!: plain_intros array_attrs_plain)
qed

end

lemma tlv_encode_plain: "fails_plain (tlv_encode big as)"
  by (induction "as") (auto intro!: plain_intros)

lemma tlv_decode_plain: "fails_plain (tlv_decode big b)"
proof (induction big b rule: tlv_decode.induct)
  case (1 big bs)
  then show ?case by (subst tlv_decode.simps) (auto simp: Let_def intro!: plain_intros)
qed

interpretation host_errors: netlink_errors "host_netlink big" for big
  by unfold_locales (use tlv_encode_plain tlv_decode_plain in
    \<open>auto simp: host_netlink_def map_sum_def fails_plain_def split: sum.splits\<close>)

section \<open>A system with links\<close>

text \<open>Its links by name with their kinds, and what each device was sent.\<close>

record link_world =
  lk_links :: "(string \<times> string) list"
  lk_kept :: "string \<Rightarrow> bytes list"

text \<open>The interface that a request is about, by the attribute that names it.\<close>

definition requested :: "bool \<Rightarrow> u16 \<Rightarrow> bytes \<Rightarrow> string" where
  "requested big t b =
     (case nl_decode (host_netlink big) b of
        Inl e \<Rightarrow> []
      | Inr (as, err) \<Rightarrow> (case map_of as t of None \<Rightarrow> [] | Some d \<Rightarrow> rd_str (host_netlink big) d))"

definition link_execute :: "bool \<Rightarrow> request \<Rightarrow> link_world \<Rightarrow> (exec_error + bytes list) \<times> link_world" where
  "link_execute big rq s =
     (let name = requested big WGDEVICE_A_IFNAME (rq_Data rq) in
      if map_of (lk_links s) name = None then (Inl (OpError (Errno ENODEV)), s)
      else if rq_Command rq = WG_CMD_SET_DEVICE
      then (Inr [], s\<lparr> lk_kept := (lk_kept s)(name := lk_kept s name @ [rq_Data rq]) \<rparr>)
      else (Inr (lk_kept s name), s))"

text \<open>The kind of a link is a C string of at most fifteen characters.\<close>

definition kernel_kind :: "string \<Rightarrow> string" where
  "kernel_kind kind = takeWhile (\<lambda>c. c \<noteq> CHR 0x00) (take 15 kind)"

definition link_rtnl :: "bool \<Rightarrow> bytes \<Rightarrow> link_world \<Rightarrow> (exec_error + (u16 \<times> bytes) list) \<times> link_world" where
  "link_rtnl big b s =
     (let name = requested big IFLA_IFNAME (drop SizeofIfInfomsg b) in
      case map_of (lk_links s) name of
        None \<Rightarrow> (Inl (OpError (Errno ENODEV)), s)
      | Some kind \<Rightarrow>
          (case link_message (host_netlink big) (name, kernel_kind kind) of
             Inl e \<Rightarrow> (Inl (OtherError e), s)
           | Inr m \<Rightarrow> (Inr [(RTM_NEWLINK, m)], s)))"

definition wg_fam :: family where
  "wg_fam = \<lparr> fam_ID = 29, fam_Name = WG_GENL_NAME, fam_Version = 1 \<rparr>"

definition awg_fam :: family where
  "awg_fam = \<lparr> fam_ID = 30, fam_Name = amneziaGenlName, fam_Version = 2 \<rparr>"

definition link_env :: "bool \<Rightarrow> link_world linux_env" where
  "link_env big =
     \<lparr> le_nl = host_netlink big,
       le_GetFamily = (\<lambda>n s. (if n = WG_GENL_NAME then Inr wg_fam
                              else if n = amneziaGenlName then Inr awg_fam else Inl ErrNotExist, s)),
       le_CloseConn = (\<lambda>s. (None, s)), le_Execute = link_execute big, le_SetDeadline = (\<lambda>d s. (None, s)),
       le_NetlinkRIB = (\<lambda>s. (map_sum id (map (Pair RTM_NEWLINK))
          (parse_array (link_message (host_netlink big)) (map (\<lambda>(n, k). ((), n, kernel_kind k)) (lk_links s))), s)),
       le_rtnlDial = (\<lambda>s. (None, s)), le_rtnlExecute = (\<lambda>t f. link_rtnl big), le_rtnlClose = (\<lambda>s. s),
       le_ctxErr = (\<lambda>s. None), le_ctxDone = False, le_ctxDeadline = False \<rparr>"

definition link_client :: "bool \<Rightarrow> link_world linux_client" where
  "link_client big =
     \<lparr> lc_wgFamily = Some wg_fam, lc_amneziaFamily = Some awg_fam,
       lc_interfaces = rtnlInterfaces (link_env big), lc_linkKind = rtnlLinkKind (link_env big) \<rparr>"

text \<open>It is the client that the backend makes on this system.\<close>

lemma link_client_init: "initClient (link_env big) s = (Inr (Some (link_client big)), s)"
  by (simp add: initClient_def link_env_def link_client_def WG_GENL_NAME_def amneziaGenlName_def)

text \<open>Its devices: links of the two kinds.\<close>

definition link_owns :: "link_world \<Rightarrow> string set" where
  "link_owns s = {name. name \<noteq> [] \<and> length name < IFNAMSIZ \<and>
     map_option kernel_kind (map_of (lk_links s) name) \<in> {Some wgKind, Some amneziaKind}}"

lemma host_rd_str [simp]: "rd_str (host_netlink big) (string_bytes s @ [0]) = s"
  by (simp add: host_netlink_def bytes_string_bytes)

lemma host_nl_str [simp]: "nl_str (host_netlink big) s = string_bytes s @ [0]"
  by (simp add: host_netlink_def)

lemma one_name_encodes:
  assumes "length name < IFNAMSIZ" and "attr_type t = t"
  shows "\<exists>b. nl_encode (host_netlink big) [(t, False, string_bytes name @ [0])] = Inr b \<and> requested big t b = name"
proof -
  have "length (string_bytes name) + 5 \<le> 65535"
    using assms(1) by (simp add: IFNAMSIZ_def)
  then obtain b where b: "nl_encode (host_netlink big) [(t, False, string_bytes name @ [0])] = Inr b"
    by (simp add: host_netlink_def)
  have "requested big t b = name"
    using host.decode_encode [OF b] assms(2) by (simp add: requested_def decoded_def)
  with b show ?thesis by blast
qed

lemma attr_types: "attr_type WGDEVICE_A_IFNAME = WGDEVICE_A_IFNAME" "attr_type IFLA_IFNAME = IFLA_IFNAME"
  by (simp_all add: attr_type_def WGDEVICE_A_IFNAME_def IFLA_IFNAME_def)

lemma link_message_host:
  assumes "length name < IFNAMSIZ"
  shows "\<exists>m. link_message (host_netlink big) (name, kernel_kind kind) = Inr m \<and>
    parseLinkKind (host_netlink big) m = Inr (kernel_kind kind)"
proof -
  let ?k = "kernel_kind kind"
  have len: "length ?k \<le> 15"
    using length_takeWhile_le [of "\<lambda>c. c \<noteq> CHR 0x00" "take 15 kind"] by (simp add: kernel_kind_def)
  have "\<exists>info. tlv_encode big [(IFLA_INFO_KIND, False, string_bytes ?k @ [0])] = Inr info \<and> length info \<le> 40"
    using len by (auto simp: pad4_def)
  then obtain info where info: "tlv_encode big [(IFLA_INFO_KIND, False, string_bytes ?k @ [0])] = Inr info"
    "length info \<le> 40" by blast
  moreover have "nl_encode (host_netlink big) = tlv_encode big" by (simp add: host_netlink_def)
  ultimately obtain m where m: "link_message (host_netlink big) (name, ?k) = Inr m"
    using assms by (auto simp: link_message_def IFNAMSIZ_def)
  have "CHR 0x00 \<notin> set ?k" by (auto simp: kernel_kind_def dest: set_takeWhileD)
  with host.read_link_kind [OF m] m show ?thesis by simp
qed

section \<open>The kind of a link, asked for and found\<close>

lemma link_kind_found:
  "rtnlLinkKind (link_env big) name s =
     (if name \<noteq> [] \<and> length name < IFNAMSIZ
      then (case map_of (lk_links s) name of None \<Rightarrow> Inl ErrNotExist | Some kind \<Rightarrow> Inr (kernel_kind kind))
      else Inl ErrNotExist, s)"
proof (cases "name \<noteq> [] \<and> length name < IFNAMSIZ")
  case False
  then show ?thesis by (auto simp: rtnlLinkKind_def)
next
  case True
  let ?nl = "host_netlink big"
  obtain b where b: "nl_encode ?nl [(IFLA_IFNAME, False, string_bytes name @ [0])] = Inr b"
    "requested big IFLA_IFNAME b = name"
    using one_name_encodes [of name IFLA_IFNAME] True attr_types by blast
  have req: "rtnlLinkKind (link_env big) name s = link_request (link_env big) name s"
    using True by (simp add: rtnlLinkKind_def) (simp add: link_env_def split: prod.split)
  have exec: "le_rtnlExecute (link_env big) t f (replicate SizeofIfInfomsg 0 @ b) s =
      (case map_of (lk_links s) name of
         None \<Rightarrow> (Inl (OpError (Errno ENODEV)), s)
       | Some kind \<Rightarrow> (case link_message ?nl (name, kernel_kind kind) of
             Inl e \<Rightarrow> (Inl (OtherError e), s) | Inr m \<Rightarrow> (Inr [(RTM_NEWLINK, m)], s)))" for t f
    using b(2) by (simp add: link_env_def link_rtnl_def)
  have lib: "le_nl (link_env big) = ?nl" by (simp add: link_env_def)
  show ?thesis
  proof (cases "map_of (lk_links s) name")
    case None
    with True b(1) show ?thesis by (simp add: req link_request_def lib exec)
  next
    case (Some kind)
    obtain m where m: "link_message ?nl (name, kernel_kind kind) = Inr m"
      "parseLinkKind ?nl m = Inr (kernel_kind kind)"
      using link_message_host True by blast
    with Some True b(1) show ?thesis by (simp add: req link_request_def lib exec)
  qed
qed

text \<open>The family of an owned device.\<close>

definition link_fam :: "string \<Rightarrow> link_world \<Rightarrow> family" where
  "link_fam name s = (if map_option kernel_kind (map_of (lk_links s) name) = Some wgKind then wg_fam else awg_fam)"

lemma link_family:
  "familyFor (link_client big) name s =
     (if name \<in> link_owns s
      then Inr (link_fam name s)
      else Inl ErrNotExist, s)"
proof -
  have "wgKind \<noteq> amneziaKind" "fam_Version awg_fam \<le> amneziaGenlVersion"
    by (simp_all add: wgKind_def amneziaKind_def awg_fam_def amneziaGenlVersion_def)
  moreover have "lc_linkKind (link_client big) = rtnlLinkKind (link_env big)"
    "lc_wgFamily (link_client big) = Some wg_fam" "lc_amneziaFamily (link_client big) = Some awg_fam"
    by (simp_all add: link_client_def)
  ultimately show ?thesis
    by (auto simp: familyFor_def link_kind_found link_owns_def link_fam_def split: option.split)
qed

section \<open>The backend keeps the contract\<close>

lemma owned_name_encodes:
  assumes "name \<in> link_owns s"
  obtains b where "nl_encode (host_netlink big) [(WGDEVICE_A_IFNAME, False, string_bytes name @ [0])] = Inr b"
    and "requested big WGDEVICE_A_IFNAME b = name" and "map_of (lk_links s) name \<noteq> None"
proof -
  from assms have "length name < IFNAMSIZ" "map_of (lk_links s) name \<noteq> None"
    by (auto simp: link_owns_def)
  then show thesis using one_name_encodes [of name WGDEVICE_A_IFNAME] attr_types that by blast
qed

lemma link_withContext: "withContext (link_env big) fn s = fn s"
  by (simp add: withContext_def link_env_def)

lemma link_Device_owned:
  assumes "name \<in> link_owns s"
  shows "linux_Device (link_env big) (link_client big) name s =
    (map_sum id (\<lambda>d. if fam_Name (link_fam name s) = amneziaGenlName then d\<lparr> dev_IsAmnezia := True \<rparr> else d)
       (linux_parseDevice (host_netlink big) (lk_kept s name)), s)"
proof -
  obtain b where b: "nl_encode (host_netlink big) [(WGDEVICE_A_IFNAME, False, string_bytes name @ [0])] = Inr b"
    "requested big WGDEVICE_A_IFNAME b = name" "map_of (lk_links s) name \<noteq> None"
    by (rule owned_name_encodes [OF assms])
  have ne: "name \<noteq> []" using assms by (simp add: link_owns_def)
  have "getDeviceInternal (link_env big) name fam s =
      (map_sum id (\<lambda>d. if fam_Name fam = amneziaGenlName then d\<lparr> dev_IsAmnezia := True \<rparr> else d)
         (linux_parseDevice (host_netlink big) (lk_kept s name)), s)" for fam
    using b by (auto simp: getDeviceInternal_def execute_def link_env_def link_execute_def WG_CMD_GET_DEVICE_def
        WG_CMD_SET_DEVICE_def Let_def)
  moreover have "le_ctxErr (link_env big) s = None" by (simp add: link_env_def)
  ultimately show ?thesis
    using assms ne by (simp add: linux_Device_def link_family link_withContext)
qed

lemma requested_config:
  assumes "configAttrs (host_netlink big) name c = Inr b"
  shows "requested big WGDEVICE_A_IFNAME b = name"
proof -
  from assms obtain peers where
    "nl_encode (host_netlink big) (device_attr_list (host_netlink big) name c @ peers) = Inr b"
    by (auto simp: configAttrs_def res_bind_Inr)
  moreover have "\<exists>rest. device_attr_list (host_netlink big) name c =
      (WGDEVICE_A_IFNAME, False, string_bytes name @ [0]) # rest"
    by (simp add: device_attr_list_def Let_def)
  ultimately show ?thesis
    using host.decode_encode attr_types by (fastforce simp: requested_def decoded_def)
qed

text \<open>The kernel takes a batch for a link it has.\<close>

definition keep_sent :: "string \<Rightarrow> bytes list \<Rightarrow> link_world \<Rightarrow> link_world" where
  "keep_sent name ms s = s\<lparr> lk_kept := (lk_kept s)(name := lk_kept s name @ ms) \<rparr>"

lemma keep_sent_simps [simp]:
  "lk_links (keep_sent name ms s) = lk_links s" "lk_kept (keep_sent name ms s) name = lk_kept s name @ ms"
  "keep_sent name ms' (keep_sent name ms s) = keep_sent name (ms @ ms') s" "keep_sent name [] s = s"
  by (simp_all add: keep_sent_def)

lemma link_execute_set:
  assumes "configAttrs (host_netlink big) name c = Inr b" and "map_of (lk_links s) name \<noteq> None"
  shows "execute (link_env big) fam WG_CMD_SET_DEVICE fl b name s = (Inr [], keep_sent name [b] s)"
  using requested_config [OF assms(1)] assms(2)
  by (auto simp: execute_def link_env_def link_execute_def keep_sent_def)

lemma link_send_plain:
  assumes "send_batches (link_env big) fam name bs s = (Some e, s')" and "map_of (lk_links s) name \<noteq> None"
  shows "plain e"
  using assms
proof (induction bs arbitrary: s)
  case (Cons b bs)
  have c: "le_ctxErr (link_env big) s = None" "le_nl (link_env big) = host_netlink big"
    by (simp_all add: link_env_def)
  show ?case
  proof (cases "configAttrs (host_netlink big) name b")
    case (Inl e')
    with Cons.prems c have "e' = e" by simp
    then show ?thesis using host_errors.configAttrs_plain [of big name b] Inl by simp
  next
    case (Inr d)
    have "send_batches (link_env big) fam name bs (keep_sent name [d] s) = (Some e, s')"
      using Cons.prems(1) c Inr link_execute_set [OF Inr Cons.prems(2)] by (simp add: link_withContext)
    then show ?thesis by (rule Cons.IH) (use Cons.prems(2) in simp)
  qed
qed simp

lemma link_send_all:
  assumes "dumped (host_netlink big) name bs ms" and "map_of (lk_links s) name \<noteq> None"
  shows "send_batches (link_env big) fam name bs s = (None, keep_sent name ms s)"
  using assms unfolding dumped_def
proof (induction arbitrary: s rule: list_all2_induct)
  case (Cons b bs d ms)
  have c: "le_ctxErr (link_env big) s = None" "le_nl (link_env big) = host_netlink big"
    by (simp_all add: link_env_def)
  have "send_batches (link_env big) fam name bs (keep_sent name [d] s) = (None, keep_sent name ms (keep_sent name [d] s))"
    by (rule Cons.IH) (use Cons.prems in simp)
  then show ?case
    using c Cons.hyps(1) link_execute_set [OF Cons.hyps(1) Cons.prems] by (simp add: link_withContext)
qed simp

lemma link_ConfigureDevice_owned:
  assumes "name \<in> link_owns s" and "linux_ConfigureDevice (link_env big) (link_client big) name c s = (Some e, s')"
  shows "plain e"
proof -
  have m: "map_of (lk_links s) name \<noteq> None" using assms(1) by (auto simp: link_owns_def)
  have "le_ctxErr (link_env big) s = None" by (simp add: link_env_def)
  with assms obtain fam where
    "e = Wrapped ''wglinux'' ErrAWGNotSupported \<or> send_batches (link_env big) fam name (buildBatches c) s = (Some e, s')"
    by (auto simp: linux_ConfigureDevice_def link_family split: if_splits)
  then show ?thesis using link_send_plain [OF _ m] by auto
qed

definition link_backend :: "bool \<Rightarrow> link_world backend" where
  "link_backend big = linux_backend (link_env big) (link_client big)"

interpretation linux: wg_backend "link_backend big" link_owns for big
proof
  have ctx: "le_ctxErr (link_env big) s = None" for s by (simp add: link_env_def)
  fix name s s' c e
  show "\<exists>e. bk_Device (link_backend big) name s = (Inl e, s) \<and> errors_is e ErrNotExist" if "name \<notin> link_owns s"
    using that by (simp add: link_backend_def linux_backend_def linux_Device_def link_family ctx)
  show "\<exists>e. bk_ConfigureDevice (link_backend big) name c s = (Some e, s) \<and> errors_is e ErrNotExist"
    if "name \<notin> link_owns s"
    using that by (simp add: link_backend_def linux_backend_def linux_ConfigureDevice_def link_family ctx)
  show "\<not> errors_is e ErrNotExist" if "name \<in> link_owns s" and "bk_Device (link_backend big) name s = (Inl e, s')"
  proof -
    have "linux_parseDevice (host_netlink big) (lk_kept s name) = Inl e"
      using link_Device_owned [OF that(1), of big] that(2)
      by (cases "linux_parseDevice (host_netlink big) (lk_kept s name)") (auto simp: link_backend_def linux_backend_def)
    then show ?thesis
      using host_errors.parseDevice_plain [of big "lk_kept s name"] by (simp add: plain_def)
  qed
  show "\<not> errors_is e ErrNotExist"
    if "name \<in> link_owns s" and "bk_ConfigureDevice (link_backend big) name c s = (Some e, s')"
    using link_ConfigureDevice_owned [OF that(1)] that(2)
    by (simp add: link_backend_def linux_backend_def plain_def)
qed

section \<open>Systems side by side\<close>

text \<open>A backend of one half of a system.\<close>

definition on_first :: "'s backend \<Rightarrow> ('s \<times> 't) backend" where
  "on_first b =
     \<lparr> bk_Close = (\<lambda>s. case bk_Close b (fst s) of (r, s1) \<Rightarrow> (r, s1, snd s)),
       bk_Devices = (\<lambda>s. case bk_Devices b (fst s) of (r, s1) \<Rightarrow> (r, s1, snd s)),
       bk_Device = (\<lambda>name s. case bk_Device b name (fst s) of (r, s1) \<Rightarrow> (r, s1, snd s)),
       bk_ConfigureDevice = (\<lambda>name cfg s. case bk_ConfigureDevice b name cfg (fst s) of (r, s1) \<Rightarrow> (r, s1, snd s)) \<rparr>"

definition on_second :: "'t backend \<Rightarrow> ('s \<times> 't) backend" where
  "on_second b =
     \<lparr> bk_Close = (\<lambda>s. case bk_Close b (snd s) of (r, s2) \<Rightarrow> (r, fst s, s2)),
       bk_Devices = (\<lambda>s. case bk_Devices b (snd s) of (r, s2) \<Rightarrow> (r, fst s, s2)),
       bk_Device = (\<lambda>name s. case bk_Device b name (snd s) of (r, s2) \<Rightarrow> (r, fst s, s2)),
       bk_ConfigureDevice = (\<lambda>name cfg s. case bk_ConfigureDevice b name cfg (snd s) of (r, s2) \<Rightarrow> (r, fst s, s2)) \<rparr>"

lemma wg_backend_first:
  assumes "wg_backend b owns"
  shows "wg_backend (on_first b) (owns \<circ> fst)"
proof
  fix name and s s' :: "'a \<times> 'b" and cfg e
  note laws = wg_backend.device_absent [OF assms] wg_backend.device_present [OF assms]
    wg_backend.configure_absent [OF assms] wg_backend.configure_present [OF assms]
  show "name \<notin> (owns \<circ> fst) s \<Longrightarrow> \<exists>e. bk_Device (on_first b) name s = (Inl e, s) \<and> errors_is e ErrNotExist"
    using laws(1) [of name "fst s"] by (auto simp: on_first_def)
  show "name \<notin> (owns \<circ> fst) s \<Longrightarrow>
      \<exists>e. bk_ConfigureDevice (on_first b) name cfg s = (Some e, s) \<and> errors_is e ErrNotExist"
    using laws(3) [of name "fst s" cfg] by (auto simp: on_first_def)
  show "name \<in> (owns \<circ> fst) s \<Longrightarrow> bk_Device (on_first b) name s = (Inl e, s') \<Longrightarrow> \<not> errors_is e ErrNotExist"
    using laws(2) [of name "fst s" e "fst s'"] by (auto simp: on_first_def split: prod.splits)
  show "name \<in> (owns \<circ> fst) s \<Longrightarrow> bk_ConfigureDevice (on_first b) name cfg s = (Some e, s') \<Longrightarrow>
      \<not> errors_is e ErrNotExist"
    using laws(4) [of name "fst s" cfg e "fst s'"] by (auto simp: on_first_def split: prod.splits)
qed

lemma wg_backend_second:
  assumes "wg_backend b owns"
  shows "wg_backend (on_second b) (owns \<circ> snd)"
proof
  fix name and s s' :: "'b \<times> 'a" and cfg e
  note laws = wg_backend.device_absent [OF assms] wg_backend.device_present [OF assms]
    wg_backend.configure_absent [OF assms] wg_backend.configure_present [OF assms]
  show "name \<notin> (owns \<circ> snd) s \<Longrightarrow> \<exists>e. bk_Device (on_second b) name s = (Inl e, s) \<and> errors_is e ErrNotExist"
    using laws(1) [of name "snd s"] by (auto simp: on_second_def)
  show "name \<notin> (owns \<circ> snd) s \<Longrightarrow>
      \<exists>e. bk_ConfigureDevice (on_second b) name cfg s = (Some e, s) \<and> errors_is e ErrNotExist"
    using laws(3) [of name "snd s" cfg] by (auto simp: on_second_def)
  show "name \<in> (owns \<circ> snd) s \<Longrightarrow> bk_Device (on_second b) name s = (Inl e, s') \<Longrightarrow> \<not> errors_is e ErrNotExist"
    using laws(2) [of name "snd s" e "snd s'"] by (auto simp: on_second_def split: prod.splits)
  show "name \<in> (owns \<circ> snd) s \<Longrightarrow> bk_ConfigureDevice (on_second b) name cfg s = (Some e, s') \<Longrightarrow>
      \<not> errors_is e ErrNotExist"
    using laws(4) [of name "snd s" cfg e "snd s'"] by (auto simp: on_second_def split: prod.splits)
qed

section \<open>A client with both backends\<close>

text \<open>The backends of a Linux system, the kernel's first, and what they own.\<close>

definition linux_clients :: "bool \<Rightarrow> (Key \<Rightarrow> Key) \<Rightarrow> (link_world \<times> simworld) backend list" where
  "linux_clients big pub = [on_first (link_backend big), on_second (user_backend (sim_env pub no_dns))]"

definition linux_owners ::
    "bool \<Rightarrow> (Key \<Rightarrow> Key) \<Rightarrow> ((link_world \<times> simworld) backend \<times> (link_world \<times> simworld \<Rightarrow> string set)) list" where
  "linux_owners big pub =
     [(on_first (link_backend big), link_owns \<circ> fst), (on_second (user_backend (sim_env pub no_dns)), sim_owns \<circ> snd)]"

lemma linux_owners_contract: "\<forall>x \<in> set (linux_owners big pub). wg_backend (fst x) (snd x)"
  by (simp add: linux_owners_def wg_backend_first [OF linux.wg_backend_axioms]
      wg_backend_second [OF user.wg_backend_axioms])

lemma linux_clients_owners: "linux_clients big pub = map fst (linux_owners big pub)"
  by (simp add: linux_clients_def linux_owners_def)

lemma linux_client_routes:
  assumes "name \<in> link_owns s"
  shows "client_Device (linux_clients big pub) name (s, t) =
      (case linux_Device (link_env big) (link_client big) name s of (r, s') \<Rightarrow> (r, s', t))"
    and "configure_loop (linux_clients big pub) name cfg (s, t) =
      (case linux_ConfigureDevice (link_env big) (link_client big) name cfg s of (r, s') \<Rightarrow> (r, s', t))"
proof -
  have "owner (linux_owners big pub) name (s, t) = Some (on_first (link_backend big))"
    using assms by (simp add: owner_def linux_owners_def)
  then show "client_Device (linux_clients big pub) name (s, t) =
      (case linux_Device (link_env big) (link_client big) name s of (r, s') \<Rightarrow> (r, s', t))"
    and "configure_loop (linux_clients big pub) name cfg (s, t) =
      (case linux_ConfigureDevice (link_env big) (link_client big) name cfg s of (r, s') \<Rightarrow> (r, s', t))"
    by (simp_all add: linux_clients_owners owner_routes [OF linux_owners_contract] on_first_def link_backend_def
        linux_backend_def)
qed

lemma linux_client_configure_reads:
  assumes "linux_ok name c" and "Validate c = None" and "\<not> partialAWG c" and "distinct (map pc_PublicKey (cfg_Peers c))"
    and "name \<in> link_owns s" and "lk_kept s name = []"
    and "fam_Name (link_fam name s) = amneziaGenlName \<or> \<not> hasAWGFields c"
    and "dumped (host_netlink big) name (buildBatches c) ms"
  shows "client_ConfigureDevice (linux_clients big pub) name c (s, t) = (None, keep_sent name ms s, t) \<and>
    client_Device (linux_clients big pub) name (keep_sent name ms s, t) =
      (Inr ((linux_echo name c)\<lparr> dev_IsAmnezia := (fam_Name (link_fam name s) = amneziaGenlName) \<rparr>),
       keep_sent name ms s, t)"
proof -
  have m: "map_of (lk_links s) name \<noteq> None" using assms(5) by (auto simp: link_owns_def)
  have "le_ctxErr (link_env big) s = None" by (simp add: link_env_def)
  then have "linux_ConfigureDevice (link_env big) (link_client big) name c s = (None, keep_sent name ms s)"
    using assms(5,7) link_send_all [OF assms(8) m]
    by (auto simp: linux_ConfigureDevice_def link_family buildBatches_nonempty)
  then have conf: "client_ConfigureDevice (linux_clients big pub) name c (s, t) = (None, keep_sent name ms s, t)"
    using assms(2,3) linux_client_routes(2) [OF assms(5)] by (simp add: client_ConfigureDevice_def check_partial_def)
  have own: "name \<in> link_owns (keep_sent name ms s)" and fam: "link_fam name (keep_sent name ms s) = link_fam name s"
    using assms(5) by (simp_all add: link_owns_def link_fam_def)
  have parse: "linux_parseDevice (host_netlink big) (lk_kept s name @ ms) = Inr (linux_echo name c)"
    using host.read_batches [OF assms(1,4,8)] by (simp add: assms(6))
  have "dev_IsAmnezia (linux_echo name c) = False" by (simp add: linux_echo_def)
  then have "(linux_echo name c)\<lparr> dev_IsAmnezia := False \<rparr> = linux_echo name c" by simp
  with conf show ?thesis
    using linux_client_routes(1) [OF own, of big pub t] by (simp add: link_Device_owned [OF own] fam parse)
qed

end
