(* ===== verification/Spec2Isabelle.thy ===== *)
theory Spec2Isabelle
  imports Generate LinuxSpec UserSpec KernelSpec BsdSystem TestHelpers LinuxBackend
begin

text \<open>
  A verification development for \<open>awgctrl-go\<close>, the Go library that reads and configures WireGuard and
  AmneziaWG devices.

  \<^bold>\<open>The program.\<close> \<open>client.go\<close> is the \<open>Client\<close>: it validates a configuration, checks a partial AmneziaWG
  configuration against the device, and hands it to the first of several backends that knows the
  device. A backend implements \<open>internal/wginternal/client.go\<close>. The userspace backend
  (\<open>internal/wguser\<close>) speaks the line protocol of the userspace daemons over UNIX sockets. The Linux
  backend (\<open>internal/wglinux\<close>) speaks netlink to the kernel modules, splitting large configurations
  into batches. The FreeBSD, OpenBSD and Windows backends (\<open>internal/wgfreebsd\<close>, \<open>internal/wgopenbsd\<close>,
  \<open>internal/wgwindows\<close>) exchange memory with their kernels: name-value lists or C structures. They know
  plain WireGuard only; the one of OpenBSD is read-only. The package \<open>wgtypes\<close> has the data: devices,
  peers, configurations, keys, the validation and the generation of AmneziaWG parameters, and methods
  that hide secret keys in logs. \<open>os_*.go\<close> choose the backends of a system, \<open>cmd/wgctrl\<close> prints devices.

  \<^bold>\<open>The theories.\<close>
    \<^item> Prelude, GoStrconv, GoError, GoNet, GoIPText: what the code uses of Go's standard library.
      Strings are byte strings (a \<open>char\<close> is a byte), \<open>int\<close> is 64 bits wide where its width matters, but in
      the BSD backends, where it is that of the architecture.
      GoStrconv has decimal and hexadecimal numbers, GoError the errors as a datatype with
      \<open>errors.Is\<close>, GoNet addresses, masks and durations, GoIPText their text form with its round trip.
    \<^item> WgTypes (\<open>wgtypes/types.go\<close>): the records \<open>Device\<close>, \<open>Peer\<close>, \<open>Config\<close>, \<open>PeerConfig\<close>, keys. A pointer
      field of a configuration is an option. Validate (\<open>wgtypes/validate.go\<close>): the checks, the two
      parsers, and what they accept, declaratively. Generate: \<open>GenerateAmneziaParams\<close> over an arbitrary
      random source \<open>intn\<close>, a function of the bound and the source's state. KeyText: keys as base64,
      and \<open>redact.go\<close> over an arbitrary formatter.
    \<^item> UserConfigure, UserParse, UserClient (\<open>internal/wguser\<close>): the request as its lines, the parser as
      a machine over lines (\<open>deviceParser\<close>), the client. UserProtocol frames lines and states the
      locale \<open>field_codec\<close> of a printer and a reader that agree, interpreted on every kind of field;
      UserEcho has the round trip of a whole configuration. UserClient states in the locale
      \<open>socket_env\<close> what the socket operations do to the set of open connections.
    \<^item> Client (\<open>client.go\<close>): the record \<open>backend\<close> is the interface; the locale \<open>wg_backend\<close> states that each
      device belongs to one backend, and is interpreted on the userspace and the Linux backend.
    \<^item> Netlink: the third-party encoder and decoder of attributes, as a record of functions with their
      documented laws in the locale \<open>netlink_lib\<close>, interpreted on the kernel's attribute format in both
      byte orders. LinuxEncode and LinuxBatch (\<open>configure_linux.go\<close>), LinuxParse (\<open>parse_linux.go\<close>),
      LinuxEcho (their round trip), LinuxClient (\<open>client_linux.go\<close>), LinuxContext (\<open>withContext\<close> as a
      step relation over every interleaving with the cancellation), LinuxRead (a kernel that keeps what it is
      sent; the merge of a dump undoes the split into batches). LinuxBackend: a system with any links, on
      which the Linux backend keeps the contract \<open>wg_backend\<close>, and the client with both backends of Linux
      over two systems side by side; the locale \<open>netlink_errors\<close> states which errors netlink has.
    \<^item> Layout: the architectures as a type \<open>goarch\<close> of class \<open>enum\<close>, their \<open>int\<close> and pointers, and the
      offsets and sizes that Go and C give to the fields of a structure. Wgh: the packages
      \<open>wgopenbsd/internal/wgh\<close> and \<open>wgfreebsd/internal/wgh\<close>, each structure of each of the eight generated
      files as the list of its fields, with the layouts computed from them.
    \<^item> Memory: structures in memory as bytes, where a read past the end is a \<open>crash\<close>; the locale
      \<open>c_struct\<close> states that a structure is read where it was put, and is interpreted on the six
      structures of OpenBSD and Windows; \<open>read_nested\<close> walks over structures that are followed by a counted
      array of others. Ioctl: what the FreeBSD and OpenBSD backends share, system calls and their errors,
      device names, the loop that grows its buffer, socket addresses, \<open>Devices\<close>. NvList (\<open>internal/nv\<close>):
      name-value lists, with libnv as a record of functions and its laws in the locale \<open>libnv_lib\<close>,
      interpreted on a concrete encoding. FreeBSD (\<open>client_freebsd.go\<close>), OpenBSD
      (\<open>client_openbsd.go\<close>), both over the architecture \<open>a\<close>, reading and writing fields where the layout of
      \<open>a\<close> has them (the FreeBSD backend does not compile on 386, where its definitions stand for no
      program); BsdSystem makes their system calls. Windows (\<open>client_windows.go\<close> and its
      \<open>internal/ioctl\<close>), whose structures have one layout on all architectures.
    \<^item> Platform: the choice of backends, named pipes (\<open>conn_windows.go\<close>), the command line tool.
      TestHelpers: \<open>internal/wgtest\<close>.
    \<^item> Instances has concrete configurations; LinuxSpec and UserSpec have the properties of these two
      backends, KernelSpec those of the other three, this theory those of the types and of the client as a
      whole. A property is a theorem
      after a text that numbers and states it; if it has hypotheses, the theorem \<open>..._witness\<close> applies
      it to concrete values.

  \<^bold>\<open>How code is modelled.\<close> An operation is a function. What it calls outside the repository (sockets,
  directories, netlink, the random source, the context) is an argument over the state \<open>'s\<close> of the
  outside world, which every call returns anew, so that the order of the calls is that of the code. An
  error is the left side of a sum, or \<open>Some e\<close> where Go returns only an error; where the code can panic or
  read outside its memory the error is a \<open>failure\<close>, either the error returned or that crash. Loops over
  slices are recursive functions on lists. The loop of \<open>buildBatches\<close> over the allowed IPs and that of
  \<open>InitPacketSize\<close> recurse on what is left, with termination proofs; the retry loop of the generator is
  a \<open>partial_function\<close>, whose termination is the property that it returns exactly when some attempt
  is acceptable. The loops whose end depends on the outside world are partial functions too:
  \<open>grow_loop\<close>, \<open>enum_loop\<close>, \<open>interfaceHandle\<close>, \<open>get_loop\<close>, \<open>pipe_loop\<close>; lemmas show for each
  when it returns (\<open>grow_loop_serves\<close>, \<open>enum_loop_returns\<close>, \<open>interfaceHandle_uncached\<close>,
  \<open>get_loop_serves\<close>, \<open>pipe_loop_lists\<close>). No fuel is used; \<open>strip_front\<close> of UserConfigure counts down
  the length of its argument, which each of its steps shortens.

  \<^bold>\<open>What is shown.\<close> Validation is equivalent to its specification; generated parameters validate. For
  the four backends that write, what is written for a valid configuration is read back as that
  configuration, without what a backend does not carry (AmneziaWG parameters on FreeBSD and Windows, the
  firewall mark on Windows, zones of endpoints but in userspace, fractions of a second of keepalives), on
  FreeBSD for its 64-bit architectures, on Linux also when it is sent in batches and dumped in as many
  messages; the OpenBSD backend reads every device that its kernel can lay out in memory. The batches of a
  configuration that lists no peer twice have together the effect of the whole on the reference device of LinuxBatch
  (\<open>ref_set_device\<close>, \<open>ref_set_peer\<close>), an abstraction of the kernel's documented behaviour for one
  message, which satisfies the laws of the locale \<open>wg_device\<close>. The client never accepts a partial
  configuration that makes an AmneziaWG device inconsistent, and routes each device to its owner; on Linux
  what it is given for a link reaches the link and nothing else. No
  connection leaks. A cancelled call leaves no deadline on the socket. Missing devices are reported as \<open>os.ErrNotExist\<close>. Some properties
  show where the code does not do what it means to: a repeated peer in a large configuration, the zone of
  an endpoint in a request, \<open>Devices\<close> of an empty interface group, the loop of \<open>interfaceHandle\<close>,
  the request numbers of FreeBSD on ARM, and \<open>GoString\<close>, which shows a secret key (\<open>String\<close> shows none, not
  even those of the peers inside); so does the lemma \<open>openbsd_whole_second\<close>, on handshakes at a
  whole second.

  \<^bold>\<open>Not modelled.\<close> Code outside the repository is a parameter: \<open>curve25519\<close>, kernels, libnv, the Windows
  API and netlink, the last four with their documented laws. \<open>generate.sh\<close> and the \<open>defs.go\<close> it reads are
  modelled as far as \<open>defs.go\<close> declares structures of its own; the C headers are not in the repository.
  Reading past the end of a buffer is a crash, although Go would read the memory behind it. Allocation
  never fails and is never freed. Data races between goroutines other than those of \<open>withContext\<close> are
  outside the model: the code has no others.
\<close>

section \<open>Configurations\<close>

text \<open>
  C1. \<open>Config.Validate\<close> accepts exactly the documented configurations: every field in its range, the
  magic headers parsable and pairwise disjoint as sets of 32-bit values, the init packets in the
  grammar and short enough, the peers' fields in range.
\<close>

theorem validate_decides: "Validate c = None \<longleftrightarrow> valid_config c"
  by (rule Validate_None_iff)

text \<open>
  C14. Whatever the random source draws, a configuration that validates still validates after
  \<open>GenerateAmneziaParams\<close>, its parameters have the documented form, and the other fields are
  untouched.
\<close>

theorem generate_validates:
  assumes "intn_ok intn" and "GenerateAmneziaParams intn cfg s = Some (cfg', s')"
    and "Validate cfg = None"
  shows "Validate cfg' = None \<and> generated_ok cfg' \<and> same_base cfg' cfg"
  using Generate_ok [OF assms(1,2)] generated_Validate assms(3) by blast

definition demo_intn :: "int intn" where
  "demo_intn n s = (s mod n, s + 17)"

lemma demo_intn_ok: "intn_ok demo_intn"
  by (auto simp: intn_ok_def demo_intn_def)

lemma demo_pad_loop: "pad_loop demo_intn 56 = Some ((22, 39, 46, 3), 124)"
  by (subst pad_loop.simps) (simp add: pad_attempt_def demo_intn_def rule_A_def rule_B_def)

theorem generate_validates_witness:
  "\<exists>cfg' s'. GenerateAmneziaParams demo_intn zeroConfig 5 = Some (cfg', s') \<and> Validate cfg' = None"
proof -
  have "GenerateAmneziaParams demo_intn zeroConfig 5 \<noteq> None"
    unfolding Generate_returns_iff
    using demo_pad_loop by (simp add: before_pads_def demo_intn_def)
  then obtain cfg' s' where g: "GenerateAmneziaParams demo_intn zeroConfig 5 = Some (cfg', s')"
    by (metis not_None_eq surj_pair)
  have "Validate zeroConfig = None" by (rule Validate_zeroConfig)
  from generate_validates [OF demo_intn_ok g this] g show ?thesis by blast
qed

text \<open>
  C38. The generator returns exactly when the random source some time draws paddings that pass both
  of its rules: the retry loop is its only way of not returning.
\<close>

theorem generate_returns:
  "GenerateAmneziaParams intn cfg s \<noteq> None \<longleftrightarrow>
     (\<exists>k. acceptable (fst (pad_attempt intn (pad_state intn k (before_pads intn s)))))"
  unfolding Generate_returns_iff
  using pad_loop_returns pad_loop_Some [of intn "before_pads intn s"] by (metis not_None_eq)

text \<open>
  C16. \<open>InitPacketSize\<close> accepts exactly the descriptions of the grammar, tags separated by white space,
  whose total is at most 65535 bytes, and returns the total; a description has one total.
\<close>

theorem init_packet_size:
  "(InitPacketSize s = Inr n \<longleftrightarrow> init_spec s n \<and> n \<le> 65535) \<and>
   ((\<exists>e. InitPacketSize s = Inl e) \<longleftrightarrow> (\<nexists>m. init_spec s m \<and> m \<le> 65535))"
proof -
  have eq: "InitPacketSize s = Inr m \<longleftrightarrow> init_spec s m \<and> m \<le> 65535" for m
    using InitPacketSize_eq [of s m] by (simp add: maxMessageSize_def)
  show ?thesis
    by (cases "InitPacketSize s") (use eq in \<open>auto\<close>)
qed

text \<open>A tab may stand between two tags.\<close>

lemma tab_between_tags: "InitPacketSize (''<c>'' @ [CHR 0x09] @ ''<t>'') = Inr 8"
proof -
  have e: "set [] \<subseteq> set blanks" "set [CHR 0x09] \<subseteq> set blanks" by (simp_all add: blanks_def)
  note t = init_spec.init_tag [OF e(2) _ tag_ok.tag_t init_spec.init_end [OF e(1)]]
  have "init_spec ([] @ CHR ''<'' # ''c'' @ CHR ''>'' # ([CHR 0x09] @ CHR ''<'' # ''t'' @ CHR ''>'' # [])) (4 + (4 + 0))"
    by (rule init_spec.init_tag [OF e(1) _ tag_ok.tag_c t]) simp_all
  then show ?thesis by (simp add: InitPacketSize_eq maxMessageSize_def)
qed

text \<open>
  A range of 32-bit values printed as a magic header is read back as that range.
\<close>

theorem magic_header_roundtrip:
  assumes "a \<le> b"
  shows "ParseMagicHeader (itoa_nat (unat a) @ ''-'' @ itoa_nat (unat b)) = Inr (a, b)"
proof -
  have "unat b < 2 ^ 32" by (rule order.strict_trans2 [OF unsigned_less]) simp
  from ParseMagicHeader_itoa_range [OF _ this, of "unat a"] assms show ?thesis
    by (simp add: word_le_nat_alt)
qed

theorem magic_header_roundtrip_witness:
  "ParseMagicHeader (itoa_nat (unat (5::u32)) @ ''-'' @ itoa_nat (unat (4294967295::u32))) = Inr (5, 4294967295)"
  by (rule magic_header_roundtrip) simp

text \<open>
  A generated private key is a clamped scalar of 32 bytes that differs from the bytes read in no
  more than the clamped bits; an error of the random source is returned.
\<close>

theorem private_key_clamped:
  assumes "crand s KeyLen = (Inr b, s')" and "key_ok b"
  shows "\<exists>k. GeneratePrivateKey crand s = (Inr k, s') \<and> clamped k \<and>
    k = b[0 := b ! 0 AND 248, 31 := (b ! 31 AND 127) OR 64]"
  using assms clamp_clamped [OF assms(2)] NewKey_Inr [of b b]
  by (simp add: GeneratePrivateKey_def GenerateKey_def clamp_def Let_def key_ok_def KeyLen_def)

theorem private_key_clamped_witness:
  "\<exists>k. GeneratePrivateKey (\<lambda>s n. (Inr (replicate n 255), s)) () = (Inr k, ()) \<and> k ! 31 = 127"
  using private_key_clamped [of "\<lambda>s n. (Inr (replicate n 255), s)" "()" "replicate KeyLen 255" "()"]
  by (simp add: key_ok_def KeyLen_def)

section \<open>The client\<close>

text \<open>
  C9. An accepted configuration never leaves an AmneziaWG device with parameters that the library
  itself would reject: when the device's parameters are consistent and \<open>ConfigureDevice\<close> reports
  success, they are consistent with those of the configuration put over them, also when the
  configuration gives only some of them.
\<close>

theorem accepted_config_consistent:
  assumes "client_ConfigureDevice cs name cfg s = (None, s')"
    and "client_Device cs name s = (Inr d, t)" and "dev_IsAmnezia d" and "awg_consistent d"
  shows "awg_consistent (apply_awg d cfg)"
proof -
  have v: "Validate cfg = None" and "fst (check_partial cs name cfg s) = None"
    using assms(1) by (auto simp: client_ConfigureDevice_def split: option.splits prod.splits)
  then show ?thesis
    using check_partial_safe [OF v assms(2,3)] not_partial_consistent [OF _ v assms(4)] by blast
qed

text \<open>A backend with one device, which accepts everything and counts the configurations.\<close>

definition one_device :: "Device \<Rightarrow> nat backend" where
  "one_device d = \<lparr> bk_Close = (\<lambda>s. (None, s)), bk_Devices = (\<lambda>s. (Inr [d], s)),
     bk_Device = (\<lambda>n s. (Inr d, s)), bk_ConfigureDevice = (\<lambda>n c s. (None, s + 1)) \<rparr>"

definition amnezia_device :: Device where
  "amnezia_device = zeroDevice\<lparr> dev_IsAmnezia := True, dev_Jmin := 40, dev_Jmax := 70, dev_H2 := ''7'' \<rparr>"

lemma demo_header_7: "ParseMagicHeader ''7'' = Inr (7, 7)"
  by (simp add: ParseMagicHeader_def parseKernelUint32_def parseUint_def digit_val_def
      trimSuffix_def trimPrefix_def suffix_to_prefix)

lemma amnezia_device_consistent:
  "awg_consistent amnezia_device" "awg_consistent (apply_awg amnezia_device demo_config)"
  using demo_header demo_header_7
  by (simp_all add: awg_consistent_def amnezia_device_def zeroDevice_def apply_awg_def demo_config_def
      zeroConfig_def valid_headers_def header_range_def)

lemma demo_configure: "client_ConfigureDevice [one_device amnezia_device] ''awg0'' demo_config 0 = (None, 1)"
proof -
  have "Validate (mergeAWG amnezia_device demo_config) = None"
    using mergeAWG_valid_iff [OF demo_config_valid] amnezia_device_consistent(2) by blast
  then show ?thesis
    using demo_config_valid
    by (simp add: client_ConfigureDevice_def check_partial_def one_device_def)
qed

theorem accepted_config_consistent_witness:
  "client_ConfigureDevice [one_device amnezia_device] ''awg0'' demo_config 0 = (None, 1) \<and>
   awg_consistent (apply_awg amnezia_device demo_config)"
  using demo_configure accepted_config_consistent [OF demo_configure, of amnezia_device 0]
    amnezia_device_consistent(1)
  by (simp add: one_device_def amnezia_device_def)

text \<open>
  C21. A partial configuration that conflicts with the parameters of an AmneziaWG device is refused
  before any backend is asked to apply anything.
\<close>

theorem conflicting_config_refused:
  assumes "Validate cfg = None" and "partialAWG cfg" and "client_Device cs name s = (Inr d, t)"
    and "dev_IsAmnezia d" and "\<not> awg_consistent (apply_awg d cfg)"
  shows "\<exists>e. client_ConfigureDevice cs name cfg s = (Some (ErrConfig e), t)"
  using assms mergeAWG_valid_iff [OF assms(1), of d]
  by (auto simp: client_ConfigureDevice_def check_partial_def)

definition conflicting_device :: Device where
  "conflicting_device = amnezia_device\<lparr> dev_H2 := ''1-5'' \<rparr>"

theorem conflicting_config_refused_witness:
  "\<exists>e. client_ConfigureDevice [one_device conflicting_device] ''awg0'' demo_config 0 = (Some (ErrConfig e), 0)"
proof (rule conflicting_config_refused [OF demo_config_valid])
  show "partialAWG demo_config"
    by (simp add: partialAWG_def partial_def demo_config_def zeroConfig_def)
  show "client_Device [one_device conflicting_device] ''awg0'' 0 = (Inr conflicting_device, 0)"
    by (simp add: one_device_def)
  show "dev_IsAmnezia conflicting_device"
    by (simp add: conflicting_device_def amnezia_device_def)
  show "\<not> awg_consistent (apply_awg conflicting_device demo_config)"
    using demo_header
    by (simp add: awg_consistent_def conflicting_device_def amnezia_device_def zeroDevice_def apply_awg_def
        demo_config_def zeroConfig_def valid_headers_def header_range_def)
qed

text \<open>
  C34. \<open>Devices\<close> asks the backends in order, up to the first that fails when the context is done. It
  lists, in order, the first device of each name that those before it report, with no name twice. Its
  error is that of the backend at which it stopped; if it asked all, the errors of those that failed are joined,
  so that one failing backend does not hide the devices of another.
\<close>

theorem devices_listed:
  "fst (client_Devices ctxErr cs s) =
     (first_of_name {} (found (reports ctxErr cs s)),
      (case dropWhile (\<lambda>x. \<not> gives_up ctxErr x) (outcomes cs s) of
         [] \<Rightarrow> errors_Join (failed (reports ctxErr cs s))
       | x # _ \<Rightarrow> Some (projl (fst x)))) \<and>
   distinct (map dev_Name (fst (fst (client_Devices ctxErr cs s)))) \<and>
   dev_Name ` set (fst (fst (client_Devices ctxErr cs s))) = dev_Name ` set (found (reports ctxErr cs s))"
  using devices_loop_eq [of ctxErr cs "[]" "[]" "[]" s, unfolded devices_error_def append_Nil] first_of_name_distinct [of "{}"] first_of_name_names [of "{}"]
  by (simp add: client_Devices_def)

text \<open>
  C35. A device is read and configured by the backend that owns it, whichever its place in the list,
  and a name no backend owns gives \<open>os.ErrNotExist\<close>: for backends that answer \<open>os.ErrNotExist\<close>
  exactly for the names that are not theirs.
\<close>

theorem backends_route:
  assumes "\<forall>x \<in> set bs. wg_backend (fst x) (snd x)"
  shows "client_Device (map fst bs) name s =
      (case owner bs name s of None \<Rightarrow> (Inl ErrNotExist, s) | Some b \<Rightarrow> bk_Device b name s) \<and>
    configure_loop (map fst bs) name cfg s =
      (case owner bs name s of None \<Rightarrow> (Some ErrNotExist, s) | Some b \<Rightarrow> bk_ConfigureDevice b name cfg s)"
  using owner_routes [OF assms] by blast

text \<open>A Linux system with one link, and the userspace daemon of the example.\<close>

definition linux_world :: link_world where
  "linux_world = \<lparr> lk_links = [(''wg0'', wgKind)], lk_kept = (\<lambda>name. []) \<rparr>"

lemma linux_world_owns: "link_owns linux_world = {''wg0''}"
  by (auto simp: link_owns_def linux_world_def kernel_kind_def wgKind_def amneziaKind_def IFNAMSIZ_def
      split: if_splits)

theorem backends_route_witness:
  "client_Device (linux_clients True id) ''wg9'' (linux_world, sim_world) =
     (Inl ErrNotExist, linux_world, sim_world) \<and>
   fst (client_Device (linux_clients True id) ''awg0'' (linux_world, sim_world)) =
     fst (user_Device (sim_env id no_dns) ''awg0'' sim_world)"
proof -
  let ?os = "linux_owners True id"
  have none: "owner ?os ''wg9'' (linux_world, sim_world) = None"
    by (simp add: owner_def linux_owners_def linux_world_owns sim_owns_def sim_world_def sim_world_name)
  have second: "owner ?os ''awg0'' (linux_world, sim_world) = Some (on_second (user_backend (sim_env id no_dns)))"
    by (simp add: owner_def linux_owners_def linux_world_owns sim_owns_def sim_world_def sim_world_name)
  show ?thesis
    unfolding linux_clients_owners
    using backends_route [OF linux_owners_contract, of True id "''wg9''" "(linux_world, sim_world)"] none
      backends_route [OF linux_owners_contract, of True id "''awg0''" "(linux_world, sim_world)"] second
    by (simp add: on_second_def user_backend_def split: prod.split)
qed







section \<open>Keys as text\<close>

text \<open>
  C28. The text of a key is read back as that key, also when line breaks were put into it.
\<close>

theorem key_text_roundtrip:
  assumes "key_ok k" and "filter (\<lambda>c. c \<noteq> CHR 0x0A \<and> c \<noteq> CHR 0x0D) s = Key_String k"
  shows "ParseKey s = Inr k"
proof -
  have "filter (\<lambda>c. c \<noteq> CHR 0x0A \<and> c \<noteq> CHR 0x0D) (Key_String k) = Key_String k"
    unfolding assms(2) [symmetric] by simp
  then have "b64_decode s = b64_decode (Key_String k)" using assms(2) by (simp add: b64_decode_def)
  then show ?thesis using ParseKey_String [OF assms(1)] by (simp add: ParseKey_def)
qed

theorem key_text_roundtrip_witness:
  "ParseKey (Key_String (replicate 32 7) @ [CHR 0x0A]) = Inr (replicate 32 7)"
proof (rule key_text_roundtrip)
  have "set (Key_String (replicate 32 7)) \<subseteq> set b64_table \<union> {CHR ''=''}"
    using b64_encode_chars by (auto simp: Key_String_def)
  then have "\<forall>c \<in> set (Key_String (replicate 32 7)). c \<noteq> CHR 0x0A \<and> c \<noteq> CHR 0x0D"
    using b64_not_pad by auto
  then show "filter (\<lambda>c. c \<noteq> CHR 0x0A \<and> c \<noteq> CHR 0x0D) (Key_String (replicate 32 7) @ [CHR 0x0A]) =
      Key_String (replicate 32 7)"
    by (simp add: filter_id_conv)
qed (simp add: key_ok_def KeyLen_def)

text \<open>
  C26. The two forms of a key that \<open>hide\<close> looks for stay out of logs: whatever \<open>fmt\<close> prints for a value, the
  text of its \<open>String\<close> and \<open>GoString\<close> shows the secret key of that value neither in base64 nor as the
  literal \<open>[32]uint8{...}\<close>. The secret key is the private key of a device or a configuration, and the
  preshared key of a peer or a peer's configuration; those of the peers inside a device are the matter of
  the next property.
\<close>

theorem secrets_hidden:
  assumes "key_ok k" and "k \<noteq> zeroKey"
  shows "\<forall>t \<in> {Device_text fd (d\<lparr> dev_PrivateKey := k \<rparr>), Peer_text fp (p\<lparr> peer_PresharedKey := k \<rparr>),
      Config_text fc (c\<lparr> cfg_PrivateKey := Some k \<rparr>), PeerConfig_text fpc (pc\<lparr> pc_PresharedKey := Some k \<rparr>)}.
    \<not> sublist (Key_String k) t \<and> \<not> sublist (go_syntax k) t"
  using hide_hides [OF assms]
  by (simp add: Device_text_def Peer_text_def Config_text_def PeerConfig_text_def del: hide.simps)

theorem secrets_hidden_witness:
  "\<not> sublist (Key_String (replicate 32 7))
     (PeerConfig_text (\<lambda>p. ''psk: '' @ Key_String (the (pc_PresharedKey p)))
       (demo_peer\<lparr> pc_PresharedKey := Some (replicate 32 7) \<rparr>))"
proof -
  have k: "replicate 32 (7::byte) \<noteq> zeroKey" "key_ok (replicate 32 7)"
    by (simp_all add: zeroKey_def key_ok_def KeyLen_def)
  show ?thesis
    using secrets_hidden [OF k(2,1), where fpc = "\<lambda>p. ''psk: '' @ Key_String (the (pc_PresharedKey p))" and pc = demo_peer]
    by blast
qed

text \<open>
  C27. The preshared keys of the peers stay out of the text of a device and of a configuration, too: \<open>String\<close>
  of either shows none of them in base64, if \<open>fmt\<close> prints the slice of the peers, as it documents, by the
  peers' own \<open>String\<close>, and the key occurs nowhere else in what it prints, neither in the other fields nor
  in another peer that has a different preshared key.
\<close>

theorem nested_secrets_hidden:
  assumes "key_ok k" and "k \<noteq> zeroKey"
    and "fd d = before @ slice_text (map (Peer_text fp) (dev_Peers d)) @ after"
    and "fc c = before @ slice_text (map (PeerConfig_text fpc) (cfg_Peers c)) @ after"
    and "\<not> sublist (Key_String k) before" and "\<not> sublist (Key_String k) after"
    and "\<forall>p \<in> set (dev_Peers d). peer_PresharedKey p = k \<or> \<not> sublist (Key_String k) (fp p)"
    and "\<forall>p \<in> set (cfg_Peers c). pc_PresharedKey p = Some k \<or> \<not> sublist (Key_String k) (fpc p)"
  shows "\<not> sublist (Key_String k) (Device_text fd d) \<and> \<not> sublist (Key_String k) (Config_text fc c)"
proof -
  note keeps = hide_keeps_hidden [OF assms(1)]
  have "\<not> sublist (Key_String k) (Peer_text fp p)" if "p \<in> set (dev_Peers d)" for p
    using that assms(7) hide_hides [OF assms(1,2)] keeps unfolding Peer_text_def by metis
  moreover have "\<not> sublist (Key_String k) (PeerConfig_text fpc p)" if "p \<in> set (cfg_Peers c)" for p
    using that assms(8) hide_hides [OF assms(1,2)] keeps unfolding PeerConfig_text_def by metis
  ultimately have "\<not> sublist (Key_String k) (fd d)" "\<not> sublist (Key_String k) (fc c)"
    unfolding assms(3,4) by (auto intro!: slice_text_hides [OF assms(1,5,6)])
  then show ?thesis using keeps by (simp add: Device_text_def Config_text_def del: hide.simps)
qed

text \<open>Formatters that print the peers only, and of a peer its preshared key.\<close>

definition psk_of :: "Peer \<Rightarrow> string" where
  "psk_of p = ''{PresharedKey:'' @ Key_String (peer_PresharedKey p) @ ''}''"

definition psk_of_config :: "PeerConfig \<Rightarrow> string" where
  "psk_of_config p = ''{PresharedKey:'' @ Key_String (the (pc_PresharedKey p)) @ ''}''"

theorem nested_secrets_hidden_witness:
  "\<not> sublist (Key_String (replicate 32 7))
     (Device_text (\<lambda>d. ''{Peers:'' @ slice_text (map (Peer_text psk_of) (dev_Peers d)) @ ''}'')
       (zeroDevice\<lparr> dev_Peers := [zeroPeer\<lparr> peer_PresharedKey := replicate 32 7 \<rparr>] \<rparr>))"
proof -
  let ?k = "replicate 32 (7::byte)"
  have k: "?k \<noteq> zeroKey" "key_ok ?k"
    by (simp_all add: zeroKey_def key_ok_def KeyLen_def)
  have "32 \<le> length (Key_String ?k)" using length_b64_encode [of ?k] by (simp add: Key_String_def)
  then have short: "\<not> sublist (Key_String ?k) ''{Peers:''" "\<not> sublist (Key_String ?k) ''}''"
    by (auto dest: sublist_length_le)
  show ?thesis
    by (rule nested_secrets_hidden [where fp = psk_of and fpc = psk_of_config
          and fc = "\<lambda>c. ''{Peers:'' @ slice_text (map (PeerConfig_text psk_of_config) (cfg_Peers c)) @ ''}''"
          and c = "zeroConfig\<lparr> cfg_Peers := [zeroPeerConfig\<lparr> pc_PresharedKey := Some ?k \<rparr>] \<rparr>",
        THEN conjunct1, OF k(2,1) _ _ short])
      simp_all
qed

text \<open>
  C29. The form that \<open>%#v\<close> gives to a field of type \<open>Key\<close> is a third one, \<open>wgtypes.Key{...}\<close>, and
  \<open>hide\<close> leaves it: if the formatter prints the private key of a device or the preshared key of a peer
  in that form, \<open>GoString\<close> shows it.
\<close>

theorem go_string_shows_key:
  assumes "key_ok (dev_PrivateKey d)" and "sublist (''PrivateKey:'' @ key_go_syntax (dev_PrivateKey d)) (fd d)"
    and "key_ok (peer_PresharedKey p)" and "sublist (''PresharedKey:'' @ key_go_syntax (peer_PresharedKey p)) (fp p)"
  shows "sublist (key_go_syntax (dev_PrivateKey d)) (Device_text fd d) \<and>
    sublist (key_go_syntax (peer_PresharedKey p)) (Peer_text fp p)"
proof -
  have "sublist t s" if "sublist (m @ t) s" for m t s :: string
    using that by (meson sublist_append_leftI sublist_order.order.trans sublist_order.order_refl)
  with assms show ?thesis
    unfolding Device_text_def Peer_text_def by (blast intro: hide_leaks)
qed

theorem go_string_shows_key_witness:
  "sublist (key_go_syntax (replicate 32 7))
     (Device_text (\<lambda>d. ''wgtypes.device{PrivateKey:'' @ key_go_syntax (dev_PrivateKey d) @ ''}'')
       (zeroDevice\<lparr> dev_PrivateKey := replicate 32 7 \<rparr>))"
proof -
  have k: "key_ok (replicate 32 (7::byte))" by (simp add: key_ok_def KeyLen_def)
  have s: "sublist (m @ t) ((a @ m) @ t @ b)" for m t a b :: string
    by (auto simp: sublist_def)
  show ?thesis
    using go_string_shows_key [where d = "zeroDevice\<lparr> dev_PrivateKey := replicate 32 7 \<rparr>"
        and fd = "\<lambda>d. ''wgtypes.device{PrivateKey:'' @ key_go_syntax (dev_PrivateKey d) @ ''}''"
        and p = "zeroPeer\<lparr> peer_PresharedKey := replicate 32 7 \<rparr>"
        and fp = "\<lambda>p. ''wgtypes.peer{PresharedKey:'' @ key_go_syntax (peer_PresharedKey p) @ ''}''"]
      s [of "''PrivateKey:''" "key_go_syntax (replicate 32 7)" "''wgtypes.device{''" "''}''"]
      s [of "''PresharedKey:''" "key_go_syntax (replicate 32 7)" "''wgtypes.peer{''" "''}''"] k
    by simp
qed

section \<open>The command line tool\<close>

text \<open>
  C24. The output of \<open>wgctrl\<close>, for one device or for all, is a function of what is public: backends whose
  devices differ only in private keys and preshared keys make it print the same and fail in the same
  way.
\<close>

theorem tool_output_public:
  assumes "list_all2 same_public cs cs'"
  shows "wgctrl_main time ctxErr cs device s = wgctrl_main time ctxErr cs' device s"
  using wgctrl_main_public [OF assms] .

text \<open>A backend with one device and its private key.\<close>

definition keyed_backend :: "Key \<Rightarrow> unit backend" where
  "keyed_backend k =
     (let d = zeroDevice\<lparr> dev_Name := ''wg0'', dev_PrivateKey := k \<rparr>
      in \<lparr> bk_Close = (\<lambda>s. (None, s)), bk_Devices = (\<lambda>s. (Inr [d], s)), bk_Device = (\<lambda>name s. (Inr d, s)),
           bk_ConfigureDevice = (\<lambda>name cfg s. (None, s)) \<rparr>)"

theorem tool_output_public_witness:
  "wgctrl_main (\<lambda>t. ''never'') (\<lambda>s. None) [keyed_backend (replicate 32 1)] ''wg0'' () =
   wgctrl_main (\<lambda>t. ''never'') (\<lambda>s. None) [keyed_backend (replicate 32 2)] ''wg0'' ()"
proof (rule tool_output_public)
  show "list_all2 same_public [keyed_backend (replicate 32 1)] [keyed_backend (replicate 32 2)]"
    by (simp add: same_public_def keyed_backend_def Let_def public_part_def)
qed

end
